(* ===== verification/YPrelude.thy ===== *)
theory YPrelude
  imports Main "HOL-Library.Word" "HOL-Library.Monad_Syntax" "HOL-Library.Multiset"
begin

text \<open>
  The shared prelude of the yproxy development: the machine types the Go code uses, Go slices
  and their run-time panics, the big-endian encodings of \<open>encoding/binary\<close>, the conversion
  between Go strings and bytes, and the generic lemmas on them that the component theories use.

  A Go computation that may panic (an index or a slice bound out of range) is a value of
  \<open>'a option\<close>: \<open>None\<close> is the panic, which no code of yproxy recovers from.
  A Go function that returns \<open>(value, error)\<close> is a value of the sum type \<open>error + value\<close>.
\<close>

unbundle bit_operations_syntax

section \<open>Machine types\<close>

type_synonym byte = "8 word"
type_synonym u16 = "16 word"
type_synonym u64 = "64 word"

text \<open>Go's \<open>int64\<close> and \<open>int\<close> (64 bit) are read from a word by \<open>sint\<close>.\<close>

lemma sint_unat_u64:
  assumes "unat (x :: u64) < 2 ^ 63" shows "sint x = int (unat x)"
proof -
  have "int (unat x) < 2 ^ 63" using assms by (metis of_nat_less_iff of_nat_numeral of_nat_power)
  then have "uint x < 2 ^ 63" unfolding uint_nat by simp
  moreover have "0 \<le> uint x" by simp
  ultimately have "signed_take_bit 63 (uint x) = uint x"
    by (intro signed_take_bit_int_eq_self) linarith+
  then show ?thesis by (simp add: sint_uint)
qed

named_theorems go_simps \<open>evaluation of slice, index and byte-order operations\<close>
named_theorems wire_simps \<open>layout of encoded messages\<close>

section \<open>Slices\<close>

text \<open>\<open>xs[i]\<close>\<close>

definition go_index :: "'a list \<Rightarrow> nat \<Rightarrow> 'a option" where
  "go_index xs i = (if i < length xs then Some (xs ! i) else None)"

text \<open>\<open>xs[lo:]\<close>\<close>

definition slice_from :: "'a list \<Rightarrow> nat \<Rightarrow> 'a list option" where
  "slice_from xs lo = (if lo \<le> length xs then Some (drop lo xs) else None)"

text \<open>\<open>xs[lo:hi]\<close>, on a slice whose capacity is its length\<close>

definition go_slice :: "'a list \<Rightarrow> nat \<Rightarrow> nat \<Rightarrow> 'a list option" where
  "go_slice xs lo hi =
     (if lo \<le> hi \<and> hi \<le> length xs then Some (take (hi - lo) (drop lo xs)) else None)"

lemma go_index_Some_iff: "go_index xs i = Some x \<longleftrightarrow> i < length xs \<and> xs ! i = x"
  by (auto simp: go_index_def)

lemma slice_from_append [go_simps]: "slice_from (xs @ ys) (length xs) = Some ys"
  by (simp add: slice_from_def)

lemma slice_append [go_simps]:
  "n = length xs \<Longrightarrow> m = n + length ys \<Longrightarrow> go_slice (xs @ ys @ zs) n m = Some ys"
  by (simp add: go_slice_def)

lemma slice_from_None_iff: "slice_from xs lo = None \<longleftrightarrow> length xs < lo"
  by (auto simp: slice_from_def)

lemma slice_None_iff: "go_slice xs lo hi = None \<longleftrightarrow> hi < lo \<or> length xs < hi"
  by (auto simp: go_slice_def)

lemma slice_length: "go_slice xs lo hi = Some ys \<Longrightarrow> length ys = hi - lo"
  by (auto simp: go_slice_def split: if_splits)

text \<open>
  \<open>make([]T, n)\<close> for an unsigned \<open>n\<close>: the run time panics when \<open>n\<close> elements of the given
  size exceed the address space of a 64-bit process. Running out of physical memory is not
  modelled.
\<close>

definition maxAlloc :: nat where
  "maxAlloc = 2 ^ 48"

definition make_ok :: "nat \<Rightarrow> nat \<Rightarrow> bool" where
  "make_ok elemSize n \<longleftrightarrow> n * elemSize \<le> maxAlloc"

section \<open>Strings and bytes\<close>

definition byte_of_char :: "char \<Rightarrow> byte" where
  "byte_of_char c = of_nat (of_char c)"

definition char_of_byte :: "byte \<Rightarrow> char" where
  "char_of_byte b = char_of (unat b)"

lemma of_char_lt_256: "(of_char c :: nat) < 256"
  by (metis of_char_mod_256 mod_less_divisor zero_less_numeral)

lemma char_of_byte_of_char [simp]: "char_of_byte (byte_of_char c) = c"
  using of_char_lt_256 [of c] by (simp add: char_of_byte_def byte_of_char_def unat_of_nat)

lemma byte_of_char_of_byte [simp]: "byte_of_char (char_of_byte b) = b"
proof -
  have "unat b < 256" using unsigned_less [of b] by simp
  then show ?thesis by (simp add: char_of_byte_def byte_of_char_def)
qed

lemma byte_of_char_inject [simp]: "byte_of_char c = byte_of_char d \<longleftrightarrow> c = d"
  by (metis char_of_byte_of_char)

text \<open>\<open>[]byte(s)\<close> and \<open>string(b)\<close>\<close>

definition bytes_of :: "string \<Rightarrow> byte list" where
  "bytes_of s = map byte_of_char s"

definition string_of :: "byte list \<Rightarrow> string" where
  "string_of bs = map char_of_byte bs"

lemma string_of_bytes_of [simp]: "string_of (bytes_of s) = s"
  by (simp add: string_of_def bytes_of_def comp_def)

lemma bytes_of_string_of [simp]: "bytes_of (string_of bs) = bs"
  by (simp add: string_of_def bytes_of_def comp_def)

lemma length_bytes_of [simp]: "length (bytes_of s) = length s"
  by (simp add: bytes_of_def)

lemma bytes_of_append [simp]: "bytes_of (s @ t) = bytes_of s @ bytes_of t"
  by (simp add: bytes_of_def)

lemma bytes_of_Nil [simp]: "bytes_of [] = []"
  by (simp add: bytes_of_def)

lemma bytes_of_inject [simp]: "bytes_of s = bytes_of t \<longleftrightarrow> s = t"
  by (metis string_of_bytes_of)

text \<open>A string without NUL can travel as a C string.\<close>

definition nul_free :: "string \<Rightarrow> bool" where
  "nul_free s \<longleftrightarrow> (\<forall>c \<in> set s. c \<noteq> CHR 0x00)"

lemma byte_of_char_0_iff [simp]: "byte_of_char c = 0 \<longleftrightarrow> c = CHR 0x00"
proof -
  have "byte_of_char (CHR 0x00) = 0" by (simp add: byte_of_char_def)
  then show ?thesis by (metis byte_of_char_inject)
qed

lemma nul_free_code [code]: "nul_free s \<longleftrightarrow> list_all (\<lambda>c. byte_of_char c \<noteq> 0) s"
  by (simp add: nul_free_def list_all_iff)

lemma nul_free_Nil [simp]: "nul_free []"
  by (simp add: nul_free_def)

lemma nul_free_append [simp]: "nul_free (s @ t) \<longleftrightarrow> nul_free s \<and> nul_free t"
  by (auto simp: nul_free_def)

lemma zero_notin_bytes_of: "nul_free s \<Longrightarrow> 0 \<notin> set (bytes_of s)"
  by (induction s) (simp_all add: bytes_of_def nul_free_def eq_commute [of 0])

section \<open>Byte order\<close>

text \<open>\<open>binary.BigEndian.PutUint64\<close> and \<open>AppendUint64\<close>\<close>

definition put_u64 :: "u64 \<Rightarrow> byte list" where
  "put_u64 x = map (\<lambda>i. ucast (drop_bit (8 * i) x)) [7, 6, 5, 4, 3, 2, 1, 0]"

text \<open>
  \<open>binary.BigEndian.Uint64\<close>: the value of the first eight bytes, and the operation itself,
  which panics on fewer than eight.
\<close>

definition be64 :: "byte list \<Rightarrow> u64" where
  "be64 bs =
     ucast (bs ! 7) OR push_bit 8 (ucast (bs ! 6)) OR push_bit 16 (ucast (bs ! 5)) OR
     push_bit 24 (ucast (bs ! 4)) OR push_bit 32 (ucast (bs ! 3)) OR
     push_bit 40 (ucast (bs ! 2)) OR push_bit 48 (ucast (bs ! 1)) OR push_bit 56 (ucast (bs ! 0))"

definition get_u64 :: "byte list \<Rightarrow> u64 option" where
  "get_u64 bs = (if length bs < 8 then None else Some (be64 bs))"

text \<open>\<open>binary.BigEndian.PutUint16\<close> and \<open>Uint16\<close>\<close>

definition put_u16 :: "u16 \<Rightarrow> byte list" where
  "put_u16 x = [ucast (drop_bit 8 x), ucast x]"

definition get_u16 :: "byte list \<Rightarrow> u16 option" where
  "get_u16 bs =
     (if length bs < 2 then None
      else Some (ucast (bs ! 1) OR push_bit 8 (ucast (bs ! 0))))"

lemma length_put_u64 [simp]: "length (put_u64 x) = 8"
  by (simp add: put_u64_def)

lemma length_put_u16 [simp]: "length (put_u16 x) = 2"
  by (simp add: put_u16_def)

lemma be64_put_u64 [simp]: "be64 (put_u64 x @ rest) = x"
proof -
  have "ucast (ucast x :: byte) OR push_bit 8 (ucast (ucast (drop_bit 8 x) :: byte)) OR
        push_bit 16 (ucast (ucast (drop_bit 16 x) :: byte)) OR
        push_bit 24 (ucast (ucast (drop_bit 24 x) :: byte)) OR
        push_bit 32 (ucast (ucast (drop_bit 32 x) :: byte)) OR
        push_bit 40 (ucast (ucast (drop_bit 40 x) :: byte)) OR
        push_bit 48 (ucast (ucast (drop_bit 48 x) :: byte)) OR
        push_bit 56 (ucast (ucast (drop_bit 56 x) :: byte)) = x" (is "?l = x")
  proof (rule bit_word_eqI)
    fix n assume "n < LENGTH(64)"
    then consider "n < 8" | "8 \<le> n" "n < 16" | "16 \<le> n" "n < 24" | "24 \<le> n" "n < 32"
      | "32 \<le> n" "n < 40" | "40 \<le> n" "n < 48" | "48 \<le> n" "n < 56" | "56 \<le> n" "n < 64"
      by force
    then show "bit ?l n = bit x n"
      by cases (simp_all add: bit_simps less_diff_conv2)
  qed
  then show ?thesis by (simp add: be64_def put_u64_def)
qed

lemma be64_put_u64_Nil [simp]: "be64 (put_u64 x) = x"
  using be64_put_u64 [of x "[]"] by simp

lemma get_put_u64 [simp]: "get_u64 (put_u64 x @ rest) = Some x"
  by (simp add: get_u64_def)

lemma get_put_u64_Nil [simp]: "get_u64 (put_u64 x) = Some x"
  using get_put_u64 [of x "[]"] by simp

lemma get_put_u16 [simp]: "get_u16 (put_u16 x @ rest) = Some x"
proof -
  have "ucast (ucast x :: byte) OR push_bit 8 (ucast (ucast (drop_bit 8 x) :: byte)) = x" (is "?l = x")
  proof (rule bit_word_eqI)
    fix n assume "n < LENGTH(16)"
    then consider "n < 8" | "8 \<le> n" "n < 16" by force
    then show "bit ?l n = bit x n"
      by cases (simp_all add: bit_simps less_diff_conv2)
  qed
  then show ?thesis by (simp add: get_u16_def put_u16_def)
qed

lemma get_put_u16_Nil [simp]: "get_u16 (put_u16 x) = Some x"
  using get_put_u16 [of x "[]"] by simp

lemma put_u64_inject: "put_u64 x = put_u64 y \<longleftrightarrow> x = y"
  by (metis get_put_u64_Nil option.inject)

section \<open>Errors\<close>

text \<open>
  The errors of the program, with the texts they print: the sentinels of \<open>io\<close> and
  \<open>syscall\<close> the code compares with, errors built by \<open>fmt.Errorf\<close> or \<open>errors.New\<close>, and an
  error wrapped with a message (\<open>errors.Wrap\<close>, or \<open>%w\<close> after a prefix).
\<close>

datatype error = EOF | ErrUnexpectedEOF | EPIPE | ErrClosedPipe | Errorf string | Wrap string error

fun error_text :: "error \<Rightarrow> string" where
  "error_text EOF = ''EOF''"
| "error_text ErrUnexpectedEOF = ''unexpected EOF''"
| "error_text EPIPE = ''broken pipe''"
| "error_text ErrClosedPipe = ''io: read/write on closed pipe''"
| "error_text (Errorf s) = s"
| "error_text (Wrap s e) = s @ '': '' @ error_text e"

section \<open>Decimal printing\<close>

fun dec_of_nat :: "nat \<Rightarrow> string" where
  "dec_of_nat n =
     (if n < 10 then [char_of (48 + n)] else dec_of_nat (n div 10) @ [char_of (48 + n mod 10)])"

declare dec_of_nat.simps [simp del]

definition dec_of_int :: "int \<Rightarrow> string" where
  "dec_of_int i = (if i < 0 then ''-'' @ dec_of_nat (nat (- i)) else dec_of_nat (nat i))"

lemma digit_cases: "(m::nat) < 10 \<Longrightarrow> m \<in> {0, 1, 2, 3, 4, 5, 6, 7, 8, 9}"
  by auto

lemma dec_of_nat_digits:
  "c \<in> set (dec_of_nat n) \<Longrightarrow> \<exists>m < 10. c = char_of (48 + m :: nat)"
proof (induction n rule: dec_of_nat.induct)
  case (1 n)
  show ?case
  proof (cases "n < 10")
    case True
    with 1(2) show ?thesis by (auto simp: dec_of_nat.simps [of n])
  next
    case False
    with 1 have "c \<in> set (dec_of_nat (n div 10)) \<or> c = char_of (48 + n mod 10)"
      by (auto simp: dec_of_nat.simps [of n])
    with 1(1) [OF False] show ?thesis
      by (metis mod_less_divisor zero_less_numeral)
  qed
qed

lemma dec_of_nat_nonempty [simp]: "dec_of_nat n \<noteq> []"
  by (subst dec_of_nat.simps) simp

text \<open>Printing is injective: distinct numbers have distinct decimal forms.\<close>

fun nat_of_dec :: "nat \<Rightarrow> string \<Rightarrow> nat" where
  "nat_of_dec a [] = a"
| "nat_of_dec a (c # cs) = nat_of_dec (10 * a + (of_char c - 48)) cs"

lemma nat_of_dec_append: "nat_of_dec a (s @ t) = nat_of_dec (nat_of_dec a s) t"
  by (induction s arbitrary: a) auto

lemma of_char_char_of_digit: "m < 10 \<Longrightarrow> (of_char (char_of (48 + m :: nat)) :: nat) = 48 + m"
  by simp

lemma nat_of_dec_of_nat: "nat_of_dec 0 (dec_of_nat n) = n"
proof (induction n rule: dec_of_nat.induct)
  case (1 n)
  show ?case
  proof (cases "n < 10")
    case True
    then show ?thesis by (simp add: dec_of_nat.simps [of n])
  next
    case False
    then have "nat_of_dec 0 (dec_of_nat (n div 10)) = n div 10" using 1 by simp
    moreover have "(of_char (char_of (48 + n mod 10) :: char) :: nat) = 48 + n mod 10"
      by (rule of_char_char_of_digit) simp
    ultimately show ?thesis using False
      by (simp add: dec_of_nat.simps [of n] nat_of_dec_append)
  qed
qed

lemma dec_of_nat_inject [simp]: "dec_of_nat m = dec_of_nat n \<longleftrightarrow> m = n"
  by (metis nat_of_dec_of_nat)

section \<open>Generic list lemmas\<close>

lemma take_length_append [simp]: "take (length xs) (xs @ ys) = xs"
  by simp

lemma drop_numeral_add_Cons [simp]:
  "drop (numeral k + n) (x # xs) = drop (pred_numeral k + n) xs"
  by (simp add: numeral_eq_Suc)

lemma unat_of_nat_u64 [simp]: "n < 2 ^ 64 \<Longrightarrow> unat (of_nat n :: u64) = n"
  by (simp add: unat_of_nat)

lemma map_option_fst_Some: "map_option fst x = Some a \<Longrightarrow> \<exists>b. x = Some (a, b)"
  by (cases x) auto

end
