(* ===== verification/ProtoIO.thy ===== *)
theory ProtoIO
  imports YPrelude
begin

text \<open>
  The packet layer, \<open>pkg/io/proto_reader.go\<close>: a connection as the sequence of chunks that will
  arrive on it, \<open>io.ReadFull\<close>, and \<open>ProtoReader.ReadPacket\<close>. The interface every message of
  \<open>pkg/message\<close> implements (\<open>ProtoMessage\<close>: \<open>Encode\<close> and \<open>Decode\<close>) is the locale
  \<open>proto_message\<close>; its client lemma says that a message written to a connection is read back
  by \<open>ReadPacket\<close> and decodes to itself, however the network splits the bytes.
\<close>

section \<open>A connection and io.ReadFull\<close>

text \<open>
  The input side of a connection: the chunks the peer's writes arrive as; after them the peer has
  closed its side. \<open>Read(p)\<close> returns at most \<open>len(p)\<close> bytes of the first chunk.
\<close>

type_synonym conn_in = "byte list list"

fun conn_Read :: "nat \<Rightarrow> conn_in \<Rightarrow> (byte list \<times> error option) \<times> conn_in" where
  "conn_Read n [] = (([], Some EOF), [])"
| "conn_Read n (c # cs) =
     (if c = [] then conn_Read n cs
      else if length c \<le> n then ((c, None), cs)
      else ((take n c, None), drop n c # cs))"

lemma conn_Read_concat:
  "conn_Read n cs = ((bs, e), cs') \<Longrightarrow> concat cs = bs @ concat cs' \<and> length bs \<le> n"
  by (induction n cs rule: conn_Read.induct) (auto split: if_splits)

lemma conn_Read_error:
  "conn_Read n cs = ((bs, Some e), cs') \<Longrightarrow> e = EOF \<and> bs = [] \<and> cs' = [] \<and> concat cs = []"
  by (induction n cs rule: conn_Read.induct) (auto split: if_splits)

lemma conn_Read_progress:
  "conn_Read n cs = ((bs, None), cs') \<Longrightarrow> 0 < n \<Longrightarrow> bs \<noteq> []"
  by (induction n cs rule: conn_Read.induct) (auto split: if_splits)

text \<open>\<open>io.ReadFull(r, buf)\<close> with \<open>len(buf) = n\<close>: read until the buffer is full or \<open>Read\<close> fails.\<close>

function ReadFull_loop :: "nat \<Rightarrow> byte list \<Rightarrow> conn_in \<Rightarrow> (error + byte list) \<times> conn_in" where
  "ReadFull_loop k acc cs =
     (if k = 0 then (Inr acc, cs)
      else case conn_Read k cs of
        ((bs, None), cs') \<Rightarrow> ReadFull_loop (k - length bs) (acc @ bs) cs'
      | ((bs, Some e), cs') \<Rightarrow>
          (if k \<le> length bs then (Inr (acc @ bs), cs')
           else (Inl (if acc @ bs \<noteq> [] \<and> e = EOF then ErrUnexpectedEOF else e), cs')))"
  by pat_completeness auto
termination
  by (relation "measure (\<lambda>(k, acc, cs). k)") (auto dest: conn_Read_progress [OF sym])

declare ReadFull_loop.simps [simp del]

definition ReadFull :: "nat \<Rightarrow> conn_in \<Rightarrow> (error + byte list) \<times> conn_in" where
  "ReadFull n cs = ReadFull_loop n [] cs"

text \<open>What \<open>ReadFull\<close> returns depends on the bytes that arrive, not on how they are split.\<close>

definition read_exact :: "byte list \<Rightarrow> nat \<Rightarrow> byte list \<Rightarrow> error + byte list" where
  "read_exact acc k bs =
     (if k \<le> length bs then Inr (acc @ take k bs)
      else Inl (if acc @ bs = [] then EOF else ErrUnexpectedEOF))"

lemma ReadFull_loop_concat:
  "fst (ReadFull_loop k acc cs) = read_exact acc k (concat cs) \<and>
   (k \<le> length (concat cs) \<longrightarrow> concat (snd (ReadFull_loop k acc cs)) = drop k (concat cs))"
proof (induction k acc cs rule: ReadFull_loop.induct)
  case (1 k acc cs)
  show ?case
  proof (cases "k = 0")
    case True
    then show ?thesis by (simp add: ReadFull_loop.simps [of 0] read_exact_def)
  next
    case False
    obtain bs e cs' where r: "conn_Read k cs = ((bs, e), cs')" by (metis surj_pair)
    show ?thesis
    proof (cases e)
      case None
      from r have c: "concat cs = bs @ concat cs'" "length bs \<le> k"
        using conn_Read_concat by blast+
      from 1 [OF False r [symmetric] refl, unfolded None, simplified] None r False c
      show ?thesis by (auto simp: ReadFull_loop.simps [of k acc cs] read_exact_def)
    next
      case (Some x)
      with r have "x = EOF \<and> bs = [] \<and> cs' = [] \<and> concat cs = []"
        using conn_Read_error by blast
      with r Some False show ?thesis
        by (simp add: ReadFull_loop.simps [of k acc cs] read_exact_def del: concat_eq_Nil_conv)
    qed
  qed
qed

lemma ReadFull_ok:
  assumes "concat cs = xs @ ys" and "length xs = n"
  shows "\<exists>cs'. ReadFull n cs = (Inr xs, cs') \<and> concat cs' = ys"
proof -
  have "n \<le> length (concat cs)" using assms by simp
  with ReadFull_loop_concat [of n "[]" cs] assms show ?thesis
    by (cases "ReadFull_loop n [] cs") (auto simp: ReadFull_def read_exact_def)
qed

lemma ReadFull_short:
  assumes "length (concat cs) < n"
  shows "fst (ReadFull n cs) = Inl (if concat cs = [] then EOF else ErrUnexpectedEOF)"
  using ReadFull_loop_concat [of n "[]" cs] assms by (simp add: ReadFull_def read_exact_def)

section \<open>ReadPacket\<close>

text \<open>1 MiB of data and a header: \<open>1<<20 | 1<<10\<close>\<close>

definition maxMsgLen :: u64 where
  "maxMsgLen = push_bit 20 1 OR push_bit 10 1"

lemma maxMsgLen_eq: "maxMsgLen = 1049600"
  by (simp add: maxMsgLen_def)

definition ReadPacket :: "conn_in \<Rightarrow> (error + byte \<times> byte list) \<times> conn_in" where
  "ReadPacket c =
     (case ReadFull 8 c of
        (Inl err, c) \<Rightarrow> (Inl (Wrap ''failed to read params'' err), c)
      | (Inr msgLenBuf, c) \<Rightarrow>
          (let dataLen = be64 msgLenBuf in
           if dataLen > maxMsgLen
           then (Inl (Errorf (''message too big '' @ dec_of_nat (unat dataLen))), c)
           else if dataLen \<le> 8 then (Inl (Errorf ''message empty''), c)
           else
             (let dataLen = dataLen - 8 in
              case ReadFull (unat dataLen) c of
                (Inl err, c) \<Rightarrow> (Inl err, c)
              | (Inr data, c) \<Rightarrow> (Inr (data ! 0, data), c))))"

text \<open>
  The specification of a packet on the wire: eight bytes of total length, then the body, whose
  first byte is the message type.
\<close>

definition with_length :: "byte list \<Rightarrow> byte list" where
  "with_length bt = put_u64 (of_nat (length bt + 8)) @ bt"

definition packet_of :: "byte list \<Rightarrow> error + byte \<times> byte list" where
  "packet_of bs =
     (if length bs < 8
      then Inl (Wrap ''failed to read params'' (if bs = [] then EOF else ErrUnexpectedEOF))
      else let dataLen = be64 bs; rest = drop 8 bs in
        if dataLen > maxMsgLen
        then Inl (Errorf (''message too big '' @ dec_of_nat (unat dataLen)))
        else if dataLen \<le> 8 then Inl (Errorf ''message empty'')
        else if length rest < unat (dataLen - 8)
        then Inl (if rest = [] then EOF else ErrUnexpectedEOF)
        else let body = take (unat (dataLen - 8)) rest in Inr (body ! 0, body))"

lemma length_with_length [simp]: "length (with_length bt) = length bt + 8"
  by (simp add: with_length_def)

lemma drop_8_with_length [simp]: "drop 8 (with_length bt) = bt"
  by (simp add: with_length_def)

lemma with_length_inject [simp]: "with_length a = with_length b \<longleftrightarrow> a = b"
  by (metis drop_8_with_length)

lemma be64_take_8: "8 \<le> length bs \<Longrightarrow> be64 (take 8 bs) = be64 bs"
  by (simp add: be64_def)

text \<open>\<open>ReadPacket\<close> implements that specification, whatever the chunks are.\<close>

lemma ReadPacket_spec: "fst (ReadPacket cs) = packet_of (concat cs)"
proof (cases "length (concat cs) < 8")
  case True
  from ReadFull_short [OF this] True show ?thesis
    by (cases "ReadFull 8 cs") (simp add: ReadPacket_def packet_of_def)
next
  case False
  define bs where "bs = concat cs"
  have "concat cs = take 8 bs @ drop 8 bs" "length (take 8 bs) = 8"
    using False by (simp_all add: bs_def)
  from ReadFull_ok [OF this] obtain cs1 where
    r1: "ReadFull 8 cs = (Inr (take 8 bs), cs1)" and c1: "concat cs1 = drop 8 bs" by blast
  define n where "n = unat (be64 bs - 8)"
  have eq: "fst (ReadPacket cs) =
     (if be64 bs > maxMsgLen
      then Inl (Errorf (''message too big '' @ dec_of_nat (unat (be64 bs))))
      else if be64 bs \<le> 8 then Inl (Errorf ''message empty'')
      else (case fst (ReadFull n cs1) of Inl e \<Rightarrow> Inl e | Inr data \<Rightarrow> Inr (data ! 0, data)))"
    using False r1
    by (cases "ReadFull n cs1")
      (auto simp: ReadPacket_def n_def bs_def be64_take_8 Let_def split: sum.splits)
  have "fst (ReadFull n cs1) =
     (if length (drop 8 bs) < n then Inl (if drop 8 bs = [] then EOF else ErrUnexpectedEOF)
      else Inr (take n (drop 8 bs)))"
  proof (cases "length (drop 8 bs) < n")
    case True
    with ReadFull_short [of cs1 n] show ?thesis by (simp add: c1)
  next
    case False
    have "concat cs1 = take n (drop 8 bs) @ drop n (drop 8 bs)"
      by (simp only: c1 append_take_drop_id)
    from ReadFull_ok [OF this, of n] False show ?thesis by auto
  qed
  with eq False show ?thesis
    by (simp add: packet_of_def Let_def n_def bs_def)
qed

lemma ReadPacket_with_length:
  assumes "concat cs = with_length bt @ rest" and "bt \<noteq> []" and "length bt + 8 \<le> unat maxMsgLen"
  shows "\<exists>cs'. ReadPacket cs = (Inr (bt ! 0, bt), cs') \<and> concat cs' = rest"
proof -
  define len :: u64 where "len = of_nat (length bt + 8)"
  have small: "length bt + 8 < 2 ^ 64" using assms(3) by (simp add: maxMsgLen_eq)
  then have ul: "unat len = length bt + 8" unfolding len_def by (rule unat_of_nat_u64)
  have le: "\<not> len > maxMsgLen" using assms(3) ul by (simp add: word_less_nat_alt)
  have gt: "\<not> len \<le> 8" using assms(2) ul by (simp add: word_le_nat_alt)
  then have "(8::u64) \<le> len" by simp
  then have un: "unat (len - 8) = length bt" using ul by (simp add: unat_sub)
  have "concat cs = put_u64 len @ bt @ rest" using assms(1) by (simp add: with_length_def len_def)
  from ReadFull_ok [OF this] obtain cs1 where
    r1: "ReadFull 8 cs = (Inr (put_u64 len), cs1)" and c1: "concat cs1 = bt @ rest" by auto
  from ReadFull_ok [OF c1 refl] obtain cs2 where
    r2: "ReadFull (length bt) cs1 = (Inr bt, cs2)" and c2: "concat cs2 = rest" by blast
  show ?thesis
    using r1 r2 c2 le gt un by (simp add: ReadPacket_def Let_def)
qed

text \<open>A packet that is read consumes input.\<close>

lemma ReadPacket_consumes:
  assumes "ReadPacket c = (Inr x, c')"
  shows "length (concat c') < length (concat c)"
proof -
  obtain r c1 where r1: "ReadFull 8 c = (r, c1)" by fastforce
  with assms obtain b where r: "r = Inr b" by (cases r) (auto simp: ReadPacket_def)
  have l8: "\<not> length (concat c) < 8"
    using ReadFull_short [of c 8] r1 r by auto
  define bs where "bs = concat c"
  have "concat c = take 8 bs @ drop 8 bs" "length (take 8 bs) = 8" using l8 by (simp_all add: bs_def)
  from ReadFull_ok [OF this] r1 r have c1: "concat c1 = drop 8 bs" by auto
  obtain n where r2: "\<exists>d. ReadFull n c1 = (Inr d, c')"
    using assms r1 r by (auto simp: ReadPacket_def Let_def split: if_splits sum.splits prod.splits)
  then have "\<not> length (concat c1) < n" using ReadFull_short [of c1 n] by auto
  then have "concat c1 = take n (concat c1) @ drop n (concat c1)" "length (take n (concat c1)) = n" by simp_all
  from ReadFull_ok [OF this] r2 have "concat c' = drop n (concat c1)" by auto
  with c1 l8 show ?thesis by (simp add: bs_def)
qed

section \<open>The interface of messages\<close>

text \<open>
  \<open>encode\<close> and \<open>decode\<close> are a message type's \<open>Encode\<close> and \<open>Decode\<close>; \<open>zero\<close> is the zero value
  the server decodes into, \<open>tag\<close> the type byte, \<open>wire_ok\<close> what the encoding can represent (NUL
  bytes end a C string).
\<close>

locale proto_message =
  fixes encode :: "'m \<Rightarrow> byte list"
    and decode :: "'m \<Rightarrow> byte list \<Rightarrow> 'm option"
    and zero :: 'm
    and tag :: byte
    and wire_ok :: "'m \<Rightarrow> bool"
  assumes encode_frame: "\<exists>bt. encode m = with_length (tag # bt)"
    and decode_encode: "wire_ok m \<Longrightarrow> length (encode m) \<le> unat maxMsgLen \<Longrightarrow>
          decode zero (drop 8 (encode m)) = Some m"
begin

lemma encode_not_Nil: "encode m \<noteq> []"
  using encode_frame [of m] by (auto simp: with_length_def put_u64_def)

lemma read_encoded:
  assumes "concat cs = encode m @ rest" and "length (encode m) \<le> unat maxMsgLen"
  shows "\<exists>body cs'. ReadPacket cs = (Inr (tag, body), cs') \<and> concat cs' = rest \<and>
           body = drop 8 (encode m)"
proof -
  from encode_frame obtain bt where bt: "encode m = with_length (tag # bt)" by blast
  from ReadPacket_with_length [of cs "tag # bt" rest] assms bt show ?thesis by auto
qed

lemma read_decoded:
  assumes "concat cs = encode m @ rest" and "wire_ok m" and "length (encode m) \<le> unat maxMsgLen"
  shows "\<exists>body cs'. ReadPacket cs = (Inr (tag, body), cs') \<and> concat cs' = rest \<and>
           decode zero body = Some m"
  using read_encoded [OF assms(1,3)] decode_encode [OF assms(2,3)] by auto

lemma encode_inject:
  assumes "encode m = encode m'" and "wire_ok m" and "wire_ok m'"
    and "length (encode m) \<le> unat maxMsgLen"
  shows "m = m'"
  using decode_encode [OF assms(2,4)] decode_encode [OF assms(3)] assms(1,4) by auto

end

end
