(* ===== verification/MessageTypes.thy ===== *)
theory MessageTypes
  imports ProtoIO
begin

text \<open>
  The parts of \<open>pkg/message\<close> that the message types share: the type bytes and flags of
  \<open>message.go\<close>, the C-string reader of \<open>utils.go\<close>, storage settings (\<open>pkg/settings\<close>) and
  object descriptions (\<open>pkg/object\<close>), and the encoding of a list of settings.
\<close>

section \<open>Type bytes and flags\<close>

definition MessageTypeCat :: byte where [simp]: "MessageTypeCat = 42"
definition MessageTypePut :: byte where [simp]: "MessageTypePut = 43"
definition MessageTypeCopyDone :: byte where [simp]: "MessageTypeCopyDone = 44"
definition MessageTypeReadyForQuery :: byte where [simp]: "MessageTypeReadyForQuery = 45"
definition MessageTypeCopyData :: byte where [simp]: "MessageTypeCopyData = 46"
definition MessageTypeDelete :: byte where [simp]: "MessageTypeDelete = 47"
definition MessageTypeList :: byte where [simp]: "MessageTypeList = 48"
definition MessageTypeObjectMeta :: byte where [simp]: "MessageTypeObjectMeta = 49"
definition MessageTypePatch :: byte where [simp]: "MessageTypePatch = 50"
definition MessageTypeCopy :: byte where [simp]: "MessageTypeCopy = 51"
definition MessageTypeGool :: byte where [simp]: "MessageTypeGool = 52"
definition MessageTypePutV2 :: byte where [simp]: "MessageTypePutV2 = 53"
definition MessageTypeCatV2 :: byte where [simp]: "MessageTypeCatV2 = 54"
definition MessageTypeError :: byte where [simp]: "MessageTypeError = 55"
definition MessageTypePutV3 :: byte where [simp]: "MessageTypePutV3 = 56"
definition MessageTypePutComplete :: byte where [simp]: "MessageTypePutComplete = 57"
definition MessageTypeUntrashify :: byte where [simp]: "MessageTypeUntrashify = 58"
definition MessageTypeCopyV2 :: byte where [simp]: "MessageTypeCopyV2 = 59"
definition MessageTypeCopyComplete :: byte where [simp]: "MessageTypeCopyComplete = 60"
definition MessageTypeListV2 :: byte where [simp]: "MessageTypeListV2 = 61"
definition MessageTypeDelete2 :: byte where [simp]: "MessageTypeDelete2 = 62"
definition MessageCollectObsolete :: byte where [simp]: "MessageCollectObsolete = 64"
definition MessageDeleteObsolete :: byte where [simp]: "MessageDeleteObsolete = 65"

definition DecryptMessage :: byte where [simp]: "DecryptMessage = 1"
definition NoDecryptMessage :: byte where [simp]: "NoDecryptMessage = 0"
definition EncryptMessage :: byte where [simp]: "EncryptMessage = 1"
definition NoEncryptMessage :: byte where [simp]: "NoEncryptMessage = 0"
definition NoUseKEK :: byte where [simp]: "NoUseKEK = 0"
definition UseKEK :: byte where [simp]: "UseKEK = 1"
definition ExtendedMesssage :: byte where [simp]: "ExtendedMesssage = 1"

text \<open>\<open>MessageType.String\<close>\<close>

definition MessageType_String :: "byte \<Rightarrow> string" where
  "MessageType_String m =
     (if m = MessageTypeCat then ''CAT''
      else if m = MessageTypeCatV2 then ''CATV2''
      else if m = MessageTypePut then ''PUT''
      else if m = MessageTypePutV2 then ''PUTV2''
      else if m = MessageTypePutV3 then ''PUTV3''
      else if m = MessageTypePutComplete then ''PUTCOMPLETE''
      else if m = MessageTypeCopyDone then ''COMMAND COMPLETE''
      else if m = MessageTypeReadyForQuery then ''READY FOR QUERY''
      else if m = MessageTypeCopyData then ''COPY DATA''
      else if m = MessageTypeDelete then ''DELETE''
      else if m = MessageTypeList then ''LIST''
      else if m = MessageTypeListV2 then ''LISTV2''
      else if m = MessageTypeObjectMeta then ''OBJECT META''
      else if m = MessageTypeCopy then ''COPY''
      else if m = MessageTypeCopyV2 then ''COPYV2''
      else if m = MessageTypeGool then ''GOOL''
      else if m = MessageTypeError then ''ERROR''
      else if m = MessageTypeUntrashify then ''UNTRASHIFY''
      else if m = MessageCollectObsolete then ''COLLECT OBSOLETE''
      else if m = MessageDeleteObsolete then ''DELETE OBSOLETE''
      else if m = MessageTypeCopyComplete then ''COPY COMPLETE''
      else if m = MessageTypeDelete2 then ''DELETE2''
      else ''UNKNOWN'')"

section \<open>Data carried by messages\<close>

record StorageSettings =
  sett_Name :: string
  sett_Value :: string

text \<open>
  \<open>object.ObjectInfo\<close>: the size is an \<open>int64\<close> (its bits as a word), the modification time is in
  nanoseconds since the epoch; \<open>zeroTime\<close> is Go's zero \<open>time.Time\<close>, 1 January of year 1.
\<close>

record ObjectInfo =
  obj_Path :: string
  obj_Size :: u64
  obj_LastMod :: int

definition zeroTime :: int where
  "zeroTime = - 62135596800 * 1000000000"

section \<open>C strings\<close>

fun GetCstring_loop :: "byte list \<Rightarrow> u64 \<Rightarrow> byte list \<Rightarrow> byte list \<times> u64" where
  "GetCstring_loop [] offset buff = (buff, offset)"
| "GetCstring_loop (b # bs) offset buff =
     (let offset = offset + 1 in
      if b = 0 then (buff, offset) else GetCstring_loop bs offset (buff @ [b]))"

definition GetCstring :: "byte list \<Rightarrow> string \<times> u64" where
  "GetCstring b = (let (buff, offset) = GetCstring_loop b 0 [] in (string_of buff, offset))"

lemma GetCstring_loop_NUL:
  "0 \<notin> set xs \<Longrightarrow>
   GetCstring_loop (xs @ 0 # rest) off buff = (buff @ xs, off + of_nat (length xs + 1))"
  by (induction xs arbitrary: off buff) (auto simp: Let_def algebra_simps)

lemma GetCstring_NUL [wire_simps]:
  "nul_free s \<Longrightarrow> GetCstring (bytes_of s @ 0 # rest) = (s, of_nat (length s + 1))"
  by (simp add: GetCstring_def GetCstring_loop_NUL zero_notin_bytes_of)

text \<open>What \<open>GetCstring\<close> consumes stays inside the slice it is given.\<close>

lemma GetCstring_loop_bounds:
  "GetCstring_loop bs off buff = (buff', off') \<Longrightarrow>
   \<exists>k \<le> length bs. off' = off + of_nat k \<and> length buff' \<le> length buff + k"
proof (induction bs off buff rule: GetCstring_loop.induct)
  case (1 offset buff)
  then show ?case by simp
next
  case (2 b bs offset buff)
  show ?case
  proof (cases "b = 0")
    case True
    with 2(2) show ?thesis by (auto simp: Let_def intro!: exI [of _ 1])
  next
    case False
    with 2 obtain k where "k \<le> length bs" "off' = offset + 1 + of_nat k"
      "length buff' \<le> length (buff @ [b]) + k" by (auto simp: Let_def)
    then show ?thesis by (intro exI [of _ "Suc k"]) auto
  qed
qed

lemma GetCstring_bounds:
  "GetCstring bs = (s, off) \<Longrightarrow> \<exists>k \<le> length bs. off = of_nat k \<and> length s \<le> k"
  using GetCstring_loop_bounds [of bs 0 "[]"]
  by (auto simp: GetCstring_def string_of_def split: prod.splits)

text \<open>\<open>PatchMessage.GetPatchName\<close> and \<open>GoolMessage.GetGoolName\<close>: the bytes before the first NUL\<close>

fun cstring_name :: "byte list \<Rightarrow> byte list \<Rightarrow> byte list" where
  "cstring_name [] buff = buff"
| "cstring_name (b # bs) buff = (if b = 0 then buff else cstring_name bs (buff @ [b]))"

lemma cstring_name_NUL: "0 \<notin> set xs \<Longrightarrow> cstring_name (xs @ 0 # rest) buff = buff @ xs"
  by (induction xs arbitrary: buff) auto

section \<open>Lists of settings\<close>

definition encode_settings :: "StorageSettings list \<Rightarrow> byte list" where
  "encode_settings ss =
     concat (map (\<lambda>s. bytes_of (sett_Name s) @ [0] @ bytes_of (sett_Value s) @ [0]) ss)"

fun decode_settings :: "nat \<Rightarrow> byte list \<Rightarrow> u64 \<Rightarrow> StorageSettings list option" where
  "decode_settings 0 body totalOff = Some []"
| "decode_settings (Suc n) body totalOff = do {
     rest \<leftarrow> slice_from body (unat totalOff);
     let (name, currOff) = GetCstring rest;
     let totalOff = totalOff + currOff;
     rest \<leftarrow> slice_from body (unat totalOff);
     let (value, currOff) = GetCstring rest;
     let totalOff = totalOff + currOff;
     more \<leftarrow> decode_settings n body totalOff;
     Some (\<lparr>sett_Name = name, sett_Value = value\<rparr> # more) }"

text \<open>
  The tail of the decoders that carry settings: a count of eight bytes at offset \<open>start\<close>, then
  that many pairs of C strings. \<open>make\<close> allocates the slice (32 bytes an element) first.
\<close>

definition read_settings :: "byte list \<Rightarrow> u64 \<Rightarrow> StorageSettings list option" where
  "read_settings body start = do {
     bs \<leftarrow> go_slice body (unat start) (unat (start + 8));
     settLen \<leftarrow> get_u64 bs;
     if make_ok 32 (unat settLen) then decode_settings (unat settLen) body (start + 8) else None }"

definition settings_ok :: "StorageSettings list \<Rightarrow> bool" where
  "settings_ok ss \<longleftrightarrow> list_all (\<lambda>s. nul_free (sett_Name s) \<and> nul_free (sett_Value s)) ss"

lemma unat_u64_eq: "w = of_nat n \<Longrightarrow> n < 2 ^ 64 \<Longrightarrow> unat (w :: u64) = n"
  by simp

lemma length_encode_settings: "2 * length ss \<le> length (encode_settings ss)"
  by (induction ss) (auto simp: encode_settings_def)

lemma decode_settings_encode:
  assumes "settings_ok ss" and "unat off = length pre"
    and "length pre + length (encode_settings ss) < 2 ^ 64"
  shows "decode_settings (length ss) (pre @ encode_settings ss @ post) off = Some ss"
  using assms
proof (induction ss arbitrary: pre off)
  case Nil
  then show ?case by simp
next
  case (Cons s ss)
  let ?n = "bytes_of (sett_Name s)" and ?v = "bytes_of (sett_Value s)"
  let ?tl = "encode_settings ss"
  have enc: "encode_settings (s # ss) = ?n @ 0 # ?v @ 0 # ?tl"
    by (simp add: encode_settings_def)
  define off1 where "off1 = off + of_nat (length (sett_Name s) + 1)"
  define off2 where "off2 = off1 + of_nat (length (sett_Value s) + 1)"
  have off: "off = of_nat (length pre)" using Cons.prems(2) by (metis of_nat_unat ucast_id)
  have u1: "unat off1 = length (pre @ ?n @ [0])"
    using Cons.prems(3) by (intro unat_u64_eq) (simp_all add: off1_def off enc)
  have u2: "unat off2 = length (pre @ ?n @ 0 # ?v @ [0])"
    using Cons.prems(3) by (intro unat_u64_eq) (simp_all add: off2_def off1_def off enc)
  have nf: "nul_free (sett_Name s)" "nul_free (sett_Value s)" and so: "settings_ok ss"
    using Cons.prems(1) by (simp_all add: settings_ok_def)
  have r0: "slice_from (pre @ encode_settings (s # ss) @ post) (unat off) =
      Some (?n @ 0 # ?v @ 0 # ?tl @ post)"
    by (simp add: slice_from_def Cons.prems(2) enc)
  have r1: "slice_from (pre @ encode_settings (s # ss) @ post) (unat off1) =
      Some (?v @ 0 # ?tl @ post)"
    by (simp add: slice_from_def u1 enc)
  have r2: "decode_settings (length ss) (pre @ encode_settings (s # ss) @ post) off2 = Some ss"
    using Cons.IH [of off2 "pre @ ?n @ 0 # ?v @ [0]"] so u2 Cons.prems(3) by (simp add: enc)
  show ?case
    using r0 r1 r2 nf by (simp add: GetCstring_NUL off1_def off2_def)
qed

lemma read_settings_encode:
  assumes "settings_ok ss" and "unat start = length pre"
    and "length pre + 8 + length (encode_settings ss) \<le> unat maxMsgLen"
  shows "read_settings (pre @ put_u64 (of_nat (length ss)) @ encode_settings ss) start = Some ss"
proof -
  have small: "length pre + 8 + length (encode_settings ss) < 2 ^ 64"
    using assms(3) by (simp add: maxMsgLen_eq)
  have st: "start = of_nat (length pre)" using assms(2) by (metis of_nat_unat ucast_id)
  have u8: "unat (start + 8) = length pre + 8"
    using small by (intro unat_u64_eq) (simp_all add: st)
  have n: "length ss < 2 ^ 64" "make_ok 32 (length ss)"
    using length_encode_settings [of ss] assms(3)
    by (simp_all add: make_ok_def maxAlloc_def maxMsgLen_eq)
  have "decode_settings (length ss) ((pre @ put_u64 (of_nat (length ss))) @ encode_settings ss @ [])
      (start + 8) = Some ss"
    using assms(1) u8 small by (intro decode_settings_encode) simp_all
  then show ?thesis
    using n u8 assms(2) by (simp add: read_settings_def slice_append)
qed

lemma slice_inside: "go_slice xs lo hi = Some ys \<Longrightarrow> hi \<le> length xs"
  by (auto simp: go_slice_def split: if_splits)

end
