(* ===== verification/Requests.thy ===== *)
theory Requests
  imports MessageTypes
begin

text \<open>
  The request messages of \<open>pkg/message\<close>: for each a record, the constructor, \<open>Encode\<close> and
  \<open>Decode\<close>. \<open>Decode\<close> takes the receiver it fills (Go decodes in place and sets flags only when
  the byte says so) and returns \<open>None\<close> where the code would panic on a short body. Each type
  whose \<open>Decode\<close> inverts its \<open>Encode\<close> is an interpretation of the locale \<open>proto_message\<close>.
\<close>

section \<open>CatMessage\<close>

record CatMessage =
  cat_Decrypt :: bool
  cat_Name :: string
  cat_StartOffset :: u64

definition CatMessage_zero :: CatMessage where
  "CatMessage_zero = \<lparr>cat_Decrypt = False, cat_Name = [], cat_StartOffset = 0\<rparr>"

definition NewCatMessage :: "string \<Rightarrow> bool \<Rightarrow> u64 \<Rightarrow> CatMessage" where
  "NewCatMessage name decrypt startOffset =
     \<lparr>cat_Decrypt = decrypt, cat_Name = name, cat_StartOffset = startOffset\<rparr>"

definition CatMessage_Encode :: "CatMessage \<Rightarrow> byte list" where
  "CatMessage_Encode c =
     (let bt = [MessageTypeCat,
                if cat_Decrypt c then DecryptMessage else NoDecryptMessage,
                if cat_StartOffset c \<noteq> 0 then ExtendedMesssage else 0,
                0];
          bt = bt @ bytes_of (cat_Name c);
          bt = bt @ [0];
          bt = (if cat_StartOffset c \<noteq> 0 then bt @ put_u64 (cat_StartOffset c) else bt)
      in with_length bt)"

definition CatMessage_Decode :: "CatMessage \<Rightarrow> byte list \<Rightarrow> CatMessage option" where
  "CatMessage_Decode c body = do {
     rest \<leftarrow> slice_from body 4;
     let c = c\<lparr>cat_Name := fst (GetCstring rest)\<rparr>;
     b1 \<leftarrow> go_index body 1;
     let c = (if b1 = DecryptMessage then c\<lparr>cat_Decrypt := True\<rparr> else c);
     b2 \<leftarrow> go_index body 2;
     if b2 = ExtendedMesssage then do {
       tail \<leftarrow> slice_from body (4 + length (cat_Name c) + 1);
       off \<leftarrow> get_u64 tail;
       Some (c\<lparr>cat_StartOffset := off\<rparr>) }
     else Some c }"

interpretation cat: proto_message CatMessage_Encode CatMessage_Decode CatMessage_zero
  MessageTypeCat "\<lambda>m. nul_free (cat_Name m)"
proof
  fix m :: CatMessage
  show "\<exists>bt. CatMessage_Encode m = with_length (MessageTypeCat # bt)"
    by (simp add: CatMessage_Encode_def Let_def)
  assume "nul_free (cat_Name m)"
  then show "CatMessage_Decode CatMessage_zero (drop 8 (CatMessage_Encode m)) = Some m"
    by (cases m) (auto simp: CatMessage_Encode_def CatMessage_Decode_def CatMessage_zero_def
        go_index_def slice_from_def GetCstring_NUL Let_def)
qed

section \<open>CatMessageV2\<close>

record CatMessageV2 =
  cat2_Decrypt :: bool
  cat2_KEK :: bool
  cat2_Name :: string
  cat2_StartOffset :: u64
  cat2_Settings :: "StorageSettings list"

definition CatMessageV2_zero :: CatMessageV2 where
  "CatMessageV2_zero = \<lparr>cat2_Decrypt = False, cat2_KEK = False, cat2_Name = [],
     cat2_StartOffset = 0, cat2_Settings = []\<rparr>"

definition NewCatMessageV2 ::
    "string \<Rightarrow> bool \<Rightarrow> bool \<Rightarrow> u64 \<Rightarrow> StorageSettings list \<Rightarrow> CatMessageV2" where
  "NewCatMessageV2 name decrypt kek startOffset settings =
     \<lparr>cat2_Decrypt = decrypt, cat2_KEK = kek, cat2_Name = name,
      cat2_StartOffset = startOffset, cat2_Settings = settings\<rparr>"

definition CatMessageV2_Encode :: "CatMessageV2 \<Rightarrow> byte list" where
  "CatMessageV2_Encode c =
     (let bt = [MessageTypeCatV2,
                if cat2_Decrypt c then DecryptMessage else NoDecryptMessage,
                if cat2_KEK c then UseKEK else NoUseKEK,
                0];
          bt = bt @ bytes_of (cat2_Name c);
          bt = bt @ [0];
          bt = bt @ put_u64 (cat2_StartOffset c);
          bt = bt @ put_u64 (of_nat (length (cat2_Settings c)));
          bt = bt @ encode_settings (cat2_Settings c)
      in with_length bt)"

definition CatMessageV2_Decode :: "CatMessageV2 \<Rightarrow> byte list \<Rightarrow> CatMessageV2 option" where
  "CatMessageV2_Decode c body = do {
     rest \<leftarrow> slice_from body 4;
     let (name, off) = GetCstring rest;
     let c = c\<lparr>cat2_Name := name\<rparr>;
     b1 \<leftarrow> go_index body 1;
     let c = (if b1 = DecryptMessage then c\<lparr>cat2_Decrypt := True\<rparr> else c);
     b2 \<leftarrow> go_index body 2;
     let c = (if b2 = UseKEK then c\<lparr>cat2_KEK := True\<rparr> else c);
     tail \<leftarrow> slice_from body (4 + length (cat2_Name c) + 1);
     startOffset \<leftarrow> get_u64 tail;
     let c = c\<lparr>cat2_StartOffset := startOffset\<rparr>;
     ss \<leftarrow> read_settings body (4 + 8 + off);
     Some (c\<lparr>cat2_Settings := ss\<rparr>) }"

lemma CatMessageV2_body:
  "CatMessageV2_Encode m = with_length
     ([MessageTypeCatV2, if cat2_Decrypt m then DecryptMessage else NoDecryptMessage,
       if cat2_KEK m then UseKEK else NoUseKEK, 0] @ bytes_of (cat2_Name m) @ 0 #
      put_u64 (cat2_StartOffset m) @ put_u64 (of_nat (length (cat2_Settings m))) @
      encode_settings (cat2_Settings m))"
  by (simp add: CatMessageV2_Encode_def Let_def)

lemma slice_from_after_cstring:
  "length h = 4 \<Longrightarrow> slice_from (h @ bytes_of s @ 0 # rest) (4 + length s + 1) = Some rest"
  by (simp add: slice_from_def)

lemma slice_from_after_header: "length h = 4 \<Longrightarrow> slice_from (h @ rest) 4 = Some rest"
  by (simp add: slice_from_def)

lemma CatMessageV2_roundtrip:
  assumes "nul_free (cat2_Name m)" and "settings_ok (cat2_Settings m)"
    and "length (CatMessageV2_Encode m) \<le> unat maxMsgLen"
  shows "CatMessageV2_Decode CatMessageV2_zero (drop 8 (CatMessageV2_Encode m)) = Some m"
proof -
  let ?h = "[MessageTypeCatV2, if cat2_Decrypt m then DecryptMessage else NoDecryptMessage,
             if cat2_KEK m then UseKEK else NoUseKEK, 0]"
  let ?ss = "cat2_Settings m"
  let ?tl = "put_u64 (cat2_StartOffset m) @ put_u64 (of_nat (length ?ss)) @ encode_settings ?ss"
  let ?pre = "?h @ bytes_of (cat2_Name m) @ 0 # put_u64 (cat2_StartOffset m)"
  define body where "body = ?h @ bytes_of (cat2_Name m) @ 0 # ?tl"
  have len: "length ?pre + 8 + length (encode_settings ?ss) \<le> unat maxMsgLen"
    using assms(3) by (simp add: CatMessageV2_body)
  then have "unat (4 + 8 + of_nat (length (cat2_Name m) + 1) :: u64) = length ?pre"
    by (intro unat_u64_eq) (simp_all add: maxMsgLen_eq)
  from read_settings_encode [OF assms(2) this len]
  have rs: "read_settings body (4 + 8 + of_nat (length (cat2_Name m) + 1)) = Some ?ss"
    by (simp add: body_def)
  have i: "go_index body 1 = Some (if cat2_Decrypt m then DecryptMessage else NoDecryptMessage)"
    "go_index body 2 = Some (if cat2_KEK m then UseKEK else NoUseKEK)"
    by (simp_all add: go_index_def body_def)
  have s4: "slice_from body 4 = Some (bytes_of (cat2_Name m) @ 0 # ?tl)"
    "slice_from body (4 + length (cat2_Name m) + 1) = Some ?tl"
    unfolding body_def by (rule slice_from_after_header slice_from_after_cstring, simp)+
  have "drop 8 (CatMessageV2_Encode m) = body"
    by (simp only: CatMessageV2_body drop_8_with_length body_def)
  with rs i s4 assms(1) show ?thesis
    by (cases m) (simp add: CatMessageV2_Decode_def CatMessageV2_zero_def GetCstring_NUL)
qed

interpretation catV2: proto_message CatMessageV2_Encode CatMessageV2_Decode CatMessageV2_zero
  MessageTypeCatV2 "\<lambda>m. nul_free (cat2_Name m) \<and> settings_ok (cat2_Settings m)"
  by unfold_locales (simp add: CatMessageV2_body, simp add: CatMessageV2_roundtrip)

section \<open>PutMessage\<close>

record PutMessage =
  put_Encrypt :: bool
  put_Name :: string

definition PutMessage_zero :: PutMessage where
  "PutMessage_zero = \<lparr>put_Encrypt = False, put_Name = []\<rparr>"

definition NewPutMessage :: "string \<Rightarrow> bool \<Rightarrow> PutMessage" where
  "NewPutMessage name encrypt = \<lparr>put_Encrypt = encrypt, put_Name = name\<rparr>"

definition PutMessage_Encode :: "PutMessage \<Rightarrow> byte list" where
  "PutMessage_Encode c =
     (let bt = [MessageTypePut, if put_Encrypt c then EncryptMessage else NoEncryptMessage, 0, 0];
          bt = bt @ bytes_of (put_Name c);
          bt = bt @ [0]
      in with_length bt)"

definition PutMessage_Decode :: "PutMessage \<Rightarrow> byte list \<Rightarrow> PutMessage option" where
  "PutMessage_Decode c body = do {
     b1 \<leftarrow> go_index body 1;
     let c = (if b1 = EncryptMessage then c\<lparr>put_Encrypt := True\<rparr> else c);
     rest \<leftarrow> slice_from body 4;
     Some (c\<lparr>put_Name := fst (GetCstring rest)\<rparr>) }"

interpretation put: proto_message PutMessage_Encode PutMessage_Decode PutMessage_zero
  MessageTypePut "\<lambda>m. nul_free (put_Name m)"
proof
  fix m :: PutMessage
  show "\<exists>bt. PutMessage_Encode m = with_length (MessageTypePut # bt)"
    by (simp add: PutMessage_Encode_def Let_def)
  assume "nul_free (put_Name m)"
  then show "PutMessage_Decode PutMessage_zero (drop 8 (PutMessage_Encode m)) = Some m"
    by (cases m) (auto simp: PutMessage_Encode_def PutMessage_Decode_def PutMessage_zero_def
        go_index_def slice_from_def GetCstring_NUL Let_def)
qed

section \<open>PutMessageV2 and PutMessageV3\<close>

record PutMessageV2 =
  put2_Encrypt :: bool
  put2_Name :: string
  put2_Settings :: "StorageSettings list"

definition PutMessageV2_zero :: PutMessageV2 where
  "PutMessageV2_zero = \<lparr>put2_Encrypt = False, put2_Name = [], put2_Settings = []\<rparr>"

definition NewPutMessageV2 :: "string \<Rightarrow> bool \<Rightarrow> StorageSettings list \<Rightarrow> PutMessageV2" where
  "NewPutMessageV2 name encrypt settings =
     \<lparr>put2_Encrypt = encrypt, put2_Name = name, put2_Settings = settings\<rparr>"

definition PutMessageV2_Encode :: "PutMessageV2 \<Rightarrow> byte list" where
  "PutMessageV2_Encode c =
     (let bt = [MessageTypePutV2, if put2_Encrypt c then EncryptMessage else NoEncryptMessage, 0, 0];
          bt = bt @ bytes_of (put2_Name c);
          bt = bt @ [0];
          bt = bt @ put_u64 (of_nat (length (put2_Settings c)));
          bt = bt @ encode_settings (put2_Settings c)
      in with_length bt)"

definition PutMessageV2_Decode :: "PutMessageV2 \<Rightarrow> byte list \<Rightarrow> PutMessageV2 option" where
  "PutMessageV2_Decode c body = do {
     b1 \<leftarrow> go_index body 1;
     let c = (if b1 = EncryptMessage then c\<lparr>put2_Encrypt := True\<rparr> else c);
     rest \<leftarrow> slice_from body 4;
     let (name, off) = GetCstring rest;
     let c = c\<lparr>put2_Name := name\<rparr>;
     ss \<leftarrow> read_settings body (4 + off);
     Some (c\<lparr>put2_Settings := ss\<rparr>) }"

text \<open>The part of a body after the four header bytes that Put V2, Put V3 and List V2 share.\<close>

definition named_settings :: "string \<Rightarrow> StorageSettings list \<Rightarrow> byte list" where
  "named_settings name ss =
     bytes_of name @ 0 # put_u64 (of_nat (length ss)) @ encode_settings ss"

lemma read_named_settings:
  assumes "nul_free name" and "settings_ok ss" and "length h = 4"
    and "length (named_settings name ss) + 12 \<le> unat maxMsgLen"
  shows "slice_from (h @ named_settings name ss) 4 = Some (named_settings name ss)"
    and "GetCstring (named_settings name ss) = (name, of_nat (length name + 1))"
    and "read_settings (h @ named_settings name ss) (4 + of_nat (length name + 1)) = Some ss"
proof -
  let ?pre = "h @ bytes_of name @ [0]"
  have len: "length ?pre + 8 + length (encode_settings ss) \<le> unat maxMsgLen"
    using assms(3,4) by (simp add: named_settings_def)
  then have "unat (4 + of_nat (length name + 1) :: u64) = length ?pre"
    using assms(3) by (intro unat_u64_eq) (simp_all add: maxMsgLen_eq)
  from read_settings_encode [OF assms(2) this len]
  show "read_settings (h @ named_settings name ss) (4 + of_nat (length name + 1)) = Some ss"
    by (simp add: named_settings_def)
  show "slice_from (h @ named_settings name ss) 4 = Some (named_settings name ss)"
    using assms(3) by (simp add: slice_from_def)
  show "GetCstring (named_settings name ss) = (name, of_nat (length name + 1))"
    using assms(1) by (simp add: named_settings_def GetCstring_NUL)
qed

lemma PutMessageV2_body:
  "PutMessageV2_Encode m = with_length ([MessageTypePutV2,
     if put2_Encrypt m then EncryptMessage else NoEncryptMessage, 0, 0] @
     named_settings (put2_Name m) (put2_Settings m))"
  by (simp add: PutMessageV2_Encode_def named_settings_def Let_def)

lemma PutMessageV2_roundtrip:
  assumes "nul_free (put2_Name m)" and "settings_ok (put2_Settings m)"
    and "length (PutMessageV2_Encode m) \<le> unat maxMsgLen"
  shows "PutMessageV2_Decode PutMessageV2_zero (drop 8 (PutMessageV2_Encode m)) = Some m"
  using read_named_settings [OF assms(1,2), of "[MessageTypePutV2,
     if put2_Encrypt m then EncryptMessage else NoEncryptMessage, 0, 0]"] assms(3)
  by (cases m) (simp add: PutMessageV2_body PutMessageV2_Decode_def PutMessageV2_zero_def go_index_def)

interpretation putV2: proto_message PutMessageV2_Encode PutMessageV2_Decode PutMessageV2_zero
  MessageTypePutV2 "\<lambda>m. nul_free (put2_Name m) \<and> settings_ok (put2_Settings m)"
  by unfold_locales (simp add: PutMessageV2_body, simp add: PutMessageV2_roundtrip)

record PutMessageV3 =
  put3_Encrypt :: bool
  put3_Name :: string
  put3_Settings :: "StorageSettings list"

definition PutMessageV3_zero :: PutMessageV3 where
  "PutMessageV3_zero = \<lparr>put3_Encrypt = False, put3_Name = [], put3_Settings = []\<rparr>"

definition NewPutMessageV3 :: "string \<Rightarrow> bool \<Rightarrow> StorageSettings list \<Rightarrow> PutMessageV3" where
  "NewPutMessageV3 name encrypt settings =
     \<lparr>put3_Encrypt = encrypt, put3_Name = name, put3_Settings = settings\<rparr>"

definition PutMessageV3_Encode :: "PutMessageV3 \<Rightarrow> byte list" where
  "PutMessageV3_Encode c =
     (let bt = [MessageTypePutV3, if put3_Encrypt c then EncryptMessage else NoEncryptMessage, 0, 0];
          bt = bt @ bytes_of (put3_Name c);
          bt = bt @ [0];
          bt = bt @ put_u64 (of_nat (length (put3_Settings c)));
          bt = bt @ encode_settings (put3_Settings c)
      in with_length bt)"

definition PutMessageV3_Decode :: "PutMessageV3 \<Rightarrow> byte list \<Rightarrow> PutMessageV3 option" where
  "PutMessageV3_Decode c body = do {
     b1 \<leftarrow> go_index body 1;
     let c = (if b1 = EncryptMessage then c\<lparr>put3_Encrypt := True\<rparr> else c);
     rest \<leftarrow> slice_from body 4;
     let (name, off) = GetCstring rest;
     let c = c\<lparr>put3_Name := name\<rparr>;
     ss \<leftarrow> read_settings body (4 + off);
     Some (c\<lparr>put3_Settings := ss\<rparr>) }"

lemma PutMessageV3_body:
  "PutMessageV3_Encode m = with_length ([MessageTypePutV3,
     if put3_Encrypt m then EncryptMessage else NoEncryptMessage, 0, 0] @
     named_settings (put3_Name m) (put3_Settings m))"
  by (simp add: PutMessageV3_Encode_def named_settings_def Let_def)

lemma PutMessageV3_roundtrip:
  assumes "nul_free (put3_Name m)" and "settings_ok (put3_Settings m)"
    and "length (PutMessageV3_Encode m) \<le> unat maxMsgLen"
  shows "PutMessageV3_Decode PutMessageV3_zero (drop 8 (PutMessageV3_Encode m)) = Some m"
  using read_named_settings [OF assms(1,2), of "[MessageTypePutV3,
     if put3_Encrypt m then EncryptMessage else NoEncryptMessage, 0, 0]"] assms(3)
  by (cases m) (simp add: PutMessageV3_body PutMessageV3_Decode_def PutMessageV3_zero_def go_index_def)

interpretation putV3: proto_message PutMessageV3_Encode PutMessageV3_Decode PutMessageV3_zero
  MessageTypePutV3 "\<lambda>m. nul_free (put3_Name m) \<and> settings_ok (put3_Settings m)"
  by unfold_locales (simp add: PutMessageV3_body, simp add: PutMessageV3_roundtrip)

end
