(* ===== verification/AdminRequests.thy ===== *)
theory AdminRequests
  imports Requests
begin

text \<open>
  The other requests of \<open>pkg/message\<close>: listing, deletion, trash restore, patch, copy between
  buckets, the interconnect greeting and the obsolete-chunk requests.
\<close>

section \<open>ListMessage and ListMessageV2\<close>

record ListMessage =
  list_Prefix :: string

definition ListMessage_zero :: ListMessage where
  "ListMessage_zero = \<lparr>list_Prefix = []\<rparr>"

definition NewListMessage :: "string \<Rightarrow> ListMessage" where
  "NewListMessage name = \<lparr>list_Prefix = name\<rparr>"

definition ListMessage_Encode :: "ListMessage \<Rightarrow> byte list" where
  "ListMessage_Encode c =
     (let bt = [MessageTypeList, 0, 0, 0];
          bt = bt @ bytes_of (list_Prefix c);
          bt = bt @ [0]
      in with_length bt)"

definition ListMessage_Decode :: "ListMessage \<Rightarrow> byte list \<Rightarrow> ListMessage option" where
  "ListMessage_Decode c body = do {
     rest \<leftarrow> slice_from body 4;
     Some (c\<lparr>list_Prefix := fst (GetCstring rest)\<rparr>) }"

interpretation list: proto_message ListMessage_Encode ListMessage_Decode ListMessage_zero
  MessageTypeList "\<lambda>m. nul_free (list_Prefix m)"
  by unfold_locales
    (auto simp: ListMessage_Encode_def ListMessage_Decode_def ListMessage_zero_def Let_def
      slice_from_def GetCstring_NUL)

record ListMessageV2 =
  list2_Prefix :: string
  list2_Settings :: "StorageSettings list"

definition ListMessageV2_zero :: ListMessageV2 where
  "ListMessageV2_zero = \<lparr>list2_Prefix = [], list2_Settings = []\<rparr>"

definition NewListMessageV2 :: "string \<Rightarrow> StorageSettings list \<Rightarrow> ListMessageV2" where
  "NewListMessageV2 name settings = \<lparr>list2_Prefix = name, list2_Settings = settings\<rparr>"

definition ListMessageV2_Encode :: "ListMessageV2 \<Rightarrow> byte list" where
  "ListMessageV2_Encode c =
     (let bt = [MessageTypeListV2, 0, 0, 0];
          bt = bt @ bytes_of (list2_Prefix c);
          bt = bt @ [0];
          bt = bt @ put_u64 (of_nat (length (list2_Settings c)));
          bt = bt @ encode_settings (list2_Settings c)
      in with_length bt)"

definition ListMessageV2_Decode :: "ListMessageV2 \<Rightarrow> byte list \<Rightarrow> ListMessageV2 option" where
  "ListMessageV2_Decode c body = do {
     rest \<leftarrow> slice_from body 4;
     let (name, off) = GetCstring rest;
     let c = c\<lparr>list2_Prefix := name\<rparr>;
     ss \<leftarrow> read_settings body (4 + off);
     Some (c\<lparr>list2_Settings := ss\<rparr>) }"

lemma ListMessageV2_body:
  "ListMessageV2_Encode m = with_length ([MessageTypeListV2, 0, 0, 0] @
     named_settings (list2_Prefix m) (list2_Settings m))"
  by (simp add: ListMessageV2_Encode_def named_settings_def Let_def)

lemma ListMessageV2_roundtrip:
  assumes "nul_free (list2_Prefix m)" and "settings_ok (list2_Settings m)"
    and "length (ListMessageV2_Encode m) \<le> unat maxMsgLen"
  shows "ListMessageV2_Decode ListMessageV2_zero (drop 8 (ListMessageV2_Encode m)) = Some m"
  using read_named_settings [OF assms(1,2), of "[MessageTypeListV2, 0, 0, 0]"] assms(3)
  by (cases m) (simp add: ListMessageV2_body ListMessageV2_Decode_def ListMessageV2_zero_def)

interpretation listV2: proto_message ListMessageV2_Encode ListMessageV2_Decode ListMessageV2_zero
  MessageTypeListV2 "\<lambda>m. nul_free (list2_Prefix m) \<and> settings_ok (list2_Settings m)"
  by unfold_locales (simp add: ListMessageV2_body, simp add: ListMessageV2_roundtrip)

section \<open>DeleteMessage, Delete2Message, UntrashifyMessage\<close>

record DeleteMessage =
  del_Name :: string
  del_Port :: u64
  del_Segnum :: u64
  del_Confirm :: bool
  del_Garbage :: bool
  del_CrazyDrop :: bool

definition DeleteMessage_zero :: DeleteMessage where
  "DeleteMessage_zero = \<lparr>del_Name = [], del_Port = 0, del_Segnum = 0, del_Confirm = False,
     del_Garbage = False, del_CrazyDrop = False\<rparr>"

definition NewDeleteMessage :: "string \<Rightarrow> u64 \<Rightarrow> u64 \<Rightarrow> bool \<Rightarrow> bool \<Rightarrow> DeleteMessage" where
  "NewDeleteMessage name port seg confirm garbage =
     \<lparr>del_Name = name, del_Port = port, del_Segnum = seg, del_Confirm = confirm,
      del_Garbage = garbage, del_CrazyDrop = False\<rparr>"

definition DeleteMessage_Encode :: "DeleteMessage \<Rightarrow> byte list" where
  "DeleteMessage_Encode c =
     (let bt = [MessageTypeDelete, if del_Confirm c then 1 else 0, if del_Garbage c then 1 else 0,
                if del_CrazyDrop c then 1 else 0];
          bt = bt @ bytes_of (del_Name c);
          bt = bt @ [0];
          bt = bt @ put_u64 (del_Port c);
          bt = bt @ put_u64 (del_Segnum c)
      in with_length bt)"

text \<open>\<open>xs[len(xs)-k:]\<close> and \<open>xs[len(xs)-k:len(xs)-j]\<close>: a negative bound panics.\<close>

definition slice_tail :: "byte list \<Rightarrow> nat \<Rightarrow> nat \<Rightarrow> byte list option" where
  "slice_tail xs k j =
     (if length xs < k then None else go_slice xs (length xs - k) (length xs - j))"

definition DeleteMessage_Decode :: "DeleteMessage \<Rightarrow> byte list \<Rightarrow> DeleteMessage option" where
  "DeleteMessage_Decode c body = do {
     b1 \<leftarrow> go_index body 1;
     let c = (if b1 = 1 then c\<lparr>del_Confirm := True\<rparr> else c);
     b2 \<leftarrow> go_index body 2;
     let c = (if b2 = 1 then c\<lparr>del_Garbage := True\<rparr> else c);
     b3 \<leftarrow> go_index body 3;
     let c = (if b3 = 1 then c\<lparr>del_CrazyDrop := True\<rparr> else c);
     rest \<leftarrow> slice_from body 4;
     let c = c\<lparr>del_Name := fst (GetCstring rest)\<rparr>;
     p \<leftarrow> slice_tail body 16 8;
     port \<leftarrow> get_u64 p;
     let c = c\<lparr>del_Port := port\<rparr>;
     p \<leftarrow> slice_tail body 8 0;
     seg \<leftarrow> get_u64 p;
     Some (c\<lparr>del_Segnum := seg\<rparr>) }"

lemma slice_tail_append:
  "length ys + length zs = k \<Longrightarrow> length zs = j \<Longrightarrow> slice_tail (xs @ ys @ zs) k j = Some ys"
  by (auto simp: slice_tail_def go_slice_def)

interpretation delete: proto_message DeleteMessage_Encode DeleteMessage_Decode DeleteMessage_zero
  MessageTypeDelete "\<lambda>m. nul_free (del_Name m)"
proof
  fix m :: DeleteMessage
  show "\<exists>bt. DeleteMessage_Encode m = with_length (MessageTypeDelete # bt)"
    by (simp add: DeleteMessage_Encode_def Let_def)
  assume nf: "nul_free (del_Name m)"
  let ?h = "[MessageTypeDelete, if del_Confirm m then 1 else 0, if del_Garbage m then 1 else 0,
             if del_CrazyDrop m then 1 else 0]"
  define body where
    "body = ?h @ bytes_of (del_Name m) @ 0 # put_u64 (del_Port m) @ put_u64 (del_Segnum m)"
  have d: "drop 8 (DeleteMessage_Encode m) = body"
    by (simp add: DeleteMessage_Encode_def Let_def body_def)
  have i: "go_index body 1 = Some (if del_Confirm m then 1 else 0)"
    "go_index body 2 = Some (if del_Garbage m then 1 else 0)"
    "go_index body 3 = Some (if del_CrazyDrop m then 1 else 0)"
    by (simp_all add: go_index_def body_def)
  have s: "slice_from body 4 =
      Some (bytes_of (del_Name m) @ 0 # put_u64 (del_Port m) @ put_u64 (del_Segnum m))"
    unfolding body_def by (rule slice_from_after_header) simp
  have t: "slice_tail body 16 8 = Some (put_u64 (del_Port m))"
    "slice_tail body 8 0 = Some (put_u64 (del_Segnum m))"
    using slice_tail_append [of "put_u64 (del_Port m)" "put_u64 (del_Segnum m)" 16 8
        "?h @ bytes_of (del_Name m) @ [0]"]
      slice_tail_append [of "put_u64 (del_Segnum m)" "[]" 8 0
        "?h @ bytes_of (del_Name m) @ 0 # put_u64 (del_Port m)"]
    by (simp_all add: body_def)
  show "DeleteMessage_Decode DeleteMessage_zero (drop 8 (DeleteMessage_Encode m)) = Some m"
    using i s t nf unfolding d
    by (cases m) (simp add: DeleteMessage_Decode_def DeleteMessage_zero_def GetCstring_NUL)
qed

record Delete2Message =
  del2_Prefix :: string
  del2_Confirm :: bool
  del2_Garbage :: bool

definition Delete2Message_zero :: Delete2Message where
  "Delete2Message_zero = \<lparr>del2_Prefix = [], del2_Confirm = False, del2_Garbage = False\<rparr>"

definition NewDelete2Message :: "string \<Rightarrow> bool \<Rightarrow> bool \<Rightarrow> Delete2Message" where
  "NewDelete2Message prefix confirm garbage =
     \<lparr>del2_Prefix = prefix, del2_Confirm = confirm, del2_Garbage = garbage\<rparr>"

definition Delete2Message_Encode :: "Delete2Message \<Rightarrow> byte list" where
  "Delete2Message_Encode c =
     (let bt = [MessageTypeDelete2, if del2_Confirm c then 1 else 0,
                if del2_Garbage c then 1 else 0, 0];
          bt = bt @ bytes_of (del2_Prefix c);
          bt = bt @ [0]
      in with_length bt)"

definition Delete2Message_Decode :: "Delete2Message \<Rightarrow> byte list \<Rightarrow> Delete2Message option" where
  "Delete2Message_Decode c body = do {
     b1 \<leftarrow> go_index body 1;
     let c = (if b1 = 1 then c\<lparr>del2_Confirm := True\<rparr> else c);
     b2 \<leftarrow> go_index body 2;
     let c = (if b2 = 1 then c\<lparr>del2_Garbage := True\<rparr> else c);
     rest \<leftarrow> slice_from body 4;
     Some (c\<lparr>del2_Prefix := fst (GetCstring rest)\<rparr>) }"

interpretation delete2: proto_message Delete2Message_Encode Delete2Message_Decode
  Delete2Message_zero MessageTypeDelete2 "\<lambda>m. nul_free (del2_Prefix m)"
  by unfold_locales
    (auto simp: Delete2Message_Encode_def Delete2Message_Decode_def Delete2Message_zero_def
      Let_def go_index_def slice_from_def GetCstring_NUL)

record UntrashifyMessage =
  untr_Name :: string
  untr_Segnum :: u64
  untr_Confirm :: bool

definition UntrashifyMessage_zero :: UntrashifyMessage where
  "UntrashifyMessage_zero = \<lparr>untr_Name = [], untr_Segnum = 0, untr_Confirm = False\<rparr>"

definition NewUntrashifyMessage :: "string \<Rightarrow> u64 \<Rightarrow> bool \<Rightarrow> UntrashifyMessage" where
  "NewUntrashifyMessage name seg confirm =
     \<lparr>untr_Name = name, untr_Segnum = seg, untr_Confirm = confirm\<rparr>"

definition UntrashifyMessage_Encode :: "UntrashifyMessage \<Rightarrow> byte list" where
  "UntrashifyMessage_Encode c =
     (let bt = [MessageTypeUntrashify, if untr_Confirm c then 1 else 0, 0, 0];
          bt = bt @ bytes_of (untr_Name c);
          bt = bt @ [0];
          bt = bt @ put_u64 (untr_Segnum c)
      in with_length bt)"

definition UntrashifyMessage_Decode ::
    "UntrashifyMessage \<Rightarrow> byte list \<Rightarrow> UntrashifyMessage option" where
  "UntrashifyMessage_Decode c body = do {
     b1 \<leftarrow> go_index body 1;
     let c = (if b1 = 1 then c\<lparr>untr_Confirm := True\<rparr> else c);
     rest \<leftarrow> slice_from body 4;
     let c = c\<lparr>untr_Name := fst (GetCstring rest)\<rparr>;
     p \<leftarrow> slice_tail body 8 0;
     seg \<leftarrow> get_u64 p;
     Some (c\<lparr>untr_Segnum := seg\<rparr>) }"

interpretation untrashify: proto_message UntrashifyMessage_Encode UntrashifyMessage_Decode
  UntrashifyMessage_zero MessageTypeUntrashify "\<lambda>m. nul_free (untr_Name m)"
proof
  fix m :: UntrashifyMessage
  show "\<exists>bt. UntrashifyMessage_Encode m = with_length (MessageTypeUntrashify # bt)"
    by (simp add: UntrashifyMessage_Encode_def Let_def)
  assume nf: "nul_free (untr_Name m)"
  let ?h = "[MessageTypeUntrashify, if untr_Confirm m then 1 else 0, 0, 0]"
  define body where "body = ?h @ bytes_of (untr_Name m) @ 0 # put_u64 (untr_Segnum m)"
  have d: "drop 8 (UntrashifyMessage_Encode m) = body"
    by (simp add: UntrashifyMessage_Encode_def Let_def body_def)
  have t: "slice_tail body 8 0 = Some (put_u64 (untr_Segnum m))"
    using slice_tail_append [of "put_u64 (untr_Segnum m)" "[]" 8 0 "?h @ bytes_of (untr_Name m) @ [0]"]
    by (simp add: body_def)
  have s: "go_index body 1 = Some (if untr_Confirm m then 1 else 0)"
    "slice_from body 4 = Some (bytes_of (untr_Name m) @ 0 # put_u64 (untr_Segnum m))"
    by (simp_all add: go_index_def body_def slice_from_def)
  show "UntrashifyMessage_Decode UntrashifyMessage_zero (drop 8 (UntrashifyMessage_Encode m)) = Some m"
    using s t nf unfolding d
    by (cases m) (simp add: UntrashifyMessage_Decode_def UntrashifyMessage_zero_def GetCstring_NUL)
qed

section \<open>PatchMessage and GoolMessage\<close>

record PatchMessage =
  patch_Encrypt :: bool
  patch_Offset :: u64
  patch_Name :: string

definition PatchMessage_zero :: PatchMessage where
  "PatchMessage_zero = \<lparr>patch_Encrypt = False, patch_Offset = 0, patch_Name = []\<rparr>"

definition NewPatchMessage :: "string \<Rightarrow> u64 \<Rightarrow> bool \<Rightarrow> PatchMessage" where
  "NewPatchMessage name offset encrypt =
     \<lparr>patch_Encrypt = encrypt, patch_Offset = offset, patch_Name = name\<rparr>"

definition PatchMessage_Encode :: "PatchMessage \<Rightarrow> byte list" where
  "PatchMessage_Encode c =
     (let bt = [MessageTypePatch, if patch_Encrypt c then EncryptMessage else NoEncryptMessage, 0, 0];
          bt = bt @ put_u64 (patch_Offset c);
          bt = bt @ bytes_of (patch_Name c);
          bt = bt @ [0]
      in with_length bt)"

definition GetPatchName :: "byte list \<Rightarrow> string" where
  "GetPatchName b = string_of (cstring_name b [])"

definition PatchMessage_Decode :: "PatchMessage \<Rightarrow> byte list \<Rightarrow> PatchMessage option" where
  "PatchMessage_Decode c body = do {
     b1 \<leftarrow> go_index body 1;
     let c = (if b1 = EncryptMessage then c\<lparr>patch_Encrypt := True\<rparr> else c);
     p \<leftarrow> go_slice body 4 12;
     off \<leftarrow> get_u64 p;
     let c = c\<lparr>patch_Offset := off\<rparr>;
     rest \<leftarrow> slice_from body 12;
     Some (c\<lparr>patch_Name := GetPatchName rest\<rparr>) }"

lemma cstring_name_bytes_of: "nul_free s \<Longrightarrow> cstring_name (bytes_of s @ [0]) [] = bytes_of s"
  by (simp add: cstring_name_NUL zero_notin_bytes_of)

lemma slice_4_12: "length h = 4 \<Longrightarrow> go_slice (h @ put_u64 x @ rest) 4 12 = Some (put_u64 x)"
  by (simp add: go_slice_def)

lemma slice_from_12: "length h = 4 \<Longrightarrow> slice_from (h @ put_u64 x @ rest) 12 = Some rest"
  by (simp add: slice_from_def)

interpretation patch: proto_message PatchMessage_Encode PatchMessage_Decode PatchMessage_zero
  MessageTypePatch "\<lambda>m. nul_free (patch_Name m)"
proof
  fix m :: PatchMessage
  show "\<exists>bt. PatchMessage_Encode m = with_length (MessageTypePatch # bt)"
    by (simp add: PatchMessage_Encode_def Let_def)
  assume nf: "nul_free (patch_Name m)"
  let ?h = "[MessageTypePatch, if patch_Encrypt m then EncryptMessage else NoEncryptMessage, 0, 0]"
  define body where "body = ?h @ put_u64 (patch_Offset m) @ bytes_of (patch_Name m) @ [0]"
  have d: "drop 8 (PatchMessage_Encode m) = body"
    by (simp add: PatchMessage_Encode_def Let_def body_def)
  have s: "go_slice body 4 12 = Some (put_u64 (patch_Offset m))"
    "slice_from body 12 = Some (bytes_of (patch_Name m) @ [0])"
    unfolding body_def by (rule slice_4_12 slice_from_12, simp)+
  have i: "go_index body 1 = Some (if patch_Encrypt m then EncryptMessage else NoEncryptMessage)"
    by (simp add: go_index_def body_def)
  show "PatchMessage_Decode PatchMessage_zero (drop 8 (PatchMessage_Encode m)) = Some m"
    using s i nf unfolding d
    by (cases m) (simp add: PatchMessage_Decode_def PatchMessage_zero_def GetPatchName_def
        cstring_name_bytes_of)
qed

record GoolMessage =
  gool_Name :: string

definition GoolMessage_zero :: GoolMessage where
  "GoolMessage_zero = \<lparr>gool_Name = []\<rparr>"

definition NewGoolMessage :: "string \<Rightarrow> GoolMessage" where
  "NewGoolMessage name = \<lparr>gool_Name = name\<rparr>"

definition GoolMessage_Encode :: "GoolMessage \<Rightarrow> byte list" where
  "GoolMessage_Encode c =
     (let bt = [MessageTypeGool, 0, 0, 0];
          bt = bt @ bytes_of (''GOOL '' @ gool_Name c);
          bt = bt @ [0]
      in with_length bt)"

definition GetGoolName :: "byte list \<Rightarrow> string" where
  "GetGoolName b = string_of (cstring_name b [])"

definition GoolMessage_Decode :: "GoolMessage \<Rightarrow> byte list \<Rightarrow> GoolMessage option" where
  "GoolMessage_Decode c body = do {
     rest \<leftarrow> slice_from body 4;
     Some (c\<lparr>gool_Name := GetGoolName rest\<rparr>) }"

text \<open>The greeting keeps its \<open>GOOL\<close> word when it is decoded: the pair is not a round trip.\<close>

lemma GoolMessage_decoded:
  assumes "nul_free (gool_Name m)"
  shows "GoolMessage_Decode GoolMessage_zero (drop 8 (GoolMessage_Encode m)) =
     Some (m\<lparr>gool_Name := ''GOOL '' @ gool_Name m\<rparr>)"
proof -
  have "nul_free (''GOOL '' @ gool_Name m)" using assms by (simp add: nul_free_code)
  from cstring_name_bytes_of [OF this] show ?thesis
    by (cases m) (simp add: GoolMessage_Encode_def GoolMessage_Decode_def GoolMessage_zero_def Let_def
        GetGoolName_def slice_from_def del: bytes_of_append)
qed

end
