(* ===== verification/CopyMessages.thy ===== *)
theory CopyMessages
  imports AdminRequests
begin

text \<open>
  The messages that carry length-prefixed strings: \<open>CopyMessage\<close>, \<open>CopyMessageV2\<close> and
  \<open>ErrorMessage\<close>, and the obsolete-chunk requests, whose decoders read the format the C client
  sends (segment, port, C string, rest), not the format their own \<open>Encode\<close> writes.
\<close>

section \<open>Two length-prefixed strings after the header\<close>

definition two_strings :: "byte list \<Rightarrow> string \<Rightarrow> string \<Rightarrow> byte list \<Rightarrow> byte list" where
  "two_strings h s t rest =
     h @ put_u64 (of_nat (length s)) @ bytes_of s @ put_u64 (of_nat (length t)) @ bytes_of t @ rest"

lemma slice_at: "unat lo = length xs \<Longrightarrow> unat hi = length xs + length ys \<Longrightarrow>
    go_slice (xs @ ys @ zs) (unat lo) (unat hi) = Some ys"
  by (simp add: go_slice_def)

lemma two_strings_slices:
  assumes "length h = 4" and "length (two_strings h s t rest) < 2 ^ 64"
  defines "ns \<equiv> of_nat (length s) :: u64" and "nt \<equiv> of_nat (length t) :: u64"
  shows "go_slice (two_strings h s t rest) 4 12 = Some (put_u64 ns)"
    and "go_slice (two_strings h s t rest) 12 (unat (12 + ns)) = Some (bytes_of s)"
    and "go_slice (two_strings h s t rest) (unat (12 + ns)) (unat (12 + ns + 8)) = Some (put_u64 nt)"
    and "go_slice (two_strings h s t rest) (unat (12 + ns + 8)) (unat (12 + ns + 8 + nt)) =
      Some (bytes_of t)"
    and "unat (12 + ns + 8 + nt) + length rest = length (two_strings h s t rest)"
    and "drop (unat (12 + ns + 8 + nt)) (two_strings h s t rest) = rest"
proof -
  let ?b = "two_strings h s t rest"
  have len: "length ?b = 20 + length s + length t + length rest"
    using assms(1) by (simp add: two_strings_def)
  have u0: "unat (12 :: u64) = 12" by simp
  have u1: "unat (12 + ns) = 12 + length s"
    using assms(2) len by (intro unat_u64_eq) (simp_all add: ns_def)
  have u2: "unat (12 + ns + 8) = 20 + length s"
    using assms(2) len by (intro unat_u64_eq) (simp_all add: ns_def)
  have u3: "unat (12 + ns + 8 + nt) = 20 + length s + length t"
    using assms(2) len by (intro unat_u64_eq) (simp_all add: ns_def nt_def)
  show "go_slice ?b 4 12 = Some (put_u64 ns)"
    using slice_4_12 [OF assms(1)] by (simp add: two_strings_def ns_def)
  show "go_slice ?b 12 (unat (12 + ns)) = Some (bytes_of s)"
    using slice_append [of 12 "h @ put_u64 ns" "12 + length s" "bytes_of s"] assms(1) u1
    by (simp add: two_strings_def ns_def)
  show "go_slice ?b (unat (12 + ns)) (unat (12 + ns + 8)) = Some (put_u64 nt)"
    using slice_append [of "12 + length s" "h @ put_u64 ns @ bytes_of s" "20 + length s" "put_u64 nt"]
      assms(1) unfolding u1 u2 two_strings_def by (simp add: ns_def nt_def)
  show "go_slice ?b (unat (12 + ns + 8)) (unat (12 + ns + 8 + nt)) = Some (bytes_of t)"
    using slice_append [of "20 + length s" "h @ put_u64 ns @ bytes_of s @ put_u64 nt"
        "20 + length s + length t" "bytes_of t"] assms(1)
    unfolding u2 u3 two_strings_def by (simp add: ns_def nt_def)
  show "unat (12 + ns + 8 + nt) + length rest = length ?b"
    unfolding u3 len by simp
  show "drop (unat (12 + ns + 8 + nt)) ?b = rest"
    using assms(1) unfolding u3 two_strings_def by simp
qed

section \<open>CopyMessage\<close>

record CopyMessage =
  copy_Decrypt :: bool
  copy_Encrypt :: bool
  copy_Name :: string
  copy_OldCfgPath :: string
  copy_Port :: u64
  copy_Confirm :: bool

definition CopyMessage_zero :: CopyMessage where
  "CopyMessage_zero = \<lparr>copy_Decrypt = False, copy_Encrypt = False, copy_Name = [],
     copy_OldCfgPath = [], copy_Port = 0, copy_Confirm = False\<rparr>"

definition NewCopyMessage ::
    "string \<Rightarrow> string \<Rightarrow> bool \<Rightarrow> bool \<Rightarrow> bool \<Rightarrow> u64 \<Rightarrow> CopyMessage" where
  "NewCopyMessage name oldCfgPath encrypt decrypt confirm port =
     \<lparr>copy_Decrypt = decrypt, copy_Encrypt = encrypt, copy_Name = name,
      copy_OldCfgPath = oldCfgPath, copy_Port = port, copy_Confirm = confirm\<rparr>"

definition CopyMessage_Encode :: "CopyMessage \<Rightarrow> byte list" where
  "CopyMessage_Encode m =
     (let encodedMessage = [MessageTypeCopy,
            if copy_Decrypt m then DecryptMessage else NoDecryptMessage,
            if copy_Encrypt m then EncryptMessage else NoEncryptMessage,
            0];
          byteName = bytes_of (copy_Name m);
          encodedMessage = encodedMessage @ put_u64 (of_nat (length byteName));
          encodedMessage = encodedMessage @ byteName;
          byteOldCfg = bytes_of (copy_OldCfgPath m);
          encodedMessage = encodedMessage @ put_u64 (of_nat (length byteOldCfg));
          encodedMessage = encodedMessage @ byteOldCfg;
          encodedMessage = encodedMessage @ put_u64 (copy_Port m);
          encodedMessage = encodedMessage @ [if copy_Confirm m then 1 else 0]
      in with_length encodedMessage)"

definition CopyMessage_Decode :: "CopyMessage \<Rightarrow> byte list \<Rightarrow> CopyMessage option" where
  "CopyMessage_Decode m data = do {
     b1 \<leftarrow> go_index data 1;
     let m = (if b1 = DecryptMessage then m\<lparr>copy_Decrypt := True\<rparr> else m);
     b2 \<leftarrow> go_index data 2;
     let m = (if b2 = EncryptMessage then m\<lparr>copy_Encrypt := True\<rparr> else m);
     bs \<leftarrow> go_slice data 4 12;
     nameLen \<leftarrow> get_u64 bs;
     bs \<leftarrow> go_slice data 12 (unat (12 + nameLen));
     let m = m\<lparr>copy_Name := string_of bs\<rparr>;
     bs \<leftarrow> go_slice data (unat (12 + nameLen)) (unat (12 + nameLen + 8));
     oldConfLen \<leftarrow> get_u64 bs;
     bs \<leftarrow> go_slice data (unat (12 + nameLen + 8)) (unat (12 + nameLen + 8 + oldConfLen));
     let m = m\<lparr>copy_OldCfgPath := string_of bs\<rparr>;
     bs \<leftarrow> go_slice data (unat (12 + nameLen + 8 + oldConfLen)) (unat (12 + nameLen + 8 + oldConfLen + 8));
     port \<leftarrow> get_u64 bs;
     let m = m\<lparr>copy_Port := port\<rparr>;
     b \<leftarrow> go_index data (unat (12 + nameLen + 8 + oldConfLen + 8));
     Some (if b = 1 then m\<lparr>copy_Confirm := True\<rparr> else m) }"

text \<open>The tail the two copy messages share: the port and the confirmation byte.\<close>

lemma port_confirm_tail:
  fixes o1 :: u64
  assumes "unat o1 + 9 = length b" and "drop (unat o1) b = put_u64 port @ [c]"
    and "length b < 2 ^ 64"
  shows "go_slice b (unat o1) (unat (o1 + 8)) = Some (put_u64 port)"
    and "go_index b (unat (o1 + 8)) = Some c"
proof -
  have o1: "o1 = of_nat (unat o1)" by simp
  have u: "unat (o1 + 8) = unat o1 + 8"
    using assms(1,3) by (intro unat_u64_eq) (simp_all add: o1 [symmetric])
  have b: "b = take (unat o1) b @ put_u64 port @ [c]"
    using assms(2) by (metis append_take_drop_id)
  have l: "length (take (unat o1) b) = unat o1" using assms(1) by simp
  show "go_slice b (unat o1) (unat (o1 + 8)) = Some (put_u64 port)"
    using assms(1,2) u by (simp add: go_slice_def)
  have "b ! (unat o1 + 8) = drop (unat o1) b ! 8"
    using assms(1) by simp
  also have "\<dots> = c" by (simp add: assms(2) nth_append)
  finally show "go_index b (unat (o1 + 8)) = Some c"
    using assms(1) u by (simp add: go_index_def)
qed

interpretation copy: proto_message CopyMessage_Encode CopyMessage_Decode CopyMessage_zero
  MessageTypeCopy "\<lambda>_. True"
proof
  fix m :: CopyMessage
  let ?h = "[MessageTypeCopy, if copy_Decrypt m then DecryptMessage else NoDecryptMessage,
             if copy_Encrypt m then EncryptMessage else NoEncryptMessage, 0]"
  let ?c = "if copy_Confirm m then 1 else (0 :: byte)"
  define body where
    "body = two_strings ?h (copy_Name m) (copy_OldCfgPath m) (put_u64 (copy_Port m) @ [?c])"
  have e: "CopyMessage_Encode m = with_length body"
    by (simp add: CopyMessage_Encode_def Let_def body_def two_strings_def)
  show "\<exists>bt. CopyMessage_Encode m = with_length (MessageTypeCopy # bt)"
    by (simp add: e body_def two_strings_def)
  assume "length (CopyMessage_Encode m) \<le> unat maxMsgLen"
  then have len: "length body < 2 ^ 64" by (simp add: e maxMsgLen_eq)
  note sl = two_strings_slices [of ?h "copy_Name m" "copy_OldCfgPath m" "put_u64 (copy_Port m) @ [?c]",
      folded body_def, OF _ len, simplified (no_asm_simp)]
  have i: "go_index body 1 = Some (if copy_Decrypt m then DecryptMessage else NoDecryptMessage)"
    "go_index body 2 = Some (if copy_Encrypt m then EncryptMessage else NoEncryptMessage)"
    by (simp_all add: body_def two_strings_def go_index_def)
  let ?o = "12 + of_nat (length (copy_Name m)) + 8 + of_nat (length (copy_OldCfgPath m)) :: u64"
  have o: "unat ?o + 9 = length body" "drop (unat ?o) body = put_u64 (copy_Port m) @ [?c]"
    using sl(5,6) by simp_all
  note pc = port_confirm_tail [OF o len]
  show "CopyMessage_Decode CopyMessage_zero (drop 8 (CopyMessage_Encode m)) = Some m"
    unfolding e drop_8_with_length CopyMessage_Decode_def
    using i sl(1-4) pc by (cases m) (simp add: CopyMessage_zero_def)
qed

section \<open>CopyMessageV2\<close>

definition CopyEncrypt :: byte where "CopyEncrypt = 0b1"
definition CopyDecrypt :: byte where "CopyDecrypt = 0b10"
definition CopyUseKEK :: byte where "CopyUseKEK = 0b100"
definition CopyServerSide :: byte where "CopyServerSide = 0b1000"

lemmas copy_flags = CopyEncrypt_def CopyDecrypt_def CopyUseKEK_def CopyServerSide_def

record CopyMessageV2 =
  copy2_Decrypt :: bool
  copy2_Encrypt :: bool
  copy2_Name :: string
  copy2_OldCfgPath :: string
  copy2_Port :: u64
  copy2_Confirm :: bool
  copy2_KEKDecrypt :: bool
  copy2_ServerSideCopy :: bool

definition CopyMessageV2_zero :: CopyMessageV2 where
  "CopyMessageV2_zero = \<lparr>copy2_Decrypt = False, copy2_Encrypt = False, copy2_Name = [],
     copy2_OldCfgPath = [], copy2_Port = 0, copy2_Confirm = False, copy2_KEKDecrypt = False,
     copy2_ServerSideCopy = False\<rparr>"

definition NewCopyMessageV2 ::
    "string \<Rightarrow> string \<Rightarrow> bool \<Rightarrow> bool \<Rightarrow> bool \<Rightarrow> bool \<Rightarrow> bool \<Rightarrow> u64 \<Rightarrow> CopyMessageV2" where
  "NewCopyMessageV2 name oldCfgPath encrypt decrypt confirm kEKDecrypt ssCopy port =
     \<lparr>copy2_Decrypt = decrypt, copy2_Encrypt = encrypt, copy2_Name = name,
      copy2_OldCfgPath = oldCfgPath, copy2_Port = port, copy2_Confirm = confirm,
      copy2_KEKDecrypt = kEKDecrypt, copy2_ServerSideCopy = ssCopy\<rparr>"

definition CopyMessageV2_flags :: "CopyMessageV2 \<Rightarrow> byte" where
  "CopyMessageV2_flags m =
     (let flags = 0;
          flags = (if copy2_Decrypt m then flags OR CopyDecrypt else flags);
          flags = (if copy2_Encrypt m then flags OR CopyEncrypt else flags);
          flags = (if copy2_KEKDecrypt m then flags OR CopyUseKEK else flags);
          flags = (if copy2_ServerSideCopy m then flags OR CopyServerSide else flags)
      in flags)"

definition CopyMessageV2_Encode :: "CopyMessageV2 \<Rightarrow> byte list" where
  "CopyMessageV2_Encode m =
     (let encodedMessage = [MessageTypeCopyV2, CopyMessageV2_flags m, 0, 0];
          byteName = bytes_of (copy2_Name m);
          encodedMessage = encodedMessage @ put_u64 (of_nat (length byteName));
          encodedMessage = encodedMessage @ byteName;
          byteOldCfg = bytes_of (copy2_OldCfgPath m);
          encodedMessage = encodedMessage @ put_u64 (of_nat (length byteOldCfg));
          encodedMessage = encodedMessage @ byteOldCfg;
          encodedMessage = encodedMessage @ put_u64 (copy2_Port m);
          encodedMessage = encodedMessage @ [if copy2_Confirm m then 1 else 0]
      in with_length encodedMessage)"

definition CopyMessageV2_set_flags :: "CopyMessageV2 \<Rightarrow> byte \<Rightarrow> CopyMessageV2" where
  "CopyMessageV2_set_flags m b1 =
     (let m = (if b1 AND CopyDecrypt \<noteq> 0 then m\<lparr>copy2_Decrypt := True\<rparr> else m);
          m = (if b1 AND CopyEncrypt \<noteq> 0 then m\<lparr>copy2_Encrypt := True\<rparr> else m);
          m = (if b1 AND CopyUseKEK \<noteq> 0 then m\<lparr>copy2_KEKDecrypt := True\<rparr> else m);
          m = (if b1 AND CopyServerSide \<noteq> 0 then m\<lparr>copy2_ServerSideCopy := True\<rparr> else m)
      in m)"

definition CopyMessageV2_Decode :: "CopyMessageV2 \<Rightarrow> byte list \<Rightarrow> CopyMessageV2 option" where
  "CopyMessageV2_Decode m data = do {
     b1 \<leftarrow> go_index data 1;
     let m = CopyMessageV2_set_flags m b1;
     bs \<leftarrow> go_slice data 4 12;
     nameLen \<leftarrow> get_u64 bs;
     bs \<leftarrow> go_slice data 12 (unat (12 + nameLen));
     let m = m\<lparr>copy2_Name := string_of bs\<rparr>;
     bs \<leftarrow> go_slice data (unat (12 + nameLen)) (unat (12 + nameLen + 8));
     oldConfLen \<leftarrow> get_u64 bs;
     bs \<leftarrow> go_slice data (unat (12 + nameLen + 8)) (unat (12 + nameLen + 8 + oldConfLen));
     let m = m\<lparr>copy2_OldCfgPath := string_of bs\<rparr>;
     bs \<leftarrow> go_slice data (unat (12 + nameLen + 8 + oldConfLen)) (unat (12 + nameLen + 8 + oldConfLen + 8));
     port \<leftarrow> get_u64 bs;
     let m = m\<lparr>copy2_Port := port\<rparr>;
     b \<leftarrow> go_index data (unat (12 + nameLen + 8 + oldConfLen + 8));
     Some (if b = 1 then m\<lparr>copy2_Confirm := True\<rparr> else m) }"

text \<open>Each flag bit of the header byte is set exactly when its field is.\<close>

lemma CopyMessageV2_flags_bits:
  "CopyMessageV2_flags m AND CopyDecrypt \<noteq> 0 \<longleftrightarrow> copy2_Decrypt m"
  "CopyMessageV2_flags m AND CopyEncrypt \<noteq> 0 \<longleftrightarrow> copy2_Encrypt m"
  "CopyMessageV2_flags m AND CopyUseKEK \<noteq> 0 \<longleftrightarrow> copy2_KEKDecrypt m"
  "CopyMessageV2_flags m AND CopyServerSide \<noteq> 0 \<longleftrightarrow> copy2_ServerSideCopy m"
  by (simp_all add: CopyMessageV2_flags_def copy_flags)

lemma CopyMessageV2_set_flags_flags:
  "CopyMessageV2_set_flags CopyMessageV2_zero (CopyMessageV2_flags m) =
     CopyMessageV2_zero\<lparr>copy2_Decrypt := copy2_Decrypt m, copy2_Encrypt := copy2_Encrypt m,
       copy2_KEKDecrypt := copy2_KEKDecrypt m, copy2_ServerSideCopy := copy2_ServerSideCopy m\<rparr>"
  unfolding CopyMessageV2_set_flags_def CopyMessageV2_flags_bits
  by (simp add: Let_def CopyMessageV2_zero_def)

interpretation copyV2: proto_message CopyMessageV2_Encode CopyMessageV2_Decode CopyMessageV2_zero
  MessageTypeCopyV2 "\<lambda>_. True"
proof
  fix m :: CopyMessageV2
  let ?h = "[MessageTypeCopyV2, CopyMessageV2_flags m, 0, 0]"
  let ?c = "if copy2_Confirm m then 1 else (0 :: byte)"
  define body where
    "body = two_strings ?h (copy2_Name m) (copy2_OldCfgPath m) (put_u64 (copy2_Port m) @ [?c])"
  have e: "CopyMessageV2_Encode m = with_length body"
    by (simp add: CopyMessageV2_Encode_def Let_def body_def two_strings_def)
  show "\<exists>bt. CopyMessageV2_Encode m = with_length (MessageTypeCopyV2 # bt)"
    by (simp add: e body_def two_strings_def)
  assume "length (CopyMessageV2_Encode m) \<le> unat maxMsgLen"
  then have len: "length body < 2 ^ 64" by (simp add: e maxMsgLen_eq)
  note sl = two_strings_slices [of ?h "copy2_Name m" "copy2_OldCfgPath m" "put_u64 (copy2_Port m) @ [?c]",
      folded body_def, OF _ len, simplified (no_asm_simp)]
  have i: "go_index body 1 = Some (CopyMessageV2_flags m)"
    by (simp add: body_def two_strings_def go_index_def)
  let ?o = "12 + of_nat (length (copy2_Name m)) + 8 + of_nat (length (copy2_OldCfgPath m)) :: u64"
  have o: "unat ?o + 9 = length body" "drop (unat ?o) body = put_u64 (copy2_Port m) @ [?c]"
    using sl(5,6) by simp_all
  note pc = port_confirm_tail [OF o len]
  show "CopyMessageV2_Decode CopyMessageV2_zero (drop 8 (CopyMessageV2_Encode m)) = Some m"
    unfolding e drop_8_with_length CopyMessageV2_Decode_def
    using i sl(1-4) pc CopyMessageV2_set_flags_flags [of m]
    by (cases m) (simp add: CopyMessageV2_zero_def)
qed

section \<open>ErrorMessage\<close>

record ErrorMessage =
  err_Error :: string
  err_Message :: string

definition ErrorMessage_zero :: ErrorMessage where
  "ErrorMessage_zero = \<lparr>err_Error = [], err_Message = []\<rparr>"

definition NewErrorMessage :: "error \<Rightarrow> string \<Rightarrow> ErrorMessage" where
  "NewErrorMessage err msg = \<lparr>err_Error = error_text err, err_Message = msg\<rparr>"

definition ErrorMessage_Encode :: "ErrorMessage \<Rightarrow> byte list" where
  "ErrorMessage_Encode c =
     (let encodedMessage = [MessageTypeError, 0, 0, 0];
          byteError = bytes_of (err_Error c);
          encodedMessage = encodedMessage @ put_u64 (of_nat (length byteError));
          encodedMessage = encodedMessage @ byteError;
          byteMessage = bytes_of (err_Message c);
          encodedMessage = encodedMessage @ put_u64 (of_nat (length byteMessage));
          encodedMessage = encodedMessage @ byteMessage
      in with_length encodedMessage)"

definition ErrorMessage_Decode :: "ErrorMessage \<Rightarrow> byte list \<Rightarrow> ErrorMessage option" where
  "ErrorMessage_Decode c data = do {
     bs \<leftarrow> go_slice data 4 12;
     errorLen \<leftarrow> get_u64 bs;
     bs \<leftarrow> go_slice data 12 (unat (12 + errorLen));
     let c = c\<lparr>err_Error := string_of bs\<rparr>;
     bs \<leftarrow> go_slice data (unat (12 + errorLen)) (unat (12 + errorLen + 8));
     messageLen \<leftarrow> get_u64 bs;
     bs \<leftarrow> go_slice data (unat (12 + errorLen + 8)) (unat (12 + errorLen + 8 + messageLen));
     Some (c\<lparr>err_Message := string_of bs\<rparr>) }"

interpretation error: proto_message ErrorMessage_Encode ErrorMessage_Decode ErrorMessage_zero
  MessageTypeError "\<lambda>_. True"
proof
  fix m :: ErrorMessage
  let ?h = "[MessageTypeError, 0, 0, 0]"
  define body where "body = two_strings ?h (err_Error m) (err_Message m) []"
  have e: "ErrorMessage_Encode m = with_length body"
    by (simp add: ErrorMessage_Encode_def Let_def body_def two_strings_def)
  show "\<exists>bt. ErrorMessage_Encode m = with_length (MessageTypeError # bt)"
    by (simp add: e body_def two_strings_def)
  assume "length (ErrorMessage_Encode m) \<le> unat maxMsgLen"
  then have len: "length body < 2 ^ 64" by (simp add: e maxMsgLen_eq)
  note sl = two_strings_slices [of ?h "err_Error m" "err_Message m" "[]",
      folded body_def, OF _ len, simplified (no_asm_simp)]
  show "ErrorMessage_Decode ErrorMessage_zero (drop 8 (ErrorMessage_Encode m)) = Some m"
    unfolding e drop_8_with_length ErrorMessage_Decode_def
    using sl(1-4) by (cases m) (simp add: ErrorMessage_zero_def)
qed

section \<open>CollectObsoleteMessage and DeleteObsoleteMessage\<close>

record CollectObsoleteMessage =
  co_Segnum :: u64
  co_Port :: u64
  co_DBName :: string
  co_Message :: string

record DeleteObsoleteMessage =
  do_Segnum :: u64
  do_Port :: u64
  do_DBName :: string
  do_Message :: string

definition CollectObsoleteMessage_zero :: CollectObsoleteMessage where
  "CollectObsoleteMessage_zero = \<lparr>co_Segnum = 0, co_Port = 0, co_DBName = [], co_Message = []\<rparr>"

definition DeleteObsoleteMessage_zero :: DeleteObsoleteMessage where
  "DeleteObsoleteMessage_zero = \<lparr>do_Segnum = 0, do_Port = 0, do_DBName = [], do_Message = []\<rparr>"

definition NewCollectObsoleteMessage :: "string \<Rightarrow> string \<Rightarrow> CollectObsoleteMessage" where
  "NewCollectObsoleteMessage dbname msg =
     CollectObsoleteMessage_zero\<lparr>co_DBName := dbname, co_Message := msg\<rparr>"

definition NewDeleteObsoleteMessage :: "string \<Rightarrow> string \<Rightarrow> DeleteObsoleteMessage" where
  "NewDeleteObsoleteMessage dbname msg =
     DeleteObsoleteMessage_zero\<lparr>do_DBName := dbname, do_Message := msg\<rparr>"

definition CollectObsoleteMessage_Encode :: "CollectObsoleteMessage \<Rightarrow> byte list" where
  "CollectObsoleteMessage_Encode c =
     (let encodedMessage = [MessageCollectObsolete, 0, 0, 0];
          byteError = bytes_of (co_DBName c);
          encodedMessage = encodedMessage @ put_u64 (of_nat (length byteError));
          encodedMessage = encodedMessage @ byteError;
          byteMessage = bytes_of (co_Message c);
          encodedMessage = encodedMessage @ put_u64 (of_nat (length byteMessage));
          encodedMessage = encodedMessage @ byteMessage
      in with_length encodedMessage)"

definition DeleteObsoleteMessage_Encode :: "DeleteObsoleteMessage \<Rightarrow> byte list" where
  "DeleteObsoleteMessage_Encode c =
     (let encodedMessage = [MessageDeleteObsolete, 0, 0, 0];
          byteError = bytes_of (do_DBName c);
          encodedMessage = encodedMessage @ put_u64 (of_nat (length byteError));
          encodedMessage = encodedMessage @ byteError;
          byteMessage = bytes_of (do_Message c);
          encodedMessage = encodedMessage @ put_u64 (of_nat (length byteMessage));
          encodedMessage = encodedMessage @ byteMessage
      in with_length encodedMessage)"

text \<open>\<open>bytes.IndexByte(b, 0)\<close>; \<open>None\<close> is \<open>-1\<close>, and \<open>data[20 : 20-1]\<close> then panics.\<close>

fun IndexByte0 :: "byte list \<Rightarrow> nat option" where
  "IndexByte0 [] = None"
| "IndexByte0 (b # bs) = (if b = 0 then Some 0 else map_option Suc (IndexByte0 bs))"

definition CollectObsoleteMessage_Decode ::
    "CollectObsoleteMessage \<Rightarrow> byte list \<Rightarrow> CollectObsoleteMessage option" where
  "CollectObsoleteMessage_Decode c data = do {
     bs \<leftarrow> go_slice data 4 12;
     seg \<leftarrow> get_u64 bs;
     let c = c\<lparr>co_Segnum := seg\<rparr>;
     bs \<leftarrow> go_slice data 12 20;
     port \<leftarrow> get_u64 bs;
     let c = c\<lparr>co_Port := port\<rparr>;
     rest \<leftarrow> slice_from data 20;
     n \<leftarrow> IndexByte0 rest;
     bs \<leftarrow> go_slice data 20 (20 + n);
     let c = c\<lparr>co_DBName := string_of bs\<rparr>;
     bs \<leftarrow> go_slice data (20 + n + 1) (length data - 1);
     Some (c\<lparr>co_Message := string_of bs\<rparr>) }"

definition DeleteObsoleteMessage_Decode ::
    "DeleteObsoleteMessage \<Rightarrow> byte list \<Rightarrow> DeleteObsoleteMessage option" where
  "DeleteObsoleteMessage_Decode c data = do {
     bs \<leftarrow> go_slice data 4 12;
     seg \<leftarrow> get_u64 bs;
     let c = c\<lparr>do_Segnum := seg\<rparr>;
     bs \<leftarrow> go_slice data 12 20;
     port \<leftarrow> get_u64 bs;
     let c = c\<lparr>do_Port := port\<rparr>;
     rest \<leftarrow> slice_from data 20;
     n \<leftarrow> IndexByte0 rest;
     bs \<leftarrow> go_slice data 20 (20 + n);
     let c = c\<lparr>do_DBName := string_of bs\<rparr>;
     bs \<leftarrow> go_slice data (20 + n + 1) (length data - 1);
     Some (c\<lparr>do_Message := string_of bs\<rparr>) }"

text \<open>The body the decoders read.\<close>

definition obsolete_body :: "byte \<Rightarrow> u64 \<Rightarrow> u64 \<Rightarrow> string \<Rightarrow> string \<Rightarrow> byte list" where
  "obsolete_body tp seg port db msg =
     [tp, 0, 0, 0] @ put_u64 seg @ put_u64 port @ bytes_of db @ 0 # bytes_of msg @ [0]"

lemma IndexByte0_NUL: "0 \<notin> set xs \<Longrightarrow> IndexByte0 (xs @ 0 # rest) = Some (length xs)"
  by (induction xs) auto

lemma obsolete_body_slices:
  fixes tp seg port db msg
  assumes "nul_free db"
  defines "b \<equiv> obsolete_body tp seg port db msg"
  shows "go_slice b 4 12 = Some (put_u64 seg)" and "go_slice b 12 20 = Some (put_u64 port)"
    and "slice_from b 20 = Some (bytes_of db @ 0 # bytes_of msg @ [0])"
    and "IndexByte0 (bytes_of db @ 0 # bytes_of msg @ [0]) = Some (length db)"
    and "go_slice b 20 (20 + length db) = Some (bytes_of db)"
    and "go_slice b (20 + length db + 1) (length b - 1) = Some (bytes_of msg)"
  using assms by (simp_all add: obsolete_body_def go_slice_def slice_from_def IndexByte0_NUL
      zero_notin_bytes_of)

lemma CollectObsoleteMessage_decoded:
  assumes "nul_free db"
  shows "CollectObsoleteMessage_Decode c (obsolete_body tp seg port db msg) =
     Some \<lparr>co_Segnum = seg, co_Port = port, co_DBName = db, co_Message = msg\<rparr>"
  using obsolete_body_slices(1-3,5,6) [OF assms, of tp seg port msg]
    obsolete_body_slices(4) [OF assms, of msg]
  by (cases c) (simp add: CollectObsoleteMessage_Decode_def)

lemma DeleteObsoleteMessage_decoded:
  assumes "nul_free db"
  shows "DeleteObsoleteMessage_Decode c (obsolete_body tp seg port db msg) =
     Some \<lparr>do_Segnum = seg, do_Port = port, do_DBName = db, do_Message = msg\<rparr>"
  using obsolete_body_slices(1-3,5,6) [OF assms, of tp seg port msg]
    obsolete_body_slices(4) [OF assms, of msg]
  by (cases c) (simp add: DeleteObsoleteMessage_Decode_def)

end
