(* ===== verification/Replies.thy ===== *)
theory Replies
  imports CopyMessages
begin

text \<open>
  The data and reply messages of \<open>pkg/message\<close>: \<open>CopyDataMessage\<close>, \<open>CopyDoneMessage\<close>,
  \<open>ReadyForQueryMessage\<close>, \<open>PutCompleteMessage\<close>, \<open>CopyCompleteMessage\<close> and the object listing
  \<open>ObjectInfoMessage\<close>.
\<close>

section \<open>Messages without a variable part\<close>

definition CopyDoneMessage_Encode :: "unit \<Rightarrow> byte list" where
  "CopyDoneMessage_Encode cc = (let bt = [MessageTypeCopyDone, 0, 0, 0] in with_length bt)"

definition CopyDoneMessage_Decode :: "unit \<Rightarrow> byte list \<Rightarrow> unit option" where
  "CopyDoneMessage_Decode c body = Some c"

definition ReadyForQueryMessage_Encode :: "unit \<Rightarrow> byte list" where
  "ReadyForQueryMessage_Encode cc =
     (let bt = [MessageTypeReadyForQuery, 0, 0, 0] in with_length bt)"

definition ReadyForQueryMessage_Decode :: "unit \<Rightarrow> byte list \<Rightarrow> unit option" where
  "ReadyForQueryMessage_Decode c body = Some c"

interpretation copyDone: proto_message CopyDoneMessage_Encode CopyDoneMessage_Decode "()"
  MessageTypeCopyDone "\<lambda>_. True"
  by unfold_locales (auto simp: CopyDoneMessage_Encode_def CopyDoneMessage_Decode_def)

interpretation rfq: proto_message ReadyForQueryMessage_Encode ReadyForQueryMessage_Decode "()"
  MessageTypeReadyForQuery "\<lambda>_. True"
  by unfold_locales (auto simp: ReadyForQueryMessage_Encode_def ReadyForQueryMessage_Decode_def)

record PutCompleteMessage =
  pc_KeyVersion :: u16

definition NewPutCompleteMessage :: "u16 \<Rightarrow> PutCompleteMessage" where
  "NewPutCompleteMessage keyVersion = \<lparr>pc_KeyVersion = keyVersion\<rparr>"

definition PutCompleteMessage_Encode :: "PutCompleteMessage \<Rightarrow> byte list" where
  "PutCompleteMessage_Encode c =
     (let bt = [MessageTypePutComplete, 0, 0, 0];
          bt = bt @ put_u16 (pc_KeyVersion c)
      in with_length bt)"

definition PutCompleteMessage_Decode ::
    "PutCompleteMessage \<Rightarrow> byte list \<Rightarrow> PutCompleteMessage option" where
  "PutCompleteMessage_Decode c body = do {
     bs \<leftarrow> go_slice body 4 (4 + 2);
     kv \<leftarrow> get_u16 bs;
     Some (c\<lparr>pc_KeyVersion := kv\<rparr>) }"

interpretation putComplete: proto_message PutCompleteMessage_Encode PutCompleteMessage_Decode
  "NewPutCompleteMessage 0" MessageTypePutComplete "\<lambda>_. True"
  by unfold_locales
    (auto simp: PutCompleteMessage_Encode_def PutCompleteMessage_Decode_def Let_def go_slice_def
      NewPutCompleteMessage_def)

record CopyCompleteMessage =
  cc_KeyVersion :: byte

definition NewCopyCompleteMessage :: "byte \<Rightarrow> CopyCompleteMessage" where
  "NewCopyCompleteMessage keyVersion = \<lparr>cc_KeyVersion = keyVersion\<rparr>"

definition CopyCompleteMessage_Encode :: "CopyCompleteMessage \<Rightarrow> byte list" where
  "CopyCompleteMessage_Encode c =
     (let bt = [MessageTypeCopyComplete, cc_KeyVersion c, 0, 0] in with_length bt)"

definition CopyCompleteMessage_Decode ::
    "CopyCompleteMessage \<Rightarrow> byte list \<Rightarrow> CopyCompleteMessage option" where
  "CopyCompleteMessage_Decode c body = do {
     b1 \<leftarrow> go_index body 1;
     Some (c\<lparr>cc_KeyVersion := b1\<rparr>) }"

interpretation copyComplete: proto_message CopyCompleteMessage_Encode CopyCompleteMessage_Decode
  "NewCopyCompleteMessage 0" MessageTypeCopyComplete "\<lambda>_. True"
  by unfold_locales
    (auto simp: CopyCompleteMessage_Encode_def CopyCompleteMessage_Decode_def Let_def go_index_def
      NewCopyCompleteMessage_def)

section \<open>CopyDataMessage\<close>

record CopyDataMessage =
  cd_Sz :: u64
  cd_Data :: "byte list"

definition NewCopyDataMessage :: CopyDataMessage where
  "NewCopyDataMessage = \<lparr>cd_Sz = 0, cd_Data = []\<rparr>"

text \<open>
  \<open>Encode\<close> allocates \<open>4+8+Sz\<close> bytes (in \<open>uint64\<close>, so the sum can wrap), writes the header and
  copies \<open>Data[:Sz]\<close>; a size larger than the data panics.
\<close>

definition CopyDataMessage_Encode :: "CopyDataMessage \<Rightarrow> byte list option" where
  "CopyDataMessage_Encode cc =
     (if make_ok 1 (unat (4 + 8 + cd_Sz cc)) then do {
        let bt = replicate (unat (4 + 8 + cd_Sz cc)) 0;
        b0 \<leftarrow> go_index bt 0;
        let bt = bt[0 := MessageTypeCopyData];
        tl4 \<leftarrow> slice_from bt 4;
        old \<leftarrow> get_u64 tl4;
        let bt = take 4 bt @ put_u64 (cd_Sz cc) @ drop 12 bt;
        tl12 \<leftarrow> slice_from bt (4 + 8);
        src \<leftarrow> go_slice (cd_Data cc) 0 (unat (cd_Sz cc));
        let bt = take 12 bt @ take (length tl12) src @ drop (12 + length src) bt;
        Some (with_length bt) }
      else None)"

definition CopyDataMessage_Decode :: "CopyDataMessage \<Rightarrow> byte list \<Rightarrow> CopyDataMessage option" where
  "CopyDataMessage_Decode cc data = do {
     msgLenBuf \<leftarrow> go_slice data 4 12;
     sz \<leftarrow> get_u64 msgLenBuf;
     let cc = cc\<lparr>cd_Sz := sz\<rparr>;
     if make_ok 1 (unat sz) then do {
       src \<leftarrow> go_slice data 12 (unat (12 + sz));
       Some (cc\<lparr>cd_Data := take (unat sz) src @ replicate (unat sz - length src) 0\<rparr>) }
     else None }"

text \<open>The packet of a chunk of data whose size field is its length.\<close>

definition copy_data_packet :: "byte list \<Rightarrow> byte list" where
  "copy_data_packet d =
     with_length ([MessageTypeCopyData, 0, 0, 0] @ put_u64 (of_nat (length d)) @ d)"

lemma CopyDataMessage_Encode_eq:
  assumes "length d < 2 ^ 47"
  shows "CopyDataMessage_Encode \<lparr>cd_Sz = of_nat (length d), cd_Data = d\<rparr> = Some (copy_data_packet d)"
proof -
  have u: "unat (of_nat (length d) :: u64) = length d" using assms by simp
  have u12: "unat (4 + 8 + of_nat (length d) :: u64) = 12 + length d"
    using assms by (intro unat_u64_eq) simp_all
  have mk: "make_ok 1 (12 + length d)" using assms by (simp add: make_ok_def maxAlloc_def)
  have rep: "replicate (12 + length d) (0::byte) = [0,0,0,0,0,0,0,0,0,0,0,0] @ replicate (length d) 0"
    by (simp add: numeral_eq_Suc)
  show ?thesis
    unfolding CopyDataMessage_Encode_def CopyDataMessage.simps u12 rep
    using mk u by (simp add: go_index_def slice_from_def go_slice_def get_u64_def copy_data_packet_def)
qed

lemma CopyDataMessage_Decode_packet:
  assumes "length d < 2 ^ 47"
  shows "CopyDataMessage_Decode c (drop 8 (copy_data_packet d)) =
     Some \<lparr>cd_Sz = of_nat (length d), cd_Data = d\<rparr>"
proof -
  have u: "unat (of_nat (length d) :: u64) = length d" using assms by simp
  have u12: "unat (12 + of_nat (length d) :: u64) = 12 + length d"
    using assms by (intro unat_u64_eq) simp_all
  have mk: "make_ok 1 (length d)" using assms by (simp add: make_ok_def maxAlloc_def)
  show ?thesis
    using mk u u12 by (cases c) (simp add: CopyDataMessage_Decode_def copy_data_packet_def go_slice_def)
qed

lemma length_copy_data_packet [simp]: "length (copy_data_packet d) = length d + 20"
  by (simp add: copy_data_packet_def)

lemma ReadPacket_copy_data:
  assumes "concat cs = copy_data_packet d @ rest" and "length d + 20 \<le> unat maxMsgLen"
  shows "\<exists>cs'. ReadPacket cs = (Inr (MessageTypeCopyData, drop 8 (copy_data_packet d)), cs') \<and>
           concat cs' = rest"
proof -
  let ?b = "[MessageTypeCopyData, 0, 0, 0] @ put_u64 (of_nat (length d)) @ d"
  have b: "copy_data_packet d = with_length ?b" by (simp add: copy_data_packet_def)
  have "?b \<noteq> []" "length ?b + 8 \<le> unat maxMsgLen" using assms(2) by simp_all
  from ReadPacket_with_length [OF assms(1) [unfolded b] this]
  show ?thesis unfolding b drop_8_with_length by simp
qed

section \<open>ObjectInfoMessage\<close>

definition ObjectInfoMessage_Encode :: "ObjectInfo list \<Rightarrow> byte list" where
  "ObjectInfoMessage_Encode content =
     (let bt = [MessageTypeObjectMeta, 0, 0, 0];
          bt = bt @ concat (map (\<lambda>objMeta. bytes_of (obj_Path objMeta) @ [0] @
                                 put_u64 (obj_Size objMeta)) content)
      in with_length bt)"

text \<open>\<open>GetString\<close> returns the index after the NUL, or one past the end when there is none.\<close>

fun ObjectInfo_GetString_loop :: "byte list \<Rightarrow> nat \<Rightarrow> byte list \<Rightarrow> byte list \<times> nat" where
  "ObjectInfo_GetString_loop [] i buff = (buff, i + 1)"
| "ObjectInfo_GetString_loop (b # bs) i buff =
     (if b = 0 then (buff, i + 1) else ObjectInfo_GetString_loop bs (i + 1) (buff @ [b]))"

definition ObjectInfo_GetString :: "byte list \<Rightarrow> string \<times> nat" where
  "ObjectInfo_GetString b =
     (let (buff, i) = ObjectInfo_GetString_loop b 0 [] in (string_of buff, i))"

lemma ObjectInfo_GetString_loop_ge: "i < snd (ObjectInfo_GetString_loop bs i buff)"
proof (induction bs arbitrary: i buff)
  case Nil
  then show ?case by simp
next
  case (Cons b bs)
  from Cons.IH [of "i + 1" "buff @ [b]"] show ?case by auto
qed

function ObjectInfoMessage_loop :: "byte list \<Rightarrow> ObjectInfo list \<Rightarrow> ObjectInfo list option" where
  "ObjectInfoMessage_loop body content =
     (if length body > 0
      then let (name, index) = ObjectInfo_GetString body in
           (case go_slice body index (index + 8) of
              None \<Rightarrow> None
            | Some bs \<Rightarrow>
                (case get_u64 bs of
                   None \<Rightarrow> None
                 | Some sz \<Rightarrow>
                     ObjectInfoMessage_loop (drop (index + 8) body)
                       (content @ [\<lparr>obj_Path = name, obj_Size = sz, obj_LastMod = zeroTime\<rparr>])))
      else Some content)"
  by pat_completeness auto
termination
  by (relation "measure (\<lambda>(body, content). length body)") auto

declare ObjectInfoMessage_loop.simps [simp del]

definition ObjectInfoMessage_Decode :: "byte list \<Rightarrow> ObjectInfo list option" where
  "ObjectInfoMessage_Decode body = do {
     body \<leftarrow> slice_from body 4;
     ObjectInfoMessage_loop body [] }"

text \<open>What survives the wire of an object description: the modification time does not.\<close>

definition wire_object :: "ObjectInfo \<Rightarrow> ObjectInfo" where
  "wire_object o1 = \<lparr>obj_Path = obj_Path o1, obj_Size = obj_Size o1, obj_LastMod = zeroTime\<rparr>"

lemma ObjectInfo_GetString_loop_NUL:
  "0 \<notin> set xs \<Longrightarrow>
   ObjectInfo_GetString_loop (xs @ 0 # rest) i buff = (buff @ xs, i + length xs + 1)"
  by (induction xs arbitrary: i buff) auto

lemma ObjectInfo_GetString_NUL:
  "nul_free s \<Longrightarrow> ObjectInfo_GetString (bytes_of s @ 0 # rest) = (s, length s + 1)"
  by (simp add: ObjectInfo_GetString_def ObjectInfo_GetString_loop_NUL zero_notin_bytes_of)

lemma ObjectInfoMessage_loop_encoded:
  assumes "list_all (\<lambda>x. nul_free (obj_Path x)) objs"
  shows "ObjectInfoMessage_loop (concat (map (\<lambda>x. bytes_of (obj_Path x) @ [0] @ put_u64 (obj_Size x)) objs))
     acc = Some (acc @ map wire_object objs)"
  using assms
proof (induction objs arbitrary: acc)
  case Nil
  then show ?case by (simp add: ObjectInfoMessage_loop.simps)
next
  case (Cons x objs)
  let ?tl = "concat (map (\<lambda>x. bytes_of (obj_Path x) @ [0] @ put_u64 (obj_Size x)) objs)"
  have nf: "nul_free (obj_Path x)" using Cons.prems by simp
  have "go_slice (bytes_of (obj_Path x) @ 0 # put_u64 (obj_Size x) @ ?tl) (length (obj_Path x) + 1)
      (length (obj_Path x) + 1 + 8) = Some (put_u64 (obj_Size x))"
    by (simp add: go_slice_def)
  then show ?case
    using Cons.IH [of "acc @ [wire_object x]"] Cons.prems
    by (subst ObjectInfoMessage_loop.simps)
      (simp add: ObjectInfo_GetString_NUL [OF nf] wire_object_def [symmetric])
qed

lemma ObjectInfoMessage_decoded:
  assumes "list_all (\<lambda>x. nul_free (obj_Path x)) objs"
  shows "ObjectInfoMessage_Decode (drop 8 (ObjectInfoMessage_Encode objs)) = Some (map wire_object objs)"
  using ObjectInfoMessage_loop_encoded [OF assms, of "[]"]
  by (simp add: ObjectInfoMessage_Decode_def ObjectInfoMessage_Encode_def slice_from_def)

lemma length_ObjectInfoMessage_Encode:
  "length (ObjectInfoMessage_Encode objs) = 12 + (\<Sum>x\<leftarrow>objs. length (obj_Path x) + 9)"
  by (simp add: ObjectInfoMessage_Encode_def length_concat comp_def algebra_simps)

end
