(* ===== verification/Client.thy ===== *)
theory Client
  imports CopyMessages Replies "HOL-Library.AList"
begin

text \<open>
  The server's side of a client connection (\<open>pkg/client/client.go\<close>) and the pool of connected
  clients (\<open>pkg/clientpool/clientpool.go\<close>).

  A connection is its input (the chunks still to arrive, as in \<open>ProtoIO\<close>), the bytes written to it
  so far, and when writing to it starts to fail: \<open>conn_fails = Some (n, e)\<close> says that \<open>n\<close> more bytes
  are taken and every write beyond them fails with \<open>e\<close>.
\<close>

section \<open>YClient\<close>

record YClient =
  conn_in :: "byte list list"
  conn_out :: "byte list"
  conn_fails :: "(nat \<times> error) option"
  conn_closed :: bool
  cl_op :: byte
  cl_opstart :: int
  cl_path :: string
  cl_progress :: int

definition NewYClient :: "byte list list \<Rightarrow> (nat \<times> error) option \<Rightarrow> YClient" where
  "NewYClient cin fails =
     \<lparr>conn_in = cin, conn_out = [], conn_fails = fails, conn_closed = False, cl_op = 0, cl_opstart = 0,
      cl_path = [], cl_progress = 0\<rparr>"

lemma NewYClient_simps [simp]:
  "conn_in (NewYClient c f) = c" "conn_out (NewYClient c f) = []" "conn_fails (NewYClient c f) = f"
  "\<not> conn_closed (NewYClient c f)"
  by (simp_all add: NewYClient_def)

text \<open>\<open>net.Conn\<close>: \<open>Write\<close> and \<open>Close\<close>\<close>

definition ErrNetClosed :: error where "ErrNetClosed = Errorf ''use of closed network connection''"

definition conn_Write :: "byte list \<Rightarrow> YClient \<Rightarrow> (nat \<times> error option) \<times> YClient" where
  "conn_Write p y =
     (if conn_closed y then ((0, Some ErrNetClosed), y)
      else case conn_fails y of
          None \<Rightarrow> ((length p, None), y\<lparr>conn_out := conn_out y @ p\<rparr>)
        | Some (n, e) \<Rightarrow>
            (if length p \<le> n
             then ((length p, None), y\<lparr>conn_out := conn_out y @ p, conn_fails := Some (n - length p, e)\<rparr>)
             else ((n, Some e), y\<lparr>conn_out := conn_out y @ take n p, conn_fails := Some (0, e)\<rparr>)))"

definition YClient_Close :: "YClient \<Rightarrow> error option \<times> YClient" where
  "YClient_Close y =
     (if conn_closed y then (Some ErrNetClosed, y) else (None, y\<lparr>conn_closed := True\<rparr>))"

text \<open>The accessors; \<open>SetOPType\<close> also notes the time.\<close>

definition ByteOffset :: "YClient \<Rightarrow> int" where "ByteOffset y = cl_progress y"
definition SetByteOffset :: "int \<Rightarrow> YClient \<Rightarrow> YClient" where "SetByteOffset n y = y\<lparr>cl_progress := n\<rparr>"
definition ExternalFilePath :: "YClient \<Rightarrow> string" where "ExternalFilePath y = cl_path y"
definition SetExternalFilePath :: "string \<Rightarrow> YClient \<Rightarrow> YClient" where
  "SetExternalFilePath p y = y\<lparr>cl_path := p\<rparr>"
definition OPType :: "YClient \<Rightarrow> byte" where "OPType y = cl_op y"
definition OPStart :: "YClient \<Rightarrow> int" where "OPStart y = cl_opstart y"
definition SetOPType :: "int \<Rightarrow> byte \<Rightarrow> YClient \<Rightarrow> YClient" where
  "SetOPType now optype y = y\<lparr>cl_op := optype, cl_opstart := now\<rparr>"

text \<open>
  The id of a client is its address. \<open>GetPointer\<close> converts the pointer to an unsigned integer, by way
  of \<open>uintptr\<close>; both have 64 bits, so different clients have different ids.
\<close>

datatype client_ptr = ClientPtr u64

primrec reflect_Pointer :: "client_ptr \<Rightarrow> u64" where "reflect_Pointer (ClientPtr a) = a"

definition GetPointer :: "client_ptr \<Rightarrow> u64" where
  "GetPointer value = (let ptr = reflect_Pointer value; uintPtr = (ucast ptr :: u64) in ucast uintPtr)"

definition YClient_ID :: "client_ptr \<Rightarrow> u64" where "YClient_ID y = GetPointer y"

lemma YClient_ID_inj: "inj YClient_ID"
proof (rule injI)
  fix x y assume "YClient_ID x = YClient_ID y"
  then show "x = y" by (cases x; cases y) (simp add: YClient_ID_def GetPointer_def)
qed

lemma YClient_ID_Ptr [simp]: "YClient_ID (ClientPtr a) = a"
  by (simp add: YClient_ID_def GetPointer_def)

text \<open>\<open>ReplyError\<close> ignores whether the reply could be written, and returns no error.\<close>

definition ReplyError :: "error \<Rightarrow> string \<Rightarrow> YClient \<Rightarrow> error option \<times> YClient" where
  "ReplyError err msg y = (None, snd (conn_Write (ErrorMessage_Encode (NewErrorMessage err msg)) y))"

lemmas client_simps = SetByteOffset_def SetExternalFilePath_def SetOPType_def

text \<open>What has been written stays, and a healthy connection takes every write.\<close>

lemma conn_Write_healthy:
  assumes "\<not> conn_closed y" and "conn_fails y = None"
  shows "conn_Write p y = ((length p, None), y\<lparr>conn_out := conn_out y @ p\<rparr>)"
  using assms by (simp add: conn_Write_def)

lemma conn_Write_prefix:
  assumes "conn_Write p y = ((n, e), y')"
  shows "n \<le> length p" and "conn_out y' = conn_out y @ take n p"
    and "e = None \<Longrightarrow> n = length p" and "conn_closed y' = conn_closed y" and "conn_in y' = conn_in y"
  using assms by (auto simp: conn_Write_def split: if_splits option.splits)

section \<open>The client pool\<close>

text \<open>
  Floating-point numbers (\<open>'f\<close>) and the digests of \<open>go-tdigest\<close> (\<open>'t\<close>) are parameters: dividing two
  counts, an empty digest, adding to it, and its quantiles.
\<close>

record ('f, 't) tdigest =
  float_div :: "int \<Rightarrow> int \<Rightarrow> 'f"
  td_New :: 't
  td_Add :: "'f \<Rightarrow> 't \<Rightarrow> 't"
  td_Quantile :: "'t \<Rightarrow> 'f \<Rightarrow> 'f"

record 't PoolImpl =
  pool_clients :: "(u64 \<times> YClient) list"
  opSpeed :: "(int \<times> (string \<times> 't) list) list"

definition NewClientPool :: "'t PoolImpl" where
  "NewClientPool = \<lparr>pool_clients = [], opSpeed = [(0, []), (1, []), (2, [])]\<rparr>"

definition SizeToCat :: "int \<Rightarrow> int" where
  "SizeToCat sz = (if sz < 1024 * 1024 then 0 else if sz < 16 * 1024 * 1024 then 1 else 2)"

definition pool_Put :: "u64 \<Rightarrow> YClient \<Rightarrow> 't PoolImpl \<Rightarrow> error option \<times> 't PoolImpl" where
  "pool_Put i cl c = (None, c\<lparr>pool_clients := AList.update i cl (pool_clients c)\<rparr>)"

text \<open>
  \<open>Pop\<close>: the speed of the operation is added to the digest of its size category and type (storing
  into a category that has no map panics), the client leaves the pool and is closed.
\<close>

definition pool_record ::
    "('f, 't) tdigest \<Rightarrow> int \<Rightarrow> YClient \<Rightarrow> 't PoolImpl \<Rightarrow> 't PoolImpl option" where
  "pool_record td now cl c =
     (let total = ByteOffset cl in
      if 0 < total then
        (let ct = SizeToCat total; timeTotal = now - OPStart cl; optyp = MessageType_String (OPType cl) in
         case map_of (opSpeed c) ct of
           None \<Rightarrow> None
         | Some m \<Rightarrow>
             (let d = (case map_of m optyp of None \<Rightarrow> td_New td | Some d \<Rightarrow> d) in
              Some (c\<lparr>opSpeed := AList.update ct
                       (AList.update optyp (td_Add td (float_div td total timeTotal) d) m) (opSpeed c)\<rparr>)))
      else Some c)"

definition pool_Pop ::
    "('f, 't) tdigest \<Rightarrow> int \<Rightarrow> u64 \<Rightarrow> 't PoolImpl \<Rightarrow> (bool \<times> error option \<times> YClient option \<times> 't PoolImpl) option" where
  "pool_Pop td now i c =
     (case map_of (pool_clients c) i of
        Some cl \<Rightarrow>
          map_option (\<lambda>c. (True, None, Some (snd (YClient_Close cl)),
                       c\<lparr>pool_clients := AList.delete i (pool_clients c)\<rparr>)) (pool_record td now cl c)
      | None \<Rightarrow> Some (False, Some (Errorf (''failed to find client '' @ dec_of_nat (unat i) @ '' connection'')),
                      None, c))"

record 'f QuantInfo =
  qi_Op :: string
  qi_Q :: "'f list"

definition pool_Quantile :: "('f, 't) tdigest \<Rightarrow> int \<Rightarrow> 'f list \<Rightarrow> 't PoolImpl \<Rightarrow> 'f QuantInfo list" where
  "pool_Quantile td ct q c =
     map (\<lambda>(k, v). \<lparr>qi_Op = k, qi_Q = map (td_Quantile td v) q\<rparr>)
       (case map_of (opSpeed c) ct of None \<Rightarrow> [] | Some m \<Rightarrow> m)"

text \<open>
  \<open>ClientPoolForeach\<close> runs the callback on every client in its own goroutine and returns the first
  error reported; \<open>order\<close> is the order in which the callbacks run. A callback may change its client.
\<close>

fun foreach_loop ::
    "(u64 \<Rightarrow> YClient \<Rightarrow> 'w \<Rightarrow> error option \<times> YClient \<times> 'w) \<Rightarrow> (u64 \<times> YClient) list \<Rightarrow> error option \<Rightarrow> 't PoolImpl \<Rightarrow>
     'w \<Rightarrow> error option \<times> 't PoolImpl \<times> 'w" where
  "foreach_loop cb [] err c w = (err, c, w)"
| "foreach_loop cb ((i, cl) # cls) err c w =
     (case cb i cl w of (e, cl, w) \<Rightarrow>
        foreach_loop cb cls (if err = None then e else err)
          (c\<lparr>pool_clients := AList.update i cl (pool_clients c)\<rparr>) w)"

definition ClientPoolForeach ::
    "((u64 \<times> YClient) list \<Rightarrow> (u64 \<times> YClient) list) \<Rightarrow> (u64 \<Rightarrow> YClient \<Rightarrow> 'w \<Rightarrow> error option \<times> YClient \<times> 'w) \<Rightarrow>
     't PoolImpl \<Rightarrow> 'w \<Rightarrow> error option \<times> 't PoolImpl \<times> 'w" where
  "ClientPoolForeach order cb c w = foreach_loop cb (order (pool_clients c)) None c w"

definition pool_Shutdown ::
    "((u64 \<times> YClient) list \<Rightarrow> (u64 \<times> YClient) list) \<Rightarrow> 't PoolImpl \<Rightarrow> error option \<times> 't PoolImpl" where
  "pool_Shutdown order c =
     (case ClientPoolForeach order (\<lambda>i cl w. case YClient_Close cl of (e, cl) \<Rightarrow> (e, cl, w)) c () of
        (e, c, w) \<Rightarrow> (e, c))"

section \<open>The pool keeps its categories\<close>

definition cats_inv :: "'t PoolImpl \<Rightarrow> bool" where
  "cats_inv c \<longleftrightarrow> (\<forall>ct \<in> {0, 1, 2}. map_of (opSpeed c) ct \<noteq> None)"

lemma cats_inv_new: "cats_inv NewClientPool"
  by (simp add: cats_inv_def NewClientPool_def)

lemma SizeToCat_range: "SizeToCat n \<in> {0, 1, 2}"
  by (simp add: SizeToCat_def)

lemma pool_record_ok:
  assumes "cats_inv c"
  shows "\<exists>c'. pool_record td now cl c = Some c' \<and> pool_clients c' = pool_clients c \<and> cats_inv c'"
proof (cases "0 < ByteOffset cl")
  case True
  obtain m where "map_of (opSpeed c) (SizeToCat (ByteOffset cl)) = Some m"
    using assms SizeToCat_range [of "ByteOffset cl"] unfolding cats_inv_def by blast
  with True assms show ?thesis by (simp add: pool_record_def Let_def cats_inv_def update_conv')
qed (use assms in \<open>simp add: pool_record_def\<close>)

text \<open>Popping never panics; it removes exactly the client asked for, and closes it.\<close>

lemma pool_Pop_found:
  assumes "cats_inv c" and "map_of (pool_clients c) i = Some cl"
  shows "\<exists>c'. pool_Pop td now i c = Some (True, None, Some (snd (YClient_Close cl)), c') \<and> cats_inv c' \<and>
    map_of (pool_clients c') = (map_of (pool_clients c))(i := None)"
proof -
  from pool_record_ok [OF assms(1)] obtain c' where
    "pool_record td now cl c = Some c'" "pool_clients c' = pool_clients c" "cats_inv c'" by blast
  with assms(2) show ?thesis by (simp add: pool_Pop_def cats_inv_def delete_conv')
qed

lemma pool_Pop_missing:
  assumes "map_of (pool_clients c) i = None"
  shows "\<exists>e. pool_Pop td now i c = Some (False, Some e, None, c)"
  using assms by (simp add: pool_Pop_def)

lemma pool_Put_lookup:
  assumes "pool_Put i cl c = (e, c')"
  shows "map_of (pool_clients c') = (map_of (pool_clients c))(i \<mapsto> cl)" and "opSpeed c' = opSpeed c"
  using assms by (auto simp: pool_Put_def update_conv')

end
