(* ===== verification/GoStrings.thy ===== *)
theory GoStrings
  imports YPrelude
begin

text \<open>
  The functions of Go's \<open>strings\<close> and \<open>path\<close> packages that yproxy uses on object names, with
  their laws: prefixes, substrings, splitting at slashes, \<open>path.Clean\<close>, \<open>path.Join\<close>,
  \<open>path.Dir\<close>.
\<close>

section \<open>strings\<close>

definition HasPrefix :: "string \<Rightarrow> string \<Rightarrow> bool" where
  "HasPrefix s p \<longleftrightarrow> take (length p) s = p"

definition HasSuffix :: "string \<Rightarrow> string \<Rightarrow> bool" where
  "HasSuffix s p \<longleftrightarrow> length p \<le> length s \<and> drop (length s - length p) s = p"

definition TrimPrefix :: "string \<Rightarrow> string \<Rightarrow> string" where
  "TrimPrefix s p = (if HasPrefix s p then drop (length p) s else s)"

definition CutPrefix :: "string \<Rightarrow> string \<Rightarrow> string \<times> bool" where
  "CutPrefix s p = (if HasPrefix s p then (drop (length p) s, True) else (s, False))"

fun Contains :: "string \<Rightarrow> string \<Rightarrow> bool" where
  "Contains [] sub \<longleftrightarrow> HasPrefix [] sub"
| "Contains (c # cs) sub \<longleftrightarrow> HasPrefix (c # cs) sub \<or> Contains cs sub"

text \<open>\<open>strings.TrimLeft(s, "/")\<close>\<close>

definition TrimLeftSlash :: "string \<Rightarrow> string" where
  "TrimLeftSlash s = dropWhile (\<lambda>c. c = CHR ''/'') s"

text \<open>\<open>strings.Split(s, "/")\<close>\<close>

fun SplitSlash :: "string \<Rightarrow> string list" where
  "SplitSlash [] = [[]]"
| "SplitSlash (c # cs) =
     (if c = CHR ''/'' then [] # SplitSlash cs
      else case SplitSlash cs of [] \<Rightarrow> [[c]] | p # ps \<Rightarrow> (c # p) # ps)"

lemma HasPrefix_iff: "HasPrefix s p \<longleftrightarrow> (\<exists>t. s = p @ t)"
  by (metis HasPrefix_def append_eq_conv_conj append_take_drop_id)

lemma HasPrefix_append [simp]: "HasPrefix (p @ t) p"
  by (simp add: HasPrefix_def)

lemma HasPrefix_Nil [simp]: "HasPrefix s []"
  by (simp add: HasPrefix_def)

lemma HasSuffix_iff: "HasSuffix s p \<longleftrightarrow> (\<exists>t. s = t @ p)"
  by (auto simp: HasSuffix_def) (metis append_take_drop_id)

lemma TrimPrefix_append [simp]: "TrimPrefix (p @ t) p = t"
  by (simp add: TrimPrefix_def)

lemma TrimPrefix_Nil [simp]: "TrimPrefix s [] = s"
  by (simp add: TrimPrefix_def)

lemma CutPrefix_append [simp]: "CutPrefix (p @ t) p = (t, True)"
  by (simp add: CutPrefix_def)

lemma Contains_iff: "Contains s sub \<longleftrightarrow> (\<exists>u v. s = u @ sub @ v)"
proof (induction s)
  case Nil
  then show ?case by (auto simp: HasPrefix_iff)
next
  case (Cons c cs)
  show ?case
  proof
    assume "Contains (c # cs) sub"
    then show "\<exists>u v. c # cs = u @ sub @ v"
      using Cons.IH by (auto simp: HasPrefix_iff intro: exI [of _ "[]"]) (metis append_Cons)
  next
    assume "\<exists>u v. c # cs = u @ sub @ v"
    then obtain u v where "c # cs = u @ sub @ v" by blast
    with Cons.IH show "Contains (c # cs) sub"
      unfolding Contains.simps HasPrefix_iff by (cases u) auto
  qed
qed

lemma SplitSlash_nonempty [simp]: "SplitSlash s \<noteq> []"
  by (induction s) (auto split: list.splits)

text \<open>A path component holds no slash.\<close>

definition slash_free :: "string \<Rightarrow> bool" where
  "slash_free s \<longleftrightarrow> CHR ''/'' \<notin> set s"

lemma SplitSlash_slash_free [simp]: "slash_free s \<Longrightarrow> SplitSlash s = [s]"
  by (induction s) (auto simp: slash_free_def)

lemma SplitSlash_append:
  "slash_free c \<Longrightarrow> SplitSlash (c @ CHR ''/'' # s) = c # SplitSlash s"
  by (induction c) (auto simp: slash_free_def)

lemma SplitSlash_parts: "p \<in> set (SplitSlash s) \<Longrightarrow> slash_free p"
  by (induction s arbitrary: p) (auto simp: slash_free_def split: if_splits list.splits)

lemma last_SplitSlash_append: "last (SplitSlash (d @ CHR ''/'' # s)) = last (SplitSlash s)"
proof (induction d)
  case Nil
  then show ?case by simp
next
  case (Cons c d)
  have "SplitSlash (d @ CHR ''/'' # s) \<noteq> []" by simp
  moreover have "tl (SplitSlash (d @ CHR ''/'' # s)) \<noteq> []"
    by (induction d) (auto split: list.splits)
  ultimately obtain p q ps where sp: "SplitSlash (d @ CHR ''/'' # s) = p # q # ps"
    by (metis list.exhaust_sel)
  with Cons.IH show ?case by simp
qed

text \<open>\<open>path.Base\<close> as the code computes it: the last element of \<open>strings.Split(p, "/")\<close>.\<close>

definition base_name :: "string \<Rightarrow> string" where
  "base_name p = last (SplitSlash p)"

lemma base_name_slash_free [simp]: "slash_free (base_name p)"
  using SplitSlash_parts [of "last (SplitSlash p)" p] by (simp add: base_name_def)

lemma base_name_append [simp]: "slash_free b \<Longrightarrow> base_name (d @ CHR ''/'' # b) = b"
  by (simp add: base_name_def last_SplitSlash_append)

lemma base_name_plain [simp]: "slash_free b \<Longrightarrow> base_name b = b"
  by (simp add: base_name_def)

section \<open>path\<close>

fun JoinSlash :: "string list \<Rightarrow> string" where
  "JoinSlash [] = []"
| "JoinSlash [p] = p"
| "JoinSlash (p # q # ps) = p @ CHR ''/'' # JoinSlash (q # ps)"

text \<open>
  \<open>path.Clean\<close>, by its documented rules: empty and \<open>.\<close> elements are dropped, an inner \<open>..\<close>
  removes the element before it, a \<open>..\<close> at the start of a rooted path is dropped, and the empty
  result is \<open>.\<close>. The stack holds the elements kept so far, innermost first.
\<close>

fun clean_step :: "bool \<Rightarrow> string list \<Rightarrow> string \<Rightarrow> string list" where
  "clean_step rooted st p =
     (if p = [] \<or> p = ''.'' then st
      else if p = ''..'' then
        (case st of
           [] \<Rightarrow> (if rooted then [] else [p])
         | q # st' \<Rightarrow> (if q = ''..'' then p # st else st'))
      else p # st)"

definition Clean :: "string \<Rightarrow> string" where
  "Clean s =
     (let rooted = HasPrefix s ''/'';
          ps = rev (foldl (clean_step rooted) [] (SplitSlash s))
      in if rooted then CHR ''/'' # JoinSlash ps else if ps = [] then ''.'' else JoinSlash ps)"

text \<open>\<open>path.Join\<close> drops empty elements, joins the rest with slashes and cleans the result.\<close>

definition Join :: "string list \<Rightarrow> string" where
  "Join elems =
     (let es = filter (\<lambda>e. e \<noteq> []) elems in if es = [] then [] else Clean (JoinSlash es))"

text \<open>\<open>path.Dir\<close>: the cleaned part before the last slash\<close>

definition Dir :: "string \<Rightarrow> string" where
  "Dir s = (let ps = butlast (SplitSlash s) in
            if ps = [] then ''.'' else Clean (JoinSlash ps @ ''/''))"

text \<open>An ordinary component: not empty, no slash, not a dot entry.\<close>

definition plain :: "string \<Rightarrow> bool" where
  "plain p \<longleftrightarrow> p \<noteq> [] \<and> p \<noteq> ''.'' \<and> p \<noteq> ''..'' \<and> slash_free p"

lemma plain_code [code]:
  "plain p \<longleftrightarrow> p \<noteq> [] \<and> p \<noteq> ''.'' \<and> p \<noteq> ''..'' \<and> list_all (\<lambda>c. c \<noteq> CHR ''/'') p"
  by (auto simp: plain_def slash_free_def list_all_iff)

lemma foldl_clean_plain:
  "list_all plain ps \<Longrightarrow> foldl (clean_step r) st ps = rev ps @ st"
  by (induction ps arbitrary: st) (auto simp: plain_def)

lemma SplitSlash_JoinSlash:
  "ps \<noteq> [] \<Longrightarrow> list_all slash_free ps \<Longrightarrow> SplitSlash (JoinSlash ps) = ps"
  by (induction ps rule: JoinSlash.induct) (auto simp: SplitSlash_append)

lemma plain_slash_free: "list_all plain ps \<Longrightarrow> list_all slash_free ps"
  by (auto simp: list_all_iff plain_def)

lemma JoinSlash_plain_rooted:
  assumes "list_all plain ps"
  shows "\<not> HasPrefix (JoinSlash ps) ''/''"
proof (cases ps rule: JoinSlash.cases)
  case (2 p)
  with assms show ?thesis by (cases p) (auto simp: HasPrefix_iff plain_def slash_free_def)
next
  case (3 p q qs)
  with assms show ?thesis by (cases p) (auto simp: HasPrefix_iff plain_def slash_free_def)
qed (simp add: HasPrefix_iff)

text \<open>A relative path of ordinary components is already clean.\<close>

lemma Clean_plain:
  assumes "ps \<noteq> []" and "list_all plain ps"
  shows "Clean (JoinSlash ps) = JoinSlash ps"
proof -
  have "SplitSlash (JoinSlash ps) = ps"
    using assms plain_slash_free by (intro SplitSlash_JoinSlash)
  with JoinSlash_plain_rooted [OF assms(2)] assms show ?thesis
    by (simp add: Clean_def foldl_clean_plain)
qed

lemma Join_plain:
  assumes "ps \<noteq> []" and "list_all plain ps"
  shows "Join ps = JoinSlash ps"
proof -
  have "filter (\<lambda>e. e \<noteq> []) ps = ps"
    using assms(2) by (auto simp: list_all_iff plain_def filter_id_conv)
  with assms Clean_plain [OF assms] show ?thesis by (simp add: Join_def)
qed

lemma base_name_JoinSlash:
  assumes "ps \<noteq> []" and "list_all slash_free ps"
  shows "base_name (JoinSlash ps) = last ps"
  using SplitSlash_JoinSlash [OF assms] by (simp add: base_name_def)

text \<open>A rooted path of ordinary components is clean too.\<close>

lemma Clean_rooted_plain:
  assumes "list_all plain ps"
  shows "Clean (CHR ''/'' # JoinSlash ps) = CHR ''/'' # JoinSlash ps"
proof (cases "ps = []")
  case True
  then show ?thesis by (simp add: Clean_def HasPrefix_def)
next
  case False
  have "SplitSlash (CHR ''/'' # JoinSlash ps) = [] # ps"
    using SplitSlash_JoinSlash [OF False plain_slash_free [OF assms]] by simp
  then show ?thesis using assms
    by (simp add: Clean_def HasPrefix_def foldl_clean_plain)
qed

lemma JoinSlash_append:
  "xs \<noteq> [] \<Longrightarrow> ys \<noteq> [] \<Longrightarrow> JoinSlash (xs @ ys) = JoinSlash xs @ CHR ''/'' # JoinSlash ys"
proof (induction xs rule: JoinSlash.induct)
  case (2 p)
  then show ?case by (cases ys) auto
qed auto

lemma plain_dec_of_nat:
  assumes "p = pre @ dec_of_nat n" and "slash_free pre" and "pre \<noteq> []" and "hd pre \<noteq> CHR ''.''"
  shows "plain p"
proof -
  have "CHR ''/'' \<notin> set (dec_of_nat n)"
  proof
    assume "CHR ''/'' \<in> set (dec_of_nat n)"
    then obtain m :: nat where m: "m < 10" "CHR ''/'' = char_of (48 + m)"
      using dec_of_nat_digits by blast
    then have "of_char (CHR ''/'') = (48 + m :: nat)" by (metis of_char_char_of_digit)
    then show False by simp
  qed
  with assms show ?thesis
    by (cases pre) (auto simp: plain_def slash_free_def)
qed

section \<open>Cleaning is idempotent\<close>

text \<open>
  What the stack of \<open>path.Clean\<close> looks like: ordinary components above a run of \<open>..\<close>, which
  is empty in a rooted path.
\<close>

definition clean_stack :: "bool \<Rightarrow> string list \<Rightarrow> bool" where
  "clean_stack rooted st \<longleftrightarrow>
     (\<exists>ps k. st = ps @ replicate k ''..'' \<and> list_all plain ps \<and> (rooted \<longrightarrow> k = 0))"

lemma clean_stack_step:
  assumes "clean_stack r st" and "slash_free p"
  shows "clean_stack r (clean_step r st p)"
proof -
  obtain ps k where st: "st = ps @ replicate k ''..''" "list_all plain ps" "r \<longrightarrow> k = 0"
    using assms(1) by (auto simp: clean_stack_def)
  consider "p = [] \<or> p = ''.''" | "p = ''..''" | "plain p"
    using assms(2) by (auto simp: plain_def)
  then show ?thesis
  proof cases
    case 1
    with assms(1) show ?thesis by auto
  next
    case 2
    show ?thesis
    proof (cases ps)
      case (Cons q qs)
      with st 2 show ?thesis by (auto simp: clean_stack_def plain_def)
    next
      case Nil
      have "clean_step r st p = (if r then [] else replicate (Suc k) ''..'')"
        using Nil st 2 by (cases k) auto
      then show ?thesis
        unfolding clean_stack_def by (cases r) (auto intro!: exI [of _ "[]"] exI [of _ "Suc k"])
    qed
  next
    case 3
    with st show ?thesis
      by (auto simp: clean_stack_def plain_def intro!: exI [of _ "p # ps"] exI [of _ k])
  qed
qed

lemma clean_stack_foldl:
  "clean_stack r st \<Longrightarrow> list_all slash_free ps \<Longrightarrow> clean_stack r (foldl (clean_step r) st ps)"
  by (induction ps arbitrary: st) (auto simp del: clean_step.simps intro: clean_stack_step)

lemma foldl_clean_dots:
  "foldl (clean_step False) (replicate j ''..'') (replicate k ''..'') = replicate (j + k) ''..''"
proof (induction k arbitrary: j)
  case (Suc k)
  have "clean_step False (replicate j ''..'') ''..'' = replicate (Suc j) ''..''"
    by (cases j) auto
  with Suc [of "Suc j"] show ?case by (simp del: clean_step.simps)
qed simp

lemma foldl_clean_stack:
  assumes "clean_stack r st"
  shows "foldl (clean_step r) [] (rev st) = st"
proof -
  obtain ps k where st: "st = ps @ replicate k ''..''" "list_all plain ps" "r \<longrightarrow> k = 0"
    using assms by (auto simp: clean_stack_def)
  have "foldl (clean_step r) [] (replicate k ''..'') = replicate k ''..''"
    using st(3) foldl_clean_dots [of 0 k] by (cases r) auto
  with st show ?thesis
    using foldl_clean_plain [of "rev ps" r "replicate k ''..''"]
    by (simp del: clean_step.simps add: list_all_rev)
qed

lemma clean_stack_parts:
  assumes "clean_stack r st" and "p \<in> set st"
  shows "slash_free p \<and> p \<noteq> []"
proof -
  obtain ps k where "st = ps @ replicate k ''..''" "list_all plain ps"
    using assms(1) unfolding clean_stack_def by blast
  with assms(2) have "plain p \<or> p = ''..''" by (auto simp: list_all_iff)
  then show ?thesis by (auto simp: plain_def slash_free_def)
qed

lemma JoinSlash_not_rooted:
  assumes "ps = [] \<or> slash_free (hd ps) \<and> hd ps \<noteq> []"
  shows "\<not> HasPrefix (JoinSlash ps) ''/''"
proof (cases ps rule: JoinSlash.cases)
  case (2 p)
  with assms show ?thesis by (cases p) (auto simp: HasPrefix_def slash_free_def)
next
  case (3 p q qs)
  with assms show ?thesis by (cases p) (auto simp: HasPrefix_def slash_free_def)
qed (simp add: HasPrefix_def)

text \<open>The elements \<open>path.Clean\<close> keeps, outermost first.\<close>

definition clean_parts :: "string \<Rightarrow> string list" where
  "clean_parts s = rev (foldl (clean_step (HasPrefix s ''/'')) [] (SplitSlash s))"

lemma clean_stack_parts_of: "clean_stack (HasPrefix s ''/'') (rev (clean_parts s))"
proof -
  have "clean_stack r []" for r by (simp add: clean_stack_def)
  then show ?thesis
    unfolding clean_parts_def rev_rev_ident
    by (intro clean_stack_foldl) (auto simp: list_all_iff SplitSlash_parts)
qed

lemma Clean_parts:
  "Clean s = (if HasPrefix s ''/'' then CHR ''/'' # JoinSlash (clean_parts s)
              else if clean_parts s = [] then ''.'' else JoinSlash (clean_parts s))"
  by (simp add: Clean_def clean_parts_def Let_def)

lemma Clean_Clean [simp]: "Clean (Clean s) = Clean s"
proof -
  define ps where "ps = clean_parts s"
  have stk: "clean_stack (HasPrefix s ''/'') (rev ps)"
    unfolding ps_def by (rule clean_stack_parts_of)
  have parts: "\<forall>p \<in> set ps. slash_free p \<and> p \<noteq> []" using clean_stack_parts [OF stk] by simp
  have split: "SplitSlash (JoinSlash ps) = ps" if "ps \<noteq> []"
    using that parts by (intro SplitSlash_JoinSlash) (auto simp: list_all_iff)
  have fold: "foldl (clean_step (HasPrefix s ''/'')) [] ps = rev ps"
    using foldl_clean_stack [OF stk] by simp
  show ?thesis
  proof (cases "HasPrefix s ''/''")
    case True
    have "clean_parts (CHR ''/'' # JoinSlash ps) = ps"
    proof (cases "ps = []")
      case True
      then show ?thesis by (simp add: clean_parts_def HasPrefix_def)
    next
      case False
      with split fold True show ?thesis by (simp add: clean_parts_def HasPrefix_def)
    qed
    with True show ?thesis by (simp add: Clean_parts [of s] Clean_parts [of "CHR ''/'' # t" for t]
          ps_def [symmetric] HasPrefix_def)
  next
    case False
    show ?thesis
    proof (cases "ps = []")
      case True
      with False show ?thesis by (simp add: Clean_parts [of s] ps_def [symmetric]) (simp add: Clean_def HasPrefix_def)
    next
      case ne: False
      have nr: "\<not> HasPrefix (JoinSlash ps) ''/''"
        using parts ne by (intro JoinSlash_not_rooted) auto
      have "clean_parts (JoinSlash ps) = ps"
        using split [OF ne] fold False nr by (simp add: clean_parts_def)
      with False ne nr show ?thesis
        by (simp add: Clean_parts [of s] Clean_parts [of "JoinSlash ps"] ps_def [symmetric])
    qed
  qed
qed

lemma Clean_not_Nil [simp]: "Clean s \<noteq> []"
proof -
  have "JoinSlash ps \<noteq> []" if "ps \<noteq> []" "\<forall>p \<in> set ps. p \<noteq> []" for ps
    using that by (cases ps rule: JoinSlash.cases) auto
  with clean_stack_parts [OF clean_stack_parts_of [of s]] show ?thesis
    by (auto simp: Clean_parts)
qed

lemma Clean_Join: "Join es \<noteq> [] \<Longrightarrow> Clean (Join es) = Join es"
  by (auto simp: Join_def Let_def split: if_splits)

lemma Join_eq_Nil_iff: "Join es = [] \<longleftrightarrow> (\<forall>e \<in> set es. e = [])"
  by (auto simp: Join_def Let_def filter_empty_conv)

end
