(* ===== verification/Config.thy ===== *)
theory Config
  imports GoStrings
begin

text \<open>
  The configuration, \<open>config/*.go\<close>: the records, the option functions and builders with their
  defaults, and the loading and reloading of the global configuration. Decoding a file's text
  (\<open>toml\<close>, \<open>yaml\<close>, \<open>json\<close> packages) is a parameter: a function from the text and the
  configuration being filled to an optional error and the filled configuration.

  A Go map is an association list without duplicate keys, in the (arbitrary) order an iteration
  visits it; \<open>None\<close> is the \<open>nil\<close> map.
\<close>

section \<open>storage.go\<close>

record Crypto =
  GPGKeyId :: string
  GPGKeyPath :: string

record StorageCredentials =
  AccessKeyId :: string
  SecretAccessKey :: string

record Storage =
  StorageEndpoint :: string
  st_AccessKeyId :: string
  st_SecretAccessKey :: string
  StoragePrefix :: string
  StorageBucket :: string
  CredentialMap :: "(string \<times> StorageCredentials) list option"
  TablespaceMap :: "(string \<times> string) list option"
  StorageConcurrency :: int
  CopyStorageConcurrency :: int
  EnableRateLimiter :: bool
  StorageRateLimit :: u64
  StorageRegion :: string
  StorageOptimizeCopy :: bool
  StorageType :: string
  EndpointSourceHost :: string
  EndpointSourcePort :: string
  EndpointSourceScheme :: string

definition Storage_zero :: Storage where
  "Storage_zero = \<lparr>StorageEndpoint = [], st_AccessKeyId = [], st_SecretAccessKey = [],
     StoragePrefix = [], StorageBucket = [], CredentialMap = None, TablespaceMap = None,
     StorageConcurrency = 0, CopyStorageConcurrency = 0, EnableRateLimiter = False,
     StorageRateLimit = 0, StorageRegion = [], StorageOptimizeCopy = False, StorageType = [],
     EndpointSourceHost = [], EndpointSourcePort = [], EndpointSourceScheme = []\<rparr>"

definition DefaultStorageType :: string where "DefaultStorageType = ''s3''"
definition DefaultStorageConcurrency :: int where "DefaultStorageConcurrency = 100"
definition DefaultCopyStorageConcurrency :: int where "DefaultCopyStorageConcurrency = 200"
definition DefaultEndpointSourceScheme :: string where "DefaultEndpointSourceScheme = ''https''"
definition DefaultStorageRateLimit :: u64 where "DefaultStorageRateLimit = 1024 * 1024 * 1024"

lemmas storage_defaults = DefaultStorageType_def DefaultStorageConcurrency_def
  DefaultCopyStorageConcurrency_def DefaultEndpointSourceScheme_def DefaultStorageRateLimit_def

type_synonym StorageOption = "Storage \<Rightarrow> Storage"

definition WithStorageType :: "string \<Rightarrow> StorageOption" where
  "WithStorageType storageType = (\<lambda>s. s\<lparr>StorageType := storageType\<rparr>)"

definition WithStorageConcurrency :: "int \<Rightarrow> StorageOption" where
  "WithStorageConcurrency n = (\<lambda>s. s\<lparr>StorageConcurrency := n\<rparr>)"

definition WithCopyStorageConcurrency :: "int \<Rightarrow> StorageOption" where
  "WithCopyStorageConcurrency n = (\<lambda>s. s\<lparr>CopyStorageConcurrency := n\<rparr>)"

definition WithStorageRateLimit :: "u64 \<Rightarrow> StorageOption" where
  "WithStorageRateLimit n = (\<lambda>s. s\<lparr>StorageRateLimit := n\<rparr>)"

definition WithEndpointSourceScheme :: "string \<Rightarrow> StorageOption" where
  "WithEndpointSourceScheme sch = (\<lambda>s. s\<lparr>EndpointSourceScheme := sch\<rparr>)"

definition ApplyStorageOptions :: "Storage \<Rightarrow> StorageOption list \<Rightarrow> Storage" where
  "ApplyStorageOptions s opts = foldl (\<lambda>s opt. opt s) s opts"

definition BuildStorage :: "StorageOption list \<Rightarrow> Storage" where
  "BuildStorage opts =
     ApplyStorageOptions
       (ApplyStorageOptions Storage_zero
         [WithStorageType DefaultStorageType,
          WithStorageConcurrency DefaultStorageConcurrency,
          WithCopyStorageConcurrency DefaultCopyStorageConcurrency,
          WithStorageRateLimit DefaultStorageRateLimit,
          WithEndpointSourceScheme DefaultEndpointSourceScheme])
       opts"

definition BuildBackupStorage :: "StorageOption list \<Rightarrow> Storage" where
  "BuildBackupStorage opts =
     ApplyStorageOptions
       (ApplyStorageOptions Storage_zero
         [WithStorageType DefaultStorageType,
          WithStorageConcurrency DefaultStorageConcurrency])
       opts"

section \<open>vacuum.go and proxy.go\<close>

text \<open>Durations are in nanoseconds.\<close>

definition Second :: int where "Second = 1000000000"
definition Hour :: int where "Hour = 3600 * Second"

record Vacuum =
  CheckBackup :: bool
  FileChunkPerSec :: int
  TrashRetentionDays :: int
  TrashMoveWorkers :: int
  TrashDeleteWorkers :: int
  ProtectionWindow :: int

definition Vacuum_zero :: Vacuum where
  "Vacuum_zero = \<lparr>CheckBackup = False, FileChunkPerSec = 0, TrashRetentionDays = 0,
     TrashMoveWorkers = 0, TrashDeleteWorkers = 0, ProtectionWindow = 0\<rparr>"

definition DefaultCheckBackup :: bool where "DefaultCheckBackup = True"
definition DefaultFileChunkPerSec :: int where "DefaultFileChunkPerSec = 1000"
definition DefaultTrashRetentionDays :: int where "DefaultTrashRetentionDays = 7"
definition DefaultTrashMoveWorkers :: int where "DefaultTrashMoveWorkers = 1"
definition DefaultTrashDeleteWorkers :: int where "DefaultTrashDeleteWorkers = 1"
definition DefaultProtectionWindow :: int where "DefaultProtectionWindow = 24 * Hour"

lemmas vacuum_defaults = DefaultCheckBackup_def DefaultFileChunkPerSec_def
  DefaultTrashRetentionDays_def DefaultTrashMoveWorkers_def DefaultTrashDeleteWorkers_def
  DefaultProtectionWindow_def

type_synonym VacuumOption = "Vacuum \<Rightarrow> Vacuum"

definition WithCheckBackup :: "bool \<Rightarrow> VacuumOption" where
  "WithCheckBackup b = (\<lambda>v. v\<lparr>CheckBackup := b\<rparr>)"

definition WithFileChunkPerSec :: "int \<Rightarrow> VacuumOption" where
  "WithFileChunkPerSec n = (\<lambda>v. v\<lparr>FileChunkPerSec := n\<rparr>)"

definition WithTrashRetentionDays :: "int \<Rightarrow> VacuumOption" where
  "WithTrashRetentionDays n = (\<lambda>v. v\<lparr>TrashRetentionDays := n\<rparr>)"

definition WithTrashMoveWorkers :: "int \<Rightarrow> VacuumOption" where
  "WithTrashMoveWorkers n = (\<lambda>v. v\<lparr>TrashMoveWorkers := n\<rparr>)"

definition WithTrashDeleteWorkers :: "int \<Rightarrow> VacuumOption" where
  "WithTrashDeleteWorkers n = (\<lambda>v. v\<lparr>TrashDeleteWorkers := n\<rparr>)"

definition WithProtectionWindow :: "int \<Rightarrow> VacuumOption" where
  "WithProtectionWindow d = (\<lambda>v. v\<lparr>ProtectionWindow := d\<rparr>)"

definition ApplyVacuumOptions :: "Vacuum \<Rightarrow> VacuumOption list \<Rightarrow> Vacuum" where
  "ApplyVacuumOptions v opts = foldl (\<lambda>v opt. opt v) v opts"

definition BuildVacuum :: "VacuumOption list \<Rightarrow> Vacuum" where
  "BuildVacuum opts =
     ApplyVacuumOptions
       (ApplyVacuumOptions Vacuum_zero
         [WithCheckBackup DefaultCheckBackup,
          WithFileChunkPerSec DefaultFileChunkPerSec,
          WithTrashRetentionDays DefaultTrashRetentionDays,
          WithTrashMoveWorkers DefaultTrashMoveWorkers,
          WithTrashDeleteWorkers DefaultTrashDeleteWorkers,
          WithProtectionWindow DefaultProtectionWindow])
       opts"

record Proxy =
  ConsolePort :: string
  BucketCachePath :: string

section \<open>instance.go: the instance and its builder\<close>

record Instance =
  StorageCnf :: Storage
  BackupStorageCnf :: Storage
  ProxyCnf :: Proxy
  CryptoCnf :: Crypto
  VacuumCnf :: Vacuum
  LogPath :: string
  LogLevel :: string
  SocketPath :: string
  StatPort :: int
  PsqlPort :: int
  InterconnectSocketPath :: string
  DebugPort :: int
  DebugMinutes :: int
  MetricsPort :: int
  YezzeyRestoreParanoid :: bool
  YezzeyCleanupParanoid :: bool
  SystemdNotificationsDebug :: bool
  systemdSocketPath :: string

definition Instance_zero :: Instance where
  "Instance_zero = \<lparr>StorageCnf = Storage_zero, BackupStorageCnf = Storage_zero,
     ProxyCnf = \<lparr>ConsolePort = [], BucketCachePath = []\<rparr>,
     CryptoCnf = \<lparr>GPGKeyId = [], GPGKeyPath = []\<rparr>, VacuumCnf = Vacuum_zero,
     LogPath = [], LogLevel = [], SocketPath = [], StatPort = 0, PsqlPort = 0,
     InterconnectSocketPath = [], DebugPort = 0, DebugMinutes = 0, MetricsPort = 0,
     YezzeyRestoreParanoid = False, YezzeyCleanupParanoid = False,
     SystemdNotificationsDebug = False, systemdSocketPath = []\<rparr>"

type_synonym InstanceOption = "Instance \<Rightarrow> Instance"

definition WithStorageCnf :: "Storage \<Rightarrow> InstanceOption" where
  "WithStorageCnf s = (\<lambda>i. i\<lparr>StorageCnf := s\<rparr>)"

definition WithCleanupOpts :: "bool \<Rightarrow> InstanceOption" where
  "WithCleanupOpts p = (\<lambda>i. i\<lparr>YezzeyCleanupParanoid := p\<rparr>)"

definition WithBackupStorageCnf :: "Storage \<Rightarrow> InstanceOption" where
  "WithBackupStorageCnf s = (\<lambda>i. i\<lparr>BackupStorageCnf := s\<rparr>)"

definition WithVacuumCnf :: "Vacuum \<Rightarrow> InstanceOption" where
  "WithVacuumCnf v = (\<lambda>i. i\<lparr>VacuumCnf := v\<rparr>)"

definition WithStatPort :: "int \<Rightarrow> InstanceOption" where
  "WithStatPort p = (\<lambda>i. i\<lparr>StatPort := p\<rparr>)"

definition WithPsqlPort :: "int \<Rightarrow> InstanceOption" where
  "WithPsqlPort p = (\<lambda>i. i\<lparr>PsqlPort := p\<rparr>)"

definition WithMetricsPort :: "int \<Rightarrow> InstanceOption" where
  "WithMetricsPort p = (\<lambda>i. i\<lparr>MetricsPort := p\<rparr>)"

definition DefaultStatPort :: int where "DefaultStatPort = 7432"
definition DefaultPsqlPort :: int where "DefaultPsqlPort = 8432"
definition DefaultMetricsPort :: int where "DefaultMetricsPort = 2112"
definition DefaultCleanupParanoid :: bool where "DefaultCleanupParanoid = True"

definition ApplyInstanceOptions :: "Instance \<Rightarrow> InstanceOption list \<Rightarrow> Instance" where
  "ApplyInstanceOptions i opts = foldl (\<lambda>i opt. opt i) i opts"

definition BuildInstance :: "InstanceOption list \<Rightarrow> Instance" where
  "BuildInstance opts =
     ApplyInstanceOptions
       (ApplyInstanceOptions Instance_zero
         [WithStorageCnf (BuildStorage []),
          WithBackupStorageCnf (BuildBackupStorage []),
          WithVacuumCnf (BuildVacuum []),
          WithStatPort DefaultStatPort,
          WithPsqlPort DefaultPsqlPort,
          WithMetricsPort DefaultMetricsPort,
          WithCleanupOpts DefaultCleanupParanoid])
       opts"

text \<open>Later options win: applying options is composition, so an explicit option overrides a default.\<close>

lemma ApplyInstanceOptions_append:
  "ApplyInstanceOptions i (xs @ ys) = ApplyInstanceOptions (ApplyInstanceOptions i xs) ys"
  by (simp add: ApplyInstanceOptions_def)

lemmas config_option_defs = WithStorageCnf_def WithCleanupOpts_def WithBackupStorageCnf_def
  WithVacuumCnf_def WithStatPort_def WithPsqlPort_def WithMetricsPort_def
  WithStorageType_def WithStorageConcurrency_def WithCopyStorageConcurrency_def
  WithStorageRateLimit_def WithEndpointSourceScheme_def
  WithCheckBackup_def WithFileChunkPerSec_def WithTrashRetentionDays_def
  WithTrashMoveWorkers_def WithTrashDeleteWorkers_def WithProtectionWindow_def

section \<open>instance.go: loading\<close>

text \<open>
  \<open>decoders\<close> stands for the third-party decoders, chosen by the file's suffix: each takes the
  text and the configuration to fill. A decoder that fails may have filled part of it.
\<close>

record decoders =
  toml_Decode :: "string \<Rightarrow> Instance \<Rightarrow> error option \<times> Instance"
  yaml_Decode :: "string \<Rightarrow> Instance \<Rightarrow> error option \<times> Instance"
  json_Decode :: "string \<Rightarrow> Instance \<Rightarrow> error option \<times> Instance"

definition initInstanceConfig ::
    "decoders \<Rightarrow> string \<Rightarrow> string \<Rightarrow> Instance \<Rightarrow> error option \<times> Instance" where
  "initInstanceConfig d name content cfg =
     (let cfg = BuildInstance [] in
      if HasSuffix name ''.toml'' then toml_Decode d content cfg
      else if HasSuffix name ''.yaml'' then yaml_Decode d content cfg
      else if HasSuffix name ''.json'' then json_Decode d content cfg
      else (Some (Errorf (''unknown config format type: '' @ name @
              ''. Use .toml, .yaml or .json suffix in filename'')), cfg))"

text \<open>The files of the host, by path; \<open>None\<close> when \<open>os.Open\<close> fails.\<close>

definition ReadInstanceConfig ::
    "decoders \<Rightarrow> (string \<Rightarrow> string option) \<Rightarrow> string \<Rightarrow> Instance \<times> error option" where
  "ReadInstanceConfig d files cfgPath =
     (let cfg = Instance_zero in
      case files cfgPath of
        None \<Rightarrow> (cfg, Some (Errorf (''open '' @ cfgPath @ '': no such file or directory'')))
      | Some content \<Rightarrow>
          (case initInstanceConfig d cfgPath content cfg of
             (Some err, cfg) \<Rightarrow> (cfg, Some err)
           | (None, cfg) \<Rightarrow> (cfg, None)))"

text \<open>The package variables \<open>cfgInstance\<close> and \<open>bootstrapCfgPath\<close>.\<close>

record config_vars =
  cfgInstance :: Instance
  bootstrapCfgPath :: string

text \<open>\<open>ReadSystemdSocketPath\<close>, with the value of \<open>NOTIFY_SOCKET\<close> (empty when it is unset)\<close>

definition ReadSystemdSocketPath :: "string \<Rightarrow> Instance \<Rightarrow> Instance" where
  "ReadSystemdSocketPath path i = (if path \<noteq> [] then i\<lparr>systemdSocketPath := path\<rparr> else i)"

definition LoadInstanceConfig ::
    "decoders \<Rightarrow> (string \<Rightarrow> string option) \<Rightarrow> string \<Rightarrow> string \<Rightarrow> config_vars \<Rightarrow>
     error option \<times> config_vars" where
  "LoadInstanceConfig d files notifySocket cfgPath g =
     (if bootstrapCfgPath g \<noteq> [] \<and> bootstrapCfgPath g \<noteq> cfgPath
      then (Some (Errorf ''bootstrap config path already set''), g)
      else
        (let g = g\<lparr>bootstrapCfgPath := cfgPath\<rparr>;
             (cfg, err) = ReadInstanceConfig d files cfgPath;
             g = g\<lparr>cfgInstance := cfg\<rparr>
         in case err of
              Some e \<Rightarrow> (Some e, g)
            | None \<Rightarrow> (None, g\<lparr>cfgInstance := ReadSystemdSocketPath notifySocket (cfgInstance g)\<rparr>)))"

definition ReloadInstanceConfig ::
    "decoders \<Rightarrow> (string \<Rightarrow> string option) \<Rightarrow> string \<Rightarrow> config_vars \<Rightarrow> error option \<times> config_vars" where
  "ReloadInstanceConfig d files notifySocket g =
     LoadInstanceConfig d files notifySocket (bootstrapCfgPath g) g"

text \<open>The bootstrap path, once set, never changes.\<close>

lemma LoadInstanceConfig_bootstrap:
  assumes "bootstrapCfgPath g \<noteq> []"
  shows "bootstrapCfgPath (snd (LoadInstanceConfig d files ns p g)) = bootstrapCfgPath g"
  using assms by (auto simp: LoadInstanceConfig_def Let_def split: prod.splits option.splits)

text \<open>Configurations are loaded over the defaults, and unknown suffixes are refused.\<close>

lemma ReadInstanceConfig_yaml:
  assumes "files p = Some content" and "HasSuffix p ''.yaml''"
    and "yaml_Decode d content (BuildInstance []) = (None, cfg)"
  shows "ReadInstanceConfig d files p = (cfg, None)"
proof -
  have "\<not> HasSuffix p ''.toml''"
    using assms(2) by (auto simp: HasSuffix_iff append_eq_append_conv2 Cons_eq_append_conv)
  with assms show ?thesis by (simp add: ReadInstanceConfig_def initInstanceConfig_def)
qed

end
