(* ===== verification/HostFS.thy ===== *)
theory HostFS
  imports GoStrings "HOL-Library.AList" "HOL-Library.List_Lexorder" "HOL-Library.Char_ord"
begin

text \<open>
  The operations of Go's \<open>os\<close> and \<open>path/filepath\<close> packages that the file storage uses, on a
  file system without symbolic links: an association list from cleaned paths to nodes. The
  directories \<open>/\<close> and \<open>.\<close> exist without an entry. Failures other than those of the names
  (permissions, full disks) are not modelled.
\<close>

datatype node = DirNode | FileNode (node_content: "byte list") (node_mtime: int)

type_synonym fs = "(string \<times> node) list"

definition is_root :: "string \<Rightarrow> bool" where
  "is_root p \<longleftrightarrow> p = ''/'' \<or> p = ''.''"

definition PathError :: "string \<Rightarrow> string \<Rightarrow> string \<Rightarrow> error" where
  "PathError op p msg = Errorf (op @ '' '' @ p @ '': '' @ msg)"

definition ENOENT :: string where "ENOENT = ''no such file or directory''"
definition EISDIR :: string where "EISDIR = ''is a directory''"
definition ENOTDIR :: string where "ENOTDIR = ''not a directory''"
definition ENOTEMPTY :: string where "ENOTEMPTY = ''directory not empty''"
definition EEXIST :: string where "EEXIST = ''file exists''"
definition EINVAL :: string where "EINVAL = ''invalid argument''"
definition EBUSY :: string where "EBUSY = ''device or resource busy''"
definition EBADF :: string where "EBADF = ''bad file descriptor''"

definition fs_get :: "fs \<Rightarrow> string \<Rightarrow> node option" where
  "fs_get fs p =
     (if p = [] then None else if is_root (Clean p) then Some DirNode else map_of fs (Clean p))"

text \<open>\<open>os.MkdirAll\<close>: every ancestor is made, outermost first.\<close>

definition ancestors :: "string \<Rightarrow> string list" where
  "ancestors p =
     (let ps = SplitSlash p in
      filter (\<lambda>d. d \<noteq> [] \<and> \<not> is_root d) (map (\<lambda>k. JoinSlash (take k ps)) [1..<length ps + 1]))"

fun mkdirs :: "string list \<Rightarrow> fs \<Rightarrow> error option \<times> fs" where
  "mkdirs [] fs = (None, fs)"
| "mkdirs (d # ds) fs =
     (case map_of fs d of
        Some DirNode \<Rightarrow> mkdirs ds fs
      | Some (FileNode _ _) \<Rightarrow> (Some (PathError ''mkdir'' d ENOTDIR), fs)
      | None \<Rightarrow> mkdirs ds ((d, DirNode) # fs))"

definition MkdirAll :: "string \<Rightarrow> fs \<Rightarrow> error option \<times> fs" where
  "MkdirAll p fs =
     (if p = [] then (Some (PathError ''mkdir'' p ENOENT), fs) else mkdirs (ancestors (Clean p)) fs)"

definition parent_ok :: "fs \<Rightarrow> string \<Rightarrow> bool" where
  "parent_ok fs p \<longleftrightarrow> fs_get fs (Dir (Clean p)) = Some DirNode"

text \<open>\<open>os.Create\<close>: the file is truncated when it exists.\<close>

definition Create :: "int \<Rightarrow> string \<Rightarrow> fs \<Rightarrow> error option \<times> fs" where
  "Create now p fs =
     (if p = [] then (Some (PathError ''open'' p ENOENT), fs)
      else if fs_get fs p = Some DirNode then (Some (PathError ''open'' p EISDIR), fs)
      else if \<not> parent_ok fs p then (Some (PathError ''open'' p ENOENT), fs)
      else (None, AList.update (Clean p) (FileNode [] now) fs))"

text \<open>\<open>os.OpenFile(p, O_CREATE|O_WRONLY, _)\<close>: an existing file keeps its content.\<close>

definition OpenCreate :: "int \<Rightarrow> string \<Rightarrow> fs \<Rightarrow> error option \<times> fs" where
  "OpenCreate now p fs =
     (case fs_get fs p of
        Some (FileNode _ _) \<Rightarrow> (None, fs)
      | _ \<Rightarrow> Create now p fs)"

definition WriteFile :: "int \<Rightarrow> string \<Rightarrow> byte list \<Rightarrow> fs \<Rightarrow> fs" where
  "WriteFile now p bs fs = AList.update (Clean p) (FileNode bs now) fs"

text \<open>\<open>os.Open\<close> of a file that is read: a directory opens but its read fails.\<close>

definition OpenRead :: "string \<Rightarrow> fs \<Rightarrow> error + byte list" where
  "OpenRead p fs =
     (case fs_get fs p of
        None \<Rightarrow> Inl (PathError ''open'' p ENOENT)
      | Some DirNode \<Rightarrow> Inl (PathError ''read'' p EISDIR)
      | Some (FileNode c _) \<Rightarrow> Inr c)"

definition below :: "string \<Rightarrow> string \<Rightarrow> bool" where
  "below d p \<longleftrightarrow>
     (if d = ''/'' then HasPrefix p ''/'' \<and> p \<noteq> ''/''
      else if d = ''.'' then \<not> HasPrefix p ''/'' \<and> \<not> HasPrefix p ''..'' \<and> p \<noteq> ''.''
      else HasPrefix p (d @ ''/''))"

text \<open>\<open>os.Remove\<close>\<close>

definition Remove :: "string \<Rightarrow> fs \<Rightarrow> error option \<times> fs" where
  "Remove p fs =
     (case fs_get fs p of
        None \<Rightarrow> (Some (PathError ''remove'' p ENOENT), fs)
      | Some (FileNode _ _) \<Rightarrow> (None, AList.delete (Clean p) fs)
      | Some DirNode \<Rightarrow>
          (if is_root (Clean p) then (Some (PathError ''remove'' p EINVAL), fs)
           else if list_ex (\<lambda>(q, _). below (Clean p) q) fs
           then (Some (PathError ''remove'' p ENOTEMPTY), fs)
           else (None, AList.delete (Clean p) fs)))"

text \<open>\<open>os.Rename\<close>: a file replaces a file, a directory moves with all that is below it.\<close>

definition move_entry :: "string \<Rightarrow> string \<Rightarrow> string \<times> node \<Rightarrow> string \<times> node" where
  "move_entry f t e =
     (if fst e = f \<or> below f (fst e) then (t @ drop (length f) (fst e), snd e) else e)"

definition Rename :: "string \<Rightarrow> string \<Rightarrow> fs \<Rightarrow> error option \<times> fs" where
  "Rename fromPath toPath fs =
     (let f = Clean fromPath; t = Clean toPath; err = (\<lambda>m. (Some (PathError ''rename'' fromPath m), fs)) in
      if fromPath = [] \<or> toPath = [] then err ENOENT
      else if f = t \<and> fs_get fs f \<noteq> None then (None, fs)
      else if is_root f \<or> is_root t then err EBUSY
      else if \<not> parent_ok fs t then err ENOENT
      else case fs_get fs f of
        None \<Rightarrow> err ENOENT
      | Some (FileNode c m) \<Rightarrow>
          (case fs_get fs t of
             Some DirNode \<Rightarrow> err EEXIST
           | _ \<Rightarrow> (None, AList.update t (FileNode c m) (AList.delete f fs)))
      | Some DirNode \<Rightarrow>
          (if below f t then err EINVAL
           else if below t f then err ENOTEMPTY
           else case fs_get fs t of
             Some (FileNode _ _) \<Rightarrow> err ENOTDIR
           | Some DirNode \<Rightarrow>
               (if list_ex (\<lambda>(q, _). below t q) fs then err ENOTEMPTY
                else (None, map (move_entry f t) (AList.delete t fs)))
           | None \<Rightarrow> (None, map (move_entry f t) fs)))"

text \<open>
  \<open>filepath.WalkDir\<close>: the entries below the root, in lexical order of their components, after
  the root itself.
\<close>

definition WalkDir :: "string \<Rightarrow> fs \<Rightarrow> error + (string \<times> node) list" where
  "WalkDir root fs =
     (case fs_get fs root of
        None \<Rightarrow> Inl (PathError ''lstat'' root ENOENT)
      | Some DirNode \<Rightarrow>
          Inr ((root, DirNode) #
               sort_key (\<lambda>e. SplitSlash (fst e)) (filter (\<lambda>e. below (Clean root) (fst e)) fs))
      | Some n \<Rightarrow> Inr [(root, n)])"

section \<open>What the operations do to the files\<close>

text \<open>The contents of the files, by cleaned path.\<close>

definition contents :: "fs \<Rightarrow> string \<Rightarrow> byte list option" where
  "contents fs p = (case map_of fs p of Some (FileNode c _) \<Rightarrow> Some c | _ \<Rightarrow> None)"

lemma contents_update [simp]:
  "contents (AList.update k (FileNode c t) fs) = (contents fs)(k \<mapsto> c)"
  by (rule ext) (simp add: contents_def update_conv')

lemma contents_delete [simp]: "contents (AList.delete k fs) = (contents fs)(k := None)"
  by (rule ext) (simp add: contents_def delete_conv')

lemma contents_mkdir: "map_of fs d = None \<Longrightarrow> contents ((d, DirNode) # fs) = contents fs"
  by (rule ext) (simp add: contents_def)

lemma mkdirs_contents: "contents (snd (mkdirs ds fs)) = contents fs"
  by (induction ds fs rule: mkdirs.induct)
     (auto simp: contents_mkdir split: option.splits node.splits)

lemma MkdirAll_contents [simp]: "contents (snd (MkdirAll p fs)) = contents fs"
  by (simp add: MkdirAll_def mkdirs_contents)

lemma fs_get_contents:
  "fs_get fs p = Some (FileNode c t) \<Longrightarrow> contents fs (Clean p) = Some c"
  by (auto simp: fs_get_def contents_def split: if_splits)

lemma Create_contents:
  "Create now p fs = (r, fs') \<Longrightarrow>
     contents fs' = (if r = None then (contents fs)(Clean p \<mapsto> []) else contents fs)"
  by (auto simp: Create_def split: if_splits)

lemma Remove_contents:
  assumes "Remove p fs = (r, fs')"
  shows "contents fs' = (if r = None then (contents fs)(Clean p := None) else contents fs)"
  using assms by (auto simp: Remove_def split: option.splits node.splits if_splits)

lemma Rename_fail: "Rename a b fs = (Some e, fs') \<Longrightarrow> fs' = fs"
  by (auto simp: Rename_def Let_def split: if_splits option.splits node.splits)

lemma Rename_file:
  assumes "Rename a b fs = (None, fs')" and "contents fs (Clean a) = Some c" and "Clean a \<noteq> Clean b"
    and "a \<noteq> []" and "b \<noteq> []"
  shows "contents fs' = (contents fs)(Clean a := None, Clean b \<mapsto> c)"
proof -
  obtain t where t: "map_of fs (Clean a) = Some (FileNode c t)"
    using assms(2) by (auto simp: contents_def split: option.splits node.splits)
  have "fs_get fs (Clean a) = Some (FileNode c t) \<or> is_root (Clean a)"
    using t by (simp add: fs_get_def)
  with assms show ?thesis
    by (auto simp: Rename_def Let_def split: if_splits option.splits node.splits)
qed

text \<open>A rename touches nothing outside its two trees.\<close>

definition in_tree :: "string \<Rightarrow> string \<Rightarrow> bool" where
  "in_tree p k \<longleftrightarrow> k = p \<or> HasPrefix k (p @ ''/'')"

lemma below_in_tree: "\<not> is_root d \<Longrightarrow> in_tree d k \<longleftrightarrow> k = d \<or> below d k"
  by (auto simp: below_def in_tree_def is_root_def)

lemma in_tree_refl [simp]: "in_tree p p"
  by (simp add: in_tree_def)

lemma in_tree_moved: "in_tree f k \<Longrightarrow> in_tree t (t @ drop (length f) k)"
  by (auto simp: in_tree_def HasPrefix_iff)

lemma map_of_move_entry:
  assumes "\<not> is_root f" and "\<not> in_tree f k" and "\<not> in_tree t k"
  shows "map_of (map (move_entry f t) fs) k = map_of fs k"
proof (induction fs)
  case (Cons e fs)
  have moved: "fst e = f \<or> below f (fst e) \<longleftrightarrow> in_tree f (fst e)"
    using below_in_tree [OF assms(1)] by blast
  show ?case
  proof (cases "in_tree f (fst e)")
    case True
    then have "in_tree t (fst (move_entry f t e))"
      using moved in_tree_moved by (simp add: move_entry_def)
    then have "fst (move_entry f t e) \<noteq> k" "fst e \<noteq> k" using True assms(2,3) by auto
    then show ?thesis using Cons by (simp add: prod.case_eq_if)
  next
    case False
    then have "move_entry f t e = e" using moved by (simp add: move_entry_def)
    then show ?thesis using Cons by (simp add: prod.case_eq_if)
  qed
qed simp

lemma contents_move_entry:
  assumes "\<not> is_root f" and "\<not> in_tree f k" and "\<not> in_tree t k"
  shows "contents (map (move_entry f t) fs) k = contents fs k"
  by (simp add: contents_def map_of_move_entry [OF assms])

lemma Rename_frame:
  assumes "\<not> in_tree (Clean a) k" and "\<not> in_tree (Clean b) k"
  shows "contents (snd (Rename a b fs)) k = contents fs k"
proof -
  have "k \<noteq> Clean a" "k \<noteq> Clean b" using assms by auto
  then show ?thesis
    using assms contents_move_entry [OF _ assms]
    by (auto simp: Rename_def Let_def split: option.splits node.splits)
qed

text \<open>Renaming what is not a file leaves no file at the target that was not there.\<close>

lemma map_of_move_entry_target:
  assumes "\<not> is_root f" and "map_of fs f = Some DirNode" and "map_of fs t = None"
    and "\<not> below f t"
  shows "map_of (map (move_entry f t) fs) t = Some DirNode"
  using assms(2,3)
proof (induction fs)
  case (Cons e fs)
  show ?case
  proof (cases "fst e = f")
    case True
    with Cons.prems(1) show ?thesis by (cases e) (simp add: move_entry_def)
  next
    case False
    have "fst (move_entry f t e) \<noteq> t"
    proof (cases "below f (fst e)")
      case True
      then obtain r where "fst e = f @ CHR ''/'' # r"
        using assms(1) below_in_tree [OF assms(1), of "fst e"] False
        by (auto simp: in_tree_def HasPrefix_iff)
      with True show ?thesis by (simp add: move_entry_def)
    next
      case nb: False
      have "fst e \<noteq> t" using Cons.prems(2) by (cases e) (auto split: if_splits)
      with nb False show ?thesis by (simp add: move_entry_def)
    qed
    then show ?thesis
      using Cons False by (cases e; cases "move_entry f t e") (auto split: if_splits)
  qed
qed simp

lemma Rename_missing:
  assumes "contents fs (Clean a) = None" and "Clean a \<noteq> Clean b"
  shows "contents (snd (Rename a b fs)) (Clean b) = contents fs (Clean b)"
proof -
  let ?f = "Clean a" and ?t = "Clean b"
  have src: "map_of fs ?f = None \<or> map_of fs ?f = Some DirNode"
    using assms(1) by (auto simp: contents_def split: option.splits node.splits)
  have del: "contents (map (move_entry ?f ?t) (AList.delete ?t fs)) ?t = None"
    if "\<not> is_root ?f" "map_of fs ?f = Some DirNode" "\<not> below ?f ?t"
  proof -
    have "map_of (AList.delete ?t fs) ?f = Some DirNode" "map_of (AList.delete ?t fs) ?t = None"
      using that(2) assms(2) by (simp_all add: delete_conv')
    from map_of_move_entry_target [OF that(1) this that(3)] show ?thesis
      by (simp add: contents_def)
  qed
  have upd: "contents (map (move_entry ?f ?t) fs) ?t = None"
    if "\<not> is_root ?f" "map_of fs ?f = Some DirNode" "map_of fs ?t = None" "\<not> below ?f ?t"
    using map_of_move_entry_target [OF that] by (simp add: contents_def)
  show ?thesis
    using src assms(2) del upd
    by (auto simp: Rename_def Let_def fs_get_def contents_def [of fs ?t]
        split: option.splits node.splits if_splits)
qed

lemma map_of_move_entry_source:
  assumes "\<not> is_root f" and "f \<noteq> t" and "\<not> is_root t" and "\<not> below t f"
  shows "map_of (map (move_entry f t) fs) f = None"
proof -
  have "fst (move_entry f t e) \<noteq> f" for e
  proof (cases "in_tree f (fst e)")
    case True
    then have "in_tree t (fst (move_entry f t e))"
      using in_tree_moved below_in_tree [OF assms(1)] by (auto simp: move_entry_def)
    with assms below_in_tree [OF assms(3)] show ?thesis by metis
  next
    case False
    then show ?thesis using below_in_tree [OF assms(1)] by (auto simp: move_entry_def)
  qed
  then have "f \<notin> fst ` set (map (move_entry f t) fs)" by (metis (no_types, lifting) imageE set_map)
  then show ?thesis by (simp only: map_of_eq_None_iff not_False_eq_True)
qed

lemma Rename_source:
  assumes "Clean a \<noteq> Clean b"
  shows "contents (snd (Rename a b fs)) (Clean a) = None \<or>
         contents (snd (Rename a b fs)) (Clean a) = contents fs (Clean a)"
proof -
  have "contents (map (move_entry (Clean a) (Clean b)) fs') (Clean a) = None"
    if "\<not> is_root (Clean a)" "\<not> is_root (Clean b)" "\<not> below (Clean b) (Clean a)" for fs'
    using map_of_move_entry_source [OF that(1) assms that(2,3)] by (simp add: contents_def)
  with assms show ?thesis
    by (auto simp: Rename_def Let_def split: option.splits node.splits)
qed

end
