(* ===== verification/StorageIface.thy ===== *)
theory StorageIface
  imports Config Replies HostFS
begin

text \<open>
  The interface every storage offers (\<open>pkg/storage/storage.go\<close>) and what the handlers may rely
  on. An operation is a function of the world \<open>'w\<close> that returns its result and the world after
  it; \<open>None\<close> is a call that does not return (it panics, pages through a listing for ever, or waits
  for ever for the rest of a body).

  A reader handed to or returned by a storage is the stream of bytes it delivers, with the error
  that ends it (\<open>None\<close> for a proper end of file).
\<close>

type_synonym stream = "byte list \<times> error option"

text \<open>
  The body of an upload is written by another goroutine into a pipe: its bytes, and whether the
  pipe is then closed, closed with an error, or left open for ever, so that reading on blocks.
\<close>

datatype body_end = BodyEOF | BodyError error | BodyNever

type_synonym upload_body = "byte list \<times> body_end"

record 'w StorageInteractor =
  CatFileFromStorage :: "string \<Rightarrow> int \<Rightarrow> StorageSettings list \<Rightarrow> 'w \<Rightarrow> (error + stream) \<times> 'w"
  PutFileToDest :: "string \<Rightarrow> upload_body \<Rightarrow> StorageSettings list \<Rightarrow> 'w \<Rightarrow> (error option \<times> 'w) option"
  PatchFile :: "string \<Rightarrow> stream \<Rightarrow> int \<Rightarrow> 'w \<Rightarrow> error option \<times> 'w"
  ListPath :: "string \<Rightarrow> bool \<Rightarrow> StorageSettings list \<Rightarrow> 'w \<Rightarrow> ((error + ObjectInfo list) \<times> 'w) option"
  ListBucketPath :: "string \<Rightarrow> string \<Rightarrow> bool \<Rightarrow> 'w \<Rightarrow> ((error + ObjectInfo list) \<times> 'w) option"
  ListFailedMultipartUploads :: "string \<Rightarrow> 'w \<Rightarrow> ((error + (string \<times> string) list) \<times> 'w) option"
  MoveObject :: "string \<Rightarrow> string \<Rightarrow> string \<Rightarrow> 'w \<Rightarrow> error option \<times> 'w"
  DeleteObject :: "string \<Rightarrow> string \<Rightarrow> 'w \<Rightarrow> error option \<times> 'w"
  AbortMultipartUpload :: "string \<Rightarrow> string \<Rightarrow> string \<Rightarrow> 'w \<Rightarrow> error option \<times> 'w"
  CopyObject :: "string \<Rightarrow> string \<Rightarrow> string \<Rightarrow> string \<Rightarrow> string \<Rightarrow> 'w \<Rightarrow> error option \<times> 'w"
  ListBuckets :: "string list"
  DefaultBucket :: string

section \<open>Settings and maps (common.go, utils.go, storage.go, tablespace.go)\<close>

definition StorageClassSetting :: string where "StorageClassSetting = ''StorageClass''"
definition TableSpaceSetting :: string where "TableSpaceSetting = ''TableSpace''"
definition MultipartChunkSize :: string where "MultipartChunkSize = ''MultipartChunkSize''"
definition MultipartUpload :: string where "MultipartUpload = ''MultipartUpload''"
definition DefaultTableSpace :: string where "DefaultTableSpace = ''pg_default''"

fun ResolveStorageSetting :: "StorageSettings list \<Rightarrow> string \<Rightarrow> string \<Rightarrow> string" where
  "ResolveStorageSetting [] name defaultVal = defaultVal"
| "ResolveStorageSetting (s # ss) name defaultVal =
     (if sett_Name s = name then sett_Value s else ResolveStorageSetting ss name defaultVal)"

text \<open>
  The Go code writes the default entry into the configuration's own map when there is one; the
  model returns the map that results.
\<close>

definition buildBucketMapFromCnf :: "Storage \<Rightarrow> (string \<times> string) list" where
  "buildBucketMapFromCnf cnf =
     (let mp = (case TablespaceMap cnf of None \<Rightarrow> [] | Some m \<Rightarrow> m) in
      if map_of mp DefaultTableSpace = None
      then AList.update DefaultTableSpace (StorageBucket cnf) mp else mp)"

definition buildCredMapFromCnf :: "Storage \<Rightarrow> (string \<times> StorageCredentials) list" where
  "buildCredMapFromCnf cnf =
     (let mp = (case CredentialMap cnf of None \<Rightarrow> [] | Some m \<Rightarrow> m) in
      if map_of mp (StorageBucket cnf) = None
      then AList.update (StorageBucket cnf)
             \<lparr>AccessKeyId = st_AccessKeyId cnf, SecretAccessKey = st_SecretAccessKey cnf\<rparr> mp
      else mp)"

lemma ResolveStorageSetting_map_of:
  "ResolveStorageSetting ss name d =
     (case map_of (map (\<lambda>s. (sett_Name s, sett_Value s)) ss) name of None \<Rightarrow> d | Some v \<Rightarrow> v)"
  by (induction ss) auto

lemma bucket_map_default:
  "map_of (buildBucketMapFromCnf cnf) DefaultTableSpace \<noteq> None"
  by (auto simp: buildBucketMapFromCnf_def Let_def update_conv')

lemma cred_map_default:
  "map_of (buildCredMapFromCnf cnf) (StorageBucket cnf) \<noteq> None"
  by (auto simp: buildCredMapFromCnf_def Let_def update_conv')

lemma bucket_map_configured:
  assumes "TablespaceMap cnf = Some m" and "map_of m ts = Some b"
  shows "map_of (buildBucketMapFromCnf cnf) ts = Some b"
  using assms by (auto simp: buildBucketMapFromCnf_def update_conv')

section \<open>The contract of a storage\<close>

text \<open>
  What the garbage collector and the other handlers rely on. \<open>objects b w\<close> are the objects of
  bucket \<open>b\<close> by key, \<open>key\<close> the key a name given to the mover addresses, and \<open>region k\<close> the keys an
  operation on key \<open>k\<close> may touch (on a file system, those below a directory too). \<open>movable b f\<close>
  are the names for which a move keeps the content.
\<close>

locale storage =
  fixes st :: "'w StorageInteractor"
    and objects :: "string \<Rightarrow> 'w \<Rightarrow> string \<Rightarrow> byte list option"
    and key :: "string \<Rightarrow> string"
    and region :: "string \<Rightarrow> string \<Rightarrow> bool"
    and movable :: "string \<Rightarrow> string \<Rightarrow> bool"
  assumes region_self: "region k k"
    and list_bucket_frame:
      "ListBucketPath st b p u w = Some (rl, w') \<Longrightarrow> objects b' w' = objects b' w"
    and list_path_frame: "ListPath st p u ss w = Some (rl, w') \<Longrightarrow> objects b' w' = objects b' w"
    and list_uploads_frame:
      "ListFailedMultipartUploads st b w = Some (ru, w') \<Longrightarrow> objects b' w' = objects b' w"
    and abort_frame: "AbortMultipartUpload st b k i w = (r, w') \<Longrightarrow> objects b' w' = objects b' w"
    and cat_frame: "CatFileFromStorage st n off ss w = (rs, w') \<Longrightarrow> objects b' w' = objects b' w"
    and delete_frame:
      "DeleteObject st b n w = (r, w') \<Longrightarrow> \<not> region (key n) k \<Longrightarrow> objects b' w' k = objects b' w k"
    and delete_done: "DeleteObject st b n w = (None, w') \<Longrightarrow> objects b w' (key n) = None"
    and delete_no_create:
      "DeleteObject st b n w = (r, w') \<Longrightarrow> objects b' w k = None \<Longrightarrow> objects b' w' k = None"
    and move_missing:
      "MoveObject st b f t w = (r, w') \<Longrightarrow> objects b w (key f) = None \<Longrightarrow>
       objects b w' (key t) = objects b w (key t)"
    and move_source:
      "MoveObject st b f t w = (r, w') \<Longrightarrow> movable b f \<Longrightarrow>
       objects b w' (key f) = None \<or> objects b w' (key f) = objects b w (key f)"
    and move_frame:
      "MoveObject st b f t w = (r, w') \<Longrightarrow> \<not> region (key f) k \<Longrightarrow> \<not> region (key t) k \<Longrightarrow>
       objects b' w' k = objects b' w k"
    and move_done:
      "MoveObject st b f t w = (None, w') \<Longrightarrow> movable b f \<Longrightarrow> objects b w (key f) = Some c \<Longrightarrow>
       objects b w' (key t) = Some c"
    and move_keeps:
      "MoveObject st b f t w = (Some e, w') \<Longrightarrow> movable b f \<Longrightarrow> objects b w (key f) = Some c \<Longrightarrow>
       objects b w' (key f) = Some c \<or> objects b w' (key t) = Some c"
begin

text \<open>Whatever its outcome, a move never loses the object it moves.\<close>

lemma move_preserves_content:
  assumes "MoveObject st b f t w = (r, w')" and "movable b f" and "objects b w (key f) = Some c"
  shows "objects b w' (key f) = Some c \<or> objects b w' (key t) = Some c"
  using assms move_done move_keeps by (cases r) blast+

end

section \<open>The world\<close>

text \<open>
  The bucket listing cache, a file of JSON text. The text is abstracted to what
  \<open>json.Unmarshal\<close> makes of it: a map from storage ids to entries, or text that does not parse;
  a newly created file is empty.
\<close>

record cacheEntry =
  Objects :: "ObjectInfo list"
  Time :: int

datatype cache_text = NoCacheFile | EmptyText | BadText | CacheText "(string \<times> cacheEntry) list"

text \<open>
  What the storages read and change: the host's files, the clock (nanoseconds), the global
  configuration (\<open>config.InstanceConfig()\<close>), the cache file, the object paths of the multipart
  uploads in progress (the \<open>sync.Map\<close> of the S3 storage), the remote object service's state \<open>'r\<close> and the databases \<open>'d\<close>.
\<close>

record ('r, 'd) world =
  host :: fs
  clock :: int
  the_instance :: Instance
  cacheFile :: cache_text
  multipartUploads :: "string list"
  remote :: 'r
  db :: 'd

end
