(* ===== verification/Backups.thy ===== *)
theory Backups
  imports StorageIface
begin

text \<open>
  The backups' view, \<open>pkg/backups/s3.go\<close>: the LSN of the oldest backup, read from the sentinel
  files of the backup storage. Decoding a sentinel (\<open>encoding/json\<close> into \<open>BackupLSN\<close>) is the
  function \<open>unmarshal\<close>, \<open>None\<close> for a text that does not decode.
\<close>

definition backup_prefix :: "u64 \<Rightarrow> string" where
  "backup_prefix seg = ''segments_005/seg'' @ dec_of_nat (unat seg) @ ''/basebackups_005/''"

definition sentinel :: "ObjectInfo \<Rightarrow> bool" where
  "sentinel obj \<longleftrightarrow> HasSuffix (obj_Path obj) ''backup_stop_sentinel.json''"

fun min_lsn :: "'w StorageInteractor \<Rightarrow> (byte list \<Rightarrow> u64 option) \<Rightarrow> ObjectInfo list \<Rightarrow> u64 \<Rightarrow> 'w \<Rightarrow> u64 \<times> 'w" where
  "min_lsn st unmarshal [] minLSN w = (minLSN, w)"
| "min_lsn st unmarshal (obj # objs) minLSN w =
     (if \<not> sentinel obj then min_lsn st unmarshal objs minLSN w
      else case CatFileFromStorage st (obj_Path obj) 0 [] w of
        (Inl err, w) \<Rightarrow> min_lsn st unmarshal objs minLSN w
      | (Inr (content, Some err), w) \<Rightarrow> min_lsn st unmarshal objs minLSN w
      | (Inr (content, None), w) \<Rightarrow>
          (case unmarshal content of
             None \<Rightarrow> min_lsn st unmarshal objs minLSN w
           | Some lsn \<Rightarrow> min_lsn st unmarshal objs (if lsn < minLSN then lsn else minLSN) w))"

definition GetFirstLSN ::
    "'w StorageInteractor \<Rightarrow> (byte list \<Rightarrow> u64 option) \<Rightarrow> u64 \<Rightarrow> 'w \<Rightarrow> ((error + u64) \<times> 'w) option" where
  "GetFirstLSN st unmarshal seg w =
     (case ListPath st (backup_prefix seg) True [] w of
        None \<Rightarrow> None
      | Some (Inl err, w) \<Rightarrow> Some (Inl err, w)
      | Some (Inr objects, w) \<Rightarrow>
          (case min_lsn st unmarshal objects (- 1) w of (lsn, w) \<Rightarrow> Some (Inr lsn, w)))"

section \<open>The result is a lower bound of the readable backups\<close>

text \<open>When reading does not depend on the world (a storage nobody writes to), every readable backup bounds the result.\<close>

definition readable :: "'w StorageInteractor \<Rightarrow> (byte list \<Rightarrow> u64 option) \<Rightarrow> 'w \<Rightarrow> ObjectInfo \<Rightarrow> u64 option" where
  "readable st unmarshal w obj =
     (if \<not> sentinel obj then None
      else case CatFileFromStorage st (obj_Path obj) 0 [] w of
        (Inr (content, None), _) \<Rightarrow> unmarshal content
      | _ \<Rightarrow> None)"

lemma min_lsn_spec:
  assumes "\<And>n w. snd (CatFileFromStorage st n 0 [] w) = w"
  shows "min_lsn st um objs m w =
    (foldl (\<lambda>m obj. case readable st um w obj of None \<Rightarrow> m | Some lsn \<Rightarrow> min m lsn) m objs, w)"
proof (induction objs arbitrary: m)
  case (Cons obj objs)
  obtain r w' where c: "CatFileFromStorage st (obj_Path obj) 0 [] w = (r, w')" by fastforce
  then have "w' = w" using assms by (metis snd_conv)
  with c Cons show ?case
    by (auto simp: readable_def min_def split: sum.splits prod.splits option.splits)
qed simp

lemma foldl_min_bound:
  "foldl (\<lambda>m x. case f x of None \<Rightarrow> m | Some l \<Rightarrow> min m l) (m :: u64) xs \<le> m \<and>
   (\<forall>x \<in> set xs. \<forall>l. f x = Some l \<longrightarrow>
      foldl (\<lambda>m x. case f x of None \<Rightarrow> m | Some l \<Rightarrow> min m l) m xs \<le> l) \<and>
   (foldl (\<lambda>m x. case f x of None \<Rightarrow> m | Some l \<Rightarrow> min m l) m xs = m \<or>
    (\<exists>x \<in> set xs. f x = Some (foldl (\<lambda>m x. case f x of None \<Rightarrow> m | Some l \<Rightarrow> min m l) m xs)))"
  (is "?F m xs \<le> m \<and> _ m xs")
proof (induction xs arbitrary: m)
  case (Cons x xs)
  show ?case
  proof (cases "f x")
    case None
    with Cons [of m] show ?thesis by auto
  next
    case (Some l)
    have "?F (min m l) xs \<le> m" "?F (min m l) xs \<le> l"
      using Cons [of "min m l"] by (auto intro: order_trans)
    with Cons [of "min m l"] Some show ?thesis by (auto simp: min_def split: if_splits)
  qed
qed simp

context storage
begin

lemma min_lsn_frame: "min_lsn st um objs m w = (x, w') \<Longrightarrow> objects b w' = objects b w"
proof (induction objs arbitrary: m w)
  case (Cons obj objs)
  obtain r w1 where c: "CatFileFromStorage st (obj_Path obj) 0 [] w = (r, w1)" by fastforce
  have "objects b w1 = objects b w" using cat_frame [OF c] .
  with Cons c show ?case
    by (auto split: if_splits sum.splits prod.splits option.splits)
qed simp

lemma GetFirstLSN_frame:
  assumes "GetFirstLSN st um seg w = Some (x, w')"
  shows "objects b w' = objects b w"
  using assms list_path_frame [of "backup_prefix seg" True "[]" w] min_lsn_frame
  by (auto simp: GetFirstLSN_def split: option.splits sum.splits prod.splits)

end

end
