(* ===== verification/FileStorage.thy ===== *)
theory FileStorage
  imports Backups
begin

text \<open>
  The file storage, \<open>pkg/storage/filestorage.go\<close>, over the host's file system, and the proof that
  it keeps the contract of a storage.
\<close>

definition fs_path :: "Storage \<Rightarrow> string \<Rightarrow> string" where
  "fs_path cnf name = Join [StoragePrefix cnf, name]"

definition file_CatFileFromStorage ::
    "Storage \<Rightarrow> string \<Rightarrow> int \<Rightarrow> StorageSettings list \<Rightarrow> ('r, 'd) world \<Rightarrow> (error + stream) \<times> ('r, 'd) world" where
  "file_CatFileFromStorage cnf name offset setts w =
     (let p = fs_path cnf name; err = PathError ''read'' p EISDIR in
      case fs_get (host w) p of
        None \<Rightarrow> (Inl (PathError ''open'' p ENOENT), w)
      | Some DirNode \<Rightarrow> (if 0 < offset then Inl err else Inr ([], Some err), w)
      | Some (FileNode c _) \<Rightarrow>
          (if offset \<le> 0 then (Inr (c, None), w)
           else if offset \<le> int (length c) then (Inr (drop (nat offset) c, None), w)
           else (Inl EOF, w)))"

text \<open>The callback of the walk, for the entries that are not directories.\<close>

definition file_visit :: "Storage \<Rightarrow> string \<Rightarrow> string \<times> node \<Rightarrow> ObjectInfo list" where
  "file_visit cnf prefix e =
     (case e of
        (path, DirNode) \<Rightarrow> []
      | (path, FileNode c mtime) \<Rightarrow>
          (let cuttedPrefix = fst (CutPrefix prefix ''/'');
               neededPrefix = StoragePrefix cnf @ cuttedPrefix in
           if \<not> HasPrefix path neededPrefix then []
           else case CutPrefix path (StoragePrefix cnf) of
               (cPath, False) \<Rightarrow> []
             | (cPath, True) \<Rightarrow>
                 [\<lparr>obj_Path = CHR ''/'' # cPath, obj_Size = of_nat (length c), obj_LastMod = mtime\<rparr>]))"

definition file_ListPath ::
    "Storage \<Rightarrow> string \<Rightarrow> bool \<Rightarrow> StorageSettings list \<Rightarrow> ('r, 'd) world \<Rightarrow>
     ((error + ObjectInfo list) \<times> ('r, 'd) world) option" where
  "file_ListPath cnf prefix useCache setts w =
     (case WalkDir (StoragePrefix cnf) (host w) of
        Inl err \<Rightarrow> Some (Inl err, w)
      | Inr es \<Rightarrow> Some (Inr (concat (map (file_visit cnf prefix) es)), w))"

definition file_ListBucketPath ::
    "Storage \<Rightarrow> string \<Rightarrow> string \<Rightarrow> bool \<Rightarrow> ('r, 'd) world \<Rightarrow> ((error + ObjectInfo list) \<times> ('r, 'd) world) option" where
  "file_ListBucketPath cnf bucket prefix useCache w = file_ListPath cnf prefix False [] w"

definition file_ListBuckets :: "Storage \<Rightarrow> string list" where
  "file_ListBuckets cnf =
     StorageBucket cnf # (case CredentialMap cnf of None \<Rightarrow> [] | Some m \<Rightarrow> map fst m)"

definition file_PutFileToDest ::
    "Storage \<Rightarrow> string \<Rightarrow> upload_body \<Rightarrow> StorageSettings list \<Rightarrow> ('r, 'd) world \<Rightarrow>
     (error option \<times> ('r, 'd) world) option" where
  "file_PutFileToDest cnf name r setts w =
     (let fPath = fs_path cnf name; fDir = Dir fPath in
      case MkdirAll fDir (host w) of
        (Some err, fs) \<Rightarrow> Some (Some err, w\<lparr>host := fs\<rparr>)
      | (None, fs) \<Rightarrow>
          (case Create (clock w) fPath fs of
             (Some err, fs) \<Rightarrow> Some (Some err, w\<lparr>host := fs\<rparr>)
           | (None, fs) \<Rightarrow>
               (let w = w\<lparr>host := WriteFile (clock w) fPath (fst r) fs\<rparr> in
                case snd r of
                  BodyEOF \<Rightarrow> Some (None, w)
                | BodyError err \<Rightarrow> Some (Some err, w)
                | BodyNever \<Rightarrow> None)))"

definition file_PatchFile :: "Storage \<Rightarrow> string \<Rightarrow> stream \<Rightarrow> int \<Rightarrow> ('r, 'd) world \<Rightarrow> error option \<times> ('r, 'd) world" where
  "file_PatchFile cnf name r startOffset w = (Some (Errorf ''TODO''), w)"

definition file_MoveObject :: "Storage \<Rightarrow> string \<Rightarrow> string \<Rightarrow> string \<Rightarrow> ('r, 'd) world \<Rightarrow> error option \<times> ('r, 'd) world" where
  "file_MoveObject cnf bucket from to w =
     (let fromPath = fs_path cnf from; toPath = fs_path cnf to in
      if fromPath = toPath then (None, w)
      else case MkdirAll (Dir toPath) (host w) of
        (Some err, fs) \<Rightarrow> (Some err, w\<lparr>host := fs\<rparr>)
      | (None, fs) \<Rightarrow> (case Rename fromPath toPath fs of (r, fs) \<Rightarrow> (r, w\<lparr>host := fs\<rparr>)))"

text \<open>
  \<open>CopyObject\<close> calls \<open>io.Copy(fromFile, toFile)\<close>: it reads from the destination, which is open
  for writing only, so the copy fails with \<open>EBADF\<close> once both files are open.
\<close>

definition file_CopyObject ::
    "Storage \<Rightarrow> string \<Rightarrow> string \<Rightarrow> string \<Rightarrow> string \<Rightarrow> string \<Rightarrow> ('r, 'd) world \<Rightarrow> error option \<times> ('r, 'd) world" where
  "file_CopyObject cnf from to fromStoragePrefix fromBucket toBucket w =
     (let fromPath = Join [fromStoragePrefix, from]; toPath = fs_path cnf to in
      case MkdirAll (Dir toPath) (host w) of
        (Some err, fs) \<Rightarrow> (Some err, w\<lparr>host := fs\<rparr>)
      | (None, fs) \<Rightarrow>
          (case fs_get fs fromPath of
             None \<Rightarrow> (Some (PathError ''open'' fromPath ENOENT), w\<lparr>host := fs\<rparr>)
           | Some _ \<Rightarrow>
               (case OpenCreate (clock w) toPath fs of
                  (Some err, fs) \<Rightarrow> (Some err, w\<lparr>host := fs\<rparr>)
                | (None, fs) \<Rightarrow> (Some (PathError ''read'' toPath EBADF), w\<lparr>host := fs\<rparr>))))"

definition file_DeleteObject :: "Storage \<Rightarrow> string \<Rightarrow> string \<Rightarrow> ('r, 'd) world \<Rightarrow> error option \<times> ('r, 'd) world" where
  "file_DeleteObject cnf bucket key w =
     (case Remove (fs_path cnf key) (host w) of (r, fs) \<Rightarrow> (r, w\<lparr>host := fs\<rparr>))"

definition file_AbortMultipartUpload ::
    "Storage \<Rightarrow> string \<Rightarrow> string \<Rightarrow> string \<Rightarrow> ('r, 'd) world \<Rightarrow> error option \<times> ('r, 'd) world" where
  "file_AbortMultipartUpload cnf bucket key uploadId w = (None, w)"

definition file_ListFailedMultipartUploads ::
    "Storage \<Rightarrow> string \<Rightarrow> ('r, 'd) world \<Rightarrow> ((error + (string \<times> string) list) \<times> ('r, 'd) world) option" where
  "file_ListFailedMultipartUploads cnf bucket w = Some (Inr [], w)"

definition FileStorageInteractor :: "Storage \<Rightarrow> ('r, 'd) world StorageInteractor" where
  "FileStorageInteractor cnf =
     \<lparr>CatFileFromStorage = file_CatFileFromStorage cnf,
      PutFileToDest = file_PutFileToDest cnf,
      PatchFile = file_PatchFile cnf,
      ListPath = file_ListPath cnf,
      ListBucketPath = file_ListBucketPath cnf,
      ListFailedMultipartUploads = file_ListFailedMultipartUploads cnf,
      MoveObject = file_MoveObject cnf,
      DeleteObject = file_DeleteObject cnf,
      AbortMultipartUpload = file_AbortMultipartUpload cnf,
      CopyObject = file_CopyObject cnf,
      ListBuckets = file_ListBuckets cnf,
      DefaultBucket = StorageBucket cnf\<rparr>"

section \<open>The contract\<close>

definition fs_objects :: "string \<Rightarrow> ('r, 'd) world \<Rightarrow> string \<Rightarrow> byte list option" where
  "fs_objects bucket w = contents (host w)"

definition fs_key :: "Storage \<Rightarrow> string \<Rightarrow> string" where
  "fs_key cnf name = Clean (fs_path cnf name)"

lemma fs_path_cases: "fs_path cnf n = [] \<or> fs_key cnf n = fs_path cnf n"
  using Clean_Join [of "[StoragePrefix cnf, n]"] by (auto simp: fs_key_def fs_path_def)

lemma MkdirAll_pair: "MkdirAll p fs = (r, fs') \<Longrightarrow> contents fs' = contents fs"
  by (metis MkdirAll_contents snd_conv)

lemma file_delete_effect:
  assumes "file_DeleteObject cnf b n w = (r, w')"
  shows "fs_objects b' w' =
         (if r = None then (fs_objects b' w)(fs_key cnf n := None) else fs_objects b' w)"
proof -
  obtain fs' where fs': "Remove (fs_path cnf n) (host w) = (r, fs')" "w' = w\<lparr>host := fs'\<rparr>"
    using assms by (auto simp: file_DeleteObject_def split: prod.splits)
  show ?thesis
    using Remove_contents [OF fs'(1)] fs'(2) by (simp add: fs_objects_def fs_key_def)
qed

lemma file_move_cases:
  assumes "file_MoveObject cnf b f t w = (r, w')"
  obtains (same) "fs_path cnf f = fs_path cnf t" "r = None" "w' = w"
  | (mkdir) fs e where "r = Some e" "w' = w\<lparr>host := fs\<rparr>" "contents fs = contents (host w)"
  | (rename) fs fs' where "fs_path cnf f \<noteq> fs_path cnf t" "contents fs = contents (host w)"
      "Rename (fs_path cnf f) (fs_path cnf t) fs = (r, fs')" "w' = w\<lparr>host := fs'\<rparr>"
proof (cases "fs_path cnf f = fs_path cnf t")
  case True
  with assms that(1) show ?thesis by (simp add: file_MoveObject_def)
next
  case False
  obtain re fs where mk: "MkdirAll (Dir (fs_path cnf t)) (host w) = (re, fs)" by fastforce
  obtain rr fs' where rn: "Rename (fs_path cnf f) (fs_path cnf t) fs = (rr, fs')" by fastforce
  show ?thesis
  proof (cases re)
    case None
    with assms False mk rn MkdirAll_pair [OF mk] show ?thesis
      by (intro that(3) [of fs fs']) (simp_all add: file_MoveObject_def)
  next
    case (Some e)
    with assms False mk MkdirAll_pair [OF mk] show ?thesis
      by (intro that(2) [of e fs]) (simp_all add: file_MoveObject_def)
  qed
qed

lemma file_move_frame:
  assumes "file_MoveObject cnf b f t w = (r, w')"
    and "\<not> in_tree (fs_key cnf f) k" "\<not> in_tree (fs_key cnf t) k"
  shows "fs_objects b' w' k = fs_objects b' w k"
  using assms(1)
proof (cases rule: file_move_cases)
  case (rename fs fs')
  then show ?thesis
    using Rename_frame [of "fs_path cnf f" k "fs_path cnf t" fs] assms(2,3)
    by (simp add: fs_objects_def fs_key_def)
qed (simp_all add: fs_objects_def)

lemma file_move_effect:
  assumes "file_MoveObject cnf b f t w = (r, w')" and "fs_objects b w (fs_key cnf f) = Some c"
  shows "r = None \<Longrightarrow> fs_objects b w' (fs_key cnf t) = Some c"
    and "r = Some e \<Longrightarrow> fs_objects b w' = fs_objects b w"
proof -
  have "(r = None \<longrightarrow> fs_objects b w' (fs_key cnf t) = Some c) \<and>
        (r \<noteq> None \<longrightarrow> fs_objects b w' = fs_objects b w)"
    using assms(1)
  proof (cases rule: file_move_cases)
    case same
    with assms(2) show ?thesis by (simp add: fs_key_def)
  next
    case (mkdir fs e)
    then show ?thesis by (simp add: fs_objects_def)
  next
    case (rename fs fs')
    show ?thesis
    proof (cases r)
      case None
      have ne: "fs_path cnf f \<noteq> []" "fs_path cnf t \<noteq> []"
        using rename(3) None by (auto simp: Rename_def Let_def)
      then have "fs_key cnf f \<noteq> fs_key cnf t"
        using rename(1) fs_path_cases [of cnf f] fs_path_cases [of cnf t] by auto
      then show ?thesis
        using Rename_file [of _ _ fs fs' c] rename ne assms(2) None
        by (simp add: fs_objects_def fs_key_def)
    next
      case (Some e)
      then have "fs' = fs" using rename(3) by (intro Rename_fail) simp
      with rename Some show ?thesis by (simp add: fs_objects_def)
    qed
  qed
  then show "r = None \<Longrightarrow> fs_objects b w' (fs_key cnf t) = Some c"
    and "r = Some e \<Longrightarrow> fs_objects b w' = fs_objects b w" by auto
qed

lemma file_move_missing:
  assumes "file_MoveObject cnf b f t w = (r, w')" and "fs_objects b w (fs_key cnf f) = None"
  shows "fs_objects b w' (fs_key cnf t) = fs_objects b w (fs_key cnf t)"
  using assms(1)
proof (cases rule: file_move_cases)
  case (rename fs fs')
  show ?thesis
  proof (cases "fs_path cnf f = [] \<or> fs_path cnf t = []")
    case True
    then have "fs' = fs" using rename(3) by (auto simp: Rename_def Let_def)
    with rename show ?thesis by (simp add: fs_objects_def)
  next
    case False
    then have "fs_key cnf f \<noteq> fs_key cnf t"
      using rename(1) fs_path_cases [of cnf f] fs_path_cases [of cnf t] by auto
    then show ?thesis
      using Rename_missing [of fs "fs_path cnf f" "fs_path cnf t"] rename assms(2)
      by (simp add: fs_objects_def fs_key_def)
  qed
qed (simp_all add: fs_objects_def)

lemma file_move_source:
  assumes "file_MoveObject cnf b f t w = (r, w')"
  shows "fs_objects b w' (fs_key cnf f) = None \<or>
         fs_objects b w' (fs_key cnf f) = fs_objects b w (fs_key cnf f)"
  using assms
proof (cases rule: file_move_cases)
  case (rename fs fs')
  show ?thesis
  proof (cases "fs_path cnf f = [] \<or> fs_path cnf t = []")
    case True
    then have "fs' = fs" using rename(3) by (auto simp: Rename_def Let_def)
    with rename show ?thesis by (simp add: fs_objects_def)
  next
    case False
    then have "fs_key cnf f \<noteq> fs_key cnf t"
      using rename(1) fs_path_cases [of cnf f] fs_path_cases [of cnf t] by auto
    then show ?thesis
      using Rename_source [of "fs_path cnf f" "fs_path cnf t" fs] rename
      by (simp add: fs_objects_def fs_key_def)
  qed
qed (simp_all add: fs_objects_def)

lemma file_ListPath_world: "file_ListPath cnf p u ss w = Some (r, w') \<Longrightarrow> w' = w"
  by (auto simp: file_ListPath_def split: sum.splits)

lemma file_Cat_world: "file_CatFileFromStorage cnf n off ss w = (r, w') \<Longrightarrow> w' = w"
  by (auto simp: file_CatFileFromStorage_def Let_def split: option.splits node.splits if_splits)

interpretation fileStorage: storage "FileStorageInteractor cnf" fs_objects "fs_key cnf" in_tree
  "\<lambda>_ _. True"
proof
  fix b b' n f t k p i u w w' r rl ru rs off ss c e
  show "in_tree k k" by simp
  show "ListBucketPath (FileStorageInteractor cnf) b p u w = Some (rl, w') \<Longrightarrow>
        fs_objects b' w' = fs_objects b' w"
    by (auto simp: FileStorageInteractor_def file_ListBucketPath_def dest: file_ListPath_world)
  show "ListPath (FileStorageInteractor cnf) p u ss w = Some (rl, w') \<Longrightarrow>
        fs_objects b' w' = fs_objects b' w"
    by (auto simp: FileStorageInteractor_def dest: file_ListPath_world)
  show "ListFailedMultipartUploads (FileStorageInteractor cnf) b w = Some (ru, w') \<Longrightarrow>
        fs_objects b' w' = fs_objects b' w"
    by (auto simp: FileStorageInteractor_def file_ListFailedMultipartUploads_def)
  show "AbortMultipartUpload (FileStorageInteractor cnf) b k i w = (r, w') \<Longrightarrow>
        fs_objects b' w' = fs_objects b' w"
    by (auto simp: FileStorageInteractor_def file_AbortMultipartUpload_def)
  show "CatFileFromStorage (FileStorageInteractor cnf) n off ss w = (rs, w') \<Longrightarrow>
        fs_objects b' w' = fs_objects b' w"
    by (auto simp: FileStorageInteractor_def dest: file_Cat_world)
  show "DeleteObject (FileStorageInteractor cnf) b n w = (r, w') \<Longrightarrow> \<not> in_tree (fs_key cnf n) k \<Longrightarrow>
        fs_objects b' w' k = fs_objects b' w k"
    using file_delete_effect [of cnf b n w r w' b'] by (auto simp: FileStorageInteractor_def)
  show "DeleteObject (FileStorageInteractor cnf) b n w = (None, w') \<Longrightarrow>
        fs_objects b w' (fs_key cnf n) = None"
    using file_delete_effect [of cnf b n w None w' b] by (auto simp: FileStorageInteractor_def)
  show "DeleteObject (FileStorageInteractor cnf) b n w = (r, w') \<Longrightarrow> fs_objects b' w k = None \<Longrightarrow>
        fs_objects b' w' k = None"
    using file_delete_effect [of cnf b n w r w' b'] by (auto simp: FileStorageInteractor_def)
  show "MoveObject (FileStorageInteractor cnf) b f t w = (r, w') \<Longrightarrow>
        fs_objects b w (fs_key cnf f) = None \<Longrightarrow>
        fs_objects b w' (fs_key cnf t) = fs_objects b w (fs_key cnf t)"
    using file_move_missing [of cnf b f t w r w'] by (auto simp: FileStorageInteractor_def)
  show "MoveObject (FileStorageInteractor cnf) b f t w = (r, w') \<Longrightarrow> True \<Longrightarrow>
        fs_objects b w' (fs_key cnf f) = None \<or>
        fs_objects b w' (fs_key cnf f) = fs_objects b w (fs_key cnf f)"
    using file_move_source [of cnf b f t w r w'] by (auto simp: FileStorageInteractor_def)
  show "MoveObject (FileStorageInteractor cnf) b f t w = (r, w') \<Longrightarrow> \<not> in_tree (fs_key cnf f) k \<Longrightarrow>
        \<not> in_tree (fs_key cnf t) k \<Longrightarrow> fs_objects b' w' k = fs_objects b' w k"
    using file_move_frame [of cnf b f t w r w' k b'] by (auto simp: FileStorageInteractor_def)
  show "MoveObject (FileStorageInteractor cnf) b f t w = (None, w') \<Longrightarrow> True \<Longrightarrow>
        fs_objects b w (fs_key cnf f) = Some c \<Longrightarrow> fs_objects b w' (fs_key cnf t) = Some c"
    using file_move_effect(1) [of cnf b f t w None w' c] by (auto simp: FileStorageInteractor_def)
  show "MoveObject (FileStorageInteractor cnf) b f t w = (Some e, w') \<Longrightarrow> True \<Longrightarrow>
        fs_objects b w (fs_key cnf f) = Some c \<Longrightarrow>
        fs_objects b w' (fs_key cnf f) = Some c \<or> fs_objects b w' (fs_key cnf t) = Some c"
    using file_move_effect(2) [of cnf b f t w "Some e" w' c e] by (auto simp: FileStorageInteractor_def)
qed

section \<open>Uploads\<close>

text \<open>An upload that succeeds stores exactly the body's bytes under the name's key, and nothing else changes.\<close>

lemma file_put_effect:
  assumes "file_PutFileToDest cnf n body ss w = Some (None, w')"
  shows "fs_objects b w' = (fs_objects b w)(fs_key cnf n \<mapsto> fst body) \<and> snd body = BodyEOF"
proof -
  obtain fs fs' where "MkdirAll (Dir (fs_path cnf n)) (host w) = (None, fs)"
    "Create (clock w) (fs_path cnf n) fs = (None, fs')"
    "w' = w\<lparr>host := WriteFile (clock w) (fs_path cnf n) (fst body) fs'\<rparr>" "snd body = BodyEOF"
    using assms
    by (auto simp: file_PutFileToDest_def Let_def split: prod.splits option.splits body_end.splits)
  with MkdirAll_pair Create_contents [of "clock w" "fs_path cnf n" fs None fs'] show ?thesis
    by (simp add: fs_objects_def fs_key_def WriteFile_def)
qed

text \<open>\<open>CopyObject\<close> always fails.\<close>

lemma file_CopyObject_fails: "fst (file_CopyObject cnf f t fp fb tb w) \<noteq> None"
  by (auto simp: file_CopyObject_def Let_def split: prod.splits option.splits)

end
