(* ===== verification/YReader.thy ===== *)
theory YReader
  imports FileStorage
begin

text \<open>
  The readers and writers between a storage and a client, \<open>pkg/proc/yio\<close>: the rate-limited reader
  and writer, the reader that reopens an object at an offset, the reader that retries, and the
  writer that tracks progress. Metrics and the limiter's waiting time are left out.

  A Go \<open>Read\<close> returns a count and an error: the model returns the bytes read (\<open>None\<close> for a
  negative count) and the error.
\<close>

type_synonym read_result = "byte list option \<times> error option"

section \<open>The body of an object\<close>

text \<open>An opened object delivers its bytes in chunks the network chooses, then its end.\<close>

type_synonym body = "byte list list \<times> error option"

fun body_Read :: "nat \<Rightarrow> body \<Rightarrow> (byte list \<times> error option) \<times> body" where
  "body_Read k ([], e) = (([], Some (case e of None \<Rightarrow> EOF | Some err \<Rightarrow> err)), ([], e))"
| "body_Read k (c # cs, e) =
     (if length c \<le> k then ((c, None), (cs, e)) else ((take k c, None), (drop k c # cs, e)))"

text \<open>Splitting bytes into chunks of given sizes (one more than the number, the rest in one chunk).\<close>

fun chunks :: "nat list \<Rightarrow> byte list \<Rightarrow> byte list list" where
  "chunks ns [] = []"
| "chunks [] bs = [bs]"
| "chunks (n # ns) bs = take (Suc n) bs # chunks ns (drop (Suc n) bs)"

lemma chunks_not_Nil: "[] \<notin> set (chunks ns bs)"
  by (induction ns bs rule: chunks.induct) auto

lemma concat_chunks [simp]: "concat (chunks ns bs) = bs"
  by (induction ns bs rule: chunks.induct) auto

definition body_bytes :: "body \<Rightarrow> byte list" where
  "body_bytes b = concat (fst b)"

section \<open>limiter.go\<close>

text \<open>
  The limiter of \<open>golang.org/x/time/rate\<close>: its burst, and what \<open>WaitN\<close> returns with a context
  that is never cancelled (an error only for more than the burst).
\<close>

record Limiter =
  Burst :: int
  WaitN :: "int \<Rightarrow> error option"

text \<open>A limited reader may have no limiter (nil), a limited writer has one.\<close>

definition Reader_Wait :: "Limiter option \<Rightarrow> int \<Rightarrow> error option" where
  "Reader_Wait lim n = (case lim of None \<Rightarrow> None | Some l \<Rightarrow> WaitN l n)"

definition Reader_getBurstableLimit :: "Limiter option \<Rightarrow> nat \<Rightarrow> int" where
  "Reader_getBurstableLimit lim n = (case lim of None \<Rightarrow> int n | Some l \<Rightarrow> min (Burst l) (int n))"

definition Writer_Wait :: "Limiter \<Rightarrow> int \<Rightarrow> error option" where
  "Writer_Wait lim n = WaitN lim n"

definition Writer_getBurstableLimit :: "Limiter \<Rightarrow> nat \<Rightarrow> int" where
  "Writer_getBurstableLimit lim n = min (Burst lim) (int n)"

text \<open>\<open>Reader.Read\<close>; slicing the buffer to a negative burst panics.\<close>

definition limiter_Read :: "Limiter option \<Rightarrow> nat \<Rightarrow> body \<Rightarrow> (read_result \<times> body) option" where
  "limiter_Read lim len_buf b =
     (if len_buf = 0 then Some ((Some [], Some (Errorf ''empty buffer passed'')), b)
      else
        (let end = Reader_getBurstableLimit lim len_buf in
         if end < 0 then None
         else case body_Read (nat end) b of
             ((bs, Some err), b) \<Rightarrow>
               (let limiterErr = Reader_Wait lim (int (length bs)) in Some ((Some bs, Some err), b))
           | ((bs, None), b) \<Rightarrow> Some ((Some bs, Reader_Wait lim (int (length bs))), b)))"

text \<open>
  \<open>Writer.Write\<close>: the bytes handed to the writer below, and the outcome the caller sees. Only the
  first \<open>burst\<close> bytes of the buffer are written, also when waiting fails, which is only logged.
\<close>

definition limiter_Write ::
    "Limiter \<Rightarrow> (byte list \<Rightarrow> 'q \<Rightarrow> (nat \<times> error option) \<times> 'q) \<Rightarrow> byte list \<Rightarrow> 'q \<Rightarrow>
     ((nat \<times> error option) \<times> 'q) option" where
  "limiter_Write lim write buf q =
     (if buf = [] then Some ((0, Some (Errorf ''empty buffer passed'')), q)
      else
        (let end = Writer_getBurstableLimit lim (length buf);
             limiterErr = Writer_Wait lim end in
         if end < 0 then None else Some (write (take (nat end) buf) q)))"

text \<open>\<open>GetLimiter\<close>: one limiter for the process, allocated from the first configuration that asks.\<close>

definition GetLimiter :: "(u64 \<Rightarrow> Limiter) \<Rightarrow> Instance \<Rightarrow> Limiter option \<Rightarrow> Limiter \<times> Limiter option" where
  "GetLimiter NewLimiter inst netLimiter =
     (case netLimiter of
        Some l \<Rightarrow> (l, Some l)
      | None \<Rightarrow> (let l = NewLimiter (StorageRateLimit (StorageCnf inst)) in (l, Some l)))"

section \<open>YRestartReader\<close>

record 'w YRestartReader =
  yr_world :: 'w
  yr_underlying :: "(body \<times> Limiter option) option"

definition NewRestartReader :: "'w \<Rightarrow> 'w YRestartReader" where
  "NewRestartReader w = \<lparr>yr_world = w, yr_underlying = None\<rparr>"

text \<open>
  The object is opened at the offset; its bytes arrive in chunks of the sizes \<open>sizes off\<close>. The
  body is wrapped into a limited reader (\<open>lim\<close>) when the configuration enables the limiter.
\<close>

definition YRestartReader_Restart ::
    "'w StorageInteractor \<Rightarrow> (int \<Rightarrow> nat list) \<Rightarrow> Limiter option \<Rightarrow> string \<Rightarrow> StorageSettings list \<Rightarrow> int \<Rightarrow>
     'w YRestartReader \<Rightarrow> error option \<times> 'w YRestartReader" where
  "YRestartReader_Restart st sizes lim name setts offsetStart y =
     (case CatFileFromStorage st name offsetStart setts (yr_world y) of
        (Inl err, w) \<Rightarrow> (Some err, y\<lparr>yr_world := w\<rparr>)
      | (Inr (bs, e), w) \<Rightarrow>
          (None, y\<lparr>yr_world := w, yr_underlying := Some ((chunks (sizes offsetStart) bs, e), lim)\<rparr>))"

text \<open>Reading before the first restart dereferences a nil interface.\<close>

definition YRestartReader_Read ::
    "nat \<Rightarrow> 'w YRestartReader \<Rightarrow> (read_result \<times> 'w YRestartReader) option" where
  "YRestartReader_Read k y =
     (case yr_underlying y of
        None \<Rightarrow> None
      | Some (b, None) \<Rightarrow>
          (case body_Read k b of ((bs, e), b) \<Rightarrow> Some ((Some bs, e), y\<lparr>yr_underlying := Some (b, None)\<rparr>))
      | Some (b, Some lim) \<Rightarrow>
          (case limiter_Read (Some lim) k b of
             None \<Rightarrow> None
           | Some (res, b) \<Rightarrow> Some (res, y\<lparr>yr_underlying := Some (b, Some lim)\<rparr>)))"

section \<open>YproxyRetryReader\<close>

record 'q RetryReader =
  rr_underlying :: 'q
  offsetReached :: int
  needReacquire :: bool
  selfCl_offset :: int

definition defaultRetryLimit :: nat where "defaultRetryLimit = 100"

definition NewYRetryReader :: "'q \<Rightarrow> 'q RetryReader" where
  "NewYRetryReader r =
     \<lparr>rr_underlying = r, offsetReached = 0, needReacquire = True, selfCl_offset = 0\<rparr>"

text \<open>The retry loop of \<open>Read\<close>, with the retries left.\<close>

fun retry_Read ::
    "(int \<Rightarrow> 'q \<Rightarrow> error option \<times> 'q) \<Rightarrow> (nat \<Rightarrow> 'q \<Rightarrow> (read_result \<times> 'q) option) \<Rightarrow> nat \<Rightarrow>
     nat \<Rightarrow> error option \<Rightarrow> 'q RetryReader \<Rightarrow> (read_result \<times> 'q RetryReader) option" where
  "retry_Read restart read k 0 lastErr y =
     Some ((None, Some (case lastErr of
              Some err \<Rightarrow> err
            | None \<Rightarrow> Errorf ''failed to read within retries: no error captured'')), y)"
| "retry_Read restart read k (Suc retries) lastErr y =
     (case (if needReacquire y then restart (offsetReached y) (rr_underlying y)
            else (None, rr_underlying y)) of
        (Some err, q) \<Rightarrow> retry_Read restart read k retries (Some err) (y\<lparr>rr_underlying := q\<rparr>)
      | (None, q) \<Rightarrow>
          (let y = y\<lparr>rr_underlying := q, needReacquire := False\<rparr> in
           case read k q of
             None \<Rightarrow> None
           | Some ((bs, err), q) \<Rightarrow>
               (let y = y\<lparr>rr_underlying := q\<rparr> in
                if err = Some EOF then Some ((bs, err), y)
                else if err \<noteq> None \<or> bs = None then
                  retry_Read restart read k retries (if err \<noteq> None then err else lastErr)
                    (y\<lparr>offsetReached := offsetReached y + (case bs of None \<Rightarrow> 0 | Some b \<Rightarrow> int (length b)),
                       needReacquire := True\<rparr>)
                else
                  (let n = offsetReached y + (case bs of None \<Rightarrow> 0 | Some b \<Rightarrow> int (length b)) in
                   Some ((bs, None), y\<lparr>offsetReached := n, selfCl_offset := n\<rparr>)))))"

definition YproxyRetryReader_Read ::
    "(int \<Rightarrow> 'q \<Rightarrow> error option \<times> 'q) \<Rightarrow> (nat \<Rightarrow> 'q \<Rightarrow> (read_result \<times> 'q) option) \<Rightarrow> nat \<Rightarrow>
     'q RetryReader \<Rightarrow> (read_result \<times> 'q RetryReader) option" where
  "YproxyRetryReader_Read restart read k y = retry_Read restart read k defaultRetryLimit None y"

section \<open>YproxyWriter\<close>

record 'q YproxyWriter =
  yw_underlying :: 'q
  yw_offsetReached :: int
  yw_selfCl_offset :: int

definition NewYproxyWriter :: "'q \<Rightarrow> 'q YproxyWriter" where
  "NewYproxyWriter q = \<lparr>yw_underlying = q, yw_offsetReached = 0, yw_selfCl_offset = 0\<rparr>"

definition YproxyWriter_Write ::
    "(byte list \<Rightarrow> 'q \<Rightarrow> ((nat \<times> error option) \<times> 'q) option) \<Rightarrow> byte list \<Rightarrow> 'q YproxyWriter \<Rightarrow>
     ((nat \<times> error option) \<times> 'q YproxyWriter) option" where
  "YproxyWriter_Write write p y =
     (case write p (yw_underlying y) of
        None \<Rightarrow> None
      | Some ((n, err), q) \<Rightarrow>
          (let off = yw_offsetReached y + int n in
           Some ((n, err), \<lparr>yw_underlying = q, yw_offsetReached = off, yw_selfCl_offset = off\<rparr>)))"

section \<open>The contract of a restartable reader\<close>

text \<open>
  A reader of an object with content \<open>c\<close>: after a restart at \<open>off\<close> it stands there, a read delivers
  the bytes that follow its position, and an end of file comes only at the end. \<open>at q off\<close> says
  that \<open>q\<close> stands at \<open>off\<close>; \<open>clean\<close>, that an error delivers no bytes.
\<close>

locale restart_reader =
  fixes restart :: "int \<Rightarrow> 'q \<Rightarrow> error option \<times> 'q"
    and read :: "nat \<Rightarrow> 'q \<Rightarrow> (read_result \<times> 'q) option"
    and at :: "'q \<Rightarrow> nat \<Rightarrow> bool"
    and inv :: "'q \<Rightarrow> bool"
    and c :: "byte list"
  assumes restart_inv: "inv q \<Longrightarrow> restart i q = (r, q') \<Longrightarrow> inv q'"
    and restart_at: "inv q \<Longrightarrow> off \<le> length c \<Longrightarrow> restart (int off) q = (None, q') \<Longrightarrow> at q' off"
    and read_inv: "inv q \<Longrightarrow> at q off \<Longrightarrow> read k q = Some (res, q') \<Longrightarrow> inv q'"
    and read_data: "inv q \<Longrightarrow> at q off \<Longrightarrow> off \<le> length c \<Longrightarrow> read k q = Some ((Some bs, None), q') \<Longrightarrow>
      off + length bs \<le> length c \<and> bs = take (length bs) (drop off c) \<and> at q' (off + length bs)"
    and read_eof: "inv q \<Longrightarrow> at q off \<Longrightarrow> off \<le> length c \<Longrightarrow> read k q = Some ((Some bs, Some EOF), q') \<Longrightarrow>
      bs = drop off c"
    and read_count: "inv q \<Longrightarrow> at q off \<Longrightarrow> read k q = Some ((None, None), q') \<Longrightarrow> False"
    and read_err: "inv q \<Longrightarrow> at q off \<Longrightarrow> read k q = Some ((bo, Some err), q') \<Longrightarrow> err \<noteq> EOF \<Longrightarrow>
      bo = Some [] \<or> bo = None"
begin

definition stands :: "'q RetryReader \<Rightarrow> nat \<Rightarrow> bool" where
  "stands y off \<longleftrightarrow> inv (rr_underlying y) \<and> offsetReached y = int off \<and> off \<le> length c \<and>
     (needReacquire y \<or> at (rr_underlying y) off)"

text \<open>A retrying read delivers the next bytes of the object, whatever failed before.\<close>

lemma retry_Read_correct:
  assumes "stands y off" and "retry_Read restart read k n le y = Some ((Some bs, e), y')"
  shows "(e = None \<and> off + length bs \<le> length c \<and> bs = take (length bs) (drop off c) \<and>
            stands y' (off + length bs)) \<or>
         (e = Some EOF \<and> bs = drop off c)"
  using assms
proof (induction n arbitrary: le y)
  case (Suc n)
  let ?r = "if needReacquire y then restart (offsetReached y) (rr_underlying y) else (None, rr_underlying y)"
  obtain r q where r: "?r = (r, q)" by fastforce
  have st: "inv (rr_underlying y)" "offsetReached y = int off" "off \<le> length c"
    "needReacquire y \<or> at (rr_underlying y) off" using Suc.prems(1) by (auto simp: stands_def)
  have inv_q: "inv q"
    using r st(1) restart_inv [of "rr_underlying y" "offsetReached y" r q] by (auto split: if_splits)
  show ?case
  proof (cases r)
    case (Some err)
    with r have "needReacquire y" by (auto split: if_splits)
    with st inv_q have "stands (y\<lparr>rr_underlying := q\<rparr>) off" by (simp add: stands_def)
    with Suc.IH Suc.prems(2) r Some show ?thesis by simp
  next
    case None
    have at_q: "at q off"
      using r None st restart_at [of "rr_underlying y" off q] by (auto split: if_splits)
    obtain b er q' where rd: "read k q = Some ((b, er), q')"
      using Suc.prems(2) r None by (auto simp: Let_def split: option.splits)
    have inv_q': "inv q'" using read_inv [OF inv_q at_q rd] .
    show ?thesis
    proof (cases "er = Some EOF")
      case True
      with Suc.prems(2) r None rd have "b = Some bs" "e = Some EOF" by (auto simp: Let_def)
      with read_eof [OF inv_q at_q st(3)] rd True show ?thesis by simp
    next
      case False
      show ?thesis
      proof (cases "er \<noteq> None \<or> b = None")
        case True
        then obtain err where er: "er = Some err"
          using read_count [OF inv_q at_q] rd by (cases er) auto
        have "b = Some [] \<or> b = None" using read_err [OF inv_q at_q] rd er False by simp
        then have z: "(case b of None \<Rightarrow> 0 | Some b \<Rightarrow> int (length b)) = 0" by auto
        let ?y = "y\<lparr>rr_underlying := q', needReacquire := True\<rparr>"
        have "stands ?y off" using st inv_q' by (simp add: stands_def)
        moreover have "retry_Read restart read k n er ?y = Some ((Some bs, e), y')"
          using Suc.prems(2) r None rd False True er z by (simp add: Let_def)
        ultimately show ?thesis using Suc.IH by blast
      next
        case ok: False
        then obtain bs' where b: "b = Some bs'" and er: "er = None" by auto
        note d = read_data [OF inv_q at_q st(3)]
        have "bs' = bs" "e = None" "y' = y\<lparr>rr_underlying := q', needReacquire := False,
            offsetReached := offsetReached y + int (length bs'),
            selfCl_offset := offsetReached y + int (length bs')\<rparr>"
          using Suc.prems(2) r None rd False ok b er by (auto simp: Let_def)
        with d [of k bs q'] rd b er st inv_q' show ?thesis by (simp add: stands_def)
      qed
    qed
  qed
qed simp

lemma stands_new: "inv q \<Longrightarrow> stands (NewYRetryReader q) 0"
  by (simp add: stands_def NewYRetryReader_def)

end

section \<open>The readers of files\<close>

text \<open>The reader works in the world \<open>w\<close>, where the name is a file with content \<open>c\<close>.\<close>

definition file_is :: "Storage \<Rightarrow> string \<Rightarrow> ('r, 'd) world \<Rightarrow> byte list \<Rightarrow> ('r, 'd) world YRestartReader \<Rightarrow> bool" where
  "file_is cnf name w c q \<longleftrightarrow>
     yr_world q = w \<and> (\<exists>t. fs_get (host w) (fs_path cnf name) = Some (FileNode c t))"

definition body_at :: "Limiter option \<Rightarrow> byte list \<Rightarrow> 'w YRestartReader \<Rightarrow> nat \<Rightarrow> bool" where
  "body_at lim c q off \<longleftrightarrow>
     (\<exists>cs. yr_underlying q = Some ((cs, None), lim) \<and> concat cs = drop off c \<and> off \<le> length c \<and>
        [] \<notin> set cs)"

lemma file_restart:
  assumes "file_is cnf name w c q" and "YRestartReader_Restart (FileStorageInteractor cnf) sizes lim name ss i q = (r, q')"
  shows "yr_world q' = yr_world q"
    and "i = int off \<Longrightarrow> off \<le> length c \<Longrightarrow> r = None \<Longrightarrow> body_at lim c q' off"
  using assms
  by (auto simp: YRestartReader_Restart_def FileStorageInteractor_def file_CatFileFromStorage_def
      file_is_def body_at_def Let_def chunks_not_Nil split: if_splits)

text \<open>One read of a body: the next bytes, never an error but the end of file.\<close>

lemma body_Read_spec:
  assumes "concat cs = drop off c" and "off \<le> length c" and "body_Read k (cs, None) = ((bs, e), (cs', e'))"
  shows "e' = None \<and>
    (e = None \<longrightarrow> off + length bs \<le> length c \<and> bs = take (length bs) (drop off c) \<and>
      concat cs' = drop (off + length bs) c) \<and> ([] \<notin> set cs \<longrightarrow> [] \<notin> set cs') \<and>
    (e \<noteq> None \<longrightarrow> e = Some EOF \<and> bs = [] \<and> drop off c = [])"
proof (cases cs)
  case Nil
  with assms show ?thesis by auto
next
  case (Cons x xs)
  have eq: "drop off c = x @ concat xs" using assms(1) Cons by simp
  have len: "length x + length (concat xs) = length c - off"
    using arg_cong [OF eq, of length] by simp
  show ?thesis
  proof (cases "length x \<le> k")
    case True
    have "drop (length x + off) c = concat xs" using eq by (metis append_eq_conv_conj drop_drop)
    with assms Cons True len eq show ?thesis by (auto simp: add.commute)
  next
    case False
    have "drop (off + k) c = drop k (drop off c)" by (simp add: add.commute)
    also have "\<dots> = drop k x @ concat xs" using False by (simp add: eq)
    finally have dr: "drop (off + k) c = drop k x @ concat xs" .
    have "bs = take k x" "e = None" "cs' = drop k x # xs" "e' = None"
      using assms(3) Cons False by auto
    moreover have "length (take k x) = k" using False by simp
    moreover have "take k (drop off c) = take k x" using False by (simp add: eq)
    ultimately show ?thesis using dr len False Cons by auto
  qed
qed

lemma file_read:
  assumes at: "body_at None c q off" and r: "YRestartReader_Read k q = Some ((bo, e), q')"
  obtains bs where "bo = Some bs" "yr_world q' = yr_world q"
    "e = None \<Longrightarrow> off + length bs \<le> length c" "e = None \<Longrightarrow> bs = take (length bs) (drop off c)"
    "e = None \<Longrightarrow> body_at None c q' (off + length bs)"
    "e \<noteq> None \<Longrightarrow> e = Some EOF" "e \<noteq> None \<Longrightarrow> bs = []" "e \<noteq> None \<Longrightarrow> drop off c = []"
proof -
  obtain cs where cs: "yr_underlying q = Some ((cs, None), None)" "concat cs = drop off c" "off \<le> length c"
    "[] \<notin> set cs" using at by (auto simp: body_at_def)
  obtain bs1 e1 cs1 e1' where b: "body_Read k (cs, None) = ((bs1, e1), (cs1, e1'))"
    by (metis prod.exhaust_sel)
  note spec = body_Read_spec [OF cs(2,3) b]
  have eq: "bo = Some bs1" "e = e1" "q' = q\<lparr>yr_underlying := Some ((cs1, e1'), None)\<rparr>"
    using cs(1) b r by (simp_all add: YRestartReader_Read_def)
  have "e1' = None" using spec by blast
  have "body_at None c q' (off + length bs1)" if "e = None"
    unfolding body_at_def eq(3) \<open>e1' = None\<close> using spec that eq(2) cs(4) by (intro exI [of _ cs1]) auto
  moreover have "yr_world q' = yr_world q" by (simp add: eq(3))
  ultimately show ?thesis using spec eq(1,2) by (intro that [of bs1]) blast+
qed

interpretation fileReader: restart_reader
  "YRestartReader_Restart (FileStorageInteractor cnf) sizes None name ss" YRestartReader_Read
  "body_at None c" "file_is cnf name w c" c
proof (unfold_locales, goal_cases)
  case (1 q i r q')
  with file_restart(1) [OF 1] show ?case by (simp add: file_is_def)
next
  case (2 q off q')
  from file_restart(2) [OF 2(1,3) refl 2(2) refl] show ?case .
next
  case (3 q off k res q')
  obtain bo e where res: "res = (bo, e)" by fastforce
  from file_read [OF 3(2) 3(3) [unfolded res]] 3(1) show ?case by (metis file_is_def)
next
  case (4 q off k bs q')
  from file_read [OF 4(2,4)] show ?case by (metis option.inject)
next
  case (5 q off k bs q')
  from file_read [OF 5(2,4)] show ?case by (metis option.distinct(1) option.inject)
next
  case (6 q off k q')
  from file_read [OF 6(2,3)] show ?case by blast
next
  case (7 q off k bo err q')
  from file_read [OF 7(2,3)] 7(4) show ?case by (metis option.inject option.distinct(1))
qed

end
