(* ===== verification/GoIO.thy ===== *)
theory GoIO
  imports YReader "HOL-Library.Sublist"
begin

text \<open>
  The copy loops of Go's \<open>io\<close> package that the handlers use, over any reader and writer of the
  model: \<open>io.Copy\<close> with its 32 KiB buffer and \<open>io.CopyN\<close> into \<open>io.Discard\<close>. A loop that never
  ends (a reader that keeps returning no bytes and no error), or one whose reader panics, has the
  value \<open>None\<close>.

  The contracts of the two sides are the locales \<open>source\<close> (a reader that delivers given bytes and
  then its end) and \<open>sink\<close> (a writer that takes what it is given); their common lemmas say that
  the loops end and what they transfer.
\<close>

type_synonym 'q reader = "nat \<Rightarrow> 'q \<Rightarrow> (read_result \<times> 'q) option"
type_synonym 'c writer = "byte list \<Rightarrow> 'c \<Rightarrow> ((nat \<times> error option) \<times> 'c) option"

definition read_bytes :: "byte list option \<Rightarrow> byte list" where
  "read_bytes n = (case n of None \<Rightarrow> [] | Some bs \<Rightarrow> bs)"

definition ErrShortWrite :: error where "ErrShortWrite = Errorf ''short write''"
definition errInvalidWrite :: error where "errInvalidWrite = Errorf ''invalid write result''"

text \<open>\<open>io.Copy\<close>: read into the buffer, write what was read, stop at an error or the end.\<close>

definition copy_write :: "'c writer \<Rightarrow> byte list \<Rightarrow> 'c \<Rightarrow> ((nat \<times> error option) \<times> 'c) option" where
  "copy_write write buf c =
     (if buf = [] then Some ((0, None), c)
      else map_option (\<lambda>((nw, ew), c).
        if length buf < nw then ((0, Some (case ew of None \<Rightarrow> errInvalidWrite | Some e \<Rightarrow> e)), c)
        else if ew = None \<and> nw \<noteq> length buf then ((nw, Some ErrShortWrite), c)
        else ((nw, ew), c)) (write buf c))"

partial_function (option) io_Copy ::
    "(nat \<Rightarrow> 'q \<Rightarrow> (read_result \<times> 'q) option) \<Rightarrow> (byte list \<Rightarrow> 'c \<Rightarrow> ((nat \<times> error option) \<times> 'c) option) \<Rightarrow>
     nat \<Rightarrow> 'q \<Rightarrow> 'c \<Rightarrow> ((nat \<times> error option) \<times> 'q \<times> 'c) option" where
  "io_Copy read write written q c =
     Option.bind (read 32768 q) (\<lambda>((n, er), q).
     Option.bind (copy_write write (read_bytes n) c) (\<lambda>((nw, ew), c).
       if ew \<noteq> None then Some ((written + nw, ew), q, c)
       else if er = Some EOF then Some ((written + nw, None), q, c)
       else if er \<noteq> None then Some ((written + nw, er), q, c)
       else io_Copy read write (written + nw) q c))"

text \<open>
  \<open>io.CopyN(io.Discard, r, n)\<close>: a limited reader drained with an 8 KiB buffer. A count of
  \<open>-1\<close> comes with an error and ends the loop.
\<close>

partial_function (option) discard_loop ::
    "(nat \<Rightarrow> 'q \<Rightarrow> (read_result \<times> 'q) option) \<Rightarrow> int \<Rightarrow> int \<Rightarrow> 'q \<Rightarrow> ((int \<times> error option) \<times> 'q) option" where
  "discard_loop read N n q =
     (if N \<le> 0 then Some ((n, None), q)
      else Option.bind (read (nat (min N 8192)) q) (\<lambda>((bs, er), q).
        let readSize = (case bs of None \<Rightarrow> -1 | Some bs \<Rightarrow> int (length bs)) in
        if er = Some EOF then Some ((n + readSize, None), q)
        else if er \<noteq> None then Some ((n + readSize, er), q)
        else discard_loop read (N - readSize) (n + readSize) q))"

definition CopyN_Discard :: "'q reader \<Rightarrow> int \<Rightarrow> 'q \<Rightarrow> (error option \<times> 'q) option" where
  "CopyN_Discard read n q =
     map_option (\<lambda>((written, err), q).
       if written = n then (None, q)
       else if written < n \<and> err = None then (Some EOF, q)
       else (err, q)) (discard_loop read n 0 q)"

section \<open>The contract of a reader\<close>

text \<open>\<open>holds q rest\<close>: what is still to be read from \<open>q\<close> is \<open>rest\<close>.\<close>

locale source =
  fixes read :: "'q reader" and holds :: "'q \<Rightarrow> byte list \<Rightarrow> bool"
  assumes progress: "holds q rest \<Longrightarrow> rest \<noteq> [] \<Longrightarrow> 0 < k \<Longrightarrow>
      \<exists>bs q'. read k q = Some ((Some bs, None), q') \<and> bs \<noteq> [] \<and> length bs \<le> k \<and>
        prefix bs rest \<and> holds q' (drop (length bs) rest)"
    and ending: "holds q [] \<Longrightarrow> 0 < k \<Longrightarrow> \<exists>q'. read k q = Some ((Some [], Some EOF), q') \<and> holds q' []"
begin

text \<open>Skipping a number of bytes the reader has leaves the rest.\<close>

lemma discard_skips:
  "holds q rest \<Longrightarrow> m \<le> length rest \<Longrightarrow>
   \<exists>q'. discard_loop read (int m) n q = Some ((n + int m, None), q') \<and> holds q' (drop m rest)"
proof (induction m arbitrary: q rest n rule: less_induct)
  case (less m)
  show ?case
  proof (cases "m = 0")
    case True
    with less.prems show ?thesis by (auto simp: discard_loop.simps)
  next
    case False
    define k where "k = nat (min (int m) 8192)"
    have k: "0 < k" "k \<le> m" using False by (auto simp: k_def)
    have ne: "rest \<noteq> []" using less.prems(2) False by auto
    from progress [OF less.prems(1) ne k(1)] obtain bs q' where
      r: "read k q = Some ((Some bs, None), q')" "bs \<noteq> []" "length bs \<le> k" "prefix bs rest"
      and h: "holds q' (drop (length bs) rest)" by blast
    have le: "length bs \<le> m" using r(3) k(2) by simp
    have lt: "m - length bs < m" using r(2) False by simp
    have "m - length bs \<le> length (drop (length bs) rest)" using less.prems(2) by simp
    from less.IH [OF lt h this, of "n + int (length bs)"] le
    obtain q'' where q'': "discard_loop read (int m - int (length bs)) (n + int (length bs)) q' =
        Some ((n + int m, None), q'')" "holds q'' (drop m rest)" by (auto simp: of_nat_diff)
    have "discard_loop read (int m) n q = discard_loop read (int m - int (length bs)) (n + int (length bs)) q'"
      using False r(1) by (subst discard_loop.simps) (simp add: k_def [symmetric] Let_def)
    with q'' show ?thesis by auto
  qed
qed

lemma discard_short:
  "holds q rest \<Longrightarrow> length rest < m \<Longrightarrow>
   \<exists>q'. discard_loop read (int m) n q = Some ((n + int (length rest), None), q') \<and> holds q' []"
proof (induction "length rest" arbitrary: q rest n m rule: less_induct)
  case less
  define k where "k = nat (min (int m) 8192)"
  have k: "0 < k" using less.prems(2) by (auto simp: k_def)
  show ?case
  proof (cases "rest = []")
    case True
    with ending [of q k] less.prems k obtain q' where "read k q = Some ((Some [], Some EOF), q')" "holds q' []"
      by blast
    with True less.prems(2) show ?thesis by (subst discard_loop.simps) (simp add: k_def [symmetric] Let_def)
  next
    case False
    from progress [OF less.prems(1) False k] obtain bs q' where
      r: "read k q = Some ((Some bs, None), q')" "bs \<noteq> []" "prefix bs rest"
      and h: "holds q' (drop (length bs) rest)" by blast
    have len: "length bs \<le> length rest" "0 < length bs" using r(2,3) prefix_length_le by auto
    then have sm: "length (drop (length bs) rest) < length rest" "length (drop (length bs) rest) < m - length bs"
      using less.prems(2) unfolding length_drop by linarith+
    from less.hyps [OF sm(1) h sm(2), of "n + int (length bs)"] len less.prems(2)
    obtain q'' where q'': "discard_loop read (int m - int (length bs)) (n + int (length bs)) q' =
        Some ((n + int (length rest), None), q'')" "holds q'' []" by (auto simp: of_nat_diff)
    have "discard_loop read (int m) n q = discard_loop read (int m - int (length bs)) (n + int (length bs)) q'"
      using less.prems(2) r(1) by (subst discard_loop.simps) (simp add: k_def [symmetric] Let_def)
    with q'' show ?thesis by auto
  qed
qed

lemma CopyN_skips:
  assumes "holds q rest"
  shows "\<exists>q'. CopyN_Discard read (int m) q = Some (if m \<le> length rest then None else Some EOF, q') \<and>
           holds q' (drop m rest)"
proof (cases "m \<le> length rest")
  case True
  with discard_skips [OF assms True, of 0] show ?thesis by (auto simp: CopyN_Discard_def)
next
  case False
  then have "length rest < m" by simp
  from discard_short [OF assms this, of 0] obtain q' where
    "discard_loop read (int m) 0 q = Some ((int (length rest), None), q')" "holds q' []" by auto
  with False show ?thesis by (simp add: CopyN_Discard_def)
qed

end

section \<open>The contract of a writer\<close>

locale sink =
  fixes wr :: "'c writer" and ready :: "'c \<Rightarrow> bool" and written :: "'c \<Rightarrow> byte list"
  assumes accepts: "ready c \<Longrightarrow> p \<noteq> [] \<Longrightarrow>
      \<exists>c'. wr p c = Some ((length p, None), c') \<and> ready c' \<and> written c' = written c @ p"

locale copying = source read holds + sink wr ready written
  for read :: "'q reader" and holds wr and ready :: "'c \<Rightarrow> bool" and written
begin

text \<open>\<open>io.Copy\<close> ends, without an error, and has transferred everything.\<close>

lemma io_Copy_all:
  "holds q rest \<Longrightarrow> ready c \<Longrightarrow>
   \<exists>q' c'. io_Copy read wr n q c = Some ((n + length rest, None), q', c') \<and>
     holds q' [] \<and> ready c' \<and> written c' = written c @ rest"
proof (induction "length rest" arbitrary: q rest n c rule: less_induct)
  case less
  show ?case
  proof (cases "rest = []")
    case True
    with ending [of q 32768] less.prems show ?thesis
      by (auto simp: io_Copy.simps copy_write_def read_bytes_def)
  next
    case False
    from progress [OF less.prems(1) False, of 32768] obtain bs q' where
      r: "read 32768 q = Some ((Some bs, None), q')" "bs \<noteq> []" "prefix bs rest"
      and h: "holds q' (drop (length bs) rest)" by auto
    from accepts [OF less.prems(2) r(2)] obtain c' where
      w: "wr bs c = Some ((length bs, None), c')" "ready c'" "written c' = written c @ bs" by blast
    have len: "length bs \<le> length rest" "0 < length bs" using r(2,3) prefix_length_le by auto
    then have "length (drop (length bs) rest) < length rest" unfolding length_drop by linarith
    from less.hyps [OF this h w(2), of "n + length bs"] len
    obtain q'' c'' where ih: "io_Copy read wr (n + length bs) q' c' = Some ((n + length rest, None), q'', c'')"
      "holds q'' []" "ready c''" "written c'' = written c' @ drop (length bs) rest" by auto
    have "io_Copy read wr n q c = io_Copy read wr (n + length bs) q' c'"
      using r(1,2) w(1) by (subst io_Copy.simps) (simp add: copy_write_def read_bytes_def)
    moreover have "written c' @ drop (length bs) rest = written c @ rest"
      using w(3) r(3) by (auto simp: prefix_def)
    ultimately show ?thesis using ih by auto
  qed
qed

end

text \<open>
  A writer that may fail: it takes a prefix of what it is given, all of it when it reports no
  error. \<open>io.Copy\<close> to it ends too, and has written a prefix of the source's bytes.
\<close>

locale copying_some = source read holds
  for read :: "'q reader" and holds +
  fixes wr :: "'c writer" and written :: "'c \<Rightarrow> byte list"
  assumes takes: "\<exists>n e c'. wr p c = Some ((n, e), c') \<and> n \<le> length p \<and> written c' = written c @ take n p \<and>
      (e = None \<longrightarrow> n = length p)"
begin

lemma io_Copy_some:
  "holds q rest \<Longrightarrow>
   \<exists>n' e q' c'. io_Copy read wr n q c = Some ((n', e), q', c') \<and>
     (\<exists>out. written c' = written c @ out \<and> prefix out rest \<and> (e = None \<longrightarrow> out = rest))"
proof (induction "length rest" arbitrary: q rest n c rule: less_induct)
  case less
  show ?case
  proof (cases "rest = []")
    case True
    with ending [of q 32768] less.prems show ?thesis
      by (auto simp: io_Copy.simps copy_write_def read_bytes_def)
  next
    case False
    from progress [OF less.prems(1) False, of 32768] obtain bs q' where
      r: "read 32768 q = Some ((Some bs, None), q')" "bs \<noteq> []" "prefix bs rest"
      and h: "holds q' (drop (length bs) rest)" by auto
    from takes [of bs c] obtain nw e c' where
      w: "wr bs c = Some ((nw, e), c')" "nw \<le> length bs" "written c' = written c @ take nw bs"
      "e = None \<longrightarrow> nw = length bs" by blast
    show ?thesis
    proof (cases e)
      case (Some err)
      with r w have "io_Copy read wr n q c = Some ((n + nw, Some err), q', c')"
        by (subst io_Copy.simps) (simp add: copy_write_def read_bytes_def)
      moreover have "prefix (take nw bs) rest" using r(3) prefix_order.trans take_is_prefix by blast
      ultimately show ?thesis using w(3) by auto
    next
      case None
      have len: "length bs \<le> length rest" "0 < length bs" using r(2,3) prefix_length_le by auto
      then have "length (drop (length bs) rest) < length rest" unfolding length_drop by linarith
      from less.hyps [OF this h, of "n + length bs" c'] obtain n' e' q'' c'' out where
        ih: "io_Copy read wr (n + length bs) q' c' = Some ((n', e'), q'', c'')"
        "written c'' = written c' @ out" "prefix out (drop (length bs) rest)"
        "e' = None \<longrightarrow> out = drop (length bs) rest" by blast
      have "io_Copy read wr n q c = io_Copy read wr (n + length bs) q' c'"
        using r(1,2) w(1,4) None by (subst io_Copy.simps) (simp add: copy_write_def read_bytes_def)
      moreover have "rest = bs @ drop (length bs) rest" using r(3) by (auto simp: prefix_def)
      with ih(3,4) have "prefix (bs @ out) rest" "e' = None \<longrightarrow> bs @ out = rest"
        by (metis same_prefix_prefix, metis)
      moreover have "written c'' = written c @ bs @ out" using ih(2) w(3,4) None by simp
      ultimately show ?thesis using ih(1) by auto
    qed
  qed
qed

end

section \<open>The retrying reader as a source\<close>

text \<open>
  A restartable reader that never fails: every restart succeeds, and a read before the end
  delivers at least one byte. The retrying reader above it is then a source.
\<close>

locale reliable_reader = restart_reader restart read at inv c
  for restart :: "int \<Rightarrow> 'q \<Rightarrow> error option \<times> 'q" and read at inv c +
  assumes restart_ok: "inv q \<Longrightarrow> off \<le> length c \<Longrightarrow> \<exists>q'. restart (int off) q = (None, q')"
    and read_progress: "inv q \<Longrightarrow> at q off \<Longrightarrow> off < length c \<Longrightarrow> 0 < k \<Longrightarrow>
      \<exists>bs q'. read k q = Some ((Some bs, None), q') \<and> bs \<noteq> [] \<and> length bs \<le> k"
    and read_end: "inv q \<Longrightarrow> at q (length c) \<Longrightarrow>
      \<exists>q'. read k q = Some ((Some [], Some EOF), q') \<and> at q' (length c)"
begin

definition remains :: "'q RetryReader \<Rightarrow> byte list \<Rightarrow> bool" where
  "remains y rest \<longleftrightarrow> (\<exists>off. stands y off \<and> rest = drop off c)"

text \<open>The reader a read of \<open>y\<close> works on, reopened when that is needed.\<close>

lemma acquired:
  assumes "stands y off"
  obtains q where "inv q" "at q off"
    "(if needReacquire y then restart (offsetReached y) (rr_underlying y) else (None, rr_underlying y)) = (None, q)"
proof (cases "needReacquire y")
  case True
  with restart_ok [of "rr_underlying y" off] assms obtain q where
    q: "restart (int off) (rr_underlying y) = (None, q)" by (auto simp: stands_def)
  with assms restart_inv restart_at have "inv q" "at q off" unfolding stands_def by blast+
  with q True assms that show ?thesis by (simp add: stands_def)
next
  case False
  with assms that [of "rr_underlying y"] show ?thesis by (auto simp: stands_def)
qed

lemma retry_progress:
  assumes "stands y off" and "off < length c" and "0 < k"
  shows "\<exists>bs y'. YproxyRetryReader_Read restart read k y = Some ((Some bs, None), y') \<and> bs \<noteq> [] \<and>
    length bs \<le> k \<and> bs = take (length bs) (drop off c) \<and> stands y' (off + length bs)"
proof -
  obtain q where q: "inv q" "at q off"
    "(if needReacquire y then restart (offsetReached y) (rr_underlying y) else (None, rr_underlying y)) = (None, q)"
    by (rule acquired [OF assms(1)])
  from read_progress [OF q(1,2) assms(2,3)] obtain bs q' where
    r: "read k q = Some ((Some bs, None), q')" "bs \<noteq> []" "length bs \<le> k" by blast
  define y' where "y' = y\<lparr>rr_underlying := q', needReacquire := False,
    offsetReached := offsetReached y + int (length bs), selfCl_offset := offsetReached y + int (length bs)\<rparr>"
  have rr: "YproxyRetryReader_Read restart read k y = Some ((Some bs, None), y')"
    using q(3) r(1)
    by (simp add: YproxyRetryReader_Read_def defaultRetryLimit_def numeral_eq_Suc y'_def Let_def)
  with retry_Read_correct [OF assms(1), of k defaultRetryLimit None bs None y'] r(2,3) show ?thesis
    by (auto simp: YproxyRetryReader_Read_def)
qed

lemma retry_end:
  assumes "stands y (length c)"
  shows "\<exists>y'. YproxyRetryReader_Read restart read k y = Some ((Some [], Some EOF), y') \<and> stands y' (length c)"
proof -
  obtain q where q: "inv q" "at q (length c)"
    "(if needReacquire y then restart (offsetReached y) (rr_underlying y) else (None, rr_underlying y)) = (None, q)"
    by (rule acquired [OF assms])
  from read_end [OF q(1,2)] obtain q' where r: "read k q = Some ((Some [], Some EOF), q')" "at q' (length c)"
    by blast
  with q(1,2) read_inv have "inv q'" by blast
  with assms r q(3) show ?thesis
    by (auto simp: YproxyRetryReader_Read_def defaultRetryLimit_def numeral_eq_Suc Let_def stands_def)
qed

end

sublocale reliable_reader \<subseteq> retry: source "YproxyRetryReader_Read restart read" remains
proof
  fix y rest and k :: nat
  assume y: "remains y rest" "rest \<noteq> []" "0 < k"
  then obtain off where off: "stands y off" "rest = drop off c" by (auto simp: remains_def)
  with y(2) have "off < length c" by auto
  from retry_progress [OF off(1) this y(3)] obtain bs y' where
    r: "YproxyRetryReader_Read restart read k y = Some ((Some bs, None), y')" "bs \<noteq> []" "length bs \<le> k"
    "bs = take (length bs) rest" "stands y' (off + length bs)" using off(2) by auto
  have "prefix bs rest" using r(4) take_is_prefix by metis
  moreover have "remains y' (drop (length bs) rest)"
    using r(5) off(2) by (auto simp: remains_def add.commute)
  ultimately show "\<exists>bs y'. YproxyRetryReader_Read restart read k y = Some ((Some bs, None), y') \<and> bs \<noteq> [] \<and>
      length bs \<le> k \<and> prefix bs rest \<and> remains y' (drop (length bs) rest)"
    using r by blast
next
  fix y and k :: nat
  assume "remains y []"
  then obtain off where off: "stands y off" "drop off c = []" by (auto simp: remains_def)
  then have "off = length c" by (auto simp: stands_def)
  with off retry_end [of y k] show "\<exists>y'. YproxyRetryReader_Read restart read k y = Some ((Some [], Some EOF), y') \<and> remains y' []"
    by (auto simp: remains_def)
qed

text \<open>Files of the host are read this way, when no limiter is configured.\<close>

interpretation fileReader: reliable_reader
  "YRestartReader_Restart (FileStorageInteractor cnf) sizes None name ss" YRestartReader_Read
  "body_at None c" "file_is cnf name w c" c
proof (unfold_locales, goal_cases)
  case (1 q off)
  then show ?case
    by (auto simp: YRestartReader_Restart_def FileStorageInteractor_def file_CatFileFromStorage_def
        file_is_def Let_def)
next
  case (2 q off k)
  then obtain x xs where "yr_underlying q = Some ((x # xs, None), None)" "x \<noteq> []"
    by (cases "case yr_underlying q of Some ((cs, e), l) \<Rightarrow> cs") (auto simp: body_at_def)
  with 2 show ?case by (auto simp: YRestartReader_Read_def)
next
  case (3 q k)
  then have "\<exists>cs. yr_underlying q = Some ((cs, None), None) \<and> concat cs = [] \<and> [] \<notin> set cs"
    by (auto simp: body_at_def)
  then have "yr_underlying q = Some (([], None), None)" by (metis concat_eq_Nil_conv last_in_set)
  with 3 show ?case by (auto simp: YRestartReader_Read_def body_at_def)
qed

end
