(* ===== verification/Crypt.thy ===== *)
theory Crypt
  imports GoIO
begin

text \<open>
  Encryption, \<open>pkg/crypt/crypt.go\<close>. The OpenPGP library is the parameter record \<open>openpgp\<close>: reading a
  key ring (\<open>'k\<close>), an encrypting writer with state \<open>'s\<close> above a writer with state \<open>'q\<close>, and a
  decrypting reader with state \<open>'p\<close> above a reader with state \<open>'u\<close>. The library calls the writer or
  reader below it, so these are arguments of its operations.
\<close>

record ('k, 's, 'q, 'p, 'u) openpgp =
  ReadArmoredKeyRing :: "byte list \<Rightarrow> error + 'k"
  pgp_Encrypt :: "'k \<Rightarrow> 'q writer \<Rightarrow> 'q \<Rightarrow> ((error + 's) \<times> 'q) option"
  pgp_Write :: "'q writer \<Rightarrow> byte list \<Rightarrow> 's \<times> 'q \<Rightarrow> ((nat \<times> error option) \<times> 's \<times> 'q) option"
  pgp_Close :: "'q writer \<Rightarrow> 's \<times> 'q \<Rightarrow> (error option \<times> 's \<times> 'q) option"
  pgp_ReadMessage :: "'k \<Rightarrow> 'u reader \<Rightarrow> 'u \<Rightarrow> ((error + 'p) \<times> 'u) option"
  pgp_Read :: "'u reader \<Rightarrow> nat \<Rightarrow> 'p \<times> 'u \<Rightarrow> (read_result \<times> 'p \<times> 'u) option"

text \<open>The key versions are numbered from 1.\<close>

definition SingleKeyEncryption :: byte where "SingleKeyEncryption = 1"
definition KEKDEKEncryption :: byte where "KEKDEKEncryption = 2"

record 'k GPGCrypter =
  EntityList :: "'k option"
  gpg_cnf :: Crypto

text \<open>Key files are read from the host's file system (\<open>os.ReadFile\<close>).\<close>

definition readKey :: "fs \<Rightarrow> string \<Rightarrow> error + byte list" where
  "readKey fs path = OpenRead path fs"

definition readPGPKey :: "('k, 's, 'q, 'p, 'u) openpgp \<Rightarrow> fs \<Rightarrow> 'k GPGCrypter \<Rightarrow> error + 'k" where
  "readPGPKey lib fs g =
     (case readKey fs (GPGKeyPath (gpg_cnf g)) of
        Inl err \<Rightarrow> Inl err
      | Inr gpgKeyReader \<Rightarrow> ReadArmoredKeyRing lib gpgKeyReader)"

definition loadSecret :: "('k, 's, 'q, 'p, 'u) openpgp \<Rightarrow> fs \<Rightarrow> 'k GPGCrypter \<Rightarrow> error option \<times> 'k GPGCrypter" where
  "loadSecret lib fs g =
     (case readPGPKey lib fs g of
        Inl err \<Rightarrow> (Some err, g)
      | Inr entityList \<Rightarrow> (None, g\<lparr>EntityList := Some entityList\<rparr>))"

definition NewCrypto :: "('k, 's, 'q, 'p, 'u) openpgp \<Rightarrow> fs \<Rightarrow> Crypto \<Rightarrow> error + 'k GPGCrypter" where
  "NewCrypto lib fs cnf =
     (case loadSecret lib fs \<lparr>EntityList = None, gpg_cnf = cnf\<rparr> of
        (Some err, cr) \<Rightarrow> Inl err
      | (None, cr) \<Rightarrow> Inr cr)"

text \<open>
  \<open>Encrypt\<close> and \<open>Decrypt\<close> hand the key ring to the library; without a key ring (which \<open>NewCrypto\<close>
  never returns) they fail.
\<close>

definition no_keys :: error where "no_keys = Errorf ''openpgp: invalid argument: no keys''"

definition crypter_Decrypt ::
    "('k, 's, 'q, 'p, 'u) openpgp \<Rightarrow> 'k GPGCrypter \<Rightarrow> 'u reader \<Rightarrow> 'u \<Rightarrow> ((error + 'p) \<times> 'u) option" where
  "crypter_Decrypt lib g read u =
     (case EntityList g of None \<Rightarrow> Some (Inl no_keys, u) | Some k \<Rightarrow> pgp_ReadMessage lib k read u)"

definition crypter_Encrypt ::
    "('k, 's, 'q, 'p, 'u) openpgp \<Rightarrow> 'k GPGCrypter \<Rightarrow> 'q writer \<Rightarrow> 'q \<Rightarrow> ((error + 's) \<times> 'q) option" where
  "crypter_Encrypt lib g write q =
     (case EntityList g of None \<Rightarrow> Some (Inl no_keys, q) | Some k \<Rightarrow> pgp_Encrypt lib k write q)"

definition CmpKey :: "fs \<Rightarrow> 'k GPGCrypter \<Rightarrow> string \<Rightarrow> error + bool" where
  "CmpKey fs g path =
     (case OpenRead (GPGKeyPath (gpg_cnf g)) fs of
        Inl err \<Rightarrow> Inl err
      | Inr this \<Rightarrow>
          (case OpenRead path fs of
             Inl err \<Rightarrow> Inl err
           | Inr other \<Rightarrow> Inr (this = other)))"

lemma NewCrypto_keys: "NewCrypto lib fs cnf = Inr cr \<Longrightarrow> EntityList cr \<noteq> None \<and> gpg_cnf cr = cnf"
  by (auto simp: NewCrypto_def loadSecret_def split: sum.splits prod.splits)

section \<open>What the library documents\<close>

text \<open>
  Encrypting the message \<open>m\<close>, written in any pieces to an encrypting writer above a sink and then
  closed, puts \<open>E m\<close> into the sink; \<open>during base m s q\<close> describes the writer in between.
\<close>

definition pgp_encrypts ::
    "('k, 's, 'q, 'p, 'u) openpgp \<Rightarrow> 'k \<Rightarrow> (byte list \<Rightarrow> byte list) \<Rightarrow> bool" where
  "pgp_encrypts lib k E \<longleftrightarrow>
     (\<forall>wr ready written. sink wr ready written \<longrightarrow>
       (\<exists>during.
         (\<forall>q. ready q \<longrightarrow> (\<exists>s q'. pgp_Encrypt lib k wr q = Some (Inr s, q') \<and> during (written q) [] s q')) \<and>
         (\<forall>base m s q p. during base m s q \<longrightarrow>
            (\<exists>s' q'. pgp_Write lib wr p (s, q) = Some ((length p, None), s', q') \<and> during base (m @ p) s' q')) \<and>
         (\<forall>base m s q. during base m s q \<longrightarrow>
            (\<exists>s' q'. pgp_Close lib wr (s, q) = Some (None, s', q') \<and> ready q' \<and> written q' = base @ E m))))"

text \<open>Decrypting a source that holds the encryption of \<open>m\<close> gives a source that holds \<open>m\<close>.\<close>

definition pgp_decrypts ::
    "('k, 's, 'q, 'p, 'u) openpgp \<Rightarrow> 'k \<Rightarrow> (byte list \<Rightarrow> byte list) \<Rightarrow> bool" where
  "pgp_decrypts lib k E \<longleftrightarrow>
     (\<forall>read holds. source read holds \<longrightarrow>
       (\<exists>plain. source (pgp_Read lib read) plain \<and>
         (\<forall>u m. holds u (E m) \<longrightarrow>
            (\<exists>p u'. pgp_ReadMessage lib k read u = Some (Inr p, u') \<and> plain (p, u') m))))"

section \<open>A library that behaves so\<close>

text \<open>A cipher that prefixes the message with a byte, to evaluate statements about encryption on.\<close>

definition tag_pgp :: "(unit, unit, 'q, unit, 'u) openpgp" where
  "tag_pgp = \<lparr>
     ReadArmoredKeyRing = (\<lambda>bs. Inr ()),
     pgp_Encrypt = (\<lambda>k wr q. map_option (\<lambda>((n, e), q). (case e of None \<Rightarrow> Inr () | Some e \<Rightarrow> Inl e, q)) (wr [1] q)),
     pgp_Write = (\<lambda>wr p (s, q). if p = [] then Some ((0, None), s, q)
                    else map_option (\<lambda>(r, q). (r, s, q)) (wr p q)),
     pgp_Close = (\<lambda>wr (s, q). Some (None, s, q)),
     pgp_ReadMessage = (\<lambda>k rd u. map_option (\<lambda>((bs, e), u). (case e of None \<Rightarrow> Inr () | Some e \<Rightarrow> Inl e, u)) (rd 1 u)),
     pgp_Read = (\<lambda>rd n (p, u). map_option (\<lambda>(r, u). (r, p, u)) (rd n u))\<rparr>"

lemma tag_pgp_encrypts: "pgp_encrypts tag_pgp k (\<lambda>m. 1 # m)"
  unfolding pgp_encrypts_def
proof (intro allI impI)
  fix wr :: "'q writer" and ready written
  assume "sink wr ready written"
  note acc = sink.accepts [OF this]
  show "\<exists>during.
         (\<forall>q. ready q \<longrightarrow> (\<exists>s q'. pgp_Encrypt tag_pgp k wr q = Some (Inr s, q') \<and> during (written q) [] s q')) \<and>
         (\<forall>base m s q p. during base m s q \<longrightarrow>
            (\<exists>s' q'. pgp_Write tag_pgp wr p (s, q) = Some ((length p, None), s', q') \<and> during base (m @ p) s' q')) \<and>
         (\<forall>base m s q. during base m s q \<longrightarrow>
            (\<exists>s' q'. pgp_Close tag_pgp wr (s, q) = Some (None, s', q') \<and> ready q' \<and> written q' = base @ 1 # m))"
  proof (intro exI [of _ "\<lambda>base m (s :: unit) q. ready q \<and> written q = base @ 1 # m"] conjI allI impI)
    fix q assume "ready q"
    then show "\<exists>s q'. pgp_Encrypt tag_pgp k wr q = Some (Inr s, q') \<and> ready q' \<and> written q' = written q @ [1]"
      using acc [of q "[1]"] by (auto simp: tag_pgp_def)
  next
    fix base m and s :: unit and q and p :: "byte list"
    assume "ready q \<and> written q = base @ 1 # m"
    then show "\<exists>s' q'. pgp_Write tag_pgp wr p (s, q) = Some ((length p, None), s', q') \<and> ready q' \<and>
        written q' = base @ 1 # m @ p"
      using acc [of q p] by (cases "p = []") (auto simp: tag_pgp_def)
  qed (auto simp: tag_pgp_def)
qed

lemma tag_pgp_decrypts: "pgp_decrypts tag_pgp k (\<lambda>m. 1 # m)"
  unfolding pgp_decrypts_def
proof (intro allI impI)
  fix read :: "'u reader" and holds
  assume src: "source read holds"
  note pr = source.progress [OF src] and en = source.ending [OF src]
  show "\<exists>plain. source (pgp_Read tag_pgp read) plain \<and>
         (\<forall>u m. holds u (1 # m) \<longrightarrow>
            (\<exists>p u'. pgp_ReadMessage tag_pgp k read u = Some (Inr p, u') \<and> plain (p, u') m))"
  proof (intro exI [of _ "\<lambda>(p, u). holds u"] conjI allI impI)
    show "source (pgp_Read tag_pgp read) (\<lambda>(p, u). holds u)"
    proof (unfold_locales, goal_cases)
      case (1 q rest k)
      then show ?case using pr [of "snd q" rest k] by (cases q) (fastforce simp: tag_pgp_def)
    next
      case (2 q k)
      then show ?case using en [of "snd q" k] by (cases q) (auto simp: tag_pgp_def)
    qed
  next
    fix u m assume "holds u (1 # m)"
    from pr [OF this, of 1] obtain bs u' where
      r: "read 1 u = Some ((Some bs, None), u')" "bs \<noteq> []" "length bs \<le> 1" "prefix bs (1 # m)"
      "holds u' (drop (length bs) (1 # m))" by auto
    from r(2,3) have "length bs = 1" by (cases bs) auto
    with r show "\<exists>p u'. pgp_ReadMessage tag_pgp k read u = Some (Inr p, u') \<and> (case (p, u') of (p, u) \<Rightarrow> holds u) m"
      by (simp add: tag_pgp_def)
  qed
qed

end
