(* ===== verification/Database.thy ===== *)
theory Database
  imports StorageIface
begin

text \<open>
  The database side, \<open>pkg/database/database.go\<close>: finding the databases that use yezzey, reading
  the virtual and expire indexes, and changing the expire hints. The driver (\<open>pgx\<close>) is a
  parameter: whether a connection succeeds, and what a query returns in the database state \<open>'d\<close>.

  The rows of a query are those \<open>Next\<close> reaches, each with what \<open>Scan\<close> makes of it, and the
  error that ended the iteration (\<open>rows.Err()\<close>), which the code never looks at.
\<close>

record pg_rows =
  row_list :: "(error + string list) list"
  rows_Err :: "error option"

record 'd pgx =
  ParseEnvLibpq :: "error option"
  RuntimeParams :: "(string \<times> string) list"
  pgx_Connect :: "u16 \<Rightarrow> string \<Rightarrow> (string \<times> string) list \<Rightarrow> 'd \<Rightarrow> error option"
  pgx_Query :: "u16 \<Rightarrow> string \<Rightarrow> string \<Rightarrow> string list \<Rightarrow> 'd \<Rightarrow> (error + pg_rows) \<times> 'd"
  ParseLSN :: "string \<Rightarrow> error + u64"
  FormatLSN :: "u64 \<Rightarrow> string"
  TestMode :: bool

text \<open>A connection is determined by the port and the database it was made to.\<close>

type_synonym pg_conn = "u16 \<times> string"

record DB =
  db_name :: string
  db_tablespace :: string
  db_oid :: string

definition q_version :: string where
  "q_version = ''SELECT extversion FROM pg_catalog.pg_extension WHERE extname OPERATOR(pg_catalog.=) 'yezzey';''"
definition q_expire :: string where
  "q_expire = ''SELECT x_path, lsn FROM yezzey.yezzey_expire_hint;''"
definition q_virtual :: string where
  "q_virtual = ''SELECT x_path FROM yezzey.yezzey_virtual_index;''"
definition q_lsn :: string where
  "q_lsn = ''select pg_catalog.pg_current_xlog_location();''"
definition q_insert :: string where
  "q_insert = ''INSERT INTO yezzey.yezzey_expire_hint (lsn,x_path) VALUES ($1 , $2);''"
definition q_delete :: string where
  "q_delete = ''DELETE FROM yezzey.yezzey_expire_hint WHERE x_path OPERATOR(pg_catalog.=) $1;''"
definition q_databases :: string where
  "q_databases = ''SELECT dattablespace, oid, datname FROM pg_catalog.pg_database WHERE datallowconn;''"
definition q_schema :: string where
  "q_schema = ''SELECT exists(SELECT * FROM information_schema.schemata WHERE schema_name OPERATOR(pg_catalog.=) 'yezzey');''"

definition parse_error :: "error \<Rightarrow> error" where
  "parse_error e = Errorf (''unable to parse query output '' @ error_text e)"

definition tables_error :: "error \<Rightarrow> error" where
  "tables_error e = Errorf (''unable to get ao/aocs tables '' @ error_text e)"

section \<open>Connections\<close>

definition connectToDatabase :: "'d pgx \<Rightarrow> u64 \<Rightarrow> string \<Rightarrow> 'd \<Rightarrow> error + pg_conn" where
  "connectToDatabase px port database d =
     (case ParseEnvLibpq px of
        Some err \<Rightarrow> Inl (Wrap ''Connect: unable to read environment variables'' err)
      | None \<Rightarrow>
          (let p = (ucast port :: u16) in
           if TestMode px then
             (case pgx_Connect px p database (RuntimeParams px) d of
                Some err \<Rightarrow> Inl err | None \<Rightarrow> Inr (p, database))
           else
             (let params = AList.update ''gp_role'' ''utility'' (RuntimeParams px) in
              case pgx_Connect px p database params d of
                None \<Rightarrow> Inr (p, database)
              | Some _ \<Rightarrow>
                  (let params = AList.update ''gp_session_role'' ''utility'' params in
                   case pgx_Connect px p database params d of
                     Some err \<Rightarrow> Inl err | None \<Rightarrow> Inr (p, database)))))"

definition conn_Query :: "'d pgx \<Rightarrow> pg_conn \<Rightarrow> string \<Rightarrow> string list \<Rightarrow> 'd \<Rightarrow> (error + pg_rows) \<times> 'd" where
  "conn_Query px conn sql args = pgx_Query px (fst conn) (snd conn) sql args"

section \<open>The indexes\<close>

text \<open>Versions are compared as strings.\<close>

definition checkVersion :: "'d pgx \<Rightarrow> pg_conn \<Rightarrow> string \<Rightarrow> 'd \<Rightarrow> (error + bool) \<times> 'd" where
  "checkVersion px c expected d =
     (case conn_Query px c q_version [] d of
        (Inl err, d) \<Rightarrow> (Inl (tables_error err), d)
      | (Inr rows, d) \<Rightarrow>
          (case row_list rows of
             [] \<Rightarrow> (Inl (Errorf ''unable to get yezzey extension version''), d)
           | Inl err # _ \<Rightarrow> (Inl (parse_error err), d)
           | Inr vals # rest \<Rightarrow>
               (if rest \<noteq> [] then
                  (Inl (Errorf ''unable to get yezzey extension version: duplicate output''), d)
                else (Inr (expected \<le> hd vals), d))))"

type_synonym virtual_index = "(string \<times> bool) list"
type_synonym expire_index = "(string \<times> u64) list"

fun read_expire :: "'d pgx \<Rightarrow> (error + string list) list \<Rightarrow> expire_index \<Rightarrow> error option \<times> expire_index" where
  "read_expire px [] ei = (None, ei)"
| "read_expire px (Inl err # rows) ei = (Some (parse_error err), ei)"
| "read_expire px (Inr vals # rows) ei =
     (case ParseLSN px (vals ! 1) of
        Inl err \<Rightarrow> (Some (parse_error err), ei)
      | Inr lsn \<Rightarrow> read_expire px rows (AList.update (vals ! 0) lsn ei))"

fun read_virtual :: "(error + string list) list \<Rightarrow> virtual_index \<Rightarrow> error option \<times> virtual_index" where
  "read_virtual [] vi = (None, vi)"
| "read_virtual (Inl err # rows) vi = (Some (parse_error err), vi)"
| "read_virtual (Inr vals # rows) vi = read_virtual rows (AList.update (hd vals) True vi)"

definition GetVirtualExpireIndex ::
    "'d pgx \<Rightarrow> u64 \<Rightarrow> DB \<Rightarrow> virtual_index \<Rightarrow> expire_index \<Rightarrow> 'd \<Rightarrow>
     (error option \<times> virtual_index \<times> expire_index) \<times> 'd" where
  "GetVirtualExpireIndex px port dbase vi ei d =
     (case connectToDatabase px port (db_name dbase) d of
        Inl err \<Rightarrow> ((Some err, vi, ei), d)
      | Inr conn \<Rightarrow>
      case checkVersion px conn ''1.8.4'' d of
        (Inl err, d) \<Rightarrow> ((Some err, vi, ei), d)
      | (Inr ch, d) \<Rightarrow>
      case (if ch then
              (case conn_Query px conn q_expire [] d of
                 (Inl err, d) \<Rightarrow> ((Some (tables_error err), ei), d)
               | (Inr rows, d) \<Rightarrow> (read_expire px (row_list rows) ei, d))
            else ((None, ei), d)) of
        ((Some err, ei), d) \<Rightarrow> ((Some err, vi, ei), d)
      | ((None, ei), d) \<Rightarrow>
      case conn_Query px conn q_virtual [] d of
        (Inl err, d) \<Rightarrow> ((Some (tables_error err), vi, ei), d)
      | (Inr rows, d) \<Rightarrow>
          (case read_virtual (row_list rows) vi of (err, vi) \<Rightarrow> ((err, vi, ei), d)))"

section \<open>The databases\<close>

text \<open>The loop of \<open>getDatabase\<close> over the rows of \<open>pg_database\<close>.\<close>

fun database_rows :: "'d pgx \<Rightarrow> u64 \<Rightarrow> (error + string list) list \<Rightarrow> DB list \<Rightarrow> 'd \<Rightarrow> (error + DB list) \<times> 'd" where
  "database_rows px port [] dbs d = (Inr dbs, d)"
| "database_rows px port (Inl err # rows) dbs d = (Inl err, d)"
| "database_rows px port (Inr vals # rows) dbs d =
     (let row = \<lparr>db_name = vals ! 2, db_tablespace = vals ! 0, db_oid = vals ! 1\<rparr> in
      if db_name row = ''postgres'' then database_rows px port rows dbs d
      else case connectToDatabase px port (db_name row) d of
        Inl err \<Rightarrow> (Inl err, d)
      | Inr connDb \<Rightarrow>
          (case conn_Query px connDb q_schema [] d of
             (Inl err, d) \<Rightarrow> (Inl err, d)
           | (Inr rowsdb, d) \<Rightarrow>
               (case row_list rowsdb of
                  [] \<Rightarrow> (Inl (Errorf ''no rows in result set''), d)
                | Inl err # _ \<Rightarrow> (Inl err, d)
                | Inr ans # _ \<Rightarrow>
                    database_rows px port rows (if hd ans = ''t'' then dbs @ [row] else dbs) d)))"

definition getDatabase :: "'d pgx \<Rightarrow> bool \<Rightarrow> u64 \<Rightarrow> 'd \<Rightarrow> (error + DB list) \<times> 'd" where
  "getDatabase px restoreParanoid port d =
     (case connectToDatabase px port ''postgres'' d of
        Inl err \<Rightarrow> (Inl err, d)
      | Inr conn \<Rightarrow>
      case conn_Query px conn q_databases [] d of
        (Inl err, d) \<Rightarrow> (Inl err, d)
      | (Inr rows, d) \<Rightarrow>
      case database_rows px port (row_list rows) [] d of
        (Inl err, d) \<Rightarrow> (Inl err, d)
      | (Inr databases, d) \<Rightarrow>
          (if databases = [] \<and> restoreParanoid
           then (Inl (Errorf ''no yezzey schema across databases''), d)
           else (Inr databases, d)))"

fun index_databases ::
    "'d pgx \<Rightarrow> u64 \<Rightarrow> DB list \<Rightarrow> virtual_index \<Rightarrow> expire_index \<Rightarrow> 'd \<Rightarrow>
     (error + virtual_index \<times> expire_index) \<times> 'd" where
  "index_databases px port [] vi ei d = (Inr (vi, ei), d)"
| "index_databases px port (dbase # dbs) vi ei d =
     (case GetVirtualExpireIndex px port dbase vi ei d of
        ((Some err, _, _), d) \<Rightarrow> (Inl err, d)
      | ((None, vi, ei), d) \<Rightarrow> index_databases px port dbs vi ei d)"

definition GetVirtualExpireIndexes ::
    "'d pgx \<Rightarrow> u64 \<Rightarrow> ('r, 'd) world \<Rightarrow> (error + virtual_index \<times> expire_index) \<times> ('r, 'd) world" where
  "GetVirtualExpireIndexes px port w =
     (case getDatabase px (YezzeyRestoreParanoid (the_instance w)) port (db w) of
        (Inl err, d) \<Rightarrow> (Inl (tables_error err), w\<lparr>db := d\<rparr>)
      | (Inr databases, d) \<Rightarrow>
          (case index_databases px port databases [] [] d of (res, d) \<Rightarrow> (res, w\<lparr>db := d\<rparr>)))"

section \<open>The expire hints\<close>

definition GetNextLSN :: "'d pgx \<Rightarrow> u64 \<Rightarrow> string \<Rightarrow> ('r, 'd) world \<Rightarrow> (error + u64) \<times> ('r, 'd) world" where
  "GetNextLSN px port dbname w =
     (case connectToDatabase px port dbname (db w) of
        Inl err \<Rightarrow> (Inl err, w)
      | Inr conn \<Rightarrow>
          (case conn_Query px conn q_lsn [] (db w) of
             (Inl err, d) \<Rightarrow> (Inl (parse_error err), w\<lparr>db := d\<rparr>)
           | (Inr rows, d) \<Rightarrow>
               (case row_list rows of
                  [] \<Rightarrow> (Inl (parse_error (Errorf ''no rows in result set'')), w\<lparr>db := d\<rparr>)
                | Inl err # _ \<Rightarrow> (Inl (parse_error err), w\<lparr>db := d\<rparr>)
                | Inr vals # _ \<Rightarrow>
                    (case ParseLSN px (hd vals) of
                       Inl err \<Rightarrow> (Inl (parse_error err), w\<lparr>db := d\<rparr>)
                     | Inr lsn \<Rightarrow> (Inr lsn, w\<lparr>db := d\<rparr>)))))"

definition GetConnectToDatabase :: "'d pgx \<Rightarrow> u64 \<Rightarrow> string \<Rightarrow> ('r, 'd) world \<Rightarrow> error + pg_conn" where
  "GetConnectToDatabase px port dbname w = connectToDatabase px port dbname (db w)"

definition AddToExpireIndex ::
    "'d pgx \<Rightarrow> pg_conn \<Rightarrow> string \<Rightarrow> u64 \<Rightarrow> ('r, 'd) world \<Rightarrow> error option \<times> ('r, 'd) world" where
  "AddToExpireIndex px conn filename lsn w =
     (case conn_Query px conn q_insert [FormatLSN px lsn, filename] (db w) of
        (Inl err, d) \<Rightarrow> (Some (Errorf (''unable to update yezzey_expire_hint '' @ error_text err)), w\<lparr>db := d\<rparr>)
      | (Inr _, d) \<Rightarrow> (None, w\<lparr>db := d\<rparr>))"

definition DeleteFromExpireIndex ::
    "'d pgx \<Rightarrow> pg_conn \<Rightarrow> string \<Rightarrow> ('r, 'd) world \<Rightarrow> error option \<times> ('r, 'd) world" where
  "DeleteFromExpireIndex px conn filename w =
     (case conn_Query px conn q_delete [filename] (db w) of
        (Inl err, d) \<Rightarrow> (Some (Errorf (''unable to delete from yezzey_expire_hint '' @ error_text err)), w\<lparr>db := d\<rparr>)
      | (Inr _, d) \<Rightarrow> (None, w\<lparr>db := d\<rparr>))"

section \<open>What the index readers collect\<close>

lemma read_virtual_lookup:
  assumes "read_virtual rows vi = (None, vi')"
  shows "map_of vi' p =
    (if p \<in> (\<lambda>r. hd (projr r)) ` set rows then Some True else map_of vi p)"
  using assms
proof (induction rows vi rule: read_virtual.induct)
  case (3 vals rows vi)
  then show ?case by (auto simp: update_conv')
qed auto

lemma read_virtual_rows_ok: "read_virtual rows vi = (None, vi') \<Longrightarrow> list_all (\<lambda>r. \<not> isl r) rows"
  by (induction rows vi rule: read_virtual.induct) auto

text \<open>Reading an index only ever adds entries: a path in the index stays in it.\<close>

lemma GetVirtualExpireIndex_virtual_mono:
  assumes "GetVirtualExpireIndex px port dbase vi ei d = ((None, vi', ei'), d')" and "map_of vi p = Some True"
  shows "map_of vi' p = Some True"
proof -
  obtain rows where "read_virtual rows vi = (None, vi')"
    using assms(1)
    by (auto simp: GetVirtualExpireIndex_def split: sum.splits prod.splits option.splits if_splits)
  from read_virtual_lookup [OF this, of p] assms(2) show ?thesis by auto
qed

lemma index_databases_virtual_mono:
  "index_databases px port dbs vi ei d = (Inr (vi', ei'), d') \<Longrightarrow> map_of vi p = Some True \<Longrightarrow>
   map_of vi' p = Some True"
  by (induction px port dbs vi ei d rule: index_databases.induct)
     (auto split: prod.splits option.splits dest: GetVirtualExpireIndex_virtual_mono)

lemma GetVirtualExpireIndexes_world:
  "GetVirtualExpireIndexes px port w = (r, w') \<Longrightarrow> \<exists>d. w' = w\<lparr>db := d\<rparr>"
  by (auto simp: GetVirtualExpireIndexes_def split: sum.splits prod.splits)

text \<open>Without a yezzey schema anywhere, the paranoid setting refuses to answer.\<close>

lemma getDatabase_paranoid: "getDatabase px True port d = (Inr dbs, d') \<Longrightarrow> dbs \<noteq> []"
  by (auto simp: getDatabase_def split: sum.splits prod.splits if_splits)

text \<open>For a database that queries do not change, reading the indexes collects all of them.\<close>

definition pgx_pure :: "'d pgx \<Rightarrow> bool" where
  "pgx_pure px \<longleftrightarrow> (\<forall>p n sql args d. snd (pgx_Query px p n sql args d) = d)"

lemma conn_Query_pure: "pgx_pure px \<Longrightarrow> conn_Query px c sql args d = (r, d') \<Longrightarrow> d' = d"
  unfolding pgx_pure_def conn_Query_def by (metis snd_conv)

lemma checkVersion_pure: "pgx_pure px \<Longrightarrow> checkVersion px c v d = (r, d') \<Longrightarrow> d' = d"
  by (auto simp: checkVersion_def split: prod.splits sum.splits list.splits if_splits dest: conn_Query_pure)

lemma GetVirtualExpireIndex_pure:
  assumes "pgx_pure px"
  shows "GetVirtualExpireIndex px port dbase vi ei d = (r, d') \<Longrightarrow> d' = d"
  by (auto simp: GetVirtualExpireIndex_def split: prod.splits sum.splits option.splits if_splits
      dest!: conn_Query_pure [OF assms] checkVersion_pure [OF assms])

lemma database_rows_pure: "pgx_pure px \<Longrightarrow> database_rows px port rows dbs d = (r, d') \<Longrightarrow> d' = d"
  by (induction px port rows dbs d rule: database_rows.induct)
    (auto simp: Let_def split: prod.splits sum.splits list.splits if_splits dest!: conn_Query_pure)

lemma getDatabase_pure:
  assumes "pgx_pure px"
  shows "getDatabase px rp port d = (r, d') \<Longrightarrow> d' = d"
  by (auto simp: getDatabase_def split: prod.splits sum.splits if_splits 
      dest!: conn_Query_pure [OF assms] database_rows_pure [OF assms])

lemma GetVirtualExpireIndex_reads:
  assumes q: "pgx_pure px"
    and g: "GetVirtualExpireIndex px port dbase vi ei d = ((None, vi', ei'), d')"
    and c: "connectToDatabase px port (db_name dbase) d = Inr conn"
    and r: "conn_Query px conn q_virtual [] d = (Inr rows, d)" and v: "Inr vals \<in> set (row_list rows)"
  shows "map_of vi' (hd vals) = Some True"
proof -
  obtain rv d1 where cv: "checkVersion px conn ''1.8.4'' d = (rv, d1)" by fastforce
  then have d1: "d1 = d" by (rule checkVersion_pure [OF q])
  obtain re d2 where e: "conn_Query px conn q_expire [] d = (re, d2)" by fastforce
  then have d2: "d2 = d" by (rule conn_Query_pure [OF q])
  have "read_virtual (row_list rows) vi = (None, vi')"
    using g c cv d1 e d2 r
    by (auto simp: GetVirtualExpireIndex_def split: sum.splits prod.splits option.splits if_splits)
  from read_virtual_lookup [OF this, of "hd vals"] v show ?thesis by (force split: if_splits)
qed

lemma index_databases_reads:
  assumes q: "pgx_pure px" and c: "connectToDatabase px port (db_name dbase) d = Inr conn"
    and r: "conn_Query px conn q_virtual [] d = (Inr rows, d)" and v: "Inr vals \<in> set (row_list rows)"
  shows "index_databases px port dbs vi ei d = (Inr (vi', ei'), d') \<Longrightarrow> dbase \<in> set dbs \<Longrightarrow>
    map_of vi' (hd vals) = Some True"
proof (induction dbs arbitrary: vi ei)
  case (Cons b dbs)
  obtain x vi1 ei1 d1 where g: "GetVirtualExpireIndex px port b vi ei d = ((x, vi1, ei1), d1)" by (metis prod.exhaust)
  then have d1: "d1 = d" by (rule GetVirtualExpireIndex_pure [OF q])
  with g Cons.prems(1) have x: "x = None" and rest: "index_databases px port dbs vi1 ei1 d = (Inr (vi', ei'), d')"
    by (auto split: option.splits)
  show ?case
  proof (cases "b = dbase")
    case True
    with GetVirtualExpireIndex_reads [OF q _ c r v] g x have "map_of vi1 (hd vals) = Some True" by blast
    with index_databases_virtual_mono [OF rest] show ?thesis by blast
  next
    case False
    with Cons.IH [OF rest] Cons.prems(2) show ?thesis by auto
  qed
qed simp

end
