(* ===== verification/S3Storage.thy ===== *)
theory S3Storage
  imports StorageIface
begin

text \<open>
  The S3 storage, \<open>pkg/storage/s3storage.go\<close>. The AWS SDK is a parameter: the record \<open>s3_api\<close>
  holds one function per SDK call, over the remote state \<open>'r\<close>. What the SDK documents is stated
  in \<open>s3_documented\<close>, and under it the S3 storage keeps the contract of a storage.
\<close>

section \<open>The SDK\<close>

type_synonym sess = "Storage \<times> StorageCredentials"

record s3_object =
  s3_Key :: string
  s3_Size :: u64
  s3_LastModified :: int

record list_page =
  out_Contents :: "s3_object list"
  out_IsTruncated :: bool
  out_NextContinuationToken :: "string option"

record uploads_page =
  out_Uploads :: "(string \<times> string) list"
  out_uploads_truncated :: bool
  out_NextKeyMarker :: "string option"

record 'r s3_api =
  NewSession :: "sess \<Rightarrow> 'r \<Rightarrow> error option \<times> 'r"
  api_GetObject :: "sess \<Rightarrow> string \<Rightarrow> string \<Rightarrow> string \<Rightarrow> 'r \<Rightarrow> (error + stream) \<times> 'r"
  api_Upload :: "sess \<Rightarrow> int \<Rightarrow> string \<Rightarrow> string \<Rightarrow> stream \<Rightarrow> string \<Rightarrow> 'r \<Rightarrow> error option \<times> 'r"
  api_PutObject :: "sess \<Rightarrow> string \<Rightarrow> string \<Rightarrow> byte list \<Rightarrow> string \<Rightarrow> 'r \<Rightarrow> error option \<times> 'r"
  api_PatchObject :: "sess \<Rightarrow> string \<Rightarrow> string \<Rightarrow> stream \<Rightarrow> string \<Rightarrow> 'r \<Rightarrow> error option \<times> 'r"
  api_ListObjectsV2 :: "sess \<Rightarrow> string \<Rightarrow> string \<Rightarrow> string option \<Rightarrow> 'r \<Rightarrow> (error + list_page) \<times> 'r"
  api_DeleteObject :: "sess \<Rightarrow> string \<Rightarrow> string \<Rightarrow> 'r \<Rightarrow> error option \<times> 'r"
  api_HeadObject :: "sess \<Rightarrow> string \<Rightarrow> string \<Rightarrow> 'r \<Rightarrow> (error + string option) \<times> 'r"
  api_CopyObject :: "sess \<Rightarrow> string \<Rightarrow> string \<Rightarrow> string \<Rightarrow> string option \<Rightarrow> 'r \<Rightarrow> error option \<times> 'r"
  api_AbortMultipartUpload :: "sess \<Rightarrow> string \<Rightarrow> string \<Rightarrow> string \<Rightarrow> 'r \<Rightarrow> error option \<times> 'r"
  api_ListMultipartUploads :: "sess \<Rightarrow> string \<Rightarrow> string option \<Rightarrow> 'r \<Rightarrow> (error + uploads_page) \<times> 'r"
  storage_ID :: "Storage \<Rightarrow> string"

text \<open>\<open>storage_ID\<close> is \<open>Storage.ID()\<close>, a URL built by \<open>net/url\<close>; nothing below depends on its form.\<close>

record S3Storage =
  s3_cnf :: Storage
  TSToBucketMap :: "(string \<times> string) list"
  credentialMap :: "(string \<times> StorageCredentials) list"

definition getCredentials :: "S3Storage \<Rightarrow> string \<Rightarrow> error + StorageCredentials" where
  "getCredentials s bucket =
     (case map_of (credentialMap s) bucket of
        None \<Rightarrow> Inl (Errorf (''no credentials configured for bucket \"'' @ bucket @
                  ''\"; check credential_map in config''))
      | Some cr \<Rightarrow> Inr cr)"

text \<open>\<open>getCredentials\<close> followed by \<open>pool.GetSession\<close>, as every operation begins\<close>

definition acquire :: "'r s3_api \<Rightarrow> S3Storage \<Rightarrow> string \<Rightarrow> ('r, 'd) world \<Rightarrow> (error + sess) \<times> ('r, 'd) world" where
  "acquire api s bucket w =
     (case getCredentials s bucket of
        Inl err \<Rightarrow> (Inl err, w)
      | Inr cr \<Rightarrow>
          (case NewSession api (s3_cnf s, cr) (remote w) of
             (Some err, r) \<Rightarrow> (Inl (Wrap ''failed to create new session'' err), w\<lparr>remote := r\<rparr>)
           | (None, r) \<Rightarrow> (Inr (s3_cnf s, cr), w\<lparr>remote := r\<rparr>)))"

text \<open>Run an SDK call on the remote part of the world.\<close>

definition call :: "('r \<Rightarrow> 'a \<times> 'r) \<Rightarrow> ('r, 'd) world \<Rightarrow> 'a \<times> ('r, 'd) world" where
  "call f w = (case f (remote w) of (x, r) \<Rightarrow> (x, w\<lparr>remote := r\<rparr>))"

definition tablespace_bucket :: "S3Storage \<Rightarrow> StorageSettings list \<Rightarrow> error + string" where
  "tablespace_bucket s setts =
     (let tableSpace = ResolveStorageSetting setts TableSpaceSetting DefaultTableSpace in
      case map_of (TSToBucketMap s) tableSpace of
        None \<Rightarrow> Inl (Errorf (''failed to match tablespace '' @ tableSpace @ '' to s3 bucket''))
      | Some bucket \<Rightarrow> Inr bucket)"

definition objectPath :: "S3Storage \<Rightarrow> string \<Rightarrow> string" where
  "objectPath s name = TrimLeftSlash (Join [StoragePrefix (s3_cnf s), name])"

section \<open>Reading and writing\<close>

definition s3_CatFileFromStorage ::
    "'r s3_api \<Rightarrow> S3Storage \<Rightarrow> string \<Rightarrow> int \<Rightarrow> StorageSettings list \<Rightarrow> ('r, 'd) world \<Rightarrow>
     (error + stream) \<times> ('r, 'd) world" where
  "s3_CatFileFromStorage api s name offset setts w =
     (case tablespace_bucket s setts of
        Inl err \<Rightarrow> (Inl err, w)
      | Inr bucket \<Rightarrow>
          (case acquire api s bucket w of
             (Inl err, w) \<Rightarrow> (Inl err, w)
           | (Inr sess, w) \<Rightarrow>
               call (api_GetObject api sess bucket (objectPath s name)
                      (''bytes='' @ dec_of_int offset @ ''-'')) w))"

text \<open>\<open>strconv.ParseInt(s, 10, 64)\<close> and \<open>strconv.ParseBool\<close>\<close>

definition is_digit :: "char \<Rightarrow> bool" where
  "is_digit c \<longleftrightarrow> 48 \<le> (of_char c :: nat) \<and> (of_char c :: nat) \<le> 57"

definition ParseInt64 :: "string \<Rightarrow> error + int" where
  "ParseInt64 s =
     (let (neg, ds) = (if HasPrefix s ''-'' then (True, drop 1 s)
                       else if HasPrefix s ''+'' then (False, drop 1 s) else (False, s));
          err = (\<lambda>m. Inl (Errorf (''strconv.ParseInt: parsing \"'' @ s @ ''\": '' @ m)));
          n = int (nat_of_dec 0 ds) in
      if ds = [] \<or> \<not> list_all is_digit ds then err ''invalid syntax''
      else if neg then (if n \<le> 2 ^ 63 then Inr (- n) else err ''value out of range'')
      else if n < 2 ^ 63 then Inr n else err ''value out of range'')"

definition ParseBool :: "string \<Rightarrow> error + bool" where
  "ParseBool s =
     (if s \<in> set [''1'', ''t'', ''T'', ''TRUE'', ''true'', ''True''] then Inr True
      else if s \<in> set [''0'', ''f'', ''F'', ''FALSE'', ''false'', ''False''] then Inr False
      else Inl (Errorf (''strconv.ParseBool: parsing \"'' @ s @ ''\": invalid syntax'')))"

text \<open>What an upload's body delivers when it ends.\<close>

definition body_stream :: "upload_body \<Rightarrow> stream option" where
  "body_stream r =
     (case snd r of BodyEOF \<Rightarrow> Some (fst r, None) | BodyError e \<Rightarrow> Some (fst r, Some e) | BodyNever \<Rightarrow> None)"

definition s3_PutFileToDest ::
    "'r s3_api \<Rightarrow> S3Storage \<Rightarrow> string \<Rightarrow> upload_body \<Rightarrow> StorageSettings list \<Rightarrow> ('r, 'd) world \<Rightarrow>
     (error option \<times> ('r, 'd) world) option" where
  "s3_PutFileToDest api s name r setts w =
     (let path = objectPath s name;
          storageClass = ResolveStorageSetting setts StorageClassSetting ''STANDARD'' in
      case ParseInt64 (ResolveStorageSetting setts MultipartChunkSize ''16777216'') of
        Inl err \<Rightarrow> Some (Some err, w)
      | Inr chunkSize \<Rightarrow>
      case ParseBool (ResolveStorageSetting setts MultipartUpload ''1'') of
        Inl err \<Rightarrow> Some (Some err, w)
      | Inr multipart \<Rightarrow>
      case tablespace_bucket s setts of
        Inl err \<Rightarrow> Some (Some err, w)
      | Inr bucket \<Rightarrow>
      case acquire api s bucket w of
        (Inl err, w) \<Rightarrow> Some (Some err, w)
      | (Inr sess, w) \<Rightarrow>
      case body_stream r of
        None \<Rightarrow> None
      | Some body \<Rightarrow>
          (if multipart then
             (let w = w\<lparr>multipartUploads := path # removeAll path (multipartUploads w)\<rparr>;
                  (res, w) = call (api_Upload api sess chunkSize bucket path body storageClass) w
              in Some (res, w\<lparr>multipartUploads := removeAll path (multipartUploads w)\<rparr>))
           else case snd body of
               Some err \<Rightarrow> Some (Some err, w)
             | None \<Rightarrow> Some (call (api_PutObject api sess bucket path (fst body) storageClass) w)))"

definition s3_PatchFile ::
    "'r s3_api \<Rightarrow> S3Storage \<Rightarrow> string \<Rightarrow> stream \<Rightarrow> int \<Rightarrow> ('r, 'd) world \<Rightarrow> error option \<times> ('r, 'd) world" where
  "s3_PatchFile api s name r startOffset w =
     (let bucket = StorageBucket (s3_cnf s) in
      case acquire api s bucket w of
        (Inl err, w) \<Rightarrow> (Some err, w)
      | (Inr sess, w) \<Rightarrow>
          call (api_PatchObject api sess bucket (objectPath s name) r
                 (''bytes '' @ dec_of_int startOffset @ ''-18446744073709551615'')) w)"

section \<open>The listing cache\<close>

definition putInCache :: "string \<Rightarrow> ObjectInfo list \<Rightarrow> ('r, 'd) world \<Rightarrow> error option \<times> ('r, 'd) world" where
  "putInCache storageId objs w =
     (let cachePath = BucketCachePath (ProxyCnf (the_instance w)) in
      if cachePath = [] then (Some (Errorf ''cache path is not specified''), w)
      else
        (let store = (\<lambda>m. (None, w\<lparr>cacheFile :=
               CacheText (AList.update storageId \<lparr>Objects = objs, Time = clock w\<rparr> m)\<rparr>)) in
         case cacheFile w of
           NoCacheFile \<Rightarrow> store []
         | EmptyText \<Rightarrow> store []
         | BadText \<Rightarrow> (Some (Errorf ''invalid character in JSON text''), w)
         | CacheText m \<Rightarrow> store m))"

definition readCache ::
    "'r s3_api \<Rightarrow> Storage \<Rightarrow> string \<Rightarrow> ('r, 'd) world \<Rightarrow> error + ObjectInfo list" where
  "readCache api cfg prefix w =
     (let prefix = Join [''/'', StoragePrefix cfg, prefix];
          cachePath = BucketCachePath (ProxyCnf (the_instance w)) in
      if cachePath = [] then Inl (Errorf ''cache path is not specified'')
      else case cacheFile w of
          NoCacheFile \<Rightarrow> Inl (PathError ''open'' cachePath ENOENT)
        | EmptyText \<Rightarrow> Inl (Errorf ''unexpected end of JSON input'')
        | BadText \<Rightarrow> Inl (Errorf ''invalid character in JSON text'')
        | CacheText objs \<Rightarrow>
            (case map_of objs (storage_ID api cfg) of
               None \<Rightarrow> Inl (Errorf (''no cache for storage '' @ storage_ID api cfg))
             | Some storageFiles \<Rightarrow>
                 (if Time storageFiles < clock w - 24 * Hour
                  then Inl (Errorf (''cache for storage '' @ storage_ID api cfg @ '' has expired''))
                  else Inr (filter (\<lambda>obj. HasPrefix (obj_Path obj) prefix) (Objects storageFiles)))))"

section \<open>Listing\<close>

text \<open>
  The loop over the objects of a page: keys outside the storage prefix are skipped, and indexing
  the empty rest of a key equal to the prefix panics.
\<close>

fun list_contents :: "string \<Rightarrow> s3_object list \<Rightarrow> ObjectInfo list \<Rightarrow> ObjectInfo list option" where
  "list_contents pre [] metas = Some metas"
| "list_contents pre (obj # objs) metas =
     (case CutPrefix (s3_Key obj) pre of
        (cPath, False) \<Rightarrow> list_contents pre objs metas
      | (cPath, True) \<Rightarrow>
          (case go_index cPath 0 of
             None \<Rightarrow> None
           | Some c \<Rightarrow>
               (let cPath = (if c \<noteq> CHR ''/'' then CHR ''/'' # cPath else cPath) in
                list_contents pre objs
                  (metas @ [\<lparr>obj_Path = cPath, obj_Size = s3_Size obj,
                             obj_LastMod = s3_LastModified obj\<rparr>]))))"

text \<open>The page loop; it ends only when a page is not truncated.\<close>

partial_function (option) list_pages ::
    "(string option \<Rightarrow> 'r \<Rightarrow> (error + list_page) \<times> 'r) \<Rightarrow> string \<Rightarrow> string option \<Rightarrow> ObjectInfo list \<Rightarrow>
     'r \<Rightarrow> ((error + ObjectInfo list) \<times> 'r) option" where
  "list_pages fetch pre token metas r =
     (case fetch token r of (res, r) \<Rightarrow>
        if isl res then Some (Inl (projl res), r)
        else Option.bind (list_contents pre (out_Contents (projr res)) metas) (\<lambda>metas.
          if \<not> out_IsTruncated (projr res) then Some (Inr metas, r)
          else list_pages fetch pre (out_NextContinuationToken (projr res)) metas r))"

definition s3_ListBucketPath ::
    "'r s3_api \<Rightarrow> S3Storage \<Rightarrow> string \<Rightarrow> string \<Rightarrow> bool \<Rightarrow> ('r, 'd) world \<Rightarrow>
     ((error + ObjectInfo list) \<times> ('r, 'd) world) option" where
  "s3_ListBucketPath api s bucket prefix useCache w =
     (case acquire api s bucket w of
        (Inl err, w) \<Rightarrow> Some (Inl err, w)
      | (Inr sess, w) \<Rightarrow>
          (case list_pages (api_ListObjectsV2 api sess bucket (objectPath s prefix))
                  (StoragePrefix (s3_cnf s)) None [] (remote w) of
             None \<Rightarrow> None
           | Some (Inl err, r) \<Rightarrow> Some (Inl err, w\<lparr>remote := r\<rparr>)
           | Some (Inr metas, r) \<Rightarrow>
               (let w = w\<lparr>remote := r\<rparr>;
                    w = (if useCache then snd (putInCache (storage_ID api (s3_cnf s)) metas w) else w)
                in Some (Inr metas, w))))"

definition s3_ListPath ::
    "'r s3_api \<Rightarrow> S3Storage \<Rightarrow> string \<Rightarrow> bool \<Rightarrow> StorageSettings list \<Rightarrow> ('r, 'd) world \<Rightarrow>
     ((error + ObjectInfo list) \<times> ('r, 'd) world) option" where
  "s3_ListPath api s prefix useCache setts w =
     (let list = (case tablespace_bucket s setts of
                    Inl err \<Rightarrow> Some (Inl err, w)
                  | Inr bucket \<Rightarrow> s3_ListBucketPath api s bucket prefix useCache w) in
      if useCache then
        (case readCache api (s3_cnf s) prefix w of
           Inr objectMetas \<Rightarrow> Some (Inr objectMetas, w)
         | Inl _ \<Rightarrow> list)
      else list)"

section \<open>Deleting, copying, moving\<close>

text \<open>The key a name addresses, given the storage prefix it belongs to.\<close>

definition s3_key :: "string \<Rightarrow> string \<Rightarrow> string" where
  "s3_key pre name = TrimLeftSlash (if \<not> HasPrefix name pre then Join [pre, name] else name)"

definition s3_DeleteObject ::
    "'r s3_api \<Rightarrow> S3Storage \<Rightarrow> string \<Rightarrow> string \<Rightarrow> ('r, 'd) world \<Rightarrow> error option \<times> ('r, 'd) world" where
  "s3_DeleteObject api s bucket name w =
     (case acquire api s bucket w of
        (Inl err, w) \<Rightarrow> (Some err, w)
      | (Inr sess, w) \<Rightarrow>
          call (api_DeleteObject api sess bucket (s3_key (StoragePrefix (s3_cnf s)) name)) w)"

definition SScopyObject ::
    "'r s3_api \<Rightarrow> S3Storage \<Rightarrow> string \<Rightarrow> string \<Rightarrow> string \<Rightarrow> string \<Rightarrow> string \<Rightarrow> ('r, 'd) world \<Rightarrow>
     error option \<times> ('r, 'd) world" where
  "SScopyObject api s from to fromStoragePrefix fromStorageBucket toStorageBucket w =
     (case acquire api s toStorageBucket w of
        (Inl err, w) \<Rightarrow> (Some err, w)
      | (Inr sess, w) \<Rightarrow>
          (let from = s3_key fromStoragePrefix from;
               to = s3_key (StoragePrefix (s3_cnf s)) to in
           case call (api_HeadObject api sess fromStorageBucket from) w of
             (Inl err, w) \<Rightarrow> (Some err, w)
           | (Inr storageClass, w) \<Rightarrow>
               call (api_CopyObject api sess toStorageBucket (Join [fromStorageBucket, from]) to
                      storageClass) w))"

definition s3_MoveObject ::
    "'r s3_api \<Rightarrow> S3Storage \<Rightarrow> string \<Rightarrow> string \<Rightarrow> string \<Rightarrow> ('r, 'd) world \<Rightarrow> error option \<times> ('r, 'd) world" where
  "s3_MoveObject api s bucket from to w =
     (if from = to then (None, w)
      else case SScopyObject api s from to (StoragePrefix (s3_cnf s)) bucket bucket w of
        (Some err, w) \<Rightarrow> (Some err, w)
      | (None, w) \<Rightarrow> s3_DeleteObject api s bucket from w)"

text \<open>The method's parameters carry other names than the interface's, but pass on positionally.\<close>

definition s3_CopyObject ::
    "'r s3_api \<Rightarrow> S3Storage \<Rightarrow> string \<Rightarrow> string \<Rightarrow> string \<Rightarrow> string \<Rightarrow> string \<Rightarrow> ('r, 'd) world \<Rightarrow>
     error option \<times> ('r, 'd) world" where
  "s3_CopyObject api s from to fromStoragePrefix fromStorageBucket toStorageBucket w =
     SScopyObject api s from to fromStoragePrefix fromStorageBucket toStorageBucket w"

declare list_pages.simps [code]

section \<open>Multipart uploads\<close>

definition s3_AbortMultipartUpload ::
    "'r s3_api \<Rightarrow> S3Storage \<Rightarrow> string \<Rightarrow> string \<Rightarrow> string \<Rightarrow> ('r, 'd) world \<Rightarrow> error option \<times> ('r, 'd) world" where
  "s3_AbortMultipartUpload api s bucket key uploadId w =
     (case acquire api s bucket w of
        (Inl err, w) \<Rightarrow> (Some err, w)
      | (Inr sess, w) \<Rightarrow> call (api_AbortMultipartUpload api sess bucket key uploadId) w)"

partial_function (option) upload_pages ::
    "(string option \<Rightarrow> 'r \<Rightarrow> (error + uploads_page) \<times> 'r) \<Rightarrow> string option \<Rightarrow> (string \<times> string) list \<Rightarrow>
     'r \<Rightarrow> ((error + (string \<times> string) list) \<times> 'r) option" where
  "upload_pages fetch keyMarker uploads r =
     (case fetch keyMarker r of (res, r) \<Rightarrow>
        if isl res then Some (Inl (projl res), r)
        else if \<not> out_uploads_truncated (projr res)
        then Some (Inr (uploads @ out_Uploads (projr res)), r)
        else upload_pages fetch (out_NextKeyMarker (projr res)) (uploads @ out_Uploads (projr res)) r)"

declare upload_pages.simps [code]

text \<open>Uploads of this process still in progress are left out; a later upload of a key wins.\<close>

definition failed_uploads :: "string list \<Rightarrow> (string \<times> string) list \<Rightarrow> (string \<times> string) list" where
  "failed_uploads running uploads =
     foldl (\<lambda>out (key, uploadId). if key \<in> set running then out else AList.update key uploadId out)
       [] uploads"

definition s3_ListFailedMultipartUploads ::
    "'r s3_api \<Rightarrow> S3Storage \<Rightarrow> string \<Rightarrow> ('r, 'd) world \<Rightarrow>
     ((error + (string \<times> string) list) \<times> ('r, 'd) world) option" where
  "s3_ListFailedMultipartUploads api s bucket w =
     (case acquire api s bucket w of
        (Inl err, w) \<Rightarrow> Some (Inl err, w)
      | (Inr sess, w) \<Rightarrow>
          (case upload_pages (api_ListMultipartUploads api sess bucket) None [] (remote w) of
             None \<Rightarrow> None
           | Some (Inl err, r) \<Rightarrow> Some (Inl err, w\<lparr>remote := r\<rparr>)
           | Some (Inr uploads, r) \<Rightarrow>
               Some (Inr (failed_uploads (multipartUploads w) uploads), w\<lparr>remote := r\<rparr>)))"

definition s3_ListBuckets :: "S3Storage \<Rightarrow> string list" where
  "s3_ListBuckets s = map snd (TSToBucketMap s)"

definition S3StorageInteractor :: "'r s3_api \<Rightarrow> S3Storage \<Rightarrow> ('r, 'd) world StorageInteractor" where
  "S3StorageInteractor api s =
     \<lparr>CatFileFromStorage = s3_CatFileFromStorage api s,
      PutFileToDest = s3_PutFileToDest api s,
      PatchFile = s3_PatchFile api s,
      ListPath = s3_ListPath api s,
      ListBucketPath = s3_ListBucketPath api s,
      ListFailedMultipartUploads = s3_ListFailedMultipartUploads api s,
      MoveObject = s3_MoveObject api s,
      DeleteObject = s3_DeleteObject api s,
      AbortMultipartUpload = s3_AbortMultipartUpload api s,
      CopyObject = s3_CopyObject api s,
      ListBuckets = s3_ListBuckets s,
      DefaultBucket = StorageBucket (s3_cnf s)\<rparr>"

section \<open>What the SDK documents\<close>

text \<open>
  \<open>objs r b k\<close> is the content of object \<open>k\<close> of bucket \<open>b\<close>. Reads change nothing; a delete
  concerns one key and removes it when it succeeds; asking about a missing object fails; a copy reads the object its source names
  (\<open>bucket/key\<close>), writes one key, changes nothing when it fails, and refuses to copy an object to
  itself; an upload that succeeds stores the bytes of a body that was read to its end.
\<close>

definition s3_reads_ok :: "'r s3_api \<Rightarrow> ('r \<Rightarrow> string \<Rightarrow> string \<Rightarrow> byte list option) \<Rightarrow> bool" where
  "s3_reads_ok api objs \<longleftrightarrow>
     (\<forall>sess r. objs (snd (NewSession api sess r)) = objs r) \<and>
     (\<forall>sess b k g r. objs (snd (api_GetObject api sess b k g r)) = objs r) \<and>
     (\<forall>sess b p t r. objs (snd (api_ListObjectsV2 api sess b p t r)) = objs r) \<and>
     (\<forall>sess b k r. objs (snd (api_HeadObject api sess b k r)) = objs r) \<and>
     (\<forall>sess b k i r. objs (snd (api_AbortMultipartUpload api sess b k i r)) = objs r) \<and>
     (\<forall>sess b t r. objs (snd (api_ListMultipartUploads api sess b t r)) = objs r)"

definition s3_head_ok :: "'r s3_api \<Rightarrow> ('r \<Rightarrow> string \<Rightarrow> string \<Rightarrow> byte list option) \<Rightarrow> bool" where
  "s3_head_ok api objs \<longleftrightarrow>
     (\<forall>sess b k r. objs r b k = None \<longrightarrow> isl (fst (api_HeadObject api sess b k r)))"

definition s3_delete_ok :: "'r s3_api \<Rightarrow> ('r \<Rightarrow> string \<Rightarrow> string \<Rightarrow> byte list option) \<Rightarrow> bool" where
  "s3_delete_ok api objs \<longleftrightarrow>
     (\<forall>sess b k r res r'. api_DeleteObject api sess b k r = (res, r') \<longrightarrow>
        (\<forall>b' k'. (b', k') \<noteq> (b, k) \<longrightarrow> objs r' b' k' = objs r b' k') \<and>
        (objs r' b k = None \<or> res \<noteq> None \<and> objs r' b k = objs r b k))"

definition s3_copy_ok :: "'r s3_api \<Rightarrow> ('r \<Rightarrow> string \<Rightarrow> string \<Rightarrow> byte list option) \<Rightarrow> bool" where
  "s3_copy_ok api objs \<longleftrightarrow>
     (\<forall>sess b src k cl r res r'. api_CopyObject api sess b src k cl r = (res, r') \<longrightarrow>
        (\<forall>b' k'. (b', k') \<noteq> (b, k) \<longrightarrow> objs r' b' k' = objs r b' k') \<and>
        (res \<noteq> None \<longrightarrow> objs r' = objs r) \<and>
        (\<forall>fb fk. slash_free fb \<and> src = fb @ CHR ''/'' # fk \<and> res = None \<longrightarrow>
           (fb, fk) \<noteq> (b, k) \<and> objs r' b k = objs r fb fk))"

definition s3_upload_ok :: "'r s3_api \<Rightarrow> ('r \<Rightarrow> string \<Rightarrow> string \<Rightarrow> byte list option) \<Rightarrow> bool" where
  "s3_upload_ok api objs \<longleftrightarrow>
     (\<forall>sess n b k body cl r r'. api_Upload api sess n b k body cl r = (None, r') \<longrightarrow>
        snd body = None \<and> objs r' = (objs r)(b := (objs r b)(k \<mapsto> fst body))) \<and>
     (\<forall>sess b k bs cl r r'. api_PutObject api sess b k bs cl r = (None, r') \<longrightarrow>
        objs r' = (objs r)(b := (objs r b)(k \<mapsto> bs)))"

definition s3_objects ::
    "('r \<Rightarrow> string \<Rightarrow> string \<Rightarrow> byte list option) \<Rightarrow> string \<Rightarrow> ('r, 'd) world \<Rightarrow> string \<Rightarrow> byte list option" where
  "s3_objects objs b w = objs (remote w) b"

text \<open>
  A move passes the source through \<open>path.Join\<close>, so it addresses the object it means when bucket
  and key are made of ordinary path elements.
\<close>

definition s3_movable :: "S3Storage \<Rightarrow> string \<Rightarrow> string \<Rightarrow> bool" where
  "s3_movable s b f \<longleftrightarrow>
     plain b \<and> list_all plain (SplitSlash (s3_key (StoragePrefix (s3_cnf s)) f))"

lemma JoinSlash_SplitSlash [simp]: "JoinSlash (SplitSlash p) = p"
proof (induction p)
  case (Cons c cs)
  obtain q qs where "SplitSlash cs = q # qs" by (cases "SplitSlash cs") auto
  with Cons show ?case by (cases qs) auto
qed simp

lemma copy_source:
  assumes "plain b" and "list_all plain (SplitSlash k)"
  shows "Join [b, k] = b @ CHR ''/'' # k"
proof -
  have "k \<noteq> []" using assms(2) by (auto simp: plain_def)
  moreover have "b \<noteq> []" using assms(1) by (simp add: plain_def)
  moreover have "Clean (JoinSlash (b # SplitSlash k)) = JoinSlash (b # SplitSlash k)"
    using assms by (intro Clean_plain) auto
  moreover have "JoinSlash (b # SplitSlash k) = b @ CHR ''/'' # k"
    using JoinSlash_append [of "[b]" "SplitSlash k"] by simp
  ultimately show ?thesis by (simp add: Join_def)
qed

section \<open>The contract\<close>

lemma call_frame:
  assumes "\<And>r. objs (snd (f r)) = objs r" and "call f w = (x, w')"
  shows "s3_objects objs b w' = s3_objects objs b w"
  using assms(1) [of "remote w"] assms(2) by (auto simp: call_def s3_objects_def split: prod.splits)

lemma s3_readsD:
  assumes "s3_reads_ok api objs"
  shows "objs (snd (NewSession api sess r)) = objs r"
    and "objs (snd (api_GetObject api sess b k g r)) = objs r"
    and "objs (snd (api_ListObjectsV2 api sess b p t r)) = objs r"
    and "objs (snd (api_HeadObject api sess b k r)) = objs r"
    and "objs (snd (api_AbortMultipartUpload api sess b k i r)) = objs r"
    and "objs (snd (api_ListMultipartUploads api sess b t r)) = objs r"
  using assms unfolding s3_reads_ok_def by (simp_all only:)

lemma acquire_frame:
  assumes "s3_reads_ok api objs" and "acquire api s b w = (x, w')"
  shows "objs (remote w') = objs (remote w)"
proof -
  from s3_readsD(1) [OF assms(1), of "(s3_cnf s, projr (getCredentials s b))" "remote w"] assms(2) show ?thesis
    by (auto simp: acquire_def split: sum.splits prod.splits option.splits)
qed

lemma list_pages_frame:
  assumes "list_pages fetch pre tok ms r = Some y"
    and "\<And>t r. objs (snd (fetch t r)) = objs r"
  shows "objs (snd y) = objs r"
proof -
  have "(\<forall>t r. objs (snd (fetch t r)) = objs r) \<longrightarrow> objs (snd y) = objs r"
    using assms(1)
  proof (rule list_pages.raw_induct [rotated], goal_cases)
    case (1 rec fetch pre tok ms r y)
    obtain res r1 where f: "fetch tok r = (res, r1)" by fastforce
    show ?case
    proof
      assume fr: "\<forall>t r. objs (snd (fetch t r)) = objs r"
      then have "objs r1 = objs r" using f by (metis snd_conv)
      moreover have "y = (res', r1) \<Longrightarrow> objs (snd y) = objs r1" for res' by simp
      moreover have "rec fetch pre tok' ms' r1 = Some y \<Longrightarrow> objs (snd y) = objs r1" for tok' ms'
        using 1(1) fr by blast
      ultimately show "objs (snd y) = objs r"
        using 1(2) unfolding f by (simp add: Option.bind_eq_Some_conv split: if_splits) (metis snd_conv)+
    qed
  qed
  with assms(2) show ?thesis by blast
qed

lemma upload_pages_frame:
  assumes "upload_pages fetch tok us r = Some y"
    and "\<And>t r. objs (snd (fetch t r)) = objs r"
  shows "objs (snd y) = objs r"
proof -
  have "(\<forall>t r. objs (snd (fetch t r)) = objs r) \<longrightarrow> objs (snd y) = objs r"
    using assms(1)
  proof (rule upload_pages.raw_induct [rotated], goal_cases)
    case (1 rec fetch tok us r y)
    obtain res r1 where f: "fetch tok r = (res, r1)" by fastforce
    show ?case
    proof
      assume fr: "\<forall>t r. objs (snd (fetch t r)) = objs r"
      then have "objs r1 = objs r" using f by (metis snd_conv)
      moreover have "rec fetch tok' us' r1 = Some y \<Longrightarrow> objs (snd y) = objs r1" for tok' us'
        using 1(1) fr by blast
      ultimately show "objs (snd y) = objs r"
        using 1(2) unfolding f by (simp split: if_splits) (metis snd_conv)+
    qed
  qed
  with assms(2) show ?thesis by blast
qed

lemma putInCache_remote [simp]: "remote (snd (putInCache i ms w)) = remote w"
  by (simp add: putInCache_def Let_def split: cache_text.splits)

lemma s3_ListBucketPath_frame:
  assumes ok: "s3_reads_ok api objs" and l: "s3_ListBucketPath api s b p u w = Some (x, w')"
  shows "objs (remote w') = objs (remote w)"
proof -
  obtain y w1 where acq: "acquire api s b w = (y, w1)" by fastforce
  note a = acquire_frame [OF ok acq]
  show ?thesis
  proof (cases y)
    case (Inl e)
    with l acq a show ?thesis by (simp add: s3_ListBucketPath_def)
  next
    case (Inr sess)
    show ?thesis
    proof (cases "list_pages (api_ListObjectsV2 api sess b (objectPath s p))
                    (StoragePrefix (s3_cnf s)) None [] (remote w1)")
      case None
      with l acq Inr show ?thesis by (simp add: s3_ListBucketPath_def)
    next
      case (Some z)
      have "objs (snd z) = objs (remote w1)" using list_pages_frame [OF Some] s3_readsD(3) [OF ok] by blast
      with l acq Inr Some a show ?thesis
        by (cases z; cases "fst z") (auto simp: s3_ListBucketPath_def Let_def split: if_splits)
    qed
  qed
qed

lemma s3_ListPath_frame:
  assumes "s3_reads_ok api objs" and "s3_ListPath api s p u ss w = Some (x, w')"
  shows "objs (remote w') = objs (remote w)"
  using assms s3_ListBucketPath_frame [OF assms(1), of s _ p u w x w']
  by (auto simp: s3_ListPath_def Let_def split: if_splits sum.splits)

lemma s3_ListFailed_frame:
  assumes ok: "s3_reads_ok api objs" and l: "s3_ListFailedMultipartUploads api s b w = Some (x, w')"
  shows "objs (remote w') = objs (remote w)"
proof -
  obtain y w1 where acq: "acquire api s b w = (y, w1)" by fastforce
  note a = acquire_frame [OF ok acq]
  show ?thesis
  proof (cases y)
    case (Inl e)
    with l acq a show ?thesis by (simp add: s3_ListFailedMultipartUploads_def)
  next
    case (Inr sess)
    show ?thesis
    proof (cases "upload_pages (api_ListMultipartUploads api sess b) None [] (remote w1)")
      case None
      with l acq Inr show ?thesis by (simp add: s3_ListFailedMultipartUploads_def)
    next
      case (Some z)
      have "objs (snd z) = objs (remote w1)" using upload_pages_frame [OF Some] s3_readsD(6) [OF ok] by blast
      with l acq Inr Some a show ?thesis
        by (cases z; cases "fst z") (auto simp: s3_ListFailedMultipartUploads_def)
    qed
  qed
qed

lemma s3_Abort_frame:
  assumes ok: "s3_reads_ok api objs" and l: "s3_AbortMultipartUpload api s b k i w = (x, w')"
  shows "objs (remote w') = objs (remote w)"
proof -
  obtain y w1 where acq: "acquire api s b w = (y, w1)" by fastforce
  from s3_readsD(5) [OF ok, of "projr y" b k i "remote w1"] acquire_frame [OF ok acq] l acq show ?thesis
    by (auto simp: s3_AbortMultipartUpload_def call_def split: sum.splits prod.splits)
qed

lemma s3_Cat_frame:
  assumes ok: "s3_reads_ok api objs" and l: "s3_CatFileFromStorage api s n off ss w = (x, w')"
  shows "objs (remote w') = objs (remote w)"
proof (cases "tablespace_bucket s ss")
  case (Inl e)
  with l show ?thesis by (simp add: s3_CatFileFromStorage_def)
next
  case (Inr b)
  obtain y w1 where acq: "acquire api s b w = (y, w1)" by fastforce
  from s3_readsD(2) [OF ok, of "projr y" b "objectPath s n" "''bytes='' @ dec_of_int off @ ''-''" "remote w1"]
    acquire_frame [OF ok acq] l acq Inr show ?thesis
    by (auto simp: s3_CatFileFromStorage_def call_def split: sum.splits prod.splits)
qed

lemma s3_delete_effect:
  assumes rd: "s3_reads_ok api objs" and de: "s3_delete_ok api objs"
    and l: "s3_DeleteObject api s b n w = (x, w')"
  shows "(b', k') \<noteq> (b, s3_key (StoragePrefix (s3_cnf s)) n) \<Longrightarrow>
           objs (remote w') b' k' = objs (remote w) b' k'"
    and "x = None \<Longrightarrow> objs (remote w') b (s3_key (StoragePrefix (s3_cnf s)) n) = None"
    and "objs (remote w) b' k' = None \<Longrightarrow> objs (remote w') b' k' = None"
    and "objs (remote w') b (s3_key (StoragePrefix (s3_cnf s)) n) = None \<or>
         objs (remote w') b (s3_key (StoragePrefix (s3_cnf s)) n) =
         objs (remote w) b (s3_key (StoragePrefix (s3_cnf s)) n)"
proof -
  define k where "k = s3_key (StoragePrefix (s3_cnf s)) n"
  obtain y w1 where acq: "acquire api s b w = (y, w1)" by fastforce
  note a = acquire_frame [OF rd acq]
  have "((b', k') \<noteq> (b, k) \<longrightarrow> objs (remote w') b' k' = objs (remote w) b' k') \<and>
        (x = None \<longrightarrow> objs (remote w') b k = None) \<and>
        (objs (remote w') b k = None \<or> objs (remote w') b k = objs (remote w) b k)"
  proof (cases y)
    case (Inl e)
    with l acq a show ?thesis by (auto simp: s3_DeleteObject_def)
  next
    case (Inr sess)
    obtain res r where d: "api_DeleteObject api sess b k (remote w1) = (res, r)" by fastforce
    then have "(b', k') \<noteq> (b, k) \<longrightarrow> objs r b' k' = objs (remote w1) b' k'"
      and "objs r b k = None \<or> res \<noteq> None \<and> objs r b k = objs (remote w1) b k"
      using de unfolding s3_delete_ok_def by blast+
    with l acq a Inr d show ?thesis
      by (auto simp: s3_DeleteObject_def call_def k_def)
  qed
  then show "(b', k') \<noteq> (b, s3_key (StoragePrefix (s3_cnf s)) n) \<Longrightarrow>
           objs (remote w') b' k' = objs (remote w) b' k'"
    and "x = None \<Longrightarrow> objs (remote w') b (s3_key (StoragePrefix (s3_cnf s)) n) = None"
    and "objs (remote w) b' k' = None \<Longrightarrow> objs (remote w') b' k' = None"
    and "objs (remote w') b (s3_key (StoragePrefix (s3_cnf s)) n) = None \<or>
         objs (remote w') b (s3_key (StoragePrefix (s3_cnf s)) n) =
         objs (remote w) b (s3_key (StoragePrefix (s3_cnf s)) n)"
    by (auto simp: k_def)
qed

definition s3_documented :: "'r s3_api \<Rightarrow> ('r \<Rightarrow> string \<Rightarrow> string \<Rightarrow> byte list option) \<Rightarrow> bool" where
  "s3_documented api objs \<longleftrightarrow>
     s3_reads_ok api objs \<and> s3_head_ok api objs \<and> s3_delete_ok api objs \<and> s3_copy_ok api objs \<and>
     s3_upload_ok api objs"

lemma s3_copyD:
  assumes "s3_copy_ok api objs" and "api_CopyObject api sess b src k cl r = (res, r')"
  shows "(b', k') \<noteq> (b, k) \<Longrightarrow> objs r' b' k' = objs r b' k'"
    and "res \<noteq> None \<Longrightarrow> objs r' = objs r"
    and "slash_free fb \<Longrightarrow> src = fb @ CHR ''/'' # fk \<Longrightarrow> res = None \<Longrightarrow>
           (fb, fk) \<noteq> (b, k) \<and> objs r' b k = objs r fb fk"
  using assms unfolding s3_copy_ok_def by blast+

text \<open>The outcomes of a server-side copy: nothing changed, or the SDK's copy ran.\<close>

lemma SScopyObject_cases:
  assumes rd: "s3_reads_ok api objs"
    and l: "SScopyObject api s f t fp fb tb w = (x, w')"
  obtains (early) e where "x = Some e" "objs (remote w') = objs (remote w)"
  | (copied) sess cl r where "objs r = objs (remote w)"
      "api_CopyObject api sess tb (Join [fb, s3_key fp f])
         (s3_key (StoragePrefix (s3_cnf s)) t) cl r = (x, remote w')"
proof -
  obtain y w1 where acq: "acquire api s tb w = (y, w1)" by fastforce
  note a = acquire_frame [OF rd acq]
  show ?thesis
  proof (cases y)
    case (Inl e)
    with l acq a show ?thesis by (intro early [of e]) (simp_all add: SScopyObject_def)
  next
    case (Inr sess)
    obtain h r1 where hd: "api_HeadObject api sess fb (s3_key fp f) (remote w1) = (h, r1)"
      by fastforce
    have h: "objs r1 = objs (remote w)"
      using s3_readsD(4) [OF rd, of sess fb "s3_key fp f" "remote w1"] hd a by simp
    show ?thesis
    proof (cases h)
      case (Inl e)
      with l acq Inr hd h show ?thesis
        by (intro early [of e]) (auto simp: SScopyObject_def call_def)
    next
      case cl: (Inr cl)
      with l acq Inr hd h show ?thesis
        by (intro copied [of r1 sess cl])
           (auto simp: SScopyObject_def call_def split: prod.splits)
    qed
  qed
qed

lemma s3_copy_frame:
  assumes "s3_reads_ok api objs" and "s3_copy_ok api objs"
    and "SScopyObject api s f t fp fb tb w = (x, w')"
    and "(b', k') \<noteq> (tb, s3_key (StoragePrefix (s3_cnf s)) t)"
  shows "objs (remote w') b' k' = objs (remote w) b' k'"
  using assms(1,3)
proof (cases rule: SScopyObject_cases)
  case (copied sess cl r)
  with s3_copyD(1) [OF assms(2) copied(2) assms(4)] show ?thesis by simp
qed simp

lemma s3_move_frame:
  assumes rd: "s3_reads_ok api objs" and de: "s3_delete_ok api objs" and cp: "s3_copy_ok api objs"
    and l: "s3_MoveObject api s b f t w = (x, w')"
    and k: "k \<noteq> s3_key (StoragePrefix (s3_cnf s)) f" "k \<noteq> s3_key (StoragePrefix (s3_cnf s)) t"
  shows "objs (remote w') b' k = objs (remote w) b' k"
proof (cases "f = t")
  case True
  with l show ?thesis by (simp add: s3_MoveObject_def)
next
  case False
  obtain y w1 where c: "SScopyObject api s f t (StoragePrefix (s3_cnf s)) b b w = (y, w1)"
    by fastforce
  have "objs (remote w1) b' k = objs (remote w) b' k"
    using s3_copy_frame [OF rd cp c, of b' k] k by simp
  with l c False show ?thesis
    using s3_delete_effect(1) [OF rd de, of s b f w1 x w' b' k] k
    by (auto simp: s3_MoveObject_def split: option.splits)
qed

lemma s3_move_missing:
  assumes rd: "s3_reads_ok api objs" and hd: "s3_head_ok api objs"
    and l: "s3_MoveObject api s b f t w = (x, w')"
    and none: "objs (remote w) b (s3_key (StoragePrefix (s3_cnf s)) f) = None"
  shows "objs (remote w') = objs (remote w)"
proof (cases "f = t")
  case True
  with l show ?thesis by (simp add: s3_MoveObject_def)
next
  case False
  define k where "k = s3_key (StoragePrefix (s3_cnf s)) f"
  obtain y w1 where acq: "acquire api s b w = (y, w1)" by fastforce
  note a = acquire_frame [OF rd acq]
  show ?thesis
  proof (cases y)
    case (Inl e)
    with l acq a False show ?thesis by (auto simp: s3_MoveObject_def SScopyObject_def)
  next
    case (Inr sess)
    obtain h r where h: "api_HeadObject api sess b k (remote w1) = (h, r)" by fastforce
    have "isl h" using hd none a h unfolding s3_head_ok_def k_def by (metis fst_conv)
    moreover have "objs r = objs (remote w)"
      using s3_readsD(4) [OF rd, of sess b k "remote w1"] h a by simp
    ultimately show ?thesis
      using l acq a False Inr h
      by (cases h) (auto simp: s3_MoveObject_def SScopyObject_def call_def k_def Let_def)
  qed
qed

text \<open>
  The three ways a move that is not trivial ends: nothing changed, or the object was copied to a
  different key and the delete of the source followed.
\<close>

lemma s3_move_cases:
  assumes rd: "s3_reads_ok api objs" and cp: "s3_copy_ok api objs"
    and l: "s3_MoveObject api s b f t w = (x, w')" and m: "s3_movable s b f"
  obtains (same) "f = t" "x = None" "w' = w"
  | (failed) "x \<noteq> None" "objs (remote w') = objs (remote w)"
  | (moved) w1 where
      "s3_key (StoragePrefix (s3_cnf s)) f \<noteq> s3_key (StoragePrefix (s3_cnf s)) t"
      "objs (remote w1) b (s3_key (StoragePrefix (s3_cnf s)) t) =
       objs (remote w) b (s3_key (StoragePrefix (s3_cnf s)) f)"
      "objs (remote w1) b (s3_key (StoragePrefix (s3_cnf s)) f) =
       objs (remote w) b (s3_key (StoragePrefix (s3_cnf s)) f)"
      "s3_DeleteObject api s b f w1 = (x, w')"
proof (cases "f = t")
  case True
  with l same show ?thesis by (simp add: s3_MoveObject_def)
next
  case False
  define kf kt where "kf = s3_key (StoragePrefix (s3_cnf s)) f"
    and "kt = s3_key (StoragePrefix (s3_cnf s)) t"
  obtain y w1 where cpy: "SScopyObject api s f t (StoragePrefix (s3_cnf s)) b b w = (y, w1)"
    by fastforce
  show ?thesis
  proof (cases y)
    case (Some e)
    have "objs (remote w1) = objs (remote w)"
      using rd cpy
    proof (cases rule: SScopyObject_cases)
      case (copied sess cl r)
      with s3_copyD(2) [OF cp copied(2)] Some show ?thesis by simp
    qed simp
    with l cpy False Some failed show ?thesis by (auto simp: s3_MoveObject_def)
  next
    case None
    have pl: "plain b" "list_all plain (SplitSlash kf)" using m by (simp_all add: s3_movable_def kf_def)
    have "slash_free b" using pl by (simp add: plain_def)
    have "(b, kf) \<noteq> (b, kt) \<and> objs (remote w1) b kt = objs (remote w) b kf"
      using rd cpy
    proof (cases rule: SScopyObject_cases)
      case (copied sess cl r)
      with s3_copyD(3) [OF cp copied(2) \<open>slash_free b\<close>, of kf] copy_source [OF pl] None
      show ?thesis by (simp add: kf_def kt_def)
    qed (simp add: None)
    moreover from this have "objs (remote w1) b kf = objs (remote w) b kf"
      using s3_copy_frame [OF rd cp cpy, of b kf] by (simp add: kt_def)
    moreover have "s3_DeleteObject api s b f w1 = (x, w')"
      using l cpy False None by (simp add: s3_MoveObject_def)
    ultimately show ?thesis using moved [of w1] by (simp add: kf_def kt_def)
  qed
qed

text \<open>A move of an object either leaves it in place or puts it at the target.\<close>

lemma s3_move_effect:
  assumes rd: "s3_reads_ok api objs" and de: "s3_delete_ok api objs" and cp: "s3_copy_ok api objs"
    and l: "s3_MoveObject api s b f t w = (x, w')" and m: "s3_movable s b f"
    and c: "objs (remote w) b (s3_key (StoragePrefix (s3_cnf s)) f) = Some c"
  shows "objs (remote w') b (s3_key (StoragePrefix (s3_cnf s)) t) = Some c \<or>
         x \<noteq> None \<and> objs (remote w') b (s3_key (StoragePrefix (s3_cnf s)) f) = Some c"
  using rd cp l m
proof (cases rule: s3_move_cases)
  case (moved w1)
  with s3_delete_effect(1) [OF rd de moved(4), of b "s3_key (StoragePrefix (s3_cnf s)) t"] c
  show ?thesis by auto
qed (use c in auto)

lemma s3_move_source:
  assumes rd: "s3_reads_ok api objs" and de: "s3_delete_ok api objs" and cp: "s3_copy_ok api objs"
    and l: "s3_MoveObject api s b f t w = (x, w')" and m: "s3_movable s b f"
  shows "objs (remote w') b (s3_key (StoragePrefix (s3_cnf s)) f) = None \<or>
         objs (remote w') b (s3_key (StoragePrefix (s3_cnf s)) f) =
         objs (remote w) b (s3_key (StoragePrefix (s3_cnf s)) f)"
  using rd cp l m
proof (cases rule: s3_move_cases)
  case (moved w1)
  with s3_delete_effect(4) [OF rd de moved(4)] show ?thesis by auto
qed auto

text \<open>Under what the SDK documents, the S3 storage keeps the contract of a storage.\<close>

lemma s3_storage:
  assumes "s3_documented api objs"
  shows "storage (S3StorageInteractor api s) (s3_objects objs) (s3_key (StoragePrefix (s3_cnf s)))
           (=) (s3_movable s)"
proof -
  have ok: "s3_reads_ok api objs" "s3_delete_ok api objs" "s3_copy_ok api objs"
    and hd: "s3_head_ok api objs"
    using assms by (simp_all add: s3_documented_def)
  show ?thesis
  proof
    fix b b' n f t p i :: string and u w w' rl ru rs off ss c
      and k :: string and r :: "error option" and e :: error
    let ?st = "S3StorageInteractor api s" and ?key = "s3_key (StoragePrefix (s3_cnf s))"
    show "k = k" ..
    show "ListBucketPath ?st b p u w = Some (rl, w') \<Longrightarrow> s3_objects objs b' w' = s3_objects objs b' w"
      using s3_ListBucketPath_frame [OF ok(1), of s b p u w rl w'] by (simp add: S3StorageInteractor_def s3_objects_def)
    show "ListPath ?st p u ss w = Some (rl, w') \<Longrightarrow> s3_objects objs b' w' = s3_objects objs b' w"
      using s3_ListPath_frame [OF ok(1), of s p u ss w rl w'] by (simp add: S3StorageInteractor_def s3_objects_def)
    show "ListFailedMultipartUploads ?st b w = Some (ru, w') \<Longrightarrow>
          s3_objects objs b' w' = s3_objects objs b' w"
      using s3_ListFailed_frame [OF ok(1), of s b w ru w'] by (simp add: S3StorageInteractor_def s3_objects_def)
    show "AbortMultipartUpload ?st b k i w = (r, w') \<Longrightarrow> s3_objects objs b' w' = s3_objects objs b' w"
      using s3_Abort_frame [OF ok(1), of s b k i w r w'] by (simp add: S3StorageInteractor_def s3_objects_def)
    show "CatFileFromStorage ?st n off ss w = (rs, w') \<Longrightarrow> s3_objects objs b' w' = s3_objects objs b' w"
      using s3_Cat_frame [OF ok(1), of s n off ss w rs w'] by (simp add: S3StorageInteractor_def s3_objects_def)
    show "DeleteObject ?st b n w = (r, w') \<Longrightarrow> ?key n \<noteq> k \<Longrightarrow>
          s3_objects objs b' w' k = s3_objects objs b' w k"
      using s3_delete_effect(1) [OF ok(1,2), of s b n w r w' b' k]
      by (simp add: S3StorageInteractor_def s3_objects_def)
    show "DeleteObject ?st b n w = (None, w') \<Longrightarrow> s3_objects objs b w' (?key n) = None"
      using s3_delete_effect(2) [OF ok(1,2), of s b n w None w']
      by (simp add: S3StorageInteractor_def s3_objects_def)
    show "DeleteObject ?st b n w = (r, w') \<Longrightarrow> s3_objects objs b' w k = None \<Longrightarrow>
          s3_objects objs b' w' k = None"
      using s3_delete_effect(3) [OF ok(1,2), of s b n w r w' b' k]
      by (simp add: S3StorageInteractor_def s3_objects_def)
    show "MoveObject ?st b f t w = (r, w') \<Longrightarrow> s3_objects objs b w (?key f) = None \<Longrightarrow>
          s3_objects objs b w' (?key t) = s3_objects objs b w (?key t)"
      using s3_move_missing [OF ok(1) hd, of s b f t w r w']
      by (simp add: S3StorageInteractor_def s3_objects_def)
    show "MoveObject ?st b f t w = (r, w') \<Longrightarrow> s3_movable s b f \<Longrightarrow>
          s3_objects objs b w' (?key f) = None \<or>
          s3_objects objs b w' (?key f) = s3_objects objs b w (?key f)"
      using s3_move_source [OF ok, of s b f t w r w']
      by (simp add: S3StorageInteractor_def s3_objects_def)
    show "MoveObject ?st b f t w = (r, w') \<Longrightarrow> ?key f \<noteq> k \<Longrightarrow> ?key t \<noteq> k \<Longrightarrow>
          s3_objects objs b' w' k = s3_objects objs b' w k"
      using s3_move_frame [OF ok, of s b f t w r w' k b']
      by (simp add: S3StorageInteractor_def s3_objects_def)
    show "MoveObject ?st b f t w = (None, w') \<Longrightarrow> s3_movable s b f \<Longrightarrow>
          s3_objects objs b w (?key f) = Some c \<Longrightarrow> s3_objects objs b w' (?key t) = Some c"
      using s3_move_effect [OF ok, of s b f t w None w' c]
      by (simp add: S3StorageInteractor_def s3_objects_def)
    show "MoveObject ?st b f t w = (Some e, w') \<Longrightarrow> s3_movable s b f \<Longrightarrow>
          s3_objects objs b w (?key f) = Some c \<Longrightarrow>
          s3_objects objs b w' (?key f) = Some c \<or> s3_objects objs b w' (?key t) = Some c"
      using s3_move_effect [OF ok, of s b f t w "Some e" w' c]
      by (auto simp: S3StorageInteractor_def s3_objects_def)
  qed
qed

end
