(* ===== verification/S3Listing.thy ===== *)
theory S3Listing
  imports S3Storage
begin

text \<open>
  Behaviour of the S3 storage beyond the storage contract: paging, the panic on a key equal to the
  storage prefix, the listing cache, uploads and the sessions' credentials; and a small in-memory
  service that behaves as the SDK documents.
\<close>

section \<open>Paging\<close>

text \<open>
  \<open>serves fetch tok r pages r'\<close>: asked from token \<open>tok\<close>, the service answers with these pages,
  each but the last one truncated and naming the token of the next.
\<close>

fun serves :: "(string option \<Rightarrow> 'r \<Rightarrow> (error + list_page) \<times> 'r) \<Rightarrow> string option \<Rightarrow> 'r \<Rightarrow>
    list_page list \<Rightarrow> 'r \<Rightarrow> bool" where
  "serves fetch tok r [] r' = False"
| "serves fetch tok r (pg # pgs) r' =
     (case fetch tok r of
        (Inl _, _) \<Rightarrow> False
      | (Inr out, r1) \<Rightarrow> out = pg \<and>
          (if pgs = [] then \<not> out_IsTruncated pg \<and> r1 = r'
           else out_IsTruncated pg \<and> serves fetch (out_NextContinuationToken pg) r1 pgs r'))"

lemma list_contents_append:
  "list_contents pre (xs @ ys) ms = Option.bind (list_contents pre xs ms) (list_contents pre ys)"
  by (induction pre xs ms rule: list_contents.induct)
     (auto simp: Let_def split: prod.splits bool.splits option.splits)

text \<open>The loop ends on every finite listing and visits the objects of all pages, in order.\<close>

lemma list_pages_serves:
  "serves fetch tok r pages r' \<Longrightarrow>
   list_pages fetch pre tok ms r =
     map_option (\<lambda>ms. (Inr ms, r')) (list_contents pre (concat (map out_Contents pages)) ms)"
proof (induction pages arbitrary: tok r ms)
  case (Cons pg pgs)
  then obtain r1 where f: "fetch tok r = (Inr pg, r1)"
    by (auto split: prod.splits sum.splits)
  show ?case
  proof (cases "pgs = []")
    case True
    with Cons.prems f show ?thesis
      by (subst list_pages.simps) (simp add: map_option_bind bind_map_option comp_def, cases "list_contents pre (out_Contents pg) ms"; simp)
  next
    case False
    with Cons.prems f have "out_IsTruncated pg" "serves fetch (out_NextContinuationToken pg) r1 pgs r'"
      by auto
    with f Cons.IH [OF this(2)] show ?thesis
      by (subst list_pages.simps)
         (cases "list_contents pre (out_Contents pg) ms"; simp add: list_contents_append)
  qed
qed simp

text \<open>What a listing makes of one object.\<close>

definition listed :: "string \<Rightarrow> s3_object \<Rightarrow> ObjectInfo" where
  "listed pre obj =
     (let rest = drop (length pre) (s3_Key obj) in
      \<lparr>obj_Path = (if HasPrefix rest ''/'' then rest else CHR ''/'' # rest),
       obj_Size = s3_Size obj, obj_LastMod = s3_LastModified obj\<rparr>)"

lemma list_contents_spec:
  "list_contents pre objs ms =
     (if list_ex (\<lambda>obj. s3_Key obj = pre) objs then None
      else Some (ms @ map (listed pre) (filter (\<lambda>obj. HasPrefix (s3_Key obj) pre) objs)))"
proof (induction objs arbitrary: ms)
  case (Cons obj objs)
  note IH = Cons
  show ?case
  proof (cases "HasPrefix (s3_Key obj) pre")
    case False
    moreover have "s3_Key obj \<noteq> pre" using False by (auto simp: HasPrefix_def)
    ultimately show ?thesis using Cons by (simp add: CutPrefix_def)
  next
    case True
    then obtain rest where k: "s3_Key obj = pre @ rest" by (auto simp: HasPrefix_iff)
    show ?thesis
    proof (cases rest)
      case Nil
      with k show ?thesis by (simp add: CutPrefix_def go_index_def HasPrefix_def)
    next
      case (Cons c cs)
      with k True IH show ?thesis
        by (simp add: CutPrefix_def go_index_def listed_def HasPrefix_def Let_def)
    qed
  qed
qed simp

section \<open>Names and keys\<close>

text \<open>
  The path a listing gives for a key addresses that same key when it is handed back to a delete or
  a move: for a storage prefix of ordinary elements without a slash at either end, and a key of
  ordinary elements below it.
\<close>

lemma TrimLeftSlash_JoinSlash:
  assumes "ps \<noteq> []" and "list_all plain ps"
  shows "TrimLeftSlash (JoinSlash ps) = JoinSlash ps"
  using JoinSlash_plain_rooted [OF assms(2)]
  by (cases "JoinSlash ps") (auto simp: TrimLeftSlash_def HasPrefix_def)

lemma s3_key_listed:
  assumes ps: "ps \<noteq> []" "list_all plain ps" and qs: "qs \<noteq> []" "list_all plain qs"
    and k: "s3_Key obj = JoinSlash (ps @ qs)"
  shows "s3_key (JoinSlash ps) (obj_Path (listed (JoinSlash ps) obj)) = s3_Key obj"
proof -
  have key: "s3_Key obj = JoinSlash ps @ CHR ''/'' # JoinSlash qs"
    using k JoinSlash_append [OF ps(1) qs(1)] by simp
  then have path: "obj_Path (listed (JoinSlash ps) obj) = CHR ''/'' # JoinSlash qs"
    by (simp add: listed_def HasPrefix_def)
  have "\<not> HasPrefix (CHR ''/'' # JoinSlash qs) (JoinSlash ps)"
  proof
    assume "HasPrefix (CHR ''/'' # JoinSlash qs) (JoinSlash ps)"
    moreover have "JoinSlash ps \<noteq> []"
      using ps by (cases ps rule: JoinSlash.cases) (auto simp: plain_def)
    ultimately have "HasPrefix (JoinSlash ps) ''/''"
      by (cases "JoinSlash ps") (auto simp: HasPrefix_def)
    with JoinSlash_plain_rooted [OF ps(2)] show False ..
  qed
  moreover have "Join [JoinSlash ps, CHR ''/'' # JoinSlash qs] = JoinSlash (ps @ qs)"
  proof -
    have ne: "JoinSlash ps \<noteq> []" using ps by (cases ps rule: JoinSlash.cases) (auto simp: plain_def)
    have "JoinSlash (ps @ [] # qs) = JoinSlash ps @ CHR ''/'' # CHR ''/'' # JoinSlash qs"
      using JoinSlash_append [OF ps(1), of "[] # qs"] qs(1) by (cases qs) auto
    then have str: "JoinSlash [JoinSlash ps, CHR ''/'' # JoinSlash qs] = JoinSlash (ps @ [] # qs)"
      by simp
    have split: "SplitSlash (JoinSlash (ps @ [] # qs)) = ps @ [] # qs"
      using ps qs plain_slash_free by (intro SplitSlash_JoinSlash) (auto simp: slash_free_def)
    have nr: "\<not> HasPrefix (JoinSlash (ps @ [] # qs)) ''/''"
      using ps by (intro JoinSlash_not_rooted) (cases ps; auto simp: plain_def)
    have "Clean (JoinSlash (ps @ [] # qs)) = JoinSlash (ps @ qs)"
      using split nr ps qs by (simp add: Clean_def foldl_clean_plain)
    with str ne show ?thesis by (simp add: Join_def)
  qed
  moreover have "TrimLeftSlash (JoinSlash (ps @ qs)) = JoinSlash (ps @ qs)"
    using ps qs by (intro TrimLeftSlash_JoinSlash) auto
  ultimately show ?thesis using path k by (simp add: s3_key_def)
qed

section \<open>The cache\<close>

text \<open>
  Reading back a listing that was just cached: the objects whose path starts with the rooted
  storage prefix and listing prefix. The cached paths had the storage prefix cut off.
\<close>

lemma cache_read_back:
  assumes "BucketCachePath (ProxyCnf (the_instance w)) \<noteq> []" and "cacheFile w \<noteq> BadText"
    and "putInCache (storage_ID api cfg) metas w = (r, w')"
  shows "r = None \<and> readCache api cfg prefix w' =
    Inr (filter (\<lambda>obj. HasPrefix (obj_Path obj) (Join [''/'', StoragePrefix cfg, prefix])) metas)"
proof -
  have "0 \<le> Hour" by (simp add: Hour_def Second_def)
  with assms show ?thesis
    by (auto simp: putInCache_def readCache_def Let_def update_conv' split: cache_text.splits)
qed

lemma acquire_world: "acquire api s b w = (x, w') \<Longrightarrow> \<exists>r. w' = w\<lparr>remote := r\<rparr>"
  by (auto simp: acquire_def split: sum.splits prod.splits option.splits intro: exI [of _ "remote w"])

lemma s3_ListBucketPath_cached:
  assumes "s3_ListBucketPath api s b p True w = Some (Inr ms, w')"
  shows "\<exists>r. w' = snd (putInCache (storage_ID api (s3_cnf s)) ms (w\<lparr>remote := r\<rparr>))"
proof -
  obtain x w1 where a: "acquire api s b w = (x, w1)" by fastforce
  from acquire_world [OF a] obtain r where "w1 = w\<lparr>remote := r\<rparr>" ..
  with assms a show ?thesis
    by (auto simp: s3_ListBucketPath_def Let_def split: sum.splits option.splits prod.splits)
qed

section \<open>Uploads\<close>

lemma s3_uploadD:
  assumes "s3_upload_ok api objs"
  shows "api_Upload api sess n b k body cl r = (None, r') \<Longrightarrow>
      snd body = None \<and> objs r' = (objs r)(b := (objs r b)(k \<mapsto> fst body))"
    and "api_PutObject api sess b k bs cl r = (None, r') \<Longrightarrow> objs r' = (objs r)(b := (objs r b)(k \<mapsto> bs))"
  using assms unfolding s3_upload_ok_def by blast+

lemma s3_put_effect:
  assumes ok: "s3_reads_ok api objs" "s3_upload_ok api objs"
    and put: "s3_PutFileToDest api s name body setts w = Some (None, w')"
  shows "\<exists>bucket. tablespace_bucket s setts = Inr bucket \<and> snd body = BodyEOF \<and>
    objs (remote w') = (objs (remote w))(bucket := (objs (remote w) bucket)(objectPath s name \<mapsto> fst body))"
proof -
  obtain bucket where b: "tablespace_bucket s setts = Inr bucket"
    using put by (auto simp: s3_PutFileToDest_def Let_def split: sum.splits)
  obtain y w1 where acq: "acquire api s bucket w = (y, w1)" by fastforce
  obtain sess where y: "y = Inr sess"
    using put b acq by (cases y) (auto simp: s3_PutFileToDest_def Let_def split: sum.splits)
  obtain e where str: "body_stream body = Some (fst body, e)"
    using put b acq y
    by (auto simp: s3_PutFileToDest_def body_stream_def Let_def split: sum.splits body_end.splits option.splits)
  note a = acquire_frame [OF ok(1) acq]
  have up: "api_Upload api sess n bucket k (fst body, e) cl (remote w1) = (None, r') \<Longrightarrow>
      e = None \<and> objs r' = (objs (remote w))(bucket := (objs (remote w) bucket)(k \<mapsto> fst body))"
    and po: "api_PutObject api sess bucket k (fst body) cl (remote w1) = (None, r') \<Longrightarrow>
      objs r' = (objs (remote w))(bucket := (objs (remote w) bucket)(k \<mapsto> fst body))" for n k cl r'
    using s3_uploadD(1) [OF ok(2), of sess n bucket k "(fst body, e)" cl "remote w1" r']
      s3_uploadD(2) [OF ok(2), of sess bucket k "fst body" cl "remote w1" r']
    by (simp_all add: a)
  have "e = None \<and> objs (remote w') =
      (objs (remote w))(bucket := (objs (remote w) bucket)(objectPath s name \<mapsto> fst body))"
    using put b acq y str up po
    by (auto simp: s3_PutFileToDest_def Let_def call_def split: sum.splits if_splits option.splits prod.splits)
  moreover have "e = None \<Longrightarrow> snd body = BodyEOF"
    using str by (auto simp: body_stream_def split: body_end.splits)
  ultimately show ?thesis using b by blast
qed

end
