(* ===== verification/Storages.thy ===== *)
theory Storages
  imports FileStorage S3Listing
begin

text \<open>
  Choosing a storage by its configuration (\<open>storage.go\<close>), and an in-memory S3 service that
  behaves as the SDK documents, on which statements about the S3 storage can be evaluated.
\<close>

definition NewStorage :: "'r s3_api \<Rightarrow> Storage \<Rightarrow> string \<Rightarrow> error + ('r, 'd) world StorageInteractor" where
  "NewStorage api cnf storageName =
     (if StorageType cnf = ''fs'' then Inr (FileStorageInteractor cnf)
      else if StorageType cnf = ''s3'' then
        Inr (S3StorageInteractor api
               \<lparr>s3_cnf = cnf, TSToBucketMap = buildBucketMapFromCnf cnf,
                credentialMap = buildCredMapFromCnf cnf\<rparr>)
      else Inl (Errorf (''wrong storage type '' @ StorageType cnf)))"

section \<open>An in-memory service\<close>

type_synonym mem = "((string \<times> string) \<times> byte list) list"

definition mem_objs :: "mem \<Rightarrow> string \<Rightarrow> string \<Rightarrow> byte list option" where
  "mem_objs m b k = map_of m (b, k)"

definition mem_split :: "string \<Rightarrow> string \<times> string" where
  "mem_split src = (takeWhile (\<lambda>c. c \<noteq> CHR ''/'') src, drop 1 (dropWhile (\<lambda>c. c \<noteq> CHR ''/'') src))"

definition mem_s3 :: "mem s3_api" where
  "mem_s3 =
     \<lparr>NewSession = (\<lambda>_ m. (None, m)),
      api_GetObject = (\<lambda>_ b k _ m. (case map_of m (b, k) of
          None \<Rightarrow> Inl (Errorf ''NoSuchKey'') | Some c \<Rightarrow> Inr (c, None), m)),
      api_Upload = (\<lambda>_ _ b k body _ m. (case snd body of
          Some e \<Rightarrow> (Some e, m) | None \<Rightarrow> (None, AList.update (b, k) (fst body) m))),
      api_PutObject = (\<lambda>_ b k c _ m. (None, AList.update (b, k) c m)),
      api_PatchObject = (\<lambda>_ b k body _ m. (Some (Errorf ''NotImplemented''), m)),
      api_ListObjectsV2 = (\<lambda>_ b p _ m.
          (Inr \<lparr>out_Contents = map (\<lambda>((_, k), c). \<lparr>s3_Key = k, s3_Size = of_nat (length c), s3_LastModified = 0\<rparr>)
                   (filter (\<lambda>((b', k), _). b' = b \<and> HasPrefix k p) m),
                out_IsTruncated = False, out_NextContinuationToken = None\<rparr>, m)),
      api_DeleteObject = (\<lambda>_ b k m. (None, AList.delete (b, k) m)),
      api_HeadObject = (\<lambda>_ b k m. (case map_of m (b, k) of
          None \<Rightarrow> Inl (Errorf ''NotFound'') | Some _ \<Rightarrow> Inr None, m)),
      api_CopyObject = (\<lambda>_ b src k _ m.
          (if mem_split src = (b, k) then (Some (Errorf ''InvalidRequest''), m)
           else case map_of m (mem_split src) of
             None \<Rightarrow> (Some (Errorf ''NoSuchKey''), m)
           | Some c \<Rightarrow> (None, AList.update (b, k) c m))),
      api_AbortMultipartUpload = (\<lambda>_ _ _ _ m. (None, m)),
      api_ListMultipartUploads = (\<lambda>_ _ _ m.
          (Inr \<lparr>out_Uploads = [], out_uploads_truncated = False, out_NextKeyMarker = None\<rparr>, m)),
      storage_ID = (\<lambda>cnf. StorageEndpoint cnf @ ''/'' @ StorageBucket cnf @ ''/'' @ StoragePrefix cnf)\<rparr>"

lemma mem_split_source:
  assumes "slash_free fb"
  shows "mem_split (fb @ CHR ''/'' # fk) = (fb, fk)"
proof -
  have "\<forall>c \<in> set fb. c \<noteq> CHR ''/''" using assms by (auto simp: slash_free_def)
  then show ?thesis by (simp add: mem_split_def takeWhile_append2 dropWhile_append2)
qed

lemma mem_s3_documented: "s3_documented mem_s3 mem_objs"
proof -
  have "s3_reads_ok mem_s3 mem_objs" by (simp add: s3_reads_ok_def mem_s3_def)
  moreover have "s3_head_ok mem_s3 mem_objs"
    by (simp add: s3_head_ok_def mem_s3_def mem_objs_def)
  moreover have "s3_delete_ok mem_s3 mem_objs"
    by (auto simp: s3_delete_ok_def mem_s3_def mem_objs_def delete_conv')
  moreover have "s3_copy_ok mem_s3 mem_objs"
    by (auto simp: s3_copy_ok_def mem_s3_def mem_objs_def mem_split_source update_conv'
        split: if_splits option.splits)
  moreover have "s3_upload_ok mem_s3 mem_objs"
    by (auto simp: s3_upload_ok_def mem_s3_def mem_objs_def update_conv' fun_eq_iff
        split: option.splits)
  ultimately show ?thesis by (simp add: s3_documented_def)
qed

end
