(* ===== verification/CatPut.thy ===== *)
theory CatPut
  imports Client Crypt Database Storages
begin

text \<open>
  Serving an object to a client and storing one from a client: \<open>ProcessCatExtended\<close> and
  \<open>ProcessPutExtended\<close> of \<open>pkg/proc/interaction.go\<close>. A handler returns its error, the client and the
  world after it; \<open>None\<close> is a handler that panics or never returns.

  The goroutine that feeds an upload and the upload itself meet only in the pipe between them, so
  the model runs the goroutine first and hands the storage the body it wrote; a pipe that is never
  closed ends in \<open>BodyNever\<close>.
\<close>

section \<open>External code\<close>

type_synonym ('r, 'd) object_reader = "('r, 'd) world YRestartReader RetryReader"
type_synonym pipe_writer = "byte list YproxyWriter"

text \<open>
  The code the server calls that is not its own, and what the environment decides: how the bytes
  of an object arrive (\<open>ext_sizes\<close>, per object and offset). \<open>ext_limiter\<close> is the one rate limiter of
  the process.
\<close>

record ('r, 'd, 'k, 's, 'p) externals =
  ext_s3 :: "'r s3_api"
  ext_decoders :: decoders
  ext_unmarshal :: "byte list \<Rightarrow> u64 option"
  ext_pgx :: "'d pgx"
  ext_pgp :: "('k, 's, pipe_writer, 'p, ('r, 'd) object_reader) openpgp"
  ext_sizes :: "string \<Rightarrow> int \<Rightarrow> nat list"
  ext_limiter :: Limiter

definition configured_limiter :: "('r, 'd, 'k, 's, 'p) externals \<Rightarrow> ('r, 'd) world \<Rightarrow> Limiter option" where
  "configured_limiter E w =
     (if EnableRateLimiter (StorageCnf (the_instance w)) then Some (ext_limiter E) else None)"

text \<open>\<open>NewYRetryReader(NewRestartReader(s, name, settings), ycl)\<close>: the read operation and the reader\<close>

definition object_read ::
    "('r, 'd, 'k, 's, 'p) externals \<Rightarrow> ('r, 'd) world StorageInteractor \<Rightarrow> string \<Rightarrow> StorageSettings list \<Rightarrow>
     ('r, 'd) world \<Rightarrow> ('r, 'd) object_reader reader" where
  "object_read E s name setts w =
     YproxyRetryReader_Read
       (YRestartReader_Restart s (ext_sizes E name) (configured_limiter E w) name setts) YRestartReader_Read"

definition open_object :: "YClient \<Rightarrow> ('r, 'd) world \<Rightarrow> ('r, 'd) object_reader" where
  "open_object ycl w = (NewYRetryReader (NewRestartReader w))\<lparr>selfCl_offset := ByteOffset ycl\<rparr>"

text \<open>The client (whose progress the reader keeps) and the world when a reader is done.\<close>

definition reader_done :: "('r, 'd) object_reader \<Rightarrow> YClient \<Rightarrow> YClient \<times> ('r, 'd) world" where
  "reader_done y ycl = (SetByteOffset (selfCl_offset y) ycl, yr_world (rr_underlying y))"

section \<open>ProcessCatExtended\<close>

definition client_writer :: "YClient writer" where
  "client_writer p c = Some (conn_Write p c)"

text \<open>Skipping to the offset (an \<open>int64\<close>) and copying the rest to the client.\<close>

definition cat_copy ::
    "'q reader \<Rightarrow> u64 \<Rightarrow> 'q \<Rightarrow> YClient \<Rightarrow> (error option \<times> 'q \<times> YClient) option" where
  "cat_copy read startOffset q ycl =
     (case (if startOffset \<noteq> 0 then CopyN_Discard read (sint startOffset) q else Some (None, q)) of
        None \<Rightarrow> None
      | Some (Some err, q) \<Rightarrow> Some (Some err, q, ycl)
      | Some (None, q) \<Rightarrow> map_option (\<lambda>((n, err), q, ycl). (err, q, ycl)) (io_Copy read client_writer 0 q ycl))"

definition ProcessCatExtended ::
    "('r, 'd, 'k, 's, 'p) externals \<Rightarrow> ('r, 'd) world StorageInteractor \<Rightarrow> string \<Rightarrow> bool \<Rightarrow> bool \<Rightarrow> u64 \<Rightarrow>
     StorageSettings list \<Rightarrow> 'k GPGCrypter option \<Rightarrow> YClient \<Rightarrow> ('r, 'd) world \<Rightarrow>
     (error option \<times> YClient \<times> ('r, 'd) world) option" where
  "ProcessCatExtended E s name decrypt kek startOffset setts cr ycl w =
     (let ycl = SetExternalFilePath name ycl;
          read = object_read E s name setts w;
          yr = open_object ycl w in
      if decrypt then
        (case cr of
           None \<Rightarrow> Some (Some (Errorf ''failed to decrypt object, decrypter not configured''), ycl, w)
         | Some g \<Rightarrow>
             (case crypter_Decrypt (ext_pgp E) g read yr of
                None \<Rightarrow> None
              | Some (Inl err, yr) \<Rightarrow> Some (Some err, reader_done yr ycl)
              | Some (Inr p, yr) \<Rightarrow>
                  map_option (\<lambda>(err, (p, yr), ycl). (err, reader_done yr ycl))
                    (cat_copy (pgp_Read (ext_pgp E) read) startOffset (p, yr) ycl)))
      else map_option (\<lambda>(err, yr, ycl). (err, reader_done yr ycl)) (cat_copy read startOffset yr ycl))"

section \<open>ProcessPutExtended\<close>

text \<open>The write end of the pipe, and the writers above it.\<close>

definition pipe_Write :: "byte list \<Rightarrow> byte list \<Rightarrow> (nat \<times> error option) \<times> byte list" where
  "pipe_Write p q = ((length p, None), q @ p)"

definition put_write :: "Limiter option \<Rightarrow> pipe_writer writer" where
  "put_write lim =
     YproxyWriter_Write (case lim of None \<Rightarrow> \<lambda>p q. Some (pipe_Write p q) | Some l \<Rightarrow> limiter_Write l pipe_Write)"

text \<open>
  The loop that receives the chunks of data, with the writer it passes them to: it ends at an
  error, a short write, the end of the copy or any other packet.
\<close>

function put_loop :: "'a writer \<Rightarrow> byte list list \<Rightarrow> 'a \<Rightarrow> ('a \<times> byte list list) option" where
  "put_loop ww c q =
     (case ReadPacket c of
        (Inl err, c) \<Rightarrow> Some (q, c)
      | (Inr (tp, body), c') \<Rightarrow>
          (if tp = MessageTypeCopyData then
             (case CopyDataMessage_Decode NewCopyDataMessage body of
                None \<Rightarrow> None
              | Some msg \<Rightarrow>
                  (case ww (cd_Data msg) q of
                     None \<Rightarrow> None
                   | Some ((n, err), q) \<Rightarrow>
                       (if err \<noteq> None then Some (q, c')
                        else if int n \<noteq> sint (cd_Sz msg) then Some (q, c')
                        else put_loop ww c' q)))
           else Some (q, c')))"
  by pat_completeness auto
termination
  by (relation "measure (\<lambda>(ww, c, q). length (concat c))") (auto dest: ReadPacket_consumes [OF sym])

declare put_loop.simps [simp del]

text \<open>
  The goroutine: it returns before the deferred close is set up when there is no crypter or
  encryption cannot start, and leaves the pipe open when closing the encrypting writer fails.
\<close>

definition put_feed ::
    "('r, 'd, 'k, 's, 'p) externals \<Rightarrow> Limiter option \<Rightarrow> bool \<Rightarrow> 'k GPGCrypter option \<Rightarrow> YClient \<Rightarrow>
     (upload_body \<times> YClient) option" where
  "put_feed E lim encrypt cr ycl =
     (let wr = put_write lim;
          w = (NewYproxyWriter [])\<lparr>yw_selfCl_offset := ByteOffset ycl\<rparr>;
          fed = (\<lambda>q how c. Some ((yw_underlying q, how),
                   SetByteOffset (yw_selfCl_offset q) (ycl\<lparr>conn_in := c\<rparr>))) in
      if encrypt then
        (case cr of
           None \<Rightarrow> fed w BodyNever (conn_in ycl)
         | Some g \<Rightarrow>
             (case crypter_Encrypt (ext_pgp E) g wr w of
                None \<Rightarrow> None
              | Some (Inl err, w) \<Rightarrow> fed w BodyNever (conn_in ycl)
              | Some (Inr s, w) \<Rightarrow>
                  (case put_loop (pgp_Write (ext_pgp E) wr) (conn_in ycl) (s, w) of
                     None \<Rightarrow> None
                   | Some ((s, w), c) \<Rightarrow>
                       (case pgp_Close (ext_pgp E) wr (s, w) of
                          None \<Rightarrow> None
                        | Some (Some err, s, w) \<Rightarrow> fed w BodyNever c
                        | Some (None, s, w) \<Rightarrow> fed w BodyEOF c))))
      else
        (case put_loop wr (conn_in ycl) w of
           None \<Rightarrow> None
         | Some (w, c) \<Rightarrow> fed w BodyEOF c))"

definition ProcessPutExtended ::
    "('r, 'd, 'k, 's, 'p) externals \<Rightarrow> ('r, 'd) world StorageInteractor \<Rightarrow> string \<Rightarrow> bool \<Rightarrow>
     StorageSettings list \<Rightarrow> 'k GPGCrypter option \<Rightarrow> bool \<Rightarrow> YClient \<Rightarrow> ('r, 'd) world \<Rightarrow>
     (error option \<times> YClient \<times> ('r, 'd) world) option" where
  "ProcessPutExtended E s name encrypt setts cr replyKV ycl w =
     (case put_feed E (configured_limiter E w) encrypt cr (SetExternalFilePath name ycl) of
        None \<Rightarrow> None
      | Some (body, ycl) \<Rightarrow>
          (case PutFileToDest s name body setts w of
             None \<Rightarrow> None
           | Some (Some err, w) \<Rightarrow> Some (Some err, ycl, w)
           | Some (None, w) \<Rightarrow>
               (case (if replyKV
                      then conn_Write (PutCompleteMessage_Encode (NewPutCompleteMessage (ucast SingleKeyEncryption))) ycl
                      else ((0, None), ycl)) of
                  ((n, Some err), ycl) \<Rightarrow> Some (Some err, ycl, w)
                | ((n, None), ycl) \<Rightarrow>
                    (case conn_Write (ReadyForQueryMessage_Encode ()) ycl of
                       ((n, err), ycl) \<Rightarrow> Some (err, ycl, w)))))"

end
