(* ===== verification/Transfers.thy ===== *)
theory Transfers
  imports CatPut
begin

text \<open>
  What \<open>ProcessCatExtended\<close> sends and what \<open>ProcessPutExtended\<close> stores: both handlers end, and they
  transfer the bytes of the object unchanged, also through encryption.
\<close>

section \<open>Connections as writers\<close>

lemma client_takes:
  "\<exists>n e y'. client_writer p y = Some ((n, e), y') \<and> n \<le> length p \<and>
     conn_out y' = conn_out y @ take n p \<and> (e = None \<longrightarrow> n = length p)"
proof -
  obtain n e y' where w: "conn_Write p y = ((n, e), y')" by (metis prod.exhaust)
  from conn_Write_prefix [OF w] w show ?thesis by (auto simp: client_writer_def)
qed

interpretation healthyClient: sink client_writer "\<lambda>y. \<not> conn_closed y \<and> conn_fails y = None" conn_out
  by unfold_locales (simp add: client_writer_def conn_Write_healthy)

interpretation pipeWriter: sink "put_write None" "\<lambda>q. True" yw_underlying
  by unfold_locales (simp add: put_write_def YproxyWriter_Write_def pipe_Write_def Let_def)

section \<open>Copying to a client\<close>

context source
begin

lemma client_copying: "copying_some read holds client_writer conn_out"
  by (intro copying_some.intro source_axioms copying_some_axioms.intro client_takes)

lemma healthy_copying:
  "copying read holds client_writer (\<lambda>y. \<not> conn_closed y \<and> conn_fails y = None) conn_out"
  by (intro copying.intro source_axioms healthyClient.sink_axioms)

lemma skip_to_offset:
  assumes "holds q c" and "unat (off :: u64) < 2 ^ 63"
  shows "\<exists>q'. (if off \<noteq> 0 then CopyN_Discard read (sint off) q else Some (None, q)) =
      Some (if unat off \<le> length c then None else Some EOF, q') \<and> holds q' (drop (unat off) c)"
  unfolding sint_unat_u64 [OF assms(2)]
  using CopyN_skips [OF assms(1), of "unat off"] assms(1) by (cases "off = 0") auto

text \<open>
  The client receives the bytes from the offset on, all of them when its connection takes them and
  otherwise a prefix; an offset beyond the end is an error and sends nothing.
\<close>

lemma cat_copy_healthy:
  assumes "holds q c" and "unat off < 2 ^ 63" "unat off \<le> length c"
    and "\<not> conn_closed y" "conn_fails y = None"
  shows "\<exists>q' y'. cat_copy read off q y = Some (None, q', y') \<and> holds q' [] \<and>
    conn_out y' = conn_out y @ drop (unat off) c"
proof -
  from skip_to_offset [OF assms(1,2)] assms(3) obtain q1 where q1:
    "(if off \<noteq> 0 then CopyN_Discard read (sint off) q else Some (None, q)) = Some (None, q1)"
    "holds q1 (drop (unat off) c)" by auto
  from copying.io_Copy_all [OF healthy_copying q1(2), of y 0] assms(4,5) obtain q2 y2 where
    "io_Copy read client_writer 0 q1 y = Some ((length (drop (unat off) c), None), q2, y2)"
    "conn_out y2 = conn_out y @ drop (unat off) c" "holds q2 []" by auto
  with q1(1) show ?thesis by (simp add: cat_copy_def)
qed

lemma cat_copy_any:
  assumes "holds q c" and "unat off < 2 ^ 63"
  shows "\<exists>e q' y' out. cat_copy read off q y = Some (e, q', y') \<and> conn_out y' = conn_out y @ out \<and>
    prefix out (drop (unat off) c) \<and> (e = None \<longrightarrow> unat off \<le> length c \<and> out = drop (unat off) c)"
proof (cases "unat off \<le> length c")
  case True
  with skip_to_offset [OF assms] obtain q1 where q1:
    "(if off \<noteq> 0 then CopyN_Discard read (sint off) q else Some (None, q)) = Some (None, q1)"
    "holds q1 (drop (unat off) c)" by auto
  from copying_some.io_Copy_some [OF client_copying q1(2), of 0 y] obtain n e q2 y2 out where
    "io_Copy read client_writer 0 q1 y = Some ((n, e), q2, y2)" "conn_out y2 = conn_out y @ out"
    "prefix out (drop (unat off) c)" "e = None \<longrightarrow> out = drop (unat off) c" by blast
  with q1(1) True show ?thesis by (simp add: cat_copy_def)
next
  case False
  with skip_to_offset [OF assms] obtain q1 where
    "(if off \<noteq> 0 then CopyN_Discard read (sint off) q else Some (None, q)) = Some (Some EOF, q1)" by auto
  then show ?thesis by (auto simp: cat_copy_def)
qed

end

text \<open>Objects of a file storage, read without a limiter, are such sources.\<close>

interpretation catFile: copying_some
  "YproxyRetryReader_Read (YRestartReader_Restart (FileStorageInteractor cnf) sizes None name ss) YRestartReader_Read"
  "fileReader.remains c cnf name w" client_writer conn_out
  by (rule fileReader.retry.client_copying)

interpretation catHealthy: copying
  "YproxyRetryReader_Read (YRestartReader_Restart (FileStorageInteractor cnf) sizes None name ss) YRestartReader_Read"
  "fileReader.remains c cnf name w" client_writer "\<lambda>y. \<not> conn_closed y \<and> conn_fails y = None" conn_out
  by (rule fileReader.retry.healthy_copying)

lemma file_opened:
  assumes "fs_get (host w) (fs_path cnf name) = Some (FileNode c t)"
  shows "fileReader.remains c cnf name w (open_object ycl w) c"
  using assms by (auto simp: fileReader.remains_def fileReader.stands_def open_object_def NewYRetryReader_def
      NewRestartReader_def file_is_def intro!: exI [of _ 0])

lemma remains_world: "fileReader.remains c cnf name w y rest \<Longrightarrow> yr_world (rr_underlying y) = w"
  by (auto simp: fileReader.remains_def fileReader.stands_def file_is_def)

lemma object_read_file:
  assumes "\<not> EnableRateLimiter (StorageCnf (the_instance w))"
  shows "object_read E (FileStorageInteractor cnf) name ss w =
    YproxyRetryReader_Read (YRestartReader_Restart (FileStorageInteractor cnf) (ext_sizes E name) None name ss)
      YRestartReader_Read"
  using assms by (simp add: object_read_def configured_limiter_def)

lemma ProcessCat_file:
  assumes "fs_get (host w) (fs_path cnf name) = Some (FileNode c t)"
    and "\<not> EnableRateLimiter (StorageCnf (the_instance w))"
    and "unat off \<le> length c" "unat off < 2 ^ 63" and "\<not> conn_closed ycl" "conn_fails ycl = None"
  shows "\<exists>ycl'. ProcessCatExtended E (FileStorageInteractor cnf) name False kek off ss cr ycl w = Some (None, ycl', w) \<and>
    conn_out ycl' = conn_out ycl @ drop (unat off) c"
proof -
  let ?y = "SetExternalFilePath name ycl"
  have "\<not> conn_closed ?y" "conn_fails ?y = None" using assms(5,6) by (simp_all add: client_simps)
  from fileReader.retry.cat_copy_healthy [OF file_opened [OF assms(1)] assms(4,3) this,
      of "ext_sizes E name" ss ?y]
  obtain q' y' where "cat_copy (object_read E (FileStorageInteractor cnf) name ss w) off (open_object ?y w) ?y =
      Some (None, q', y')" "fileReader.remains c cnf name w q' []" "conn_out y' = conn_out ycl @ drop (unat off) c"
    unfolding object_read_file [OF assms(2)] by (auto simp: client_simps)
  then show ?thesis
    by (auto simp: ProcessCatExtended_def Let_def reader_done_def client_simps dest: remains_world)
qed

lemma ProcessCat_file_any:
  assumes "fs_get (host w) (fs_path cnf name) = Some (FileNode c t)"
    and "\<not> EnableRateLimiter (StorageCnf (the_instance w))" and "unat off < 2 ^ 63"
  shows "\<exists>e ycl' w' out. ProcessCatExtended E (FileStorageInteractor cnf) name False kek off ss cr ycl w = Some (e, ycl', w') \<and>
    conn_out ycl' = conn_out ycl @ out \<and> prefix out (drop (unat off) c) \<and>
    (e = None \<longrightarrow> unat off \<le> length c \<and> out = drop (unat off) c)"
proof -
  let ?y = "SetExternalFilePath name ycl"
  from fileReader.retry.cat_copy_any [OF file_opened [OF assms(1)] assms(3), of "ext_sizes E name" ss ?y ?y]
  obtain e q' y' out where "cat_copy (object_read E (FileStorageInteractor cnf) name ss w) off (open_object ?y w) ?y =
      Some (e, q', y')" "conn_out y' = conn_out ycl @ out" "prefix out (drop (unat off) c)"
      "e = None \<longrightarrow> unat off \<le> length c \<and> out = drop (unat off) c"
    unfolding object_read_file [OF assms(2)] by (auto simp: client_simps)
  then show ?thesis by (auto simp: ProcessCatExtended_def Let_def reader_done_def client_simps)
qed

text \<open>The same through decryption, for a library that decrypts as documented.\<close>

lemma ProcessCat_file_decrypt:
  assumes "fs_get (host w) (fs_path cnf name) = Some (FileNode (Enc m) t)"
    and "\<not> EnableRateLimiter (StorageCnf (the_instance w))"
    and "unat off \<le> length m" "unat off < 2 ^ 63" and "\<not> conn_closed ycl" "conn_fails ycl = None"
    and "EntityList g = Some k" and "pgp_decrypts (ext_pgp E) k Enc"
  shows "\<exists>ycl' w'. ProcessCatExtended E (FileStorageInteractor cnf) name True kek off ss (Some g) ycl w = Some (None, ycl', w') \<and>
    conn_out ycl' = conn_out ycl @ drop (unat off) m"
proof -
  let ?y = "SetExternalFilePath name ycl"
  let ?read = "object_read E (FileStorageInteractor cnf) name ss w"
  have y: "\<not> conn_closed ?y" "conn_fails ?y = None" using assms(5,6) by (simp_all add: client_simps)
  have src: "source ?read (fileReader.remains (Enc m) cnf name w)"
    unfolding object_read_file [OF assms(2)] by (rule fileReader.retry.source_axioms)
  from assms(8) [unfolded pgp_decrypts_def, rule_format, OF src]
  obtain plain where pl: "source (pgp_Read (ext_pgp E) ?read) plain"
    "\<forall>u m'. fileReader.remains (Enc m) cnf name w u (Enc m') \<longrightarrow>
       (\<exists>p u'. pgp_ReadMessage (ext_pgp E) k ?read u = Some (Inr p, u') \<and> plain (p, u') m')" by (elim exE conjE)
  from pl(2) [rule_format, OF file_opened [OF assms(1)], of ?y] obtain p u' where
    o: "pgp_ReadMessage (ext_pgp E) k ?read (open_object ?y w) = Some (Inr p, u')" "plain (p, u') m" by blast
  from source.cat_copy_healthy [OF pl(1) o(2) assms(4,3) y] obtain q' y' where
    "cat_copy (pgp_Read (ext_pgp E) ?read) off (p, u') ?y = Some (None, q', y')"
    "conn_out y' = conn_out ycl @ drop (unat off) m" by (auto simp: client_simps)
  with o(1) assms(7) show ?thesis
    by (cases q') (auto simp: ProcessCatExtended_def Let_def reader_done_def client_simps crypter_Decrypt_def)
qed

section \<open>Receiving from a client\<close>

text \<open>
  The chunks \<open>ds\<close>, each in a packet, then anything that is not a data packet: the loop has passed on
  exactly the chunks. \<open>P m q\<close> says that the writer \<open>q\<close> has been given \<open>m\<close>.
\<close>

definition ends_data :: "byte list \<Rightarrow> bool" where
  "ends_data rest \<longleftrightarrow> (case packet_of rest of Inl _ \<Rightarrow> True | Inr (tp, _) \<Rightarrow> tp \<noteq> MessageTypeCopyData)"

lemma put_loop_chunks:
  assumes step: "\<And>d m q. P m q \<Longrightarrow> \<exists>q'. ww d q = Some ((length d, None), q') \<and> P (m @ d) q'"
    and "P m q" and "concat c = concat (map copy_data_packet ds) @ rest" and "ends_data rest"
    and "list_all (\<lambda>d. length d + 20 \<le> unat maxMsgLen) ds"
  shows "\<exists>q' c'. put_loop ww c q = Some (q', c') \<and> P (m @ concat ds) q'"
  using assms(2-)
proof (induction ds arbitrary: c m q)
  case Nil
  then have "ends_data (concat c)" by simp
  then show ?case using Nil.prems(1) ReadPacket_spec [of c]
    by (subst put_loop.simps)
      (auto simp: ends_data_def split: sum.splits prod.splits)
next
  case (Cons d ds)
  have d: "length d + 20 \<le> unat maxMsgLen" using Cons.prems(4) by simp
  then have d47: "length d < 2 ^ 47" by (simp add: maxMsgLen_eq)
  from ReadPacket_copy_data [OF _ d, of c] Cons.prems(2) obtain c1 where
    c1: "ReadPacket c = (Inr (MessageTypeCopyData, drop 8 (copy_data_packet d)), c1)"
      "concat c1 = concat (map copy_data_packet ds) @ rest" by fastforce
  from step [OF Cons.prems(1), of d] obtain q1 where
    q1: "ww d q = Some ((length d, None), q1)" "P (m @ d) q1" by blast
  have sz: "sint (of_nat (length d) :: u64) = int (length d)"
    using d47 by (subst sint_unat_u64) simp_all
  from Cons.IH [OF q1(2) c1(2) Cons.prems(3)] Cons.prems(4) obtain q' c' where
    ih: "put_loop ww c1 q1 = Some (q', c')" "P (m @ concat (d # ds)) q'" by auto
  have "put_loop ww c q = put_loop ww c1 q1"
    using c1(1) q1(1) sz CopyDataMessage_Decode_packet [OF d47, of NewCopyDataMessage]
    by (subst put_loop.simps) simp
  with ih show ?case by auto
qed

section \<open>Storing an upload\<close>

text \<open>The goroutine passes on the client's chunks, whatever ends them.\<close>

lemma put_feed_plain:
  assumes "concat (conn_in ycl) = concat (map copy_data_packet ds) @ rest" and "ends_data rest"
    and "list_all (\<lambda>d. length d + 20 \<le> unat maxMsgLen) ds"
  shows "\<exists>c n. put_feed E None False cr ycl =
    Some ((concat ds, BodyEOF), SetByteOffset n (ycl\<lparr>conn_in := c\<rparr>))"
proof -
  let ?w = "(NewYproxyWriter [])\<lparr>yw_selfCl_offset := ByteOffset ycl\<rparr>"
  have step: "\<exists>q'. put_write None d q = Some ((length d, None), q') \<and> yw_underlying q' = m @ d"
    if "yw_underlying q = m" for d m q
    using that by (simp add: put_write_def YproxyWriter_Write_def pipe_Write_def Let_def)
  have "yw_underlying ?w = []" by (simp add: NewYproxyWriter_def)
  from put_loop_chunks [of "\<lambda>m q. yw_underlying q = m" "put_write None", OF step this assms]
  obtain q' c' where "put_loop (put_write None) (conn_in ycl) ?w = Some (q', c')" "yw_underlying q' = concat ds"
    by auto
  then show ?thesis by (auto simp: put_feed_def Let_def)
qed

text \<open>With encryption the body is the encryption of the chunks.\<close>

lemma put_feed_encrypted:
  assumes "concat (conn_in ycl) = concat (map copy_data_packet ds) @ rest" and "ends_data rest"
    and "list_all (\<lambda>d. length d + 20 \<le> unat maxMsgLen) ds"
    and "EntityList g = Some k" and "pgp_encrypts (ext_pgp E) k Enc"
  shows "\<exists>c n. put_feed E None True (Some g) ycl =
    Some ((Enc (concat ds), BodyEOF), SetByteOffset n (ycl\<lparr>conn_in := c\<rparr>))"
proof -
  let ?w = "(NewYproxyWriter [])\<lparr>yw_selfCl_offset := ByteOffset ycl\<rparr>"
  let ?wr = "put_write None"
  from assms(5) [unfolded pgp_encrypts_def, rule_format, OF pipeWriter.sink_axioms] obtain during where
    o: "\<forall>q. \<exists>s q'. pgp_Encrypt (ext_pgp E) k ?wr q = Some (Inr s, q') \<and> during (yw_underlying q) [] s q'"
    and wt: "\<forall>base m s q p. during base m s q \<longrightarrow>
       (\<exists>s' q'. pgp_Write (ext_pgp E) ?wr p (s, q) = Some ((length p, None), s', q') \<and> during base (m @ p) s' q')"
    and cl: "\<forall>base m s q. during base m s q \<longrightarrow>
       (\<exists>s' q'. pgp_Close (ext_pgp E) ?wr (s, q) = Some (None, s', q') \<and> yw_underlying q' = base @ Enc m)"
    by (elim exE conjE) simp
  from o [rule_format, of ?w] obtain s1 w1 where
    e: "pgp_Encrypt (ext_pgp E) k ?wr ?w = Some (Inr s1, w1)" "during [] [] s1 w1" by (auto simp: NewYproxyWriter_def)
  let ?P = "\<lambda>m (s, q). during [] m s q"
  have step: "\<exists>q'. pgp_Write (ext_pgp E) ?wr d q = Some ((length d, None), q') \<and> ?P (m @ d) q'" if "?P m q" for d m q
    using wt [rule_format, of "[]" m "fst q" "snd q" d] that by (cases q) auto
  have "?P [] (s1, w1)" using e(2) by simp
  from put_loop_chunks [of ?P "pgp_Write (ext_pgp E) ?wr", OF step this assms(1-3)] obtain s2 w2 c' where
    l: "put_loop (pgp_Write (ext_pgp E) ?wr) (conn_in ycl) (s1, w1) = Some ((s2, w2), c')" "during [] (concat ds) s2 w2"
    by fastforce
  from cl [rule_format, OF l(2)] obtain s3 w3 where
    "pgp_Close (ext_pgp E) ?wr (s2, w2) = Some (None, s3, w3)" "yw_underlying w3 = Enc (concat ds)" by auto
  with e(1) l(1) assms(4) show ?thesis by (auto simp: put_feed_def crypter_Encrypt_def Let_def)
qed

text \<open>
  The handler stores the body it was fed and, when the storage accepts it, answers; \<open>put_reply\<close> is
  the answer.
\<close>

definition put_reply :: "bool \<Rightarrow> byte list" where
  "put_reply replyKV =
     (if replyKV then PutCompleteMessage_Encode (NewPutCompleteMessage (ucast SingleKeyEncryption)) else []) @
     ReadyForQueryMessage_Encode ()"

lemma ProcessPut_stores:
  assumes "put_feed E (configured_limiter E w) enc cr (SetExternalFilePath name ycl) =
      Some (body, SetByteOffset n (SetExternalFilePath name ycl\<lparr>conn_in := c\<rparr>))"
    and "\<not> conn_closed ycl" "conn_fails ycl = None"
  shows "\<exists>ycl'. ProcessPutExtended E s name enc ss cr kv ycl w =
      map_option (\<lambda>(e, w'). (e, ycl'\<lparr>conn_out := conn_out ycl @ (if e = None then put_reply kv else [])\<rparr>, w'))
        (PutFileToDest s name body ss w)"
proof -
  define y where "y = SetByteOffset n (SetExternalFilePath name ycl\<lparr>conn_in := c\<rparr>)"
  have y: "\<not> conn_closed y" "conn_fails y = None" "conn_out y = conn_out ycl"
    using assms(2,3) by (simp_all add: y_def client_simps)
  show ?thesis
    using assms(1) y
    by (intro exI [of _ y])
      (auto simp: ProcessPutExtended_def y_def [symmetric] conn_Write_healthy put_reply_def
        split: option.splits prod.splits)
qed

lemma limiter_off: "\<not> EnableRateLimiter (StorageCnf (the_instance w)) \<Longrightarrow> configured_limiter E w = None"
  by (simp add: configured_limiter_def)

end
