(* ===== verification/ListCopy.thy ===== *)
theory ListCopy
  imports Transfers
begin

text \<open>
  Listing and copying, from \<open>pkg/proc/interaction.go\<close>: \<open>ProcessListExtended\<close>, \<open>ListFilesToCopy\<close> and
  \<open>ProcessCopyExtended\<close>.

  The goroutines of a copy work on different objects; the model runs them one after the other, in
  an order that is an argument (\<open>order\<close>, one per round). A failed upload is taken to have read its
  body.
\<close>

section \<open>ProcessListExtended\<close>

definition chunkSize :: nat where "chunkSize = 1000"

text \<open>The loop that sends the listing in chunks; it returns the error that stopped it.\<close>

function send_chunks :: "ObjectInfo list \<Rightarrow> YClient \<Rightarrow> error option \<times> YClient" where
  "send_chunks objectMetas ycl =
     (if objectMetas = [] then (None, ycl)
      else case conn_Write (ObjectInfoMessage_Encode (take chunkSize objectMetas)) ycl of
          ((n, Some err), ycl) \<Rightarrow> (Some err, ycl)
        | ((n, None), ycl) \<Rightarrow> send_chunks (drop chunkSize objectMetas) ycl)"
  by pat_completeness auto
termination
  by (relation "measure (\<lambda>(ms, _). length ms)") (auto simp: chunkSize_def)

declare send_chunks.simps [simp del]

definition ProcessListExtended ::
    "'w StorageInteractor \<Rightarrow> string \<Rightarrow> StorageSettings list \<Rightarrow> YClient \<Rightarrow> 'w \<Rightarrow>
     (error option \<times> YClient \<times> 'w) option" where
  "ProcessListExtended s pfx setts ycl w =
     (let ycl = SetExternalFilePath pfx ycl in
      case ListPath s pfx True setts w of
        None \<Rightarrow> None
      | Some (Inl err, w) \<Rightarrow>
          Some (Some err, snd (ReplyError (Errorf (''could not list objects: '' @ error_text err))
                            ''failed to complete request'' ycl), w)
      | Some (Inr objectMetas, w) \<Rightarrow>
          (case send_chunks objectMetas ycl of
             (Some err, ycl) \<Rightarrow> Some (None, snd (ReplyError err ''failed to upload'' ycl), w)
           | (None, ycl) \<Rightarrow>
               (case conn_Write (ReadyForQueryMessage_Encode ()) ycl of
                  ((n, Some err), ycl) \<Rightarrow> Some (Some err, snd (ReplyError err ''failed to upload'' ycl), w)
                | ((n, None), ycl) \<Rightarrow> Some (None, ycl, w))))"

section \<open>ListFilesToCopy\<close>

fun copy_filter ::
    "Storage \<Rightarrow> bool \<Rightarrow> virtual_index \<Rightarrow> (string \<times> int) list \<Rightarrow> ObjectInfo list \<Rightarrow> ObjectInfo list \<Rightarrow> ObjectInfo list \<Rightarrow>
     ObjectInfo list \<times> ObjectInfo list" where
  "copy_filter cfg skipCopy vi copiedSizes [] toCopy skipped = (toCopy, skipped)"
| "copy_filter cfg skipCopy vi copiedSizes (obj # objs) toCopy skipped =
     (let reworked = TrimPrefix (obj_Path obj) (StoragePrefix cfg);
          absent = (map_of vi reworked = None);
          skipped = (if absent then skipped @ [obj] else skipped) in
      if absent \<and> skipCopy then copy_filter cfg skipCopy vi copiedSizes objs toCopy skipped
      else if map_of copiedSizes (obj_Path obj) \<noteq> None
      then copy_filter cfg skipCopy vi copiedSizes objs toCopy (skipped @ [obj])
      else copy_filter cfg skipCopy vi copiedSizes objs (toCopy @ [obj]) skipped)"

definition ListFilesToCopy ::
    "'d pgx \<Rightarrow> string \<Rightarrow> u64 \<Rightarrow> Storage \<Rightarrow> ('r, 'd) world StorageInteractor \<Rightarrow> ('r, 'd) world StorageInteractor \<Rightarrow>
     ('r, 'd) world \<Rightarrow> ((error + ObjectInfo list \<times> ObjectInfo list) \<times> ('r, 'd) world) option" where
  "ListFilesToCopy px pfx port cfg src dst w =
     (case ListPath src pfx True [] w of
        None \<Rightarrow> None
      | Some (Inl err, w) \<Rightarrow> Some (Inl err, w)
      | Some (Inr objectMetas, w) \<Rightarrow>
      case GetVirtualExpireIndexes px port w of
        (Inl err, w) \<Rightarrow> Some (Inl err, w)
      | (Inr (vi, ei), w) \<Rightarrow>
      case ListPath dst pfx False [] w of
        None \<Rightarrow> None
      | Some (Inl err, w) \<Rightarrow> Some (Inl err, w)
      | Some (Inr copied, w) \<Rightarrow>
          (let copiedSizes = foldl (\<lambda>m c. AList.update (obj_Path c) (sint (obj_Size c)) m) [] copied in
           Some (Inr (copy_filter cfg (StorageOptimizeCopy (StorageCnf (the_instance w))) vi copiedSizes
                        objectMetas [] []), w)))"

section \<open>ProcessCopyExtended\<close>

text \<open>The pipe to the upload, without the progress writer.\<close>

definition pipe_direct :: "pipe_writer writer" where
  "pipe_direct p q = (case pipe_Write p (yw_underlying q) of (r, u) \<Rightarrow> Some (r, q\<lparr>yw_underlying := u\<rparr>))"

text \<open>
  The inner goroutine: read everything, encrypt it when asked, and close the pipe in every case.
  The result is the body, whether the object was reported as failed, and the reader.
\<close>

definition copy_feed ::
    "('r, 'd, 'k, 's, 'p) externals \<Rightarrow> bool \<Rightarrow> 'k GPGCrypter \<Rightarrow> 'q reader \<Rightarrow> 'q \<Rightarrow> (upload_body \<times> bool \<times> 'q) option" where
  "copy_feed E encrypt cr read q =
     (let pipe = NewYproxyWriter []; lib = ext_pgp E in
      if encrypt then
        (case crypter_Encrypt lib cr pipe_direct pipe of
           None \<Rightarrow> None
         | Some (Inl err, pipe) \<Rightarrow> Some ((yw_underlying pipe, BodyEOF), True, q)
         | Some (Inr s, pipe) \<Rightarrow>
             (case io_Copy read (pgp_Write lib pipe_direct) 0 q (s, pipe) of
                None \<Rightarrow> None
              | Some ((n, Some err), q, (s, pipe)) \<Rightarrow> Some ((yw_underlying pipe, BodyEOF), True, q)
              | Some ((n, None), q, (s, pipe)) \<Rightarrow>
                  (case pgp_Close lib pipe_direct (s, pipe) of
                     None \<Rightarrow> None
                   | Some (e, s, pipe) \<Rightarrow> Some ((yw_underlying pipe, BodyEOF), e \<noteq> None, q))))
      else
        (case io_Copy read pipe_direct 0 q pipe of
           None \<Rightarrow> None
         | Some ((n, e), q, pipe) \<Rightarrow> Some ((yw_underlying pipe, BodyEOF), e \<noteq> None, q)))"

text \<open>One object: its failures (it can be reported twice), the client and the world.\<close>

definition copy_put ::
    "('r, 'd) world StorageInteractor \<Rightarrow> string \<Rightarrow> ObjectInfo \<Rightarrow> upload_body \<Rightarrow> bool \<Rightarrow> ('r, 'd) object_reader \<Rightarrow> YClient \<Rightarrow>
     (ObjectInfo list \<times> YClient \<times> ('r, 'd) world) option" where
  "copy_put s path obj body failed yr ycl =
     (case reader_done yr ycl of (ycl, w) \<Rightarrow>
        map_option (\<lambda>(e, w). ((if failed then [obj] else []) @ (if e \<noteq> None then [obj] else []), ycl, w))
          (PutFileToDest s path body [] w))"

definition copy_object ::
    "('r, 'd, 'k, 's, 'p) externals \<Rightarrow> Instance \<Rightarrow> ('r, 'd) world StorageInteractor \<Rightarrow> ('r, 'd) world StorageInteractor \<Rightarrow>
     bool \<Rightarrow> bool \<Rightarrow> bool \<Rightarrow> 'k GPGCrypter \<Rightarrow> ObjectInfo \<Rightarrow> YClient \<Rightarrow> ('r, 'd) world \<Rightarrow>
     (ObjectInfo list \<times> YClient \<times> ('r, 'd) world) option" where
  "copy_object E src oldStorage s ssCopy encrypt decrypt cr obj ycl w =
     (let cnf = StorageCnf src; path = TrimPrefix (obj_Path obj) (StoragePrefix cnf) in
      case (if ssCopy then CopyObject s path path (StoragePrefix cnf) (StorageBucket cnf) (DefaultBucket s) w
            else (Some (Errorf ''no server-side copy''), w)) of
        (None, w) \<Rightarrow> Some ([], ycl, w)
      | (Some _, w) \<Rightarrow>
          (let read = object_read E oldStorage path [] w; yr = open_object ycl w in
           if decrypt then
             (case NewCrypto (ext_pgp E) (host w) (CryptoCnf src) of
                Inl err \<Rightarrow> Some ([obj], ycl, w)
              | Inr oldCr \<Rightarrow>
                  (case crypter_Decrypt (ext_pgp E) oldCr read yr of
                     None \<Rightarrow> None
                   | Some (Inl err, yr) \<Rightarrow> Some ([obj], reader_done yr ycl)
                   | Some (Inr p, yr) \<Rightarrow>
                       (case copy_feed E encrypt cr (pgp_Read (ext_pgp E) read) (p, yr) of
                          None \<Rightarrow> None
                        | Some (body, failed, (p, yr)) \<Rightarrow> copy_put s path obj body failed yr ycl)))
           else
             (case copy_feed E encrypt cr read yr of
                None \<Rightarrow> None
              | Some (body, failed, yr) \<Rightarrow> copy_put s path obj body failed yr ycl)))"

text \<open>A round over the objects, and at most ten rounds over what failed.\<close>

fun copy_round ::
    "(ObjectInfo \<Rightarrow> YClient \<Rightarrow> 'w \<Rightarrow> (ObjectInfo list \<times> YClient \<times> 'w) option) \<Rightarrow> ObjectInfo list \<Rightarrow> ObjectInfo list \<Rightarrow>
     YClient \<Rightarrow> 'w \<Rightarrow> (ObjectInfo list \<times> YClient \<times> 'w) option" where
  "copy_round copy [] failed ycl w = Some (failed, ycl, w)"
| "copy_round copy (obj # objs) failed ycl w =
     (case copy obj ycl w of
        None \<Rightarrow> None
      | Some (fs, ycl, w) \<Rightarrow> copy_round copy objs (failed @ fs) ycl w)"

function copy_rounds ::
    "(ObjectInfo \<Rightarrow> YClient \<Rightarrow> 'w \<Rightarrow> (ObjectInfo list \<times> YClient \<times> 'w) option) \<Rightarrow> (nat \<Rightarrow> ObjectInfo list \<Rightarrow> ObjectInfo list) \<Rightarrow>
     nat \<Rightarrow> ObjectInfo list \<Rightarrow> YClient \<Rightarrow> 'w \<Rightarrow> (ObjectInfo list \<times> YClient \<times> 'w) option" where
  "copy_rounds copy order retryCount objectMetas ycl w =
     (if objectMetas \<noteq> [] \<and> retryCount < 10 then
        (case copy_round copy (order retryCount objectMetas) [] ycl w of
           None \<Rightarrow> None
         | Some (failed, ycl, w) \<Rightarrow> copy_rounds copy order (retryCount + 1) failed ycl w)
      else Some (objectMetas, ycl, w))"
  by pat_completeness auto
termination by (relation "measure (\<lambda>(_, _, n, _). 10 - n)") auto

declare copy_rounds.simps [simp del]

definition config_files :: "fs \<Rightarrow> string \<Rightarrow> string option" where
  "config_files fs p = (case OpenRead p fs of Inl _ \<Rightarrow> None | Inr c \<Rightarrow> Some (string_of c))"

text \<open>The answer to a finished copy.\<close>

definition copy_reply :: "bool \<Rightarrow> YClient \<Rightarrow> 'w \<Rightarrow> error option \<times> YClient \<times> 'w" where
  "copy_reply replyKV ycl w =
     (case (if replyKV then conn_Write (CopyCompleteMessage_Encode (NewCopyCompleteMessage SingleKeyEncryption)) ycl
            else ((0, None), ycl)) of
        ((n, Some err), ycl) \<Rightarrow> (Some err, snd (ReplyError err ''failed to upload'' ycl), w)
      | ((n, None), ycl) \<Rightarrow>
          (case conn_Write (ReadyForQueryMessage_Encode ()) ycl of
             ((n, Some err), ycl) \<Rightarrow> (Some err, snd (ReplyError err ''failed to upload'' ycl), w)
           | ((n, None), ycl) \<Rightarrow> (None, ycl, w)))"

text \<open>
  Comparing keys without a crypter panics; a source configuration with no copy concurrency waits
  for ever for its semaphore.
\<close>

definition ProcessCopyExtended ::
    "('r, 'd, 'k, 's, 'p) externals \<Rightarrow> (nat \<Rightarrow> ObjectInfo list \<Rightarrow> ObjectInfo list) \<Rightarrow> string \<Rightarrow> string \<Rightarrow> u64 \<Rightarrow>
     bool \<Rightarrow> bool \<Rightarrow> bool \<Rightarrow> bool \<Rightarrow> bool \<Rightarrow> bool \<Rightarrow> ('r, 'd) world StorageInteractor \<Rightarrow> 'k GPGCrypter option \<Rightarrow>
     YClient \<Rightarrow> ('r, 'd) world \<Rightarrow> (error option \<times> YClient \<times> ('r, 'd) world) option" where
  "ProcessCopyExtended E order name oldCfgPath port confirm encrypt decrypt kEKDecrypt serverSide replyKV s cr ycl w =
     (if kEKDecrypt then
        (let err = Errorf ''KEK decryption in Copy not supported'' in
         Some (Some err, snd (ReplyError err ''failed to complete request'' ycl), w))
      else if serverSide then
        (let err = Errorf ''server-side Copy not supported'' in
         Some (Some err, snd (ReplyError err ''failed to complete request'' ycl), w))
      else
        (let ycl = SetExternalFilePath name ycl in
         case ReadInstanceConfig (ext_decoders E) (config_files (host w)) oldCfgPath of
           (_, Some err) \<Rightarrow>
             Some (None, snd (ReplyError (Errorf (''could not read old config: '' @ error_text err))
                              ''failed to complete request'' ycl), w)
         | (src, None) \<Rightarrow>
         case NewStorage (ext_s3 E) (StorageCnf src) [] of
           Inl err \<Rightarrow> Some (Some err, ycl, w)
         | Inr oldStorage \<Rightarrow>
         case ListFilesToCopy (ext_pgx E) name port (StorageCnf src) oldStorage s w of
           None \<Rightarrow> None
         | Some (Inl err, w) \<Rightarrow> Some (Some err, snd (ReplyError err ''failed to list files to copy'' ycl), w)
         | Some (Inr (objectMetas, _), w) \<Rightarrow>
             (if confirm then
                (case cr of
                   None \<Rightarrow> None
                 | Some g \<Rightarrow>
                     (case CmpKey (host w) g (GPGKeyPath (CryptoCnf src)) of
                        Inl err \<Rightarrow> Some (Some err, ycl, w)
                      | Inr eq \<Rightarrow>
                          (let ssCopy = (\<not> encrypt \<and> \<not> decrypt) \<or> (encrypt \<and> decrypt \<and> eq) in
                           if objectMetas \<noteq> [] \<and> CopyStorageConcurrency (StorageCnf src) < 1 then None
                           else case copy_rounds (copy_object E src oldStorage s ssCopy encrypt decrypt g) order
                                       0 objectMetas ycl w of
                               None \<Rightarrow> None
                             | Some (objectMetas, ycl, w) \<Rightarrow>
                                 (if objectMetas \<noteq> [] then
                                    (let err = Errorf ''failed to copy some files'' in
                                     Some (Some err, snd (ReplyError err ''failed files'' ycl), w))
                                  else Some (copy_reply replyKV ycl w)))))
              else Some (copy_reply replyKV ycl w))))"

end
