(* ===== verification/WorkerPool.thy ===== *)
theory WorkerPool
  imports YPrelude
begin

text \<open>
  The worker pool of the delete handlers, \<open>garbageFilesParallel\<close> in
  \<open>pkg/proc/delete_handler.go\<close>: the main goroutine feeds the files through an unbuffered channel
  to the workers, each worker operates on one file at a time and reports the failed ones on a
  channel with room for all of them.

  The steps of the workers interleave in any order (\<open>pool_step\<close>); the executable model takes the
  order as a schedule of worker numbers. An operation on a file is one atomic step.
\<close>

section \<open>The pool as a transition system\<close>

record ('a, 'w) pool =
  jobs :: "'a list"
  workers :: "'a option list"
  failedCh :: "'a list"
  succeeded :: "'a list"
  pool_world :: 'w

definition finish :: "('a \<Rightarrow> 'w \<Rightarrow> error option \<times> 'w) \<Rightarrow> nat \<Rightarrow> 'a \<Rightarrow> ('a, 'w) pool \<Rightarrow> ('a, 'w) pool" where
  "finish operate i f s =
     (case operate f (pool_world s) of
        (None, w) \<Rightarrow> s\<lparr>workers := (workers s)[i := None], succeeded := succeeded s @ [f], pool_world := w\<rparr>
      | (Some err, w) \<Rightarrow> s\<lparr>workers := (workers s)[i := None], failedCh := failedCh s @ [f], pool_world := w\<rparr>)"

inductive pool_step :: "('a \<Rightarrow> 'w \<Rightarrow> error option \<times> 'w) \<Rightarrow> ('a, 'w) pool \<Rightarrow> ('a, 'w) pool \<Rightarrow> bool"
  for operate where
  take_job: "i < length (workers s) \<Longrightarrow> workers s ! i = None \<Longrightarrow> jobs s = f # fs \<Longrightarrow>
    pool_step operate s (s\<lparr>jobs := fs, workers := (workers s)[i := Some f]\<rparr>)"
| finish_job: "i < length (workers s) \<Longrightarrow> workers s ! i = Some f \<Longrightarrow>
    pool_step operate s (finish operate i f s)"

text \<open>The pool ends (\<open>wg.Wait\<close> returns) when nothing is queued and no worker is busy.\<close>

definition pool_done :: "('a, 'w) pool \<Rightarrow> bool" where
  "pool_done s \<longleftrightarrow> jobs s = [] \<and> list_all (\<lambda>x. x = None) (workers s)"

section \<open>The executable pool\<close>

definition worker_step :: "('a \<Rightarrow> 'w \<Rightarrow> error option \<times> 'w) \<Rightarrow> nat \<Rightarrow> ('a, 'w) pool \<Rightarrow> ('a, 'w) pool" where
  "worker_step operate i s =
     (if i < length (workers s) then
        (case workers s ! i of
           Some f \<Rightarrow> finish operate i f s
         | None \<Rightarrow>
             (case jobs s of
                [] \<Rightarrow> s
              | f # fs \<Rightarrow> s\<lparr>jobs := fs, workers := (workers s)[i := Some f]\<rparr>))
      else s)"

definition run_pool :: "('a \<Rightarrow> 'w \<Rightarrow> error option \<times> 'w) \<Rightarrow> nat list \<Rightarrow> ('a, 'w) pool \<Rightarrow> ('a, 'w) pool" where
  "run_pool operate sched s = foldl (\<lambda>s i. worker_step operate i s) s sched"

text \<open>
  A schedule that ends the pool from any state: rounds of all workers, as many as steps can be
  left. It completes a schedule that stops early, and adds nothing to one that does not.
\<close>

definition busy :: "('a, 'w) pool \<Rightarrow> 'a list" where
  "busy s = concat (map (\<lambda>x. case x of None \<Rightarrow> [] | Some f \<Rightarrow> [f]) (workers s))"

definition pool_measure :: "('a, 'w) pool \<Rightarrow> nat" where
  "pool_measure s = 2 * length (jobs s) + length (busy s)"

definition drain :: "('a, 'w) pool \<Rightarrow> nat list" where
  "drain s = concat (replicate (pool_measure s) [0..<length (workers s)])"

definition init_pool :: "'a list \<Rightarrow> nat \<Rightarrow> 'w \<Rightarrow> ('a, 'w) pool" where
  "init_pool fileList n w =
     \<lparr>jobs = fileList, workers = replicate n None, failedCh = [], succeeded = [], pool_world = w\<rparr>"

definition clamp_workers :: "int \<Rightarrow> int \<Rightarrow> 'a list \<Rightarrow> nat" where
  "clamp_workers workerCount defaultWorkerCount fileList =
     (let n = (if workerCount \<le> 0 then defaultWorkerCount else workerCount);
          n = (if n > int (length fileList) then int (length fileList) else n)
      in nat n)"

definition garbageFilesParallel ::
    "nat list \<Rightarrow> 'a list \<Rightarrow> int \<Rightarrow> int \<Rightarrow> ('a \<Rightarrow> 'w \<Rightarrow> error option \<times> 'w) \<Rightarrow> string \<Rightarrow> 'w \<Rightarrow>
     ('a list \<times> error option) \<times> 'w" where
  "garbageFilesParallel sched fileList workerCount defaultWorkerCount operate failedActionMsg w =
     (let n = clamp_workers workerCount defaultWorkerCount fileList in
      if n = 0 then (([], None), w)
      else
        (let s = run_pool operate sched (init_pool fileList n w);
             s = run_pool operate (drain s) s in
         if failedCh s \<noteq> [] then ((failedCh s, Some (Errorf failedActionMsg)), pool_world s)
         else (([], None), pool_world s)))"

section \<open>Invariant\<close>

text \<open>Every file is queued, in work, failed or done, exactly as often as it was listed.\<close>

definition pool_files :: "('a, 'w) pool \<Rightarrow> 'a multiset" where
  "pool_files s = mset (jobs s) + mset (busy s) + mset (failedCh s) + mset (succeeded s)"

lemma busy_update:
  assumes "i < length ws"
  shows "mset (concat (map (\<lambda>x. case x of None \<Rightarrow> [] | Some f \<Rightarrow> [f]) (ws[i := y])))
           + (case ws ! i of None \<Rightarrow> {#} | Some f \<Rightarrow> {#f#}) =
         mset (concat (map (\<lambda>x. case x of None \<Rightarrow> [] | Some f \<Rightarrow> [f]) ws))
           + (case y of None \<Rightarrow> {#} | Some f \<Rightarrow> {#f#})"
  using assms
proof (induction ws arbitrary: i)
  case (Cons x xs)
  show ?case
  proof (cases i)
    case 0
    then show ?thesis by (auto split: option.splits)
  next
    case (Suc j)
    with Cons.IH [of j] Cons.prems show ?thesis by (auto simp: ac_simps split: option.splits)
  qed
qed simp

lemma pool_step_files:
  assumes "pool_step operate s t"
  shows "pool_files t = pool_files s \<and> length (workers t) = length (workers s)"
  using assms
proof cases
  case (take_job i f fs)
  then show ?thesis
    using busy_update [of i "workers s" "Some f"] by (simp add: pool_files_def busy_def)
next
  case (finish_job i f)
  have "mset (concat (map (\<lambda>x. case x of None \<Rightarrow> [] | Some f \<Rightarrow> [f]) ((workers s)[i := None])))
          + {#f#} = mset (busy s)"
    using busy_update [of i "workers s" None] finish_job by (simp add: busy_def)
  with finish_job show ?thesis
    by (auto simp: pool_files_def busy_def finish_def split: prod.splits option.splits)
qed

lemma pool_steps_files:
  "(pool_step operate)\<^sup>*\<^sup>* s t \<Longrightarrow> pool_files t = pool_files s \<and> length (workers t) = length (workers s)"
  by (induction rule: rtranclp_induct) (auto dest: pool_step_files)

section \<open>Termination and progress\<close>

lemma length_busy_update:
  assumes "i < length (workers s)"
  shows "length (busy (s\<lparr>workers := (workers s)[i := y]\<rparr>)) + (case workers s ! i of None \<Rightarrow> 0 | Some f \<Rightarrow> 1) =
         length (busy s) + (case y of None \<Rightarrow> 0 | Some f \<Rightarrow> 1)"
  using arg_cong [OF busy_update [OF assms, of y], of size]
  by (simp add: busy_def split: option.splits)

lemma busy_same [simp]:
  "busy (s\<lparr>jobs := j\<rparr>) = busy s" "busy (s\<lparr>failedCh := j\<rparr>) = busy s"
  "busy (s\<lparr>succeeded := j\<rparr>) = busy s" "busy (s\<lparr>pool_world := w\<rparr>) = busy s"
  by (simp_all add: busy_def)

text \<open>Every step makes the measure smaller: no interleaving runs for ever.\<close>

lemma pool_step_measure:
  assumes "pool_step operate s t"
  shows "pool_measure t < pool_measure s"
  using assms
proof cases
  case (take_job i f fs)
  then show ?thesis
    using length_busy_update [of i s "Some f"] by (simp add: pool_measure_def busy_def)
next
  case (finish_job i f)
  then have "length (busy (s\<lparr>workers := (workers s)[i := None]\<rparr>)) < length (busy s)"
    using length_busy_update [of i s None] by simp
  with finish_job show ?thesis
    by (auto simp: pool_measure_def finish_def busy_def split: prod.splits option.splits)
qed

text \<open>A pool with a worker can always step until it is done.\<close>

lemma pool_progress:
  assumes "workers s \<noteq> []" and "\<not> pool_done s"
  shows "\<exists>t. pool_step operate s t"
proof (cases "list_all (\<lambda>x. x = None) (workers s)")
  case True
  with assms(2) have "jobs s \<noteq> []" by (simp add: pool_done_def)
  then obtain f fs where "jobs s = f # fs" by (cases "jobs s") auto
  moreover have "workers s ! 0 = None" using True assms(1) by (cases "workers s") auto
  ultimately show ?thesis using assms(1) take_job [of 0 s f fs operate] by auto
next
  case False
  then obtain x where "x \<in> set (workers s)" "x \<noteq> None" by (auto simp: list_all_iff)
  then obtain i f where "i < length (workers s)" "workers s ! i = Some f"
    by (auto simp: in_set_conv_nth)
  then show ?thesis using finish_job [of i s f operate] by blast
qed

section \<open>The executable pool follows the transition system\<close>

lemma worker_step_cases: "worker_step operate i s = s \<or> pool_step operate s (worker_step operate i s)"
  by (auto simp: worker_step_def intro: pool_step.intros split: option.splits list.splits)

lemma run_pool_steps: "(pool_step operate)\<^sup>*\<^sup>* s (run_pool operate sched s)"
proof (induction sched arbitrary: s)
  case (Cons i sched)
  have "(pool_step operate)\<^sup>*\<^sup>* s (worker_step operate i s)"
    using worker_step_cases [of operate i s] by auto
  with Cons [of "worker_step operate i s"] show ?case
    by (simp add: run_pool_def)
qed (simp add: run_pool_def)

lemma pool_step_worker:
  assumes "pool_step operate s t"
  shows "\<exists>i < length (workers s). worker_step operate i s = t"
  using assms
proof cases
  case (take_job i f fs)
  then show ?thesis by (intro exI [of _ i]) (simp add: worker_step_def)
next
  case (finish_job i f)
  then show ?thesis by (intro exI [of _ i]) (simp add: worker_step_def)
qed

lemma pool_steps_schedule:
  "(pool_step operate)\<^sup>*\<^sup>* s t \<Longrightarrow> \<exists>sched. run_pool operate sched s = t"
proof (induction rule: rtranclp_induct)
  case base
  show ?case by (rule exI [of _ "[]"]) (simp add: run_pool_def)
next
  case (step t u)
  then obtain sched i where "run_pool operate sched s = t" "worker_step operate i t = u"
    using pool_step_worker by metis
  then show ?case by (intro exI [of _ "sched @ [i]"]) (simp add: run_pool_def)
qed

lemma run_pool_append: "run_pool operate (xs @ ys) s = run_pool operate ys (run_pool operate xs s)"
  by (simp add: run_pool_def)

text \<open>A schedule changes nothing or makes progress.\<close>

lemma run_pool_measure:
  "(\<forall>i \<in> set sched. worker_step operate i s = s) \<and> run_pool operate sched s = s \<or>
   pool_measure (run_pool operate sched s) < pool_measure s"
proof (induction sched arbitrary: s)
  case Nil
  then show ?case by (simp add: run_pool_def)
next
  case (Cons i sched)
  from worker_step_cases [of operate i s] show ?case
  proof
    assume "worker_step operate i s = s"
    with Cons [of s] show ?thesis by (auto simp: run_pool_def)
  next
    assume "pool_step operate s (worker_step operate i s)"
    then have "pool_measure (worker_step operate i s) < pool_measure s"
      by (rule pool_step_measure)
    with Cons [of "worker_step operate i s"] show ?thesis by (auto simp: run_pool_def)
  qed
qed

lemma idle_done:
  assumes "workers s \<noteq> []" and "\<forall>i < length (workers s). worker_step operate i s = s"
  shows "pool_done s"
proof (rule ccontr)
  assume "\<not> pool_done s"
  with assms(1) obtain t where t: "pool_step operate s t" using pool_progress by blast
  with assms(2) have "t = s" using pool_step_worker by blast
  with pool_step_measure [OF t] show False by simp
qed

lemma done_stays: "pool_done s \<Longrightarrow> run_pool operate sched s = s"
proof (induction sched)
  case (Cons i sched)
  then have "worker_step operate i s = s"
    by (auto simp: worker_step_def pool_done_def list_all_length split: option.splits)
  with Cons show ?case by (simp add: run_pool_def)
qed (simp add: run_pool_def)

lemma run_pool_workers: "length (workers (run_pool operate sched s)) = length (workers s)"
  using pool_steps_files [OF run_pool_steps] by metis

lemma rounds_done:
  assumes "workers s \<noteq> []" and "pool_measure s \<le> k"
  shows "pool_done (run_pool operate (concat (replicate k [0..<length (workers s)])) s)"
  using assms
proof (induction k arbitrary: s)
  case 0
  then have "pool_done s"
    by (auto simp: pool_done_def pool_measure_def busy_def list_all_iff split: option.splits)
  then show ?case by (simp add: run_pool_def)
next
  case (Suc k)
  define t where "t = run_pool operate [0..<length (workers s)] s"
  have len: "length (workers t) = length (workers s)" by (simp add: t_def run_pool_workers)
  from run_pool_measure [of "[0..<length (workers s)]" operate s] show ?case
  proof
    assume "(\<forall>i \<in> set [0..<length (workers s)]. worker_step operate i s = s) \<and>
            run_pool operate [0..<length (workers s)] s = s"
    then have "pool_done s" using Suc.prems(1) by (intro idle_done [of s operate]) auto
    then show ?thesis by (simp add: done_stays)
  next
    assume "pool_measure (run_pool operate [0..<length (workers s)] s) < pool_measure s"
    then have "pool_measure t \<le> k" using Suc.prems(2) by (simp add: t_def)
    moreover have "workers t \<noteq> []" using len Suc.prems(1) by auto
    ultimately show ?thesis
      using Suc.IH [of t] len by (simp add: run_pool_append t_def)
  qed
qed

lemma drain_done:
  assumes "workers s \<noteq> []"
  shows "pool_done (run_pool operate (drain s) s)"
  using rounds_done [OF assms] by (simp add: drain_def)

text \<open>The final state of a run: reachable, and done.\<close>

definition final_pool ::
    "nat list \<Rightarrow> ('a \<Rightarrow> 'w \<Rightarrow> error option \<times> 'w) \<Rightarrow> 'a list \<Rightarrow> nat \<Rightarrow> 'w \<Rightarrow> ('a, 'w) pool" where
  "final_pool sched operate fileList n w =
     (let s = run_pool operate sched (init_pool fileList n w) in run_pool operate (drain s) s)"

lemma final_pool:
  assumes "0 < n"
  shows "(pool_step operate)\<^sup>*\<^sup>* (init_pool fs n w) (final_pool sched operate fs n w)"
    and "pool_done (final_pool sched operate fs n w)"
proof -
  let ?s = "run_pool operate sched (init_pool fs n w)"
  have "length (workers ?s) = n" by (simp add: run_pool_workers init_pool_def)
  with assms have "workers ?s \<noteq> []" by auto
  then show "pool_done (final_pool sched operate fs n w)"
    by (simp add: final_pool_def drain_done Let_def)
  show "(pool_step operate)\<^sup>*\<^sup>* (init_pool fs n w) (final_pool sched operate fs n w)"
    unfolding final_pool_def Let_def
    using run_pool_steps rtranclp_trans by (metis (no_types, lifting))
qed

lemma pool_files_init [simp]: "pool_files (init_pool fs n w) = mset fs"
  by (simp add: pool_files_def init_pool_def busy_def)

lemma pool_files_done: "pool_done s \<Longrightarrow> pool_files s = mset (failedCh s) + mset (succeeded s)"
  by (auto simp: pool_files_def pool_done_def busy_def list_all_iff)

text \<open>Every file ends failed or done.\<close>

lemma final_pool_files:
  assumes "0 < n"
  shows "mset (failedCh (final_pool sched operate fs n w)) +
         mset (succeeded (final_pool sched operate fs n w)) = mset fs"
  using pool_steps_files [OF final_pool(1) [OF assms]] pool_files_done [OF final_pool(2) [OF assms]]
  by (metis pool_files_init)

lemma parallel_final:
  assumes "n = clamp_workers wc dwc fs" and "n \<noteq> 0"
  shows "garbageFilesParallel sched fs wc dwc operate msg w =
    ((failedCh (final_pool sched operate fs n w),
      if failedCh (final_pool sched operate fs n w) = [] then None else Some (Errorf msg)),
     pool_world (final_pool sched operate fs n w))"
  using assms by (simp add: garbageFilesParallel_def final_pool_def Let_def)

lemma clamp_workers_pos: "0 < dwc \<Longrightarrow> clamp_workers wc dwc fs = 0 \<longleftrightarrow> fs = []"
  by (auto simp: clamp_workers_def Let_def)

lemma clamp_workers_le: "clamp_workers wc dwc fs \<le> length fs"
  by (auto simp: clamp_workers_def Let_def)

section \<open>Preservation\<close>

text \<open>What every operation on a file of the list keeps, the whole pool keeps.\<close>

lemma pool_step_keeps:
  assumes "pool_step operate s t" and "P (pool_world s)"
    and "\<And>f w r w'. f \<in># pool_files s \<Longrightarrow> P w \<Longrightarrow> operate f w = (r, w') \<Longrightarrow> P w'"
  shows "P (pool_world t)"
  using assms(1)
proof cases
  case (take_job i f fs)
  with assms(2) show ?thesis by simp
next
  case (finish_job i f)
  obtain r w' where o: "operate f (pool_world s) = (r, w')" by fastforce
  have "Some f \<in> set (workers s)" using finish_job by (metis nth_mem)
  then have "f \<in># pool_files s"
    by (auto simp: pool_files_def busy_def intro!: bexI [of _ "Some f"])
  with assms(2,3) o have "P w'" by blast
  with finish_job o show ?thesis by (simp add: finish_def split: option.splits)
qed

lemma pool_keeps:
  assumes "(pool_step operate)\<^sup>*\<^sup>* s t" and "P (pool_world s)"
    and "\<And>f w r w'. f \<in># pool_files s \<Longrightarrow> P w \<Longrightarrow> operate f w = (r, w') \<Longrightarrow> P w'"
  shows "P (pool_world t)"
  using assms(1)
proof (induction rule: rtranclp_induct)
  case (step t u)
  have "pool_files t = pool_files s" using pool_steps_files [OF step(1)] by simp
  then show ?case
    using assms(3) by (intro pool_step_keeps [where P = P, OF step(2) step(3)]) simp_all
qed (rule assms(2))

lemma parallel_keeps:
  assumes "garbageFilesParallel sched fs wc dwc operate msg w = ((fl, e), w')" and "P w"
    and "\<And>f w r w'. f \<in> set fs \<Longrightarrow> P w \<Longrightarrow> operate f w = (r, w') \<Longrightarrow> P w'"
  shows "P w'"
proof (cases "clamp_workers wc dwc fs = 0")
  case True
  with assms show ?thesis by (simp add: garbageFilesParallel_def)
next
  case False
  let ?s = "init_pool fs (clamp_workers wc dwc fs) w"
  have "P (pool_world (final_pool sched operate fs (clamp_workers wc dwc fs) w))"
  proof (rule pool_keeps [where P = P and s = ?s and operate = operate])
    show "(pool_step operate)\<^sup>*\<^sup>* ?s (final_pool sched operate fs (clamp_workers wc dwc fs) w)"
      using False by (intro final_pool(1)) simp
    show "P (pool_world ?s)" using assms(2) by (simp add: init_pool_def)
    show "P w'" if "f \<in># pool_files ?s" "P w" "operate f w = (r, w')" for f w r w'
      using that assms(3) [of f w r w'] by simp
  qed
  with assms(1) parallel_final [OF refl False, of sched operate msg w] show ?thesis by simp
qed

lemma parallel_failed_subset:
  assumes "garbageFilesParallel sched fs wc dwc operate msg w = ((fl, e), w')"
  shows "mset fl \<subseteq># mset fs"
proof (cases "clamp_workers wc dwc fs = 0")
  case True
  with assms show ?thesis by (auto simp: garbageFilesParallel_def)
next
  case False
  from final_pool_files [of "clamp_workers wc dwc fs" sched operate fs w] False
  have "mset (failedCh (final_pool sched operate fs (clamp_workers wc dwc fs) w)) \<subseteq># mset fs"
    by (metis mset_subset_eq_add_left neq0_conv)
  with assms parallel_final [OF refl False, of sched operate msg w] show ?thesis by simp
qed

lemma parallel_error_iff:
  assumes "garbageFilesParallel sched fs wc dwc operate msg w = ((fl, e), w')"
  shows "e = (if fl = [] then None else Some (Errorf msg))"
  using assms by (auto simp: garbageFilesParallel_def Let_def split: if_splits)

text \<open>What an operation achieves on success, and the others keep, holds in the end for every file that did not fail.\<close>

lemma pool_step_succeeded:
  assumes "pool_step operate s t" and "\<forall>f \<in> set (succeeded s). Q f (pool_world s)"
    and ok: "\<And>f w w'. operate f w = (None, w') \<Longrightarrow> Q f w'"
    and keep: "\<And>f g w r w'. Q f w \<Longrightarrow> operate g w = (r, w') \<Longrightarrow> Q f w'"
  shows "\<forall>f \<in> set (succeeded t). Q f (pool_world t)"
  using assms(1)
proof cases
  case (take_job i f fs)
  with assms(2) show ?thesis by simp
next
  case (finish_job i f)
  obtain r w' where o: "operate f (pool_world s) = (r, w')" by fastforce
  have "\<forall>g \<in> set (succeeded s). Q g w'" using assms(2) keep o by blast
  moreover have "r = None \<Longrightarrow> Q f w'" using ok o by simp
  ultimately show ?thesis using finish_job o by (auto simp: finish_def split: option.splits)
qed

lemma parallel_succeeded:
  assumes par: "garbageFilesParallel sched fs wc dwc operate msg w = ((fl, e), w')" and "0 < dwc"
    and ok: "\<And>f w w'. operate f w = (None, w') \<Longrightarrow> Q f w'"
    and keep: "\<And>f g w r w'. Q f w \<Longrightarrow> operate g w = (r, w') \<Longrightarrow> Q f w'"
    and f: "f \<in> set fs"
  shows "f \<in> set fl \<or> Q f w'"
proof -
  define n where "n = clamp_workers wc dwc fs"
  have n: "n \<noteq> 0" using clamp_workers_pos [OF \<open>0 < dwc\<close>, of wc fs] f by (auto simp: n_def)
  let ?t = "final_pool sched operate fs n w"
  have "(pool_step operate)\<^sup>*\<^sup>* (init_pool fs n w) ?t" using n by (intro final_pool(1)) simp
  then have "\<forall>f \<in> set (succeeded ?t). Q f (pool_world ?t)"
  proof (induction rule: rtranclp_induct)
    case base
    show ?case by (simp add: init_pool_def)
  next
    case (step t u)
    show ?case by (rule pool_step_succeeded [where Q = Q, OF step(2,3)]) (fact ok, fact keep)
  qed
  moreover have "f \<in> set (failedCh ?t) \<or> f \<in> set (succeeded ?t)"
    using final_pool_files [of n sched operate fs w] n f by (metis neq0_conv set_mset_mset union_iff)
  ultimately show ?thesis
    using par parallel_final [OF n_def n, of sched operate msg w] by auto
qed

end
