(* ===== verification/DeleteHandler.thy ===== *)
theory DeleteHandler
  imports AdminRequests WorkerPool Database Backups
begin

text \<open>
  The garbage manager, \<open>pkg/proc/delete_handler.go\<close>: choosing the garbage of a bucket, moving it to
  the trash or deleting it with a pool of workers and retries, emptying the trash, restoring from
  it, and deleting a single file. Metrics and logging are left out.

  The clock readings are arguments (nanoseconds), as are the workers' schedules, one per retry.
\<close>

record 'w BasicGarbageMgr =
  BackupInterractor :: "u64 \<Rightarrow> 'w \<Rightarrow> ((error + u64) \<times> 'w) option"
  DbInterractor :: "u64 \<Rightarrow> 'w \<Rightarrow> (error + virtual_index \<times> expire_index) \<times> 'w"
  StorageInterractor :: "'w StorageInteractor"
  mgr_Cnf :: Vacuum

text \<open>The manager as the protocol handlers build it, from the two storages and the database.\<close>

definition server_mgr ::
    "('r, 'd) world StorageInteractor \<Rightarrow> ('r, 'd) world StorageInteractor \<Rightarrow> (byte list \<Rightarrow> u64 option) \<Rightarrow>
     'd pgx \<Rightarrow> Vacuum \<Rightarrow> ('r, 'd) world BasicGarbageMgr" where
  "server_mgr s bs unmarshal px cnf =
     \<lparr>BackupInterractor = GetFirstLSN bs unmarshal, DbInterractor = GetVirtualExpireIndexes px,
      StorageInterractor = s, mgr_Cnf = cnf\<rparr>"

section \<open>Trash paths\<close>

definition TrashPathFromRegPath :: "string \<Rightarrow> int \<Rightarrow> string" where
  "TrashPathFromRegPath p segnum =
     (let filePathParts = SplitSlash p in
      Join [''trash'', ''segments_005'', ''seg'' @ dec_of_int segnum, ''basebackups_005'', ''yezzey'',
            filePathParts ! (length filePathParts - 1)])"

definition RegPathFromTrasnPath :: "string \<Rightarrow> int \<Rightarrow> string" where
  "RegPathFromTrasnPath p segnum =
     (let filePathParts = SplitSlash p in
      Join [''segments_005'', ''seg'' @ dec_of_int segnum, ''basebackups_005'', ''yezzey'',
            filePathParts ! (length filePathParts - 1)])"

section \<open>Choosing the garbage\<close>

text \<open>The test of the loop of \<open>ListGarbageFiles\<close>, on one object.\<close>

definition is_garbage ::
    "Vacuum \<Rightarrow> int \<Rightarrow> u64 \<Rightarrow> virtual_index \<Rightarrow> expire_index \<Rightarrow> ObjectInfo \<Rightarrow> bool" where
  "is_garbage cnf procStartTime firstBackupLSN vi ei obj =
     (let reworkedName = obj_Path obj in
      if map_of vi reworkedName = Some True then False
      else
        (let protectionWindow = (if ProtectionWindow cnf < 0 then 0 else ProtectionWindow cnf) in
         if procStartTime - protectionWindow < obj_LastMod obj then False
         else case map_of ei reworkedName of
             None \<Rightarrow> True
           | Some lsn \<Rightarrow> lsn < firstBackupLSN))"

definition ListGarbageFiles ::
    "'w BasicGarbageMgr \<Rightarrow> int \<Rightarrow> string \<Rightarrow> DeleteMessage \<Rightarrow> 'w \<Rightarrow> ((error + ObjectInfo list) \<times> 'w) option" where
  "ListGarbageFiles dh procStartTime bucket msg w =
     (case (if CheckBackup (mgr_Cnf dh) then BackupInterractor dh (del_Segnum msg) w
            else Some (Inr (- 1), w)) of
        None \<Rightarrow> None
      | Some (Inl err, w) \<Rightarrow> Some (Inl err, w)
      | Some (Inr firstBackupLSN, w) \<Rightarrow>
      case ListBucketPath (StorageInterractor dh) bucket (del_Name msg) True w of
        None \<Rightarrow> None
      | Some (Inl err, w) \<Rightarrow> Some (Inl (Wrap ''could not list objects'' err), w)
      | Some (Inr objectMetas, w) \<Rightarrow>
      case DbInterractor dh (del_Port msg) w of
        (Inl err, w) \<Rightarrow> Some (Inl (Wrap ''could not get virtual and expire indexes'' err), w)
      | (Inr (vi, ei), w) \<Rightarrow>
          Some (Inr (filter (is_garbage (mgr_Cnf dh) procStartTime firstBackupLSN vi ei) objectMetas), w))"

section \<open>Working off a list\<close>

text \<open>The retry loop: at most ten rounds over what is left.\<close>

function retry_loop ::
    "(nat \<Rightarrow> 'a list \<Rightarrow> 'w \<Rightarrow> ('a list \<times> error option) \<times> 'w) \<Rightarrow> nat \<Rightarrow> 'a list \<Rightarrow> error option \<Rightarrow> 'w \<Rightarrow>
     ('a list \<times> error option) \<times> 'w" where
  "retry_loop round retryCount fileList err w =
     (if fileList \<noteq> [] \<and> retryCount < 10 then
        (case round retryCount fileList w of ((fileList, err), w) \<Rightarrow>
           retry_loop round (retryCount + 1) fileList err w)
      else ((fileList, err), w))"
  by pat_completeness auto
termination by (relation "measure (\<lambda>(_, n, _). 10 - n)") auto

declare retry_loop.simps [simp del]

text \<open>The loop that aborts the failed multipart uploads.\<close>

fun abort_uploads :: "'w StorageInteractor \<Rightarrow> string \<Rightarrow> (string \<times> string) list \<Rightarrow> 'w \<Rightarrow> error option \<times> 'w" where
  "abort_uploads st bucket [] w = (None, w)"
| "abort_uploads st bucket ((key, uploadId) # us) w =
     (case AbortMultipartUpload st bucket key uploadId w of
        (Some err, w) \<Rightarrow> (Some err, w)
      | (None, w) \<Rightarrow> abort_uploads st bucket us w)"

text \<open>What is done to one garbage file.\<close>

definition garbage_operate ::
    "'w BasicGarbageMgr \<Rightarrow> string \<Rightarrow> DeleteMessage \<Rightarrow> ObjectInfo \<Rightarrow> 'w \<Rightarrow> error option \<times> 'w" where
  "garbage_operate dh bucket msg file w =
     (if del_CrazyDrop msg then DeleteObject (StorageInterractor dh) bucket (obj_Path file) w
      else MoveObject (StorageInterractor dh) bucket (obj_Path file)
             (TrashPathFromRegPath (obj_Path file) (sint (del_Segnum msg))) w)"

definition DeleteGarbageInBucket ::
    "'w BasicGarbageMgr \<Rightarrow> int \<Rightarrow> (nat \<Rightarrow> nat list) \<Rightarrow> string \<Rightarrow> DeleteMessage \<Rightarrow> 'w \<Rightarrow>
     (error option \<times> 'w) option" where
  "DeleteGarbageInBucket dh now scheds bucket msg w =
     (case ListGarbageFiles dh now bucket msg w of
        None \<Rightarrow> None
      | Some (Inl err, w) \<Rightarrow> Some (Some (Wrap ''failed to delete file'' err), w)
      | Some (Inr fileList, w) \<Rightarrow>
      case ListFailedMultipartUploads (StorageInterractor dh) bucket w of
        None \<Rightarrow> None
      | Some (Inl err, w) \<Rightarrow> Some (Some err, w)
      | Some (Inr uploads, w) \<Rightarrow>
          (if \<not> del_Confirm msg then Some (None, w)
           else
             (let (failedActionMsg, workerCount, defaultWorkerCount) =
                    (if del_CrazyDrop msg
                     then (''failed to delete some files'', TrashDeleteWorkers (mgr_Cnf dh), DefaultTrashDeleteWorkers)
                     else (''failed to move some files'', TrashMoveWorkers (mgr_Cnf dh), DefaultTrashMoveWorkers));
                  round = (\<lambda>retryCount batch. garbageFilesParallel (scheds retryCount) batch workerCount
                             defaultWorkerCount (garbage_operate dh bucket msg) failedActionMsg) in
              case retry_loop round 0 fileList None w of
                ((fileList, err), w) \<Rightarrow>
                  (if fileList \<noteq> [] then Some (map_option (Wrap failedActionMsg) err, w)
                   else Some (abort_uploads (StorageInterractor dh) bucket uploads w)))))"

text \<open>A loop over the buckets that stops at the first error; the schedules and the clock are given per bucket.\<close>

fun for_buckets :: "(string \<Rightarrow> 'w \<Rightarrow> (error option \<times> 'w) option) \<Rightarrow> string list \<Rightarrow> 'w \<Rightarrow> (error option \<times> 'w) option" where
  "for_buckets body [] w = Some (None, w)"
| "for_buckets body (b # bs) w =
     (case body b w of
        None \<Rightarrow> None
      | Some (Some err, w) \<Rightarrow> Some (Some err, w)
      | Some (None, w) \<Rightarrow> for_buckets body bs w)"

definition HandleDeleteGarbage ::
    "'w BasicGarbageMgr \<Rightarrow> (string \<Rightarrow> int) \<Rightarrow> (string \<Rightarrow> nat \<Rightarrow> nat list) \<Rightarrow> DeleteMessage \<Rightarrow> 'w \<Rightarrow>
     (error option \<times> 'w) option" where
  "HandleDeleteGarbage dh now scheds msg w =
     for_buckets (\<lambda>b. DeleteGarbageInBucket dh (now b) (scheds b) b msg)
       (ListBuckets (StorageInterractor dh)) w"

section \<open>Emptying the trash\<close>

definition ListDelete2Files ::
    "'w BasicGarbageMgr \<Rightarrow> string \<Rightarrow> Delete2Message \<Rightarrow> 'w \<Rightarrow> ((error + ObjectInfo list) \<times> 'w) option" where
  "ListDelete2Files dh bucket msg w =
     (case ListBucketPath (StorageInterractor dh) bucket (del2_Prefix msg) True w of
        None \<Rightarrow> None
      | Some (Inl err, w) \<Rightarrow> Some (Inl (Wrap ''could not list objects'' err), w)
      | Some (Inr objectMetas, w) \<Rightarrow> Some (Inr objectMetas, w))"

text \<open>\<open>time.Hour * 24 * time.Duration(days)\<close>, in 64 bits\<close>

definition trashRetention :: "Vacuum \<Rightarrow> int" where
  "trashRetention cnf = signed_take_bit 63 (24 * Hour * TrashRetentionDays cnf)"

definition Unix :: "int \<Rightarrow> int" where
  "Unix t = t div Second"

definition trash_expired :: "Vacuum \<Rightarrow> int \<Rightarrow> ObjectInfo \<Rightarrow> bool" where
  "trash_expired cnf now file \<longleftrightarrow>
     Contains (obj_Path file) ''trash'' \<and> Unix (obj_LastMod file + trashRetention cnf) < Unix now"

definition garbageTrashParallel ::
    "'w BasicGarbageMgr \<Rightarrow> nat list \<Rightarrow> string \<Rightarrow> ObjectInfo list \<Rightarrow> 'w \<Rightarrow>
     (ObjectInfo list \<times> error option) \<times> 'w" where
  "garbageTrashParallel dh sched bucket fileList w =
     garbageFilesParallel sched fileList (TrashDeleteWorkers (mgr_Cnf dh)) DefaultTrashDeleteWorkers
       (\<lambda>file. DeleteObject (StorageInterractor dh) bucket (obj_Path file))
       ''failed to delete garbage file'' w"

text \<open>The clock is read for every file of the list: \<open>now i\<close> at its position.\<close>

definition DeletePrefixInBucket ::
    "'w BasicGarbageMgr \<Rightarrow> (nat \<Rightarrow> int) \<Rightarrow> (nat \<Rightarrow> nat list) \<Rightarrow> string \<Rightarrow> Delete2Message \<Rightarrow> 'w \<Rightarrow>
     (error option \<times> 'w) option" where
  "DeletePrefixInBucket dh now scheds bucket msg w =
     (case ListDelete2Files dh bucket msg w of
        None \<Rightarrow> None
      | Some (Inl err, w) \<Rightarrow> Some (Some (Wrap ''failed to delete file'' err), w)
      | Some (Inr fileList, w) \<Rightarrow>
      case ListFailedMultipartUploads (StorageInterractor dh) bucket w of
        None \<Rightarrow> None
      | Some (Inl err, w) \<Rightarrow> Some (Some err, w)
      | Some (Inr uploads, w) \<Rightarrow>
          (if \<not> del2_Confirm msg then Some (None, w)
           else if \<not> Contains (del2_Prefix msg) ''trash'' then Some (None, w)
           else
             (let filtered = map snd (filter (\<lambda>(i, file). trash_expired (mgr_Cnf dh) (now i) file)
                                        (zip [0..<length fileList] fileList)) in
              case retry_loop (\<lambda>retryCount batch. garbageTrashParallel dh (scheds retryCount) bucket batch)
                     0 filtered None w of
                ((fileList, err), w) \<Rightarrow>
                  (if fileList \<noteq> [] then Some (map_option (Wrap ''failed to delete some files'') err, w)
                   else Some (abort_uploads (StorageInterractor dh) bucket uploads w)))))"

definition HandleDelete2Prefix ::
    "'w BasicGarbageMgr \<Rightarrow> (string \<Rightarrow> nat \<Rightarrow> int) \<Rightarrow> (string \<Rightarrow> nat \<Rightarrow> nat list) \<Rightarrow> Delete2Message \<Rightarrow> 'w \<Rightarrow>
     (error option \<times> 'w) option" where
  "HandleDelete2Prefix dh now scheds msg w =
     for_buckets (\<lambda>b. DeletePrefixInBucket dh (now b) (scheds b) b msg)
       (ListBuckets (StorageInterractor dh)) w"

section \<open>Single files\<close>

definition HandleDeleteFile :: "'w BasicGarbageMgr \<Rightarrow> DeleteMessage \<Rightarrow> 'w \<Rightarrow> (error option \<times> 'w) option" where
  "HandleDeleteFile dh msg w =
     (if \<not> del_Confirm msg then Some (None, w)
      else for_buckets
        (\<lambda>b w. case DeleteObject (StorageInterractor dh) b (del_Name msg) w of
                (Some err, w) \<Rightarrow> Some (Some (Wrap ''failed to delete file'' err), w)
              | (None, w) \<Rightarrow> Some (None, w))
        (ListBuckets (StorageInterractor dh)) w)"

fun untrashify_loop :: "'w StorageInteractor \<Rightarrow> string \<Rightarrow> int \<Rightarrow> ObjectInfo list \<Rightarrow> 'w \<Rightarrow> error option \<times> 'w" where
  "untrashify_loop st bucket segnum [] w = (None, w)"
| "untrashify_loop st bucket segnum (file # files) w =
     (case MoveObject st bucket (obj_Path file) (RegPathFromTrasnPath (obj_Path file) segnum) w of
        (Some err, w) \<Rightarrow> (Some err, w)
      | (None, w) \<Rightarrow> untrashify_loop st bucket segnum files w)"

definition HandleUntrashifyFile ::
    "'w BasicGarbageMgr \<Rightarrow> UntrashifyMessage \<Rightarrow> 'w \<Rightarrow> (error option \<times> 'w) option" where
  "HandleUntrashifyFile dh msg w =
     (let bucket = DefaultBucket (StorageInterractor dh) in
      case ListPath (StorageInterractor dh) (untr_Name msg) True [] w of
        None \<Rightarrow> None
      | Some (Inl err, w) \<Rightarrow> Some (Some (Wrap ''could not list objects'' err), w)
      | Some (Inr objectMetas, w) \<Rightarrow>
          (if \<not> untr_Confirm msg then Some (None, w)
           else Some (untrashify_loop (StorageInterractor dh) bucket (sint (untr_Segnum msg)) objectMetas w)))"

end
