(* ===== verification/GarbageSafety.thy ===== *)
theory GarbageSafety
  imports DeleteHandler Storages
begin

text \<open>
  What the garbage manager guarantees, for every storage that keeps the contract: the locale
  \<open>garbage_mgr\<close> extends the storage's contract by a manager over it whose other parts (backups,
  database) leave the objects alone. It is interpreted for the managers the server builds over a
  file storage; for the S3 storage it follows from what the SDK documents.
\<close>

section \<open>The retry loop\<close>

text \<open>What every round keeps, between what is left and the world, the loop keeps.\<close>

lemma retry_inv:
  assumes rounds: "\<And>n fl w fl' e' w'. I fl w \<Longrightarrow> rd n fl w = ((fl', e'), w') \<Longrightarrow> I fl' w'"
  shows "retry_loop rd n fl e w = ((fl', e'), w') \<Longrightarrow> I fl w \<Longrightarrow> I fl' w'"
proof (induction "10 - n" arbitrary: n fl e w)
  case 0
  then show ?case by (simp add: retry_loop.simps [of rd n])
next
  case (Suc k)
  show ?case
  proof (cases "fl = []")
    case True
    with Suc.prems show ?thesis by (simp add: retry_loop.simps [of rd n])
  next
    case False
    obtain fl1 e1 w1 where r: "rd n fl w = ((fl1, e1), w1)" by (metis prod.exhaust_sel)
    moreover have "n < 10" using Suc.hyps(2) by arith
    ultimately have rest: "retry_loop rd (n + 1) fl1 e1 w1 = ((fl', e'), w')"
      using False Suc.prems(1) by (simp add: retry_loop.simps [of rd n])
    have "I fl1 w1" using rounds [OF Suc.prems(2) r] .
    with rest show ?thesis using Suc.hyps(1) [of "n + 1" fl1 e1 w1] Suc.hyps(2) by simp
  qed
qed

text \<open>The loop reports an error exactly when something is left.\<close>

lemma retry_error:
  assumes rounds: "\<And>n fl w fl' e' w'. rd n fl w = ((fl', e'), w') \<Longrightarrow> e' = None \<longleftrightarrow> fl' = []"
  shows "retry_loop rd n fl e w = ((fl', e'), w') \<Longrightarrow>
    fl = [] \<longrightarrow> e = None \<Longrightarrow> n < 10 \<or> (e = None \<longleftrightarrow> fl = []) \<Longrightarrow> e' = None \<longleftrightarrow> fl' = []"
proof (induction "10 - n" arbitrary: n fl e w)
  case 0
  then show ?case by (auto simp: retry_loop.simps [of rd n])
next
  case (Suc k)
  show ?case
  proof (cases "fl = []")
    case True
    with Suc.prems show ?thesis by (auto simp: retry_loop.simps [of rd n])
  next
    case False
    obtain fl1 e1 w1 where r: "rd n fl w = ((fl1, e1), w1)" by (metis prod.exhaust_sel)
    moreover have "n < 10" using Suc.hyps(2) by arith
    ultimately have rest: "retry_loop rd (n + 1) fl1 e1 w1 = ((fl', e'), w')"
      using False Suc.prems(1) by (simp add: retry_loop.simps [of rd n])
    with rounds [OF r] show ?thesis
      using Suc.hyps(1) [of "n + 1" fl1 e1 w1] Suc.hyps(2) rest by simp
  qed
qed

text \<open>What the work on every bucket keeps, the loop over the buckets keeps.\<close>

lemma for_buckets_keeps:
  assumes "for_buckets body bs w = Some (r, w')" and "P w"
    and "\<And>b w r w'. b \<in> set bs \<Longrightarrow> body b w = Some (r, w') \<Longrightarrow> P w \<Longrightarrow> P w'"
  shows "P w'"
  using assms
proof (induction bs arbitrary: w)
  case (Cons b bs)
  obtain r1 w1 where b: "body b w = Some (r1, w1)" using Cons.prems(1) by (auto split: option.splits)
  have w1: "P w1" using Cons.prems(3) [OF _ b Cons.prems(2)] by simp
  have "P w'" if "for_buckets body bs w1 = Some (r, w')"
    using Cons.IH [OF that w1] Cons.prems(3) by (meson list.set_intros(2))
  with Cons.prems(1) b w1 show ?case by (cases r1) auto
qed simp

section \<open>Garbage\<close>

lemma is_garbageD:
  assumes "is_garbage cnf now first vi ei obj"
  shows "map_of vi (obj_Path obj) \<noteq> Some True"
    and "obj_LastMod obj + max 0 (ProtectionWindow cnf) \<le> now"
    and "map_of ei (obj_Path obj) = Some lsn \<Longrightarrow> lsn < first"
  using assms by (auto simp: is_garbage_def Let_def max_def split: if_splits option.splits)

locale garbage_mgr = storage st objects key region movable
  for st :: "'w StorageInteractor" and objects key region movable +
  fixes dh :: "'w BasicGarbageMgr"
  assumes dh_storage: "StorageInterractor dh = st"
    and backup_frame: "BackupInterractor dh seg w = Some (rb, w') \<Longrightarrow> objects b' w' = objects b' w"
    and db_frame: "DbInterractor dh port w = (rd, w') \<Longrightarrow> objects b' w' = objects b' w"
begin

lemma list_garbage_frame:
  assumes "ListGarbageFiles dh now b msg w = Some (r, w')"
  shows "objects b' w' = objects b' w"
proof -
  obtain rb w1 where b: "(if CheckBackup (mgr_Cnf dh) then BackupInterractor dh (del_Segnum msg) w
      else Some (Inr (- 1), w)) = Some (rb, w1)"
    using assms by (auto simp: ListGarbageFiles_def split: option.splits if_splits)
  have f1: "objects b' w1 = objects b' w"
    using b backup_frame [of "del_Segnum msg" w rb w1] by (auto split: if_splits)
  show ?thesis
  proof (cases rb)
    case (Inl e)
    with assms b f1 show ?thesis by (simp add: ListGarbageFiles_def)
  next
    case (Inr first)
    with assms b obtain rl w2 where l: "ListBucketPath st b (del_Name msg) True w1 = Some (rl, w2)"
      by (auto simp: ListGarbageFiles_def dh_storage split: option.splits)
    have f2: "objects b' w2 = objects b' w1" using list_bucket_frame [OF l] .
    obtain rd w3 where d: "DbInterractor dh (del_Port msg) w2 = (rd, w3)" by fastforce
    have f3: "objects b' w3 = objects b' w2" using db_frame [OF d] .
    show ?thesis
      using assms b Inr l d f1 f2 f3
      by (cases rl; cases rd) (auto simp: ListGarbageFiles_def dh_storage)
  qed
qed

text \<open>Listed garbage passed the test, against some backup LSN and the indexes the database gave.\<close>

lemma list_garbage_test:
  assumes "ListGarbageFiles dh now b msg w = Some (Inr fl, w')"
  obtains first vi ei wl metas wd w0 where
    "fl = filter (is_garbage (mgr_Cnf dh) now first vi ei) metas"
    "ListBucketPath st b (del_Name msg) True w0 = Some (Inr metas, wl)"
    "DbInterractor dh (del_Port msg) wl = (Inr (vi, ei), wd)"
    "if CheckBackup (mgr_Cnf dh) then BackupInterractor dh (del_Segnum msg) w = Some (Inr first, w0)
     else first = - 1 \<and> w0 = w"
  using assms
  by (auto simp: ListGarbageFiles_def dh_storage split: option.splits sum.splits prod.splits if_splits)

lemma abort_uploads_frame: "abort_uploads st b us w = (r, w') \<Longrightarrow> objects b' w' = objects b' w"
proof (induction us arbitrary: w)
  case (Cons u us)
  obtain k i where u: "u = (k, i)" by fastforce
  obtain r1 w1 where a: "AbortMultipartUpload st b k i w = (r1, w1)" by fastforce
  have "objects b' w1 = objects b' w" using abort_frame [OF a] .
  with Cons a u show ?case by (cases r1) auto
qed simp

text \<open>The shape of a run over a bucket.\<close>

lemma delete_garbage_cases:
  assumes run: "DeleteGarbageInBucket dh now scheds b msg w = Some (res, w')"
  obtains (listing) e w1 where "ListGarbageFiles dh now b msg w = Some (Inl e, w1)" "res \<noteq> None" "w' = w1"
  | (uploads) fl w1 e where "ListGarbageFiles dh now b msg w = Some (Inr fl, w1)"
      "ListFailedMultipartUploads st b w1 = Some (Inl e, w')" "res \<noteq> None"
  | (dry) fl w1 us where "ListGarbageFiles dh now b msg w = Some (Inr fl, w1)"
      "ListFailedMultipartUploads st b w1 = Some (Inr us, w')" "\<not> del_Confirm msg" "res = None"
  | (worked) fl w1 us w2 wc m fl' e w3 where "ListGarbageFiles dh now b msg w = Some (Inr fl, w1)"
      "ListFailedMultipartUploads st b w1 = Some (Inr us, w2)" "del_Confirm msg"
      "retry_loop (\<lambda>n batch. garbageFilesParallel (scheds n) batch wc 1 (garbage_operate dh b msg) m)
         0 fl None w2 = ((fl', e), w3)"
      "(res, w') = (if fl' \<noteq> [] then (map_option (Wrap m) e, w3) else abort_uploads st b us w3)"
proof -
  define m where "m = (if del_CrazyDrop msg then ''failed to delete some files'' else ''failed to move some files'')"
  define wc where "wc = (if del_CrazyDrop msg then TrashDeleteWorkers (mgr_Cnf dh) else TrashMoveWorkers (mgr_Cnf dh))"
  obtain rl w1 where l: "ListGarbageFiles dh now b msg w = Some (rl, w1)"
    using run by (auto simp: DeleteGarbageInBucket_def split: option.splits)
  show ?thesis
  proof (cases rl)
    case (Inl e)
    with run l show ?thesis by (intro listing [of e w1]) (auto simp: DeleteGarbageInBucket_def)
  next
    case (Inr fl)
    obtain ru w2 where u: "ListFailedMultipartUploads st b w1 = Some (ru, w2)"
      using run l Inr by (auto simp: DeleteGarbageInBucket_def dh_storage split: option.splits)
    show ?thesis
    proof (cases ru)
      case Inl': (Inl e)
      with run l Inr u show ?thesis
        by (intro uploads [of fl w1 e]) (auto simp: DeleteGarbageInBucket_def dh_storage)
    next
      case us: (Inr us)
      show ?thesis
      proof (cases "del_Confirm msg")
        case False
        with run l Inr u us show ?thesis
          by (intro dry [of fl w1 us]) (auto simp: DeleteGarbageInBucket_def dh_storage)
      next
        case True
        obtain fl' e w3 where rt: "retry_loop (\<lambda>n batch. garbageFilesParallel (scheds n) batch wc 1
            (garbage_operate dh b msg) m) 0 fl None w2 = ((fl', e), w3)"
          by (metis prod.exhaust_sel)
        with run l Inr u us True show ?thesis
          by (intro worked [of fl w1 us w2 wc m fl' e w3])
             (auto simp: DeleteGarbageInBucket_def dh_storage m_def wc_def vacuum_defaults split: if_splits)
      qed
    qed
  qed
qed

text \<open>A name an operation on a garbage file may touch.\<close>

definition touched :: "DeleteMessage \<Rightarrow> ObjectInfo \<Rightarrow> string \<Rightarrow> bool" where
  "touched msg f k \<longleftrightarrow>
     region (key (obj_Path f)) k \<or>
     \<not> del_CrazyDrop msg \<and> region (key (TrashPathFromRegPath (obj_Path f) (sint (del_Segnum msg)))) k"

lemma operate_frame:
  assumes "garbage_operate dh b msg f w = (r, w')" and "\<not> touched msg f k"
  shows "objects b' w' k = objects b' w k"
proof (cases "del_CrazyDrop msg")
  case True
  with assms have "DeleteObject st b (obj_Path f) w = (r, w')"
    by (simp add: garbage_operate_def dh_storage)
  with assms(2) show ?thesis by (intro delete_frame) (auto simp: touched_def)
next
  case False
  with assms have "MoveObject st b (obj_Path f)
      (TrashPathFromRegPath (obj_Path f) (sint (del_Segnum msg))) w = (r, w')"
    by (simp add: garbage_operate_def dh_storage)
  with assms(2) False show ?thesis by (intro move_frame) (auto simp: touched_def)
qed

text \<open>
  Whatever relation between the files of the list and the world every operation keeps, the whole
  confirmed run keeps.
\<close>

lemma rounds_keep:
  assumes "retry_loop (\<lambda>n batch. garbageFilesParallel (scheds n) batch wc dwc oper m)
             0 fl None w = ((fl', e), w')"
    and "P w"
    and step: "\<And>f w r w'. f \<in> set fl \<Longrightarrow> P w \<Longrightarrow> oper f w = (r, w') \<Longrightarrow> P w'"
  shows "P w'"
proof -
  have "set fl' \<subseteq> set fl \<and> P w'"
  proof (rule retry_inv [where I = "\<lambda>fs w. set fs \<subseteq> set fl \<and> P w", OF _ assms(1)])
    fix n fs w fs' e' w'
    assume I: "set fs \<subseteq> set fl \<and> P w"
      and r: "garbageFilesParallel (scheds n) fs wc dwc oper m w = ((fs', e'), w')"
    have "set fs' \<subseteq> set fs"
      using parallel_failed_subset [OF r] by (metis set_mset_mono set_mset_mset)
    moreover have "P w'"
      using I step by (intro parallel_keeps [where P = P, OF r]) blast+
    ultimately show "set fs' \<subseteq> set fl \<and> P w'" using I by blast
  qed (use assms(2) in simp)
  then show ?thesis ..
qed

lemma rounds_achieve:
  assumes "retry_loop (\<lambda>n batch. garbageFilesParallel (scheds n) batch wc dwc oper m)
             0 fl None w = (([], e), w')"
    and "0 < dwc"
    and ok: "\<And>f w w'. oper f w = (None, w') \<Longrightarrow> Q f w'"
    and keep: "\<And>f g w r w'. Q f w \<Longrightarrow> oper g w = (r, w') \<Longrightarrow> Q f w'"
    and f: "f \<in> set fl"
  shows "Q f w'"
proof -
  have "f \<in> set [] \<or> Q f w'"
  proof (rule retry_inv [where I = "\<lambda>fs w. f \<in> set fs \<or> Q f w", OF _ assms(1)])
    fix n fs w fs' e' w'
    assume I: "f \<in> set fs \<or> Q f w"
      and r: "garbageFilesParallel (scheds n) fs wc dwc oper m w = ((fs', e'), w')"
    from I show "f \<in> set fs' \<or> Q f w'"
    proof
      assume "f \<in> set fs"
      then show ?thesis
        using ok keep by (intro parallel_succeeded [where Q = Q, OF r \<open>0 < dwc\<close>]) blast+
    next
      assume "Q f w"
      then have "Q f w'" using keep by (intro parallel_keeps [where P = "Q f", OF r]) blast+
      then show ?thesis ..
    qed
  qed (use f in simp)
  then show ?thesis by simp
qed

lemma rounds_error:
  assumes "retry_loop (\<lambda>n batch. garbageFilesParallel (scheds n) batch wc dwc oper m)
             0 fl None w = ((fl', e), w')"
  shows "e = None \<longleftrightarrow> fl' = []"
  by (rule retry_error [OF _ assms]) (auto dest: parallel_error_iff split: if_splits)

lemma garbage_prelude_frame:
  assumes "ListGarbageFiles dh now b msg w = Some (rl, w1)"
    and "ListFailedMultipartUploads st b w1 = Some (ru, w2)"
  shows "objects b' w2 = objects b' w"
  using list_garbage_frame [OF assms(1), of b'] list_uploads_frame [OF assms(2), of b'] by simp

text \<open>Garbage collection touches nothing but the garbage it listed and its place in the trash.\<close>

lemma garbage_frame:
  assumes run: "DeleteGarbageInBucket dh now scheds b msg w = Some (res, w')"
    and untouched: "\<And>fl w1 f. ListGarbageFiles dh now b msg w = Some (Inr fl, w1) \<Longrightarrow> f \<in> set fl \<Longrightarrow>
      \<not> touched msg f k"
  shows "objects b' w' k = objects b' w k"
  using run
proof (cases rule: delete_garbage_cases)
  case (listing e w1)
  with list_garbage_frame [OF listing(1), of b'] show ?thesis by simp
next
  case (uploads fl w1 e)
  with garbage_prelude_frame [OF uploads(1,2), of b'] show ?thesis by simp
next
  case (dry fl w1 us)
  with garbage_prelude_frame [OF dry(1,2), of b'] show ?thesis by simp
next
  case (worked fl w1 us w2 wc m fl' e w3)
  have "objects b' w3 k = objects b' w k"
  proof (rule rounds_keep [where P = "\<lambda>v. objects b' v k = objects b' w k", OF worked(4)])
    show "objects b' w2 k = objects b' w k"
      using garbage_prelude_frame [OF worked(1,2), of b'] by simp
    show "objects b' v' k = objects b' w k"
      if "f \<in> set fl" "objects b' v k = objects b' w k" "garbage_operate dh b msg f v = (r, v')"
      for f v r v'
      using operate_frame [OF that(3), of k b'] untouched [OF worked(1) that(1)] that(2) by simp
  qed
  moreover have "objects b' w' = objects b' w3"
    using worked(5) abort_uploads_frame [of b us w3 res w' b'] by (auto split: if_splits)
  ultimately show ?thesis by simp
qed

text \<open>Without confirmation nothing changes.\<close>

lemma garbage_dry_run:
  assumes run: "DeleteGarbageInBucket dh now scheds b msg w = Some (res, w')" and "\<not> del_Confirm msg"
  shows "objects b' w' = objects b' w"
  using run
proof (cases rule: delete_garbage_cases)
  case (listing e w1)
  with list_garbage_frame [OF listing(1), of b'] show ?thesis by simp
next
  case (uploads fl w1 e)
  with garbage_prelude_frame [OF uploads(1,2), of b'] show ?thesis by simp
next
  case (dry fl w1 us)
  with garbage_prelude_frame [OF dry(1,2), of b'] show ?thesis by simp
next
  case (worked fl w1 us w2 wc m fl' e w3)
  with assms(2) show ?thesis by simp
qed

text \<open>A confirmed deletion that reports success has deleted all the garbage it listed.\<close>

lemma garbage_deleted:
  assumes run: "DeleteGarbageInBucket dh now scheds b msg w = Some (None, w')"
    and "del_Confirm msg" "del_CrazyDrop msg"
    and l: "ListGarbageFiles dh now b msg w = Some (Inr fl, w1)" and f: "f \<in> set fl"
  shows "objects b w' (key (obj_Path f)) = None"
  using run
proof (cases rule: delete_garbage_cases)
  case (worked fl2 w1' us w2 wc m fl' e w3)
  have fl: "fl2 = fl" using worked(1) l by simp
  have "fl' = []"
    using worked(5) rounds_error [OF worked(4)] by (auto split: if_splits)
  have oper: "garbage_operate dh b msg g v = DeleteObject st b (obj_Path g) v" for g v
    using assms(3) by (simp add: garbage_operate_def dh_storage)
  have "objects b w3 (key (obj_Path f)) = None"
  proof (rule rounds_achieve [where Q = "\<lambda>f w. objects b w (key (obj_Path f)) = None"])
    show "retry_loop (\<lambda>n batch. garbageFilesParallel (scheds n) batch wc 1 (garbage_operate dh b msg) m)
        0 fl None w2 = (([], e), w3)" using worked(4) \<open>fl' = []\<close> fl by simp
    show "objects b v' (key (obj_Path g)) = None" if "garbage_operate dh b msg g v = (None, v')" for g v v'
      using that delete_done by (simp add: oper)
    show "objects b v' (key (obj_Path g)) = None"
      if "objects b v (key (obj_Path g)) = None" "garbage_operate dh b msg h v = (r, v')" for g h v r v'
      using that delete_no_create by (simp add: oper)
  qed (use f in simp_all)
  moreover have "objects b w' = objects b w3"
    using worked(5) \<open>fl' = []\<close> abort_uploads_frame [of b us w3 None w' b] by simp
  ultimately show ?thesis by simp
qed (use assms l in auto)

text \<open>
  Moving garbage to the trash loses nothing: a garbage object that no other one's move touches
  is afterwards in its place or in the trash, whether or not the run reports an error.
\<close>

lemma garbage_kept:
  assumes run: "DeleteGarbageInBucket dh now scheds b msg w = Some (res, w')"
    and nocrazy: "\<not> del_CrazyDrop msg" and mv: "movable b (obj_Path (f :: ObjectInfo))"
    and c: "objects b w (key (obj_Path f)) = Some c"
    and alone: "\<And>fl w1 g. ListGarbageFiles dh now b msg w = Some (Inr fl, w1) \<Longrightarrow> g \<in> set fl \<Longrightarrow>
      obj_Path g \<noteq> obj_Path f \<Longrightarrow> \<not> touched msg g (key (obj_Path f)) \<and>
      \<not> touched msg g (key (TrashPathFromRegPath (obj_Path f) (sint (del_Segnum msg))))"
  shows "objects b w' (key (obj_Path f)) = Some c \<or>
         objects b w' (key (TrashPathFromRegPath (obj_Path f) (sint (del_Segnum msg)))) = Some c"
proof -
  define t where "t = TrashPathFromRegPath (obj_Path f) (sint (del_Segnum msg))"
  define P where "P v \<longleftrightarrow> objects b v (key (obj_Path f)) = Some c \<or>
      objects b v (key (obj_Path f)) = None \<and> objects b v (key t) = Some c" for v
  have Pframe: "P v'" if "P v" "objects b v' (key (obj_Path f)) = objects b v (key (obj_Path f))"
      "objects b v' (key t) = objects b v (key t)" for v v'
    using that by (simp add: P_def)
  have Pw: "P w" using c by (simp add: P_def)
  have oper: "P v'" if g: "obj_Path g = obj_Path f" and "P v"
      "garbage_operate dh b msg g v = (r, v')" for g :: ObjectInfo and v r v'
  proof -
    have m: "MoveObject st b (obj_Path f) t v = (r, v')"
      using that nocrazy by (auto simp: garbage_operate_def dh_storage t_def)
    show ?thesis
      using \<open>P v\<close> move_preserves_content [OF m mv] move_missing [OF m] move_source [OF m mv]
      by (auto simp: P_def)
  qed
  have "P w'"
    using run
  proof (cases rule: delete_garbage_cases)
    case (listing e w1)
    with list_garbage_frame [OF listing(1), of b] Pw show ?thesis by (simp add: P_def)
  next
    case (uploads fl w1 e)
    with garbage_prelude_frame [OF uploads(1,2), of b] Pw show ?thesis by (simp add: P_def)
  next
    case (dry fl w1 us)
    with garbage_prelude_frame [OF dry(1,2), of b] Pw show ?thesis by (simp add: P_def)
  next
    case (worked fl w1 us w2 wc m fl' e w3)
    have "P w3"
    proof (rule rounds_keep [where P = P, OF worked(4)])
      show "P w2" using garbage_prelude_frame [OF worked(1,2), of b] Pw by (simp add: P_def)
      show "P v'" if "g \<in> set fl" "P v" "garbage_operate dh b msg g v = (r, v')" for g v r v'
      proof (cases "obj_Path g = obj_Path f")
        case True
        with oper that show ?thesis by blast
      next
        case False
        with alone [OF worked(1) that(1)] operate_frame [OF that(3)] that(2) show ?thesis
          by (intro Pframe [of v v']) (auto simp: t_def)
      qed
    qed
    moreover have "objects b w' = objects b w3"
      using worked(5) abort_uploads_frame [of b us w3 res w' b] by (auto split: if_splits)
    ultimately show ?thesis by (simp add: P_def)
  qed
  then show ?thesis by (auto simp: P_def t_def)
qed

text \<open>What a run changed belongs to a file that passed the test, or to its place in the trash.\<close>

lemma garbage_changed:
  assumes run: "DeleteGarbageInBucket dh now scheds b msg w = Some (res, w')"
    and ch: "objects b' w' k \<noteq> objects b' w k"
  shows "\<exists>first vi ei wl metas wd w0 f. f \<in> set metas \<and> touched msg f k \<and>
    ListBucketPath st b (del_Name msg) True w0 = Some (Inr metas, wl) \<and>
    DbInterractor dh (del_Port msg) wl = (Inr (vi, ei), wd) \<and>
    (if CheckBackup (mgr_Cnf dh) then BackupInterractor dh (del_Segnum msg) w = Some (Inr first, w0)
     else first = - 1 \<and> w0 = w) \<and>
    map_of vi (obj_Path f) \<noteq> Some True \<and> obj_LastMod f + max 0 (ProtectionWindow (mgr_Cnf dh)) \<le> now \<and>
    (\<forall>lsn. map_of ei (obj_Path f) = Some lsn \<longrightarrow> lsn < first)"
proof -
  from garbage_frame [OF run, of k b'] ch obtain fl w1 f where
    l: "ListGarbageFiles dh now b msg w = Some (Inr fl, w1)" and f: "f \<in> set fl" "touched msg f k" by blast
  from l obtain first vi ei wl metas wd w0 where
    g: "fl = filter (is_garbage (mgr_Cnf dh) now first vi ei) metas"
      "ListBucketPath st b (del_Name msg) True w0 = Some (Inr metas, wl)"
      "DbInterractor dh (del_Port msg) wl = (Inr (vi, ei), wd)"
      "if CheckBackup (mgr_Cnf dh) then BackupInterractor dh (del_Segnum msg) w = Some (Inr first, w0)
       else first = - 1 \<and> w0 = w"
    by (rule list_garbage_test)
  from f(1) g(1) have m: "f \<in> set metas" and t: "is_garbage (mgr_Cnf dh) now first vi ei f" by simp_all
  from is_garbageD [OF t] have
    "map_of vi (obj_Path f) \<noteq> Some True \<and> obj_LastMod f + max 0 (ProtectionWindow (mgr_Cnf dh)) \<le> now \<and>
     (\<forall>lsn. map_of ei (obj_Path f) = Some lsn \<longrightarrow> lsn < first)" by blast
  with m f(2) g(2-4) show ?thesis by blast
qed

end

end
