(* ===== verification/TrashSafety.thy ===== *)
theory TrashSafety
  imports GarbageSafety
begin

text \<open>
  The trash: what emptying it may delete and how its paths relate to the regular ones; and the
  interpretations of the garbage manager's contract for the managers the server builds.
\<close>

section \<open>Paths\<close>

lemma last_part: "SplitSlash p ! (length (SplitSlash p) - Suc 0) = base_name p"
  by (simp add: base_name_def last_conv_nth)

lemma plain_seg: "plain (''seg'' @ dec_of_int n)"
proof (cases "n < 0")
  case True
  then show ?thesis
    using plain_dec_of_nat [of "''seg'' @ ''-'' @ dec_of_nat (nat (- n))" "''seg-''" "nat (- n)"]
    by (simp add: dec_of_int_def slash_free_def)
next
  case False
  then show ?thesis
    using plain_dec_of_nat [of "''seg'' @ dec_of_nat (nat n)" "''seg''" "nat n"]
    by (simp add: dec_of_int_def slash_free_def)
qed

lemma plain_consts: "plain ''trash''" "plain ''segments_005''" "plain ''basebackups_005''" "plain ''yezzey''"
  by (simp_all add: plain_def slash_free_def)

lemma TrashPath_join:
  assumes "plain (base_name p)"
  shows "TrashPathFromRegPath p n =
    JoinSlash [''trash'', ''segments_005'', ''seg'' @ dec_of_int n, ''basebackups_005'', ''yezzey'', base_name p]"
  using assms plain_seg [of n] plain_consts
  by (simp add: TrashPathFromRegPath_def last_part Join_plain Let_def del: JoinSlash.simps)

lemma RegPath_join:
  assumes "plain (base_name p)"
  shows "RegPathFromTrasnPath p n =
    JoinSlash [''segments_005'', ''seg'' @ dec_of_int n, ''basebackups_005'', ''yezzey'', base_name p]"
  using assms plain_seg [of n] plain_consts
  by (simp add: RegPathFromTrasnPath_def last_part Join_plain Let_def del: JoinSlash.simps)

lemma base_name_TrashPath:
  assumes "plain (base_name p)"
  shows "base_name (TrashPathFromRegPath p n) = base_name p"
proof -
  have "base_name (JoinSlash [''trash'', ''segments_005'', ''seg'' @ dec_of_int n, ''basebackups_005'',
      ''yezzey'', base_name p]) = base_name p"
    using plain_seg [of n] plain_consts assms
    by (subst base_name_JoinSlash) (auto simp: plain_def)
  with TrashPath_join [OF assms] show ?thesis by simp
qed

text \<open>Trashing and restoring a chunk gives back its regular path.\<close>

lemma untrash_trash:
  assumes "plain (base_name p)"
  shows "RegPathFromTrasnPath (TrashPathFromRegPath p n) m = RegPathFromTrasnPath p m"
  using assms base_name_TrashPath [OF assms, of n] by (simp add: RegPath_join)

lemma trash_in_trash:
  assumes "plain (base_name p)"
  shows "HasPrefix (TrashPathFromRegPath p n) ''trash/''"
  by (simp add: TrashPath_join [OF assms] HasPrefix_def)

section \<open>Emptying the trash\<close>

context garbage_mgr
begin

lemma list2_frame:
  assumes "ListDelete2Files dh b msg w = Some (r, w')"
  shows "objects b' w' = objects b' w"
  using assms list_bucket_frame [of b "del2_Prefix msg" True w]
  by (auto simp: ListDelete2Files_def dh_storage split: option.splits sum.splits)

lemma delete_prefix_cases:
  assumes run: "DeletePrefixInBucket dh now scheds b msg w = Some (res, w')"
  obtains (nothing) "\<forall>b'. objects b' w' = objects b' w"
  | (worked) fl w1 us w2 fl' e w3 where "ListDelete2Files dh b msg w = Some (Inr fl, w1)"
      "ListFailedMultipartUploads st b w1 = Some (Inr us, w2)" "del2_Confirm msg"
      "Contains (del2_Prefix msg) ''trash''"
      "retry_loop (\<lambda>n batch. garbageFilesParallel (scheds n) batch (TrashDeleteWorkers (mgr_Cnf dh)) 1
           (\<lambda>file. DeleteObject st b (obj_Path file)) ''failed to delete garbage file'')
         0 (map snd (filter (\<lambda>(i, file). trash_expired (mgr_Cnf dh) (now i) file) (zip [0..<length fl] fl)))
         None w2 = ((fl', e), w3)"
      "(res, w') = (if fl' \<noteq> [] then (map_option (Wrap ''failed to delete some files'') e, w3)
                    else abort_uploads st b us w3)"
proof -
  obtain rl w1 where l: "ListDelete2Files dh b msg w = Some (rl, w1)"
    using run by (auto simp: DeletePrefixInBucket_def split: option.splits)
  have f1: "\<forall>b'. objects b' w1 = objects b' w" using list2_frame [OF l] by blast
  show ?thesis
  proof (cases rl)
    case (Inl e)
    with run l f1 have "\<forall>b'. objects b' w' = objects b' w" by (simp add: DeletePrefixInBucket_def)
    then show ?thesis by (rule nothing)
  next
    case (Inr fl)
    obtain ru w2 where u: "ListFailedMultipartUploads st b w1 = Some (ru, w2)"
      using run l Inr by (auto simp: DeletePrefixInBucket_def dh_storage split: option.splits)
    have f2: "\<forall>b'. objects b' w2 = objects b' w1" using list_uploads_frame [OF u] by blast
    show ?thesis
    proof (cases "isl ru \<or> \<not> del2_Confirm msg \<or> \<not> Contains (del2_Prefix msg) ''trash''")
      case True
      with run l Inr u f1 f2 have "\<forall>b'. objects b' w' = objects b' w"
        by (auto simp: DeletePrefixInBucket_def dh_storage split: sum.splits if_splits)
      then show ?thesis by (rule nothing)
    next
      case False
      then obtain us where us: "ru = Inr us" by (cases ru) auto
      obtain fl' e w3 where rt: "retry_loop (\<lambda>n batch. garbageFilesParallel (scheds n) batch
          (TrashDeleteWorkers (mgr_Cnf dh)) 1 (\<lambda>file. DeleteObject st b (obj_Path file))
          ''failed to delete garbage file'')
        0 (map snd (filter (\<lambda>(i, file). trash_expired (mgr_Cnf dh) (now i) file) (zip [0..<length fl] fl)))
        None w2 = ((fl', e), w3)"
        by (metis prod.exhaust_sel)
      have gtp: "garbageTrashParallel dh s b = (\<lambda>fs. garbageFilesParallel s fs
          (TrashDeleteWorkers (mgr_Cnf dh)) 1 (\<lambda>file. DeleteObject st b (obj_Path file))
          ''failed to delete garbage file'')" for s
        by (intro ext) (simp add: garbageTrashParallel_def dh_storage vacuum_defaults)
      show ?thesis
        using run l Inr u us False rt
        by (intro worked [of fl w1 us w2 fl' e w3])
           (auto simp: DeletePrefixInBucket_def dh_storage gtp Let_def split: if_splits)
    qed
  qed
qed

lemma filtered_trash:
  assumes "f \<in> set (map snd (filter (\<lambda>(i, file). trash_expired cnf (now i) file) (zip [0..<length fl] fl)))"
  shows "f \<in> set fl \<and> (\<exists>i < length fl. fl ! i = f \<and> trash_expired cnf (now i) f)"
proof -
  obtain i where "(i, f) \<in> set (zip [0..<length fl] fl)" "trash_expired cnf (now i) f"
    using assms by auto
  then show ?thesis by (auto simp: set_zip)
qed

text \<open>Emptying the trash deletes only objects of the listing that lie in the trash and are past their retention.\<close>

lemma trash_frame:
  assumes run: "DeletePrefixInBucket dh now scheds b msg w = Some (res, w')"
    and untouched: "\<And>fl w1 i. ListDelete2Files dh b msg w = Some (Inr fl, w1) \<Longrightarrow> i < length fl \<Longrightarrow>
      trash_expired (mgr_Cnf dh) (now i) (fl ! i) \<Longrightarrow> \<not> region (key (obj_Path (fl ! i))) k"
  shows "objects b' w' k = objects b' w k"
  using run
proof (cases rule: delete_prefix_cases)
  case nothing
  then show ?thesis by simp
next
  case (worked fl w1 us w2 fl' e w3)
  have pre: "objects b' w2 = objects b' w"
    using list2_frame [OF worked(1), of b'] list_uploads_frame [OF worked(2), of b'] by simp
  have "objects b' w3 k = objects b' w k"
  proof (rule rounds_keep [where P = "\<lambda>v. objects b' v k = objects b' w k", OF worked(5)])
    show "objects b' w2 k = objects b' w k" using pre by simp
    show "objects b' v' k = objects b' w k"
      if "f \<in> set (map snd (filter (\<lambda>(i, file). trash_expired (mgr_Cnf dh) (now i) file)
            (zip [0..<length fl] fl)))" "objects b' v k = objects b' w k"
        "DeleteObject st b (obj_Path f) v = (r, v')" for f v r v'
    proof -
      note member = that(1)
      obtain i where "i < length fl" "fl ! i = f" "trash_expired (mgr_Cnf dh) (now i) f"
        using filtered_trash [OF member] by blast
      then have "\<not> region (key (obj_Path f)) k" using untouched [OF worked(1)] by blast
      with delete_frame [OF that(3)] that(2) show ?thesis by simp
    qed
  qed
  moreover have "objects b' w' = objects b' w3"
    using worked(6) abort_uploads_frame [of b us w3 res w' b'] by (auto split: if_splits)
  ultimately show ?thesis by simp
qed

lemma trash_changed:
  assumes run: "DeletePrefixInBucket dh now scheds b msg w = Some (res, w')"
    and ch: "objects b' w' k \<noteq> objects b' w k"
  shows "\<exists>fl w1 i. ListDelete2Files dh b msg w = Some (Inr fl, w1) \<and> i < length fl \<and>
    Contains (obj_Path (fl ! i)) ''trash'' \<and>
    (obj_LastMod (fl ! i) + trashRetention (mgr_Cnf dh)) div Second < now i div Second \<and>
    region (key (obj_Path (fl ! i))) k"
proof -
  from trash_frame [OF run, of k b'] ch obtain fl w1 i where
    "ListDelete2Files dh b msg w = Some (Inr fl, w1)" "i < length fl" "trash_expired (mgr_Cnf dh) (now i) (fl ! i)"
    "region (key (obj_Path (fl ! i))) k" by blast
  then show ?thesis by (auto simp: trash_expired_def Unix_def)
qed

end

section \<open>The server's managers\<close>

lemma server_mgr_simps [simp]:
  "BackupInterractor (server_mgr s bs um px cnf) = GetFirstLSN bs um"
  "DbInterractor (server_mgr s bs um px cnf) = GetVirtualExpireIndexes px"
  "StorageInterractor (server_mgr s bs um px cnf) = s"
  "mgr_Cnf (server_mgr s bs um px cnf) = cnf"
  by (simp_all add: server_mgr_def)

interpretation fileGarbage: garbage_mgr "FileStorageInteractor cnf" fs_objects "fs_key cnf" in_tree
  "\<lambda>_ _. True" "server_mgr (FileStorageInteractor cnf) (FileStorageInteractor bcnf) um px vcnf"
proof
  fix seg port w w' b' rb rd
  show "StorageInterractor (server_mgr (FileStorageInteractor cnf) (FileStorageInteractor bcnf) um px vcnf) =
        FileStorageInteractor cnf" by simp
  show "BackupInterractor (server_mgr (FileStorageInteractor cnf) (FileStorageInteractor bcnf) um px vcnf) seg w =
        Some (rb, w') \<Longrightarrow> fs_objects b' w' = fs_objects b' w"
    using fileStorage.GetFirstLSN_frame [of bcnf um seg w rb w' b'] by simp
  show "DbInterractor (server_mgr (FileStorageInteractor cnf) (FileStorageInteractor bcnf) um px vcnf) port w =
        (rd, w') \<Longrightarrow> fs_objects b' w' = fs_objects b' w"
    using GetVirtualExpireIndexes_world [of px port w rd w'] by (auto simp: fs_objects_def)
qed

text \<open>For two S3 storages of one service the contract follows from what the SDK documents.\<close>

lemma s3_garbage_mgr:
  assumes "s3_documented api objs"
  shows "garbage_mgr (S3StorageInteractor api s) (s3_objects objs) (s3_key (StoragePrefix (s3_cnf s)))
    (=) (s3_movable s)
    (server_mgr (S3StorageInteractor api s) (S3StorageInteractor api bs) um px vcnf)"
proof (rule garbage_mgr.intro [OF s3_storage [OF assms] garbage_mgr_axioms.intro])
  fix seg port w w' b' rb rd
  let ?dh = "server_mgr (S3StorageInteractor api s) (S3StorageInteractor api bs) um px vcnf"
  show "StorageInterractor ?dh = S3StorageInteractor api s" by simp
  show "BackupInterractor ?dh seg w = Some (rb, w') \<Longrightarrow> s3_objects objs b' w' = s3_objects objs b' w"
    using storage.GetFirstLSN_frame [OF s3_storage [OF assms], of bs um seg w rb w' b'] by simp
  show "DbInterractor ?dh port w = (rd, w') \<Longrightarrow> s3_objects objs b' w' = s3_objects objs b' w"
    using GetVirtualExpireIndexes_world [of px port w rd w'] by (auto simp: s3_objects_def)
qed

end
