(* ===== verification/Interaction.thy ===== *)
theory Interaction
  imports ListCopy Requests TrashSafety
begin

text \<open>
  The remaining handlers of \<open>pkg/proc/interaction.go\<close> (deleting, restoring from the trash, the
  obsolete chunks) and the dispatch of a connection, \<open>ProcConn\<close>.
\<close>

text \<open>
  What the environment decides during a request: the clock readings, the schedules of the delete
  workers (per bucket and retry), the order of a copy's goroutines, and the order in which Go
  iterates over the expire index.
\<close>

record scheduling =
  sch_opstart :: int
  sch_now :: "string \<Rightarrow> int"
  sch_file_now :: "string \<Rightarrow> nat \<Rightarrow> int"
  sch_workers :: "string \<Rightarrow> nat \<Rightarrow> nat list"
  sch_copy :: "nat \<Rightarrow> ObjectInfo list \<Rightarrow> ObjectInfo list"
  sch_expire :: "expire_index \<Rightarrow> expire_index"

section \<open>Deleting and restoring\<close>

text \<open>How these handlers end: an error is sent to the client and returned, otherwise the client is told that all is done.\<close>

definition finish_request :: "string \<Rightarrow> error option \<Rightarrow> YClient \<Rightarrow> 'w \<Rightarrow> error option \<times> YClient \<times> 'w" where
  "finish_request text res ycl w =
     (case res of
        Some err \<Rightarrow> (Some err, snd (ReplyError err text ycl), w)
      | None \<Rightarrow>
          (case conn_Write (ReadyForQueryMessage_Encode ()) ycl of
             ((n, Some err), ycl) \<Rightarrow> (Some err, snd (ReplyError err ''failed to upload'' ycl), w)
           | ((n, None), ycl) \<Rightarrow> (None, ycl, w)))"

definition ProcessDeleteExtended ::
    "('r, 'd, 'k, 's, 'p) externals \<Rightarrow> scheduling \<Rightarrow> DeleteMessage \<Rightarrow> ('r, 'd) world StorageInteractor \<Rightarrow>
     ('r, 'd) world StorageInteractor \<Rightarrow> Vacuum \<Rightarrow> YClient \<Rightarrow> ('r, 'd) world \<Rightarrow>
     (error option \<times> YClient \<times> ('r, 'd) world) option" where
  "ProcessDeleteExtended E sch msg s bs cnf ycl w =
     (let ycl = SetExternalFilePath (del_Name msg) ycl;
          dh = server_mgr s bs (ext_unmarshal E) (ext_pgx E) cnf in
      map_option (\<lambda>(res, w). finish_request ''failed to finish operation'' res ycl w)
        (if del_Garbage msg then HandleDeleteGarbage dh (sch_now sch) (sch_workers sch) msg w
         else HandleDeleteFile dh msg w))"

definition ProcessDelete2Extended ::
    "('r, 'd, 'k, 's, 'p) externals \<Rightarrow> scheduling \<Rightarrow> Delete2Message \<Rightarrow> ('r, 'd) world StorageInteractor \<Rightarrow>
     ('r, 'd) world StorageInteractor \<Rightarrow> Vacuum \<Rightarrow> YClient \<Rightarrow> ('r, 'd) world \<Rightarrow>
     (error option \<times> YClient \<times> ('r, 'd) world) option" where
  "ProcessDelete2Extended E sch msg s bs cnf ycl w =
     (let ycl = SetExternalFilePath (del2_Prefix msg) ycl;
          dh = server_mgr s bs (ext_unmarshal E) (ext_pgx E) cnf in
      map_option (\<lambda>(res, w). finish_request ''failed to finish operation'' res ycl w)
        (HandleDelete2Prefix dh (sch_file_now sch) (sch_workers sch) msg w))"

definition ProcessUntrashify ::
    "('r, 'd, 'k, 's, 'p) externals \<Rightarrow> UntrashifyMessage \<Rightarrow> ('r, 'd) world StorageInteractor \<Rightarrow>
     ('r, 'd) world StorageInteractor \<Rightarrow> YClient \<Rightarrow> ('r, 'd) world \<Rightarrow>
     (error option \<times> YClient \<times> ('r, 'd) world) option" where
  "ProcessUntrashify E msg s bs ycl w =
     (let ycl = SetExternalFilePath (untr_Name msg) ycl;
          dh = server_mgr s bs (ext_unmarshal E) (ext_pgx E) Vacuum_zero in
      map_option (\<lambda>(res, w). finish_request ''failed to upload'' res ycl w) (HandleUntrashifyFile dh msg w))"

section \<open>Obsolete chunks\<close>

text \<open>Files in neither index are entered into the expire index with the current LSN.\<close>

fun collect_loop ::
    "'d pgx \<Rightarrow> pg_conn \<Rightarrow> virtual_index \<Rightarrow> expire_index \<Rightarrow> u64 \<Rightarrow> ObjectInfo list \<Rightarrow> YClient \<Rightarrow> ('r, 'd) world \<Rightarrow>
     YClient \<times> ('r, 'd) world" where
  "collect_loop px conn vi ei lsn [] ycl w = (ycl, w)"
| "collect_loop px conn vi ei lsn (v # files) ycl w =
     (if map_of vi (obj_Path v) \<noteq> None then collect_loop px conn vi ei lsn files ycl w
      else if map_of ei (obj_Path v) \<noteq> None then collect_loop px conn vi ei lsn files ycl w
      else case AddToExpireIndex px conn (obj_Path v) lsn w of
          (Some err, w) \<Rightarrow>
            collect_loop px conn vi ei lsn files (snd (ReplyError err ''error while adding to ei'' ycl)) w
        | (None, w) \<Rightarrow> collect_loop px conn vi ei lsn files ycl w)"

definition ProcessCollectObsolete ::
    "('r, 'd, 'k, 's, 'p) externals \<Rightarrow> CollectObsoleteMessage \<Rightarrow> ('r, 'd) world StorageInteractor \<Rightarrow> YClient \<Rightarrow>
     ('r, 'd) world \<Rightarrow> (error option \<times> YClient \<times> ('r, 'd) world) option" where
  "ProcessCollectObsolete E msg s ycl w =
     (let px = ext_pgx E; fail = (\<lambda>err text w. Some (Some err, snd (ReplyError err text ycl), w)) in
      case ListPath s (co_Message msg) True [] w of
        None \<Rightarrow> None
      | Some (Inl err, w) \<Rightarrow> fail err ''failed list path'' w
      | Some (Inr files, w) \<Rightarrow>
      case GetVirtualExpireIndexes px (co_Port msg) w of
        (Inl err, w) \<Rightarrow> fail err ''failed get virtual expire indexes'' w
      | (Inr (vi, ei), w) \<Rightarrow>
      case GetNextLSN px (co_Port msg) (co_DBName msg) w of
        (Inl err, w) \<Rightarrow> fail err ''failed get min lsn'' w
      | (Inr curr_lsn, w) \<Rightarrow>
      case GetConnectToDatabase px (co_Port msg) (co_DBName msg) w of
        Inl err \<Rightarrow> fail err ''failed connect to db'' w
      | Inr conn \<Rightarrow> Some (None, collect_loop px conn vi ei curr_lsn files ycl w))"

text \<open>Entries of the expire index older than the first backup: the file goes to the trash.\<close>

fun obsolete_loop ::
    "'d pgx \<Rightarrow> pg_conn \<Rightarrow> ('r, 'd) world StorageInteractor \<Rightarrow> u64 \<Rightarrow> virtual_index \<Rightarrow> string \<Rightarrow> expire_index \<Rightarrow>
     ('r, 'd) world \<Rightarrow> ('r, 'd) world" where
  "obsolete_loop px conn s first vi message [] w = w"
| "obsolete_loop px conn s first vi message ((str, v) # ei) w =
     (if first \<le> v then obsolete_loop px conn s first vi message ei w
      else if map_of vi str = Some True then
        obsolete_loop px conn s first vi message ei (snd (DeleteFromExpireIndex px conn str w))
      else if \<not> Contains str message then obsolete_loop px conn s first vi message ei w
      else case DeleteFromExpireIndex px conn str w of
          (Some err, w) \<Rightarrow> obsolete_loop px conn s first vi message ei w
        | (None, w) \<Rightarrow>
            obsolete_loop px conn s first vi message ei
              (snd (MoveObject s (DefaultBucket s) str (''/trash'' @ str) w)))"

definition ProcessDeleteObsolete ::
    "('r, 'd, 'k, 's, 'p) externals \<Rightarrow> scheduling \<Rightarrow> DeleteObsoleteMessage \<Rightarrow> ('r, 'd) world StorageInteractor \<Rightarrow>
     ('r, 'd) world StorageInteractor \<Rightarrow> YClient \<Rightarrow> ('r, 'd) world \<Rightarrow>
     (error option \<times> YClient \<times> ('r, 'd) world) option" where
  "ProcessDeleteObsolete E sch msg s bs ycl w =
     (let px = ext_pgx E in
      case GetVirtualExpireIndexes px (do_Port msg) w of
        (Inl err, w) \<Rightarrow> Some (Some err, ycl, w)
      | (Inr (vi, ei), w) \<Rightarrow>
      case GetFirstLSN bs (ext_unmarshal E) (do_Segnum msg) w of
        None \<Rightarrow> None
      | Some (Inl err, w) \<Rightarrow> Some (Some err, ycl, w)
      | Some (Inr first_backup_lsn, w) \<Rightarrow>
          (if first_backup_lsn = - 1
           then Some (Some (Errorf ''wal-g backups required for consistent deleting''), ycl, w)
           else case GetConnectToDatabase px (do_Port msg) (do_DBName msg) w of
               Inl err \<Rightarrow> Some (Some err, ycl, w)
             | Inr conn \<Rightarrow>
                 Some (None, ycl, obsolete_loop px conn s first_backup_lsn vi (do_Message msg)
                                    (sch_expire sch ei) w)))"

section \<open>Dispatch\<close>

text \<open>The deprecated \<open>ProcMotion\<close> reads a second packet.\<close>

definition ProcMotion :: "int \<Rightarrow> YClient \<Rightarrow> 'w \<Rightarrow> (error option \<times> YClient \<times> 'w) option" where
  "ProcMotion now ycl w =
     (case ReadPacket (conn_in ycl) of
        (Inl err, c) \<Rightarrow>
          Some (Some err, snd (YClient_Close (snd (ReplyError err ''failed to read request packet'' (ycl\<lparr>conn_in := c\<rparr>)))), w)
      | (Inr (tp, body), c) \<Rightarrow>
          (let ycl = SetOPType now tp (ycl\<lparr>conn_in := c\<rparr>) in
           case GoolMessage_Decode GoolMessage_zero body of
             None \<Rightarrow> None
           | Some msg \<Rightarrow>
               (case conn_Write (ReadyForQueryMessage_Encode ()) ycl of
                  ((n, Some err), ycl) \<Rightarrow> Some (None, snd (YClient_Close (snd (ReplyError err ''failed to gool'' ycl))), w)
                | ((n, None), ycl) \<Rightarrow> Some (None, snd (YClient_Close ycl), w))))"

text \<open>
  The interface through which the dispatch calls the handlers (\<open>pkg/proto/mgr.go\<close>), and the
  implementation of the server. The parameters of a handler that no implementation reads are kept.
\<close>

type_synonym ('r, 'd) handled = "(error option \<times> YClient \<times> ('r, 'd) world) option"

record ('r, 'd, 'k) ProtoMgr =
  pm_ProcessCatExtended ::
    "('r, 'd) world StorageInteractor \<Rightarrow> string \<Rightarrow> bool \<Rightarrow> bool \<Rightarrow> u64 \<Rightarrow> StorageSettings list \<Rightarrow>
     'k GPGCrypter option \<Rightarrow> YClient \<Rightarrow> ('r, 'd) world \<Rightarrow> ('r, 'd) handled"
  pm_ProcessPutExtended ::
    "('r, 'd) world StorageInteractor \<Rightarrow> string \<Rightarrow> bool \<Rightarrow> StorageSettings list \<Rightarrow>
     'k GPGCrypter option \<Rightarrow> YClient \<Rightarrow> bool \<Rightarrow> ('r, 'd) world \<Rightarrow> ('r, 'd) handled"
  pm_ProcessListExtended ::
    "string \<Rightarrow> StorageSettings list \<Rightarrow> ('r, 'd) world StorageInteractor \<Rightarrow> 'k GPGCrypter option \<Rightarrow> YClient \<Rightarrow>
     Vacuum \<Rightarrow> ('r, 'd) world \<Rightarrow> ('r, 'd) handled"
  pm_ProcessCopyExtended ::
    "string \<Rightarrow> string \<Rightarrow> u64 \<Rightarrow> bool \<Rightarrow> bool \<Rightarrow> bool \<Rightarrow> bool \<Rightarrow> bool \<Rightarrow> bool \<Rightarrow>
     ('r, 'd) world StorageInteractor \<Rightarrow> 'k GPGCrypter option \<Rightarrow> YClient \<Rightarrow> ('r, 'd) world \<Rightarrow> ('r, 'd) handled"
  pm_ProcessDeleteExtended ::
    "DeleteMessage \<Rightarrow> ('r, 'd) world StorageInteractor \<Rightarrow> ('r, 'd) world StorageInteractor \<Rightarrow> YClient \<Rightarrow>
     Vacuum \<Rightarrow> ('r, 'd) world \<Rightarrow> ('r, 'd) handled"
  pm_ProcessDelete2Extended ::
    "Delete2Message \<Rightarrow> ('r, 'd) world StorageInteractor \<Rightarrow> ('r, 'd) world StorageInteractor \<Rightarrow> YClient \<Rightarrow>
     Vacuum \<Rightarrow> ('r, 'd) world \<Rightarrow> ('r, 'd) handled"
  pm_ProcessUntrashify ::
    "UntrashifyMessage \<Rightarrow> ('r, 'd) world StorageInteractor \<Rightarrow> ('r, 'd) world StorageInteractor \<Rightarrow> YClient \<Rightarrow>
     ('r, 'd) world \<Rightarrow> ('r, 'd) handled"
  pm_ProcessCollectObsolete ::
    "CollectObsoleteMessage \<Rightarrow> ('r, 'd) world StorageInteractor \<Rightarrow> YClient \<Rightarrow> ('r, 'd) world \<Rightarrow> ('r, 'd) handled"
  pm_ProcessDeleteObsolete ::
    "DeleteObsoleteMessage \<Rightarrow> ('r, 'd) world StorageInteractor \<Rightarrow> ('r, 'd) world StorageInteractor \<Rightarrow> YClient \<Rightarrow>
     ('r, 'd) world \<Rightarrow> ('r, 'd) handled"

definition ProtoMgrImpl :: "('r, 'd, 'k, 's, 'p) externals \<Rightarrow> scheduling \<Rightarrow> ('r, 'd, 'k) ProtoMgr" where
  "ProtoMgrImpl E sch =
     \<lparr>pm_ProcessCatExtended = (\<lambda>s name decrypt kek off ss cr ycl w. ProcessCatExtended E s name decrypt kek off ss cr ycl w),
      pm_ProcessPutExtended = (\<lambda>s name encrypt ss cr ycl replyKV w. ProcessPutExtended E s name encrypt ss cr replyKV ycl w),
      pm_ProcessListExtended = (\<lambda>pfx ss s cr ycl cnf w. ProcessListExtended s pfx ss ycl w),
      pm_ProcessCopyExtended =
        (\<lambda>name oldCfgPath port confirm encrypt decrypt kek serverSide replyKV s cr ycl w.
           ProcessCopyExtended E (sch_copy sch) name oldCfgPath port confirm encrypt decrypt kek serverSide replyKV s cr ycl w),
      pm_ProcessDeleteExtended = (\<lambda>msg s bs ycl cnf w. ProcessDeleteExtended E sch msg s bs cnf ycl w),
      pm_ProcessDelete2Extended = (\<lambda>msg s bs ycl cnf w. ProcessDelete2Extended E sch msg s bs cnf ycl w),
      pm_ProcessUntrashify = (\<lambda>msg s bs ycl w. ProcessUntrashify E msg s bs ycl w),
      pm_ProcessCollectObsolete = (\<lambda>msg s ycl w. ProcessCollectObsolete E msg s ycl w),
      pm_ProcessDeleteObsolete = (\<lambda>msg s bs ycl w. ProcessDeleteObsolete E sch msg s bs ycl w)\<rparr>"

text \<open>The switch over the type of the request.\<close>

definition dispatch ::
    "('r, 'd, 'k) ProtoMgr \<Rightarrow> int \<Rightarrow> ('r, 'd) world StorageInteractor \<Rightarrow> ('r, 'd) world StorageInteractor \<Rightarrow>
     'k GPGCrypter option \<Rightarrow> Vacuum \<Rightarrow> byte \<Rightarrow> byte list \<Rightarrow> YClient \<Rightarrow> ('r, 'd) world \<Rightarrow>
     ('r, 'd) handled" where
  "dispatch pm now s bs cr cnf tp body ycl w =
     (if tp = MessageTypeCat then
        (case CatMessage_Decode CatMessage_zero body of
           None \<Rightarrow> None
         | Some msg \<Rightarrow> pm_ProcessCatExtended pm s (cat_Name msg) (cat_Decrypt msg) False (cat_StartOffset msg) [] cr ycl w)
      else if tp = MessageTypeCatV2 then
        (case CatMessageV2_Decode CatMessageV2_zero body of
           None \<Rightarrow> None
         | Some msg \<Rightarrow> pm_ProcessCatExtended pm s (cat2_Name msg) (cat2_Decrypt msg) (cat2_KEK msg)
                       (cat2_StartOffset msg) (cat2_Settings msg) cr ycl w)
      else if tp = MessageTypePut then
        (case PutMessage_Decode PutMessage_zero body of
           None \<Rightarrow> None
         | Some msg \<Rightarrow> pm_ProcessPutExtended pm s (put_Name msg) (put_Encrypt msg) [] cr ycl False w)
      else if tp = MessageTypePutV2 then
        (case PutMessageV2_Decode PutMessageV2_zero body of
           None \<Rightarrow> None
         | Some msg \<Rightarrow> pm_ProcessPutExtended pm s (put2_Name msg) (put2_Encrypt msg) (put2_Settings msg) cr ycl False w)
      else if tp = MessageTypePutV3 then
        (case PutMessageV3_Decode PutMessageV3_zero body of
           None \<Rightarrow> None
         | Some msg \<Rightarrow> pm_ProcessPutExtended pm s (put3_Name msg) (put3_Encrypt msg) (put3_Settings msg) cr ycl True w)
      else if tp = MessageTypeList then
        (case ListMessage_Decode ListMessage_zero body of
           None \<Rightarrow> None
         | Some msg \<Rightarrow> pm_ProcessListExtended pm (list_Prefix msg) [] s cr ycl cnf w)
      else if tp = MessageTypeListV2 then
        (case ListMessageV2_Decode ListMessageV2_zero body of
           None \<Rightarrow> None
         | Some msg \<Rightarrow> pm_ProcessListExtended pm (list2_Prefix msg) (list2_Settings msg) s cr ycl cnf w)
      else if tp = MessageTypeCopy then
        (case CopyMessage_Decode CopyMessage_zero body of
           None \<Rightarrow> None
         | Some msg \<Rightarrow> pm_ProcessCopyExtended pm (copy_Name msg) (copy_OldCfgPath msg) (copy_Port msg)
                       (copy_Confirm msg) (copy_Encrypt msg) (copy_Decrypt msg) False False False s cr ycl w)
      else if tp = MessageTypeCopyV2 then
        (case CopyMessageV2_Decode CopyMessageV2_zero body of
           None \<Rightarrow> None
         | Some msg \<Rightarrow> pm_ProcessCopyExtended pm (copy2_Name msg) (copy2_OldCfgPath msg) (copy2_Port msg)
                       (copy2_Confirm msg) (copy2_Encrypt msg) (copy2_Decrypt msg) (copy2_KEKDecrypt msg)
                       (copy2_ServerSideCopy msg) True s cr ycl w)
      else if tp = MessageTypeDelete then
        (case DeleteMessage_Decode DeleteMessage_zero body of
           None \<Rightarrow> None
         | Some msg \<Rightarrow> pm_ProcessDeleteExtended pm msg s bs ycl cnf w)
      else if tp = MessageTypeDelete2 then
        (case Delete2Message_Decode Delete2Message_zero body of
           None \<Rightarrow> None
         | Some msg \<Rightarrow> pm_ProcessDelete2Extended pm msg s bs ycl cnf w)
      else if tp = MessageTypeUntrashify then
        (case UntrashifyMessage_Decode UntrashifyMessage_zero body of
           None \<Rightarrow> None
         | Some msg \<Rightarrow> pm_ProcessUntrashify pm msg s bs ycl w)
      else if tp = MessageTypeGool then ProcMotion now ycl w
      else if tp = MessageCollectObsolete then
        (case CollectObsoleteMessage_Decode CollectObsoleteMessage_zero body of
           None \<Rightarrow> None
         | Some msg \<Rightarrow> pm_ProcessCollectObsolete pm msg s ycl w)
      else if tp = MessageDeleteObsolete then
        (case DeleteObsoleteMessage_Decode DeleteObsoleteMessage_zero body of
           None \<Rightarrow> None
         | Some msg \<Rightarrow> pm_ProcessDeleteObsolete pm msg s bs ycl w)
      else
        (case ReplyError (Errorf (''wrong request type: '' @ MessageType_String tp))
                ''message is unsupported in ProcConn'' ycl of
           (unsupErr, ycl) \<Rightarrow> Some (unsupErr, ycl, w)))"

text \<open>\<open>ProcConn\<close>; \<open>now\<close> is the time of the request\<close>

definition ProcConn_with ::
    "('r, 'd, 'k) ProtoMgr \<Rightarrow> int \<Rightarrow> ('r, 'd) world StorageInteractor \<Rightarrow> ('r, 'd) world StorageInteractor \<Rightarrow>
     'k GPGCrypter option \<Rightarrow> Vacuum \<Rightarrow> YClient \<Rightarrow> ('r, 'd) world \<Rightarrow> ('r, 'd) handled" where
  "ProcConn_with pm now s bs cr cnf ycl w =
     map_option (\<lambda>(err, ycl, w). (err, snd (YClient_Close ycl), w))
       (case ReadPacket (conn_in ycl) of
          (Inl err, c) \<Rightarrow> Some (Some err, snd (ReplyError err ''failed to read request packet'' (ycl\<lparr>conn_in := c\<rparr>)), w)
        | (Inr (tp, body), c) \<Rightarrow>
            dispatch pm now s bs cr cnf tp body (SetOPType now tp (ycl\<lparr>conn_in := c\<rparr>)) w)"

text \<open>As the server calls it, with its own implementation of the handlers (\<open>NewInstance\<close>)\<close>

definition ProcConn ::
    "('r, 'd, 'k, 's, 'p) externals \<Rightarrow> scheduling \<Rightarrow> ('r, 'd) world StorageInteractor \<Rightarrow> ('r, 'd) world StorageInteractor \<Rightarrow>
     'k GPGCrypter option \<Rightarrow> Vacuum \<Rightarrow> YClient \<Rightarrow> ('r, 'd) world \<Rightarrow> ('r, 'd) handled" where
  "ProcConn E sch = ProcConn_with (ProtoMgrImpl E sch) (sch_opstart sch)"

lemmas ProcConn_unfold = ProcConn_def ProcConn_with_def

lemma ProtoMgrImpl_sel [simp]:
  "pm_ProcessCatExtended (ProtoMgrImpl E sch) s name dec kek off ss cr ycl w = ProcessCatExtended E s name dec kek off ss cr ycl w"
  "pm_ProcessPutExtended (ProtoMgrImpl E sch) s name enc ss cr ycl kv w = ProcessPutExtended E s name enc ss cr kv ycl w"
  "pm_ProcessListExtended (ProtoMgrImpl E sch) pfx ss s cr ycl cnf w = ProcessListExtended s pfx ss ycl w"
  "pm_ProcessCopyExtended (ProtoMgrImpl E sch) name old port cf enc dec kek ssc kv s cr ycl w =
     ProcessCopyExtended E (sch_copy sch) name old port cf enc dec kek ssc kv s cr ycl w"
  "pm_ProcessDeleteExtended (ProtoMgrImpl E sch) dm s bs ycl cnf w = ProcessDeleteExtended E sch dm s bs cnf ycl w"
  "pm_ProcessDelete2Extended (ProtoMgrImpl E sch) dm2 s bs ycl cnf w = ProcessDelete2Extended E sch dm2 s bs cnf ycl w"
  "pm_ProcessUntrashify (ProtoMgrImpl E sch) um s bs ycl w = ProcessUntrashify E um s bs ycl w"
  "pm_ProcessCollectObsolete (ProtoMgrImpl E sch) cm s ycl w = ProcessCollectObsolete E cm s ycl w"
  "pm_ProcessDeleteObsolete (ProtoMgrImpl E sch) om s bs ycl w = ProcessDeleteObsolete E sch om s bs ycl w"
  by (simp_all add: ProtoMgrImpl_def)

end
