(* ===== verification/ClientCmd.thy ===== *)
theory ClientCmd
  imports Client Requests AdminRequests GoIO
begin

text \<open>
  The command line client, \<open>cmd/client/main.go\<close>: for every command the request it sends and how it
  reads the answer. The connection is a record \<open>YClient\<close> whose input is what the server sends; a
  command returns its error, what it printed and the connection, or panics (\<open>None\<close>). The flag
  variables are the record \<open>flags\<close>; how they are set is in \<open>CommandLine\<close>.
\<close>

record flags =
  fl_cfgPath :: string
  fl_oldCfgPath :: string
  fl_logLevel :: string
  fl_decrypt :: bool
  fl_useKEK :: bool
  fl_ssCopy :: bool
  fl_encrypt :: bool
  fl_storageClass :: string
  fl_tableSpace :: string
  fl_multipartChunkSize :: int
  fl_multipartUpload :: bool
  fl_offset :: u64
  fl_segmentPort :: u64
  fl_segmentNum :: u64
  fl_confirm :: bool
  fl_garbage :: bool
  fl_crazyDrop :: bool

type_synonym outcome = "(error option \<times> byte list \<times> YClient) option"

text \<open>\<open>%v\<close> of a byte slice and \<open>%t\<close> of a boolean\<close>

definition fmt_bytes :: "byte list \<Rightarrow> string" where
  "fmt_bytes bs = ''['' @ concat (case bs of [] \<Rightarrow> []
     | b # bs \<Rightarrow> dec_of_nat (unat b) # map (\<lambda>b. '' '' @ dec_of_nat (unat b)) bs) @ '']''"

definition fmt_bool :: "bool \<Rightarrow> string" where
  "fmt_bool b = (if b then ''true'' else ''false'')"

text \<open>Sending the request, then going on; and reading one packet of the answer.\<close>

definition send_request :: "byte list \<Rightarrow> (YClient \<Rightarrow> outcome) \<Rightarrow> YClient \<Rightarrow> outcome" where
  "send_request msg k con =
     (case conn_Write msg con of
        ((n, Some err), con) \<Rightarrow> Some (Some err, [], con)
      | ((n, None), con) \<Rightarrow> k con)"

definition read_answer :: "(byte \<Rightarrow> byte list \<Rightarrow> YClient \<Rightarrow> outcome) \<Rightarrow> YClient \<Rightarrow> outcome" where
  "read_answer k con =
     (case ReadPacket (conn_in con) of
        (Inl err, c) \<Rightarrow> Some (Some err, [], con\<lparr>conn_in := c\<rparr>)
      | (Inr (tp, body), c) \<Rightarrow> k tp body (con\<lparr>conn_in := c\<rparr>))"

section \<open>cat\<close>

definition conn_reader :: "byte list list reader" where
  "conn_reader k c = (case conn_Read k c of ((bs, e), c) \<Rightarrow> Some ((Some bs, e), c))"

definition stdout_writer :: "byte list writer" where
  "stdout_writer p out = Some ((length p, None), out @ p)"

definition catFunc :: "flags \<Rightarrow> string list \<Rightarrow> YClient \<Rightarrow> outcome" where
  "catFunc fl args con =
     Option.bind (go_index args 0) (\<lambda>name.
       send_request (CatMessageV2_Encode (NewCatMessageV2 name (fl_decrypt fl) (fl_useKEK fl) (fl_offset fl) []))
         (\<lambda>con. map_option (\<lambda>((n, err), c, out). (err, out, con\<lparr>conn_in := c\<rparr>))
                  (io_Copy conn_reader stdout_writer 0 (conn_in con) [])) con)"

section \<open>copy\<close>

definition copyFunc :: "flags \<Rightarrow> string list \<Rightarrow> YClient \<Rightarrow> outcome" where
  "copyFunc fl args con =
     Option.bind (go_index args 0) (\<lambda>name.
       send_request (CopyMessageV2_Encode (NewCopyMessageV2 name (fl_oldCfgPath fl) (fl_encrypt fl) (fl_decrypt fl)
           (fl_confirm fl) (fl_useKEK fl) (fl_ssCopy fl) (fl_segmentPort fl)))
         (read_answer (\<lambda>ansType body con.
            if ansType = MessageTypeError then
              map_option (\<lambda>msg. (Some (Errorf (err_Message msg @ '': \"'' @ err_Error msg @ ''\"'')), [], con))
                (ErrorMessage_Decode ErrorMessage_zero body)
            else if ansType = MessageTypeCopyComplete then
              Option.bind (CopyCompleteMessage_Decode (NewCopyCompleteMessage 0) body) (\<lambda>msg.
                map_option (\<lambda>(err, out, con). (err, bytes_of (dec_of_nat (unat (cc_KeyVersion msg)) @ [CHR 0x0A]) @ out, con))
                  (read_answer (\<lambda>ansType body con.
                     if ansType \<noteq> MessageTypeReadyForQuery
                     then Some (Some (Errorf (''failed to copy, msg: '' @ fmt_bytes body)), [], con)
                     else Some (None, [], con)) con))
            else Some (Some (Errorf (''unexpected message '' @ fmt_bytes body)), [], con))) con)"

section \<open>put\<close>

definition SZ :: nat where "SZ = 65536"

lemma body_Read_shorter:
  "body_Read k b = ((bs, None), b') \<Longrightarrow> 0 < k \<Longrightarrow>
   length (concat (fst b')) + length (fst b') < length (concat (fst b)) + length (fst b)"
  by (cases b; cases "fst b") (auto split: if_splits)

text \<open>The loop over standard input: every read is sent as a data packet.\<close>

function put_stdin :: "body \<Rightarrow> YClient \<Rightarrow> (error option \<times> YClient) option" where
  "put_stdin stdin con =
     (case body_Read SZ stdin of
        ((bs, err), stdin') \<Rightarrow>
          (case (if bs \<noteq> [] then
                   (case CopyDataMessage_Encode \<lparr>cd_Sz = of_nat (length bs), cd_Data = bs\<rparr> of
                      None \<Rightarrow> None
                    | Some msg \<Rightarrow> (case conn_Write msg con of ((n, e), con) \<Rightarrow> Some (e, con)))
                 else Some (None, con)) of
             None \<Rightarrow> None
           | Some (Some e, con) \<Rightarrow> Some (Some e, con)
           | Some (None, con) \<Rightarrow>
               (if err = None then put_stdin stdin' con
                else if err = Some EOF then Some (None, con)
                else Some (err, con))))"
  by pat_completeness auto
termination
  by (relation "measure (\<lambda>(b, _). length (concat (fst b)) + length (fst b))")
    (auto dest: body_Read_shorter [OF sym] simp: SZ_def)

declare put_stdin.simps [simp del]

definition put_settings :: "flags \<Rightarrow> StorageSettings list" where
  "put_settings fl =
     [\<lparr>sett_Name = StorageClassSetting, sett_Value = fl_storageClass fl\<rparr>,
      \<lparr>sett_Name = TableSpaceSetting, sett_Value = fl_tableSpace fl\<rparr>,
      \<lparr>sett_Name = MultipartChunkSize, sett_Value = dec_of_int (fl_multipartChunkSize fl)\<rparr>,
      \<lparr>sett_Name = MultipartUpload, sett_Value = fmt_bool (fl_multipartUpload fl)\<rparr>]"

definition putFunc :: "flags \<Rightarrow> string list \<Rightarrow> body \<Rightarrow> YClient \<Rightarrow> outcome" where
  "putFunc fl args stdin con =
     Option.bind (go_index args 0) (\<lambda>name.
       send_request (PutMessageV3_Encode (NewPutMessageV3 name (fl_encrypt fl) (put_settings fl)))
         (\<lambda>con. case put_stdin stdin con of
            None \<Rightarrow> None
          | Some (Some err, con) \<Rightarrow> Some (Some err, [], con)
          | Some (None, con) \<Rightarrow>
              send_request (CopyDoneMessage_Encode ())
                (read_answer (\<lambda>tp data con.
                   if tp = MessageTypePutComplete then
                     Option.bind (PutCompleteMessage_Decode (NewPutCompleteMessage 0) data) (\<lambda>msg.
                       map_option (\<lambda>(err, out, con). (err, bytes_of (dec_of_nat (unat (pc_KeyVersion msg)) @ [CHR 0x0A]) @ out, con))
                         (read_answer (\<lambda>tp data con.
                            if tp = MessageTypeReadyForQuery then Some (None, [], con)
                            else Some (Some (Errorf ''failed to get rfq''), [], con)) con))
                   else Some (Some (Errorf ''failed to get rfq''), [], con))) con) con)"

section \<open>list\<close>

text \<open>The loop that collects the listing, packet by packet.\<close>

function list_answers :: "byte list list \<Rightarrow> ObjectInfo list \<Rightarrow> ((error + ObjectInfo list) \<times> byte list list) option" where
  "list_answers c res =
     (case ReadPacket c of
        (Inl err, c) \<Rightarrow> Some (Inl err, c)
      | (Inr (tp, body), c') \<Rightarrow>
          (if tp = MessageTypeObjectMeta then
             (case ObjectInfoMessage_Decode body of
                None \<Rightarrow> None
              | Some content \<Rightarrow> list_answers c' (res @ content))
           else if tp = MessageTypeReadyForQuery then Some (Inr res, c')
           else Some (Inl (Errorf (''incorrect message type: '' @ MessageType_String tp)), c')))"
  by pat_completeness auto
termination
  by (relation "measure (\<lambda>(c, _). length (concat c))") (auto dest: ReadPacket_consumes [OF sym])

declare list_answers.simps [simp del]

definition print_object :: "ObjectInfo \<Rightarrow> byte list" where
  "print_object meta =
     bytes_of (''Object: {Name: \"'' @ obj_Path meta @ ''\", size: '' @ dec_of_int (sint (obj_Size meta)) @ ''}'' @ [CHR 0x0A])"

definition listFunc :: "string list \<Rightarrow> YClient \<Rightarrow> outcome" where
  "listFunc args con =
     Option.bind (go_index args 0) (\<lambda>name.
       send_request (ListMessage_Encode (NewListMessage name))
         (\<lambda>con. map_option (\<lambda>(r, c). case r of
              Inl err \<Rightarrow> (Some err, [], con\<lparr>conn_in := c\<rparr>)
            | Inr res \<Rightarrow> (None, concat (map print_object res), con\<lparr>conn_in := c\<rparr>))
            (list_answers (conn_in con) [])) con)"

section \<open>delete, deleteTrash, untrash, gool\<close>

text \<open>Commands that wait for a single packet, which must say that all is done.\<close>

definition await_ready :: "string \<Rightarrow> YClient \<Rightarrow> outcome" where
  "await_ready what con =
     read_answer (\<lambda>ansType body con.
       if ansType \<noteq> MessageTypeReadyForQuery then Some (Some (Errorf (what @ fmt_bytes body)), [], con)
       else Some (None, [], con)) con"

definition sendDeleteChunkRequest :: "flags \<Rightarrow> string list \<Rightarrow> YClient \<Rightarrow> outcome" where
  "sendDeleteChunkRequest fl args con =
     Option.bind (go_index args 0) (\<lambda>name.
       send_request (DeleteMessage_Encode
           (NewDeleteMessage name (fl_segmentPort fl) (fl_segmentNum fl) (fl_confirm fl) (fl_garbage fl)
             \<lparr>del_CrazyDrop := fl_crazyDrop fl\<rparr>))
         (await_ready ''failed to delete, msg: '') con)"

definition sendDeleteTrashRequest :: "flags \<Rightarrow> string list \<Rightarrow> YClient \<Rightarrow> outcome" where
  "sendDeleteTrashRequest fl args con =
     Option.bind (go_index args 0) (\<lambda>name.
       send_request (Delete2Message_Encode (NewDelete2Message name (fl_confirm fl) (fl_garbage fl)))
         (await_ready ''failed to delete2, msg: '') con)"

definition untrashifyFunc :: "flags \<Rightarrow> string list \<Rightarrow> YClient \<Rightarrow> outcome" where
  "untrashifyFunc fl args con =
     Option.bind (go_index args 0) (\<lambda>name.
       send_request (UntrashifyMessage_Encode (NewUntrashifyMessage name (fl_segmentNum fl) (fl_confirm fl)))
         (await_ready ''failed to untrashify, msg: '') con)"

definition goolFunc :: "string list \<Rightarrow> YClient \<Rightarrow> outcome" where
  "goolFunc args con =
     Option.bind (go_index args 0) (\<lambda>name.
       send_request (GoolMessage_Encode (NewGoolMessage name))
         (read_answer (\<lambda>tp body con.
            if tp = MessageTypeReadyForQuery then Some (None, [], con)
            else Some (Some (Errorf ''incorrect gool''), [], con))) con)"

end
