(* ===== verification/Serving.thy ===== *)
theory Serving
  imports Interaction ClientCmd
begin

text \<open>
  The server and the command line client together: what a client that uploads or lists gets when
  its requests are served by \<open>ProcConn\<close>, and what the dispatch guarantees for every connection.
\<close>

section \<open>Every connection is answered and closed\<close>

lemma YClient_Close_closed [simp]: "conn_closed (snd (YClient_Close y))"
  by (simp add: YClient_Close_def)

lemma YClient_Close_out [simp]: "conn_out (snd (YClient_Close y)) = conn_out y"
  by (simp add: YClient_Close_def)

lemma ProcConn_closed:
  "ProcConn_with pm now s bs cr cnf ycl w = Some (e, ycl', w') \<Longrightarrow> conn_closed ycl'"
  by (auto simp: ProcConn_with_def)

text \<open>The request that starts a connection, decoded, reaches its handler.\<close>

lemma ProcConn_request:
  assumes "ReadPacket (conn_in ycl) = (Inr (tp, body), c)"
  shows "ProcConn E sch s bs cr cnf ycl w =
    map_option (\<lambda>(err, ycl, w). (err, snd (YClient_Close ycl), w))
      (dispatch (ProtoMgrImpl E sch) (sch_opstart sch) s bs cr cnf tp body
        (SetOPType (sch_opstart sch) tp (ycl\<lparr>conn_in := c\<rparr>)) w)"
  using assms by (simp add: ProcConn_unfold)

definition known_request :: "byte \<Rightarrow> bool" where
  "known_request tp \<longleftrightarrow> tp \<in> {MessageTypeCat, MessageTypeCatV2, MessageTypePut, MessageTypePutV2, MessageTypePutV3,
     MessageTypeList, MessageTypeListV2, MessageTypeCopy, MessageTypeCopyV2, MessageTypeDelete, MessageTypeDelete2,
     MessageTypeUntrashify, MessageTypeGool, MessageCollectObsolete, MessageDeleteObsolete}"

text \<open>Any other request is refused with an error message, without touching the storages.\<close>

lemma dispatch_unknown:
  assumes "\<not> known_request tp" and "\<not> conn_closed ycl" "conn_fails ycl = None"
  shows "dispatch pm now s bs cr cnf tp body ycl w =
    Some (None, ycl\<lparr>conn_out := conn_out ycl @ ErrorMessage_Encode (NewErrorMessage
        (Errorf (''wrong request type: '' @ MessageType_String tp)) ''message is unsupported in ProcConn'')\<rparr>, w)"
  using assms by (simp add: dispatch_def known_request_def ReplyError_def conn_Write_healthy)

section \<open>Listing\<close>

function list_chunks :: "ObjectInfo list \<Rightarrow> ObjectInfo list list" where
  "list_chunks ms = (if ms = [] then [] else take chunkSize ms # list_chunks (drop chunkSize ms))"
  by pat_completeness auto
termination by (relation "measure length") (auto simp: chunkSize_def)

declare list_chunks.simps [simp del]

lemma concat_list_chunks: "concat (list_chunks ms) = ms"
  by (induction ms rule: list_chunks.induct) (subst list_chunks.simps, simp)

lemma list_chunks_bound: "cs \<in> set (list_chunks ms) \<Longrightarrow> length cs \<le> 1000 \<and> set cs \<subseteq> set ms"
proof (induction ms rule: list_chunks.induct)
  case (1 ms)
  from 1(2) have "ms \<noteq> []" "cs = take chunkSize ms \<or> cs \<in> set (list_chunks (drop chunkSize ms))"
    by (auto simp: list_chunks.simps [of ms] split: if_splits)
  with 1(1) show ?case by (auto simp: chunkSize_def dest: in_set_takeD in_set_dropD)
qed

lemma send_chunks_healthy:
  "\<not> conn_closed y \<Longrightarrow> conn_fails y = None \<Longrightarrow>
   send_chunks ms y = (None, y\<lparr>conn_out := conn_out y @ concat (map ObjectInfoMessage_Encode (list_chunks ms))\<rparr>)"
proof (induction ms arbitrary: y rule: list_chunks.induct)
  case (1 ms)
  show ?case
  proof (cases "ms = []")
    case True
    then show ?thesis by (simp add: send_chunks.simps list_chunks.simps)
  next
    case False
    with 1 show ?thesis
      by (subst send_chunks.simps, subst list_chunks.simps) (simp add: conn_Write_healthy)
  qed
qed

lemma ProcessList_answer:
  assumes "ListPath s pfx True ss w = Some (Inr ms, w')" and "\<not> conn_closed y" "conn_fails y = None"
  shows "ProcessListExtended s pfx ss y w = Some (None, y\<lparr>cl_path := pfx, conn_out := conn_out y @
      concat (map ObjectInfoMessage_Encode (list_chunks ms)) @ ReadyForQueryMessage_Encode ()\<rparr>, w')"
  using assms by (simp add: ProcessListExtended_def client_simps send_chunks_healthy conn_Write_healthy)

text \<open>A chunk of a listing is a packet the protocol allows, for paths of at most 1040 bytes.\<close>

lemma sum_list_le: "(\<And>x. x \<in> set xs \<Longrightarrow> f x \<le> (b :: nat)) \<Longrightarrow> (\<Sum>x\<leftarrow>xs. f x) \<le> length xs * b"
  by (induction xs) (auto, fastforce)

lemma list_chunk_fits:
  assumes "\<And>x. x \<in> set ms \<Longrightarrow> length (obj_Path x) \<le> 1040" and "cs \<in> set (list_chunks ms)"
  shows "length (ObjectInfoMessage_Encode cs) \<le> unat maxMsgLen"
proof -
  have cs: "length cs \<le> 1000" "set cs \<subseteq> set ms" using list_chunks_bound [OF assms(2)] by auto
  have "(\<Sum>x\<leftarrow>cs. length (obj_Path x) + 9) \<le> length cs * 1049"
    using assms(1) cs(2) by (intro sum_list_le) fastforce
  also have "\<dots> \<le> 1049000" using cs(1) by simp
  finally show ?thesis by (simp add: length_ObjectInfoMessage_Encode maxMsgLen_eq)
qed

lemma ReadPacket_object_meta:
  assumes "concat c = ObjectInfoMessage_Encode cs @ rest" and "length (ObjectInfoMessage_Encode cs) \<le> unat maxMsgLen"
  shows "\<exists>c'. ReadPacket c = (Inr (MessageTypeObjectMeta, drop 8 (ObjectInfoMessage_Encode cs)), c') \<and> concat c' = rest"
proof -
  let ?b = "[MessageTypeObjectMeta, 0, 0, 0] @ concat (map (\<lambda>x. bytes_of (obj_Path x) @ [0] @ put_u64 (obj_Size x)) cs)"
  have b: "ObjectInfoMessage_Encode cs = with_length ?b" by (simp add: ObjectInfoMessage_Encode_def)
  from ReadPacket_with_length [OF assms(1) [unfolded b]] assms(2) [unfolded b]
  show ?thesis unfolding b drop_8_with_length by simp
qed

text \<open>The client's loop reads back the listing that was sent, chunk by chunk.\<close>

lemma list_answers_chunks:
  assumes "concat c = concat (map ObjectInfoMessage_Encode css) @ ReadyForQueryMessage_Encode ()"
    and "\<And>cs. cs \<in> set css \<Longrightarrow> length (ObjectInfoMessage_Encode cs) \<le> unat maxMsgLen"
    and "list_all (\<lambda>x. nul_free (obj_Path x)) (concat css)"
  shows "\<exists>c'. list_answers c res = Some (Inr (res @ map wire_object (concat css)), c')"
  using assms
proof (induction css arbitrary: c res)
  case Nil
  from rfq.read_encoded [of c "()" "[]"] Nil show ?case
    by (subst list_answers.simps) (auto simp: maxMsgLen_eq ReadyForQueryMessage_Encode_def Let_def)
next
  case (Cons cs css)
  have "concat c = ObjectInfoMessage_Encode cs @ concat (map ObjectInfoMessage_Encode css) @ ReadyForQueryMessage_Encode ()"
    using Cons.prems(1) by simp
  from ReadPacket_object_meta [OF this] Cons.prems(2) obtain c' where
    c': "ReadPacket c = (Inr (MessageTypeObjectMeta, drop 8 (ObjectInfoMessage_Encode cs)), c')"
    "concat c' = concat (map ObjectInfoMessage_Encode css) @ ReadyForQueryMessage_Encode ()" by auto
  have "ObjectInfoMessage_Decode (drop 8 (ObjectInfoMessage_Encode cs)) = Some (map wire_object cs)"
    using Cons.prems(3) by (intro ObjectInfoMessage_decoded) simp
  with c'(1) Cons.IH [OF c'(2), of "res @ map wire_object cs"] Cons.prems(2,3) show ?case
    by (subst list_answers.simps) auto
qed

lemma listed_back:
  assumes "concat c = concat (map ObjectInfoMessage_Encode (list_chunks ms)) @ ReadyForQueryMessage_Encode ()"
    and "\<And>x. x \<in> set ms \<Longrightarrow> length (obj_Path x) \<le> 1040 \<and> nul_free (obj_Path x)"
  shows "\<exists>c'. list_answers c [] = Some (Inr (map wire_object ms), c')"
  using list_answers_chunks [OF assms(1), of "[]"] list_chunk_fits [of ms] assms(2)
  by (simp add: concat_list_chunks list_all_iff)

section \<open>Uploading\<close>

text \<open>The client sends its standard input as data packets of at most 64 KiB.\<close>

lemma put_stdin_sends:
  "\<not> conn_closed con \<Longrightarrow> conn_fails con = None \<Longrightarrow> snd stdin = None \<Longrightarrow>
   \<exists>ds. put_stdin stdin con = Some (None, con\<lparr>conn_out := conn_out con @ concat (map copy_data_packet ds)\<rparr>) \<and>
     concat ds = body_bytes stdin \<and> list_all (\<lambda>d. length d \<le> SZ) ds"
proof (induction stdin con rule: put_stdin.induct)
  case (1 stdin con)
  obtain bs err stdin' where r: "body_Read SZ stdin = ((bs, err), stdin')" by (metis prod.exhaust)
  show ?case
  proof (cases "fst stdin")
    case Nil
    with r 1(4) have "bs = []" "err = Some EOF" by (cases stdin; auto)+
    with r Nil show ?thesis by (subst put_stdin.simps) (auto simp: body_bytes_def intro: exI [of _ "[]"])
  next
    case (Cons x xs)
    with r 1(4) have e: "err = None" and st: "snd stdin' = None" "length bs \<le> SZ"
      "bs @ body_bytes stdin' = body_bytes stdin"
      by (cases stdin; auto simp: body_bytes_def split: if_splits)+
    define con' where "con' = (if bs = [] then con else con\<lparr>conn_out := conn_out con @ copy_data_packet bs\<rparr>)"
    have enc: "CopyDataMessage_Encode \<lparr>cd_Sz = of_nat (length bs), cd_Data = bs\<rparr> = Some (copy_data_packet bs)"
      using st(2) by (intro CopyDataMessage_Encode_eq) (simp add: SZ_def)
    have step: "(if bs \<noteq> [] then
                   (case CopyDataMessage_Encode \<lparr>cd_Sz = of_nat (length bs), cd_Data = bs\<rparr> of
                      None \<Rightarrow> None
                    | Some msg \<Rightarrow> (case conn_Write msg con of ((n, e), con) \<Rightarrow> Some (e, con)))
                 else Some (None, con)) = Some (None, con')"
      using 1(2,3) by (simp add: enc conn_Write_healthy con'_def)
    have con': "\<not> conn_closed con'" "conn_fails con' = None" using 1(2,3) by (auto simp: con'_def)
    from 1(1) [OF r [symmetric] refl step refl refl e con' st(1)] obtain ds where
      ds: "put_stdin stdin' con' = Some (None, con'\<lparr>conn_out := conn_out con' @ concat (map copy_data_packet ds)\<rparr>)"
      "concat ds = body_bytes stdin'" "list_all (\<lambda>d. length d \<le> SZ) ds" by blast
    have eq: "put_stdin stdin con = put_stdin stdin' con'"
      unfolding put_stdin.simps [of stdin con] r prod.case step option.case e by simp
    show ?thesis
    proof (intro exI [of _ "if bs = [] then ds else bs # ds"] conjI)
      show "put_stdin stdin con = Some (None, con\<lparr>conn_out := conn_out con @
          concat (map copy_data_packet (if bs = [] then ds else bs # ds))\<rparr>)"
        unfolding eq ds(1) by (simp add: con'_def)
    qed (use ds(2,3) st in auto)
  qed
qed

text \<open>The bytes of a whole upload command: request, data, end.\<close>

lemma putFunc_sends:
  assumes "putFunc fl [name] stdin con = Some (e, out, con')"
    and "\<not> conn_closed con" "conn_fails con = None" "snd stdin = None"
  shows "\<exists>ds. conn_out con' = conn_out con @ PutMessageV3_Encode (NewPutMessageV3 name (fl_encrypt fl) (put_settings fl)) @
      concat (map copy_data_packet ds) @ CopyDoneMessage_Encode () \<and>
    concat ds = body_bytes stdin \<and> list_all (\<lambda>d. length d \<le> SZ) ds"
proof -
  define y where "y = con\<lparr>conn_out := conn_out con @ PutMessageV3_Encode (NewPutMessageV3 name (fl_encrypt fl) (put_settings fl))\<rparr>"
  have y: "\<not> conn_closed y" "conn_fails y = None" using assms(2,3) by (simp_all add: y_def)
  from put_stdin_sends [OF y assms(4)] obtain ds where
    ds: "put_stdin stdin y = Some (None, y\<lparr>conn_out := conn_out y @ concat (map copy_data_packet ds)\<rparr>)"
    "concat ds = body_bytes stdin" "list_all (\<lambda>d. length d \<le> SZ) ds" by blast
  have "conn_out con' = conn_out y @ concat (map copy_data_packet ds) @ CopyDoneMessage_Encode ()"
    using assms(1-3) y ds(1)
    by (auto simp: putFunc_def send_request_def read_answer_def go_index_def conn_Write_healthy y_def [symmetric]
        bind_eq_Some_conv split: if_splits prod.splits sum.splits)
  with ds(2,3) show ?thesis by (auto simp: y_def)
qed

lemma ends_data_done: "ends_data (CopyDoneMessage_Encode ())"
proof -
  have len: "length (CopyDoneMessage_Encode ()) \<le> unat maxMsgLen"
    by (simp add: CopyDoneMessage_Encode_def Let_def maxMsgLen_eq)
  from copyDone.read_encoded [of "[CopyDoneMessage_Encode ()]" "()" "[]"] len
  obtain body c where "ReadPacket [CopyDoneMessage_Encode ()] = (Inr (MessageTypeCopyDone, body), c)" by auto
  with ReadPacket_spec [of "[CopyDoneMessage_Encode ()]"]
  have "packet_of (CopyDoneMessage_Encode ()) = Inr (MessageTypeCopyDone, body)" by simp
  then show ?thesis by (simp add: ends_data_def)
qed

text \<open>The client is content with the answer \<open>put_reply\<close>.\<close>

lemma read_put_reply:
  assumes "concat c = put_reply True"
  shows "\<exists>b1 c1 b2 c2. ReadPacket c = (Inr (MessageTypePutComplete, b1), c1) \<and>
    PutCompleteMessage_Decode (NewPutCompleteMessage 0) b1 = Some (NewPutCompleteMessage 1) \<and>
    ReadPacket c1 = (Inr (MessageTypeReadyForQuery, b2), c2)"
proof -
  have len: "length (PutCompleteMessage_Encode (NewPutCompleteMessage (ucast SingleKeyEncryption))) \<le> unat maxMsgLen"
    "length (ReadyForQueryMessage_Encode ()) \<le> unat maxMsgLen"
    by (simp_all add: PutCompleteMessage_Encode_def ReadyForQueryMessage_Encode_def Let_def maxMsgLen_eq)
  from putComplete.read_decoded [OF assms [unfolded put_reply_def, simplified] _ len(1)] obtain b1 c1 where
    1: "ReadPacket c = (Inr (MessageTypePutComplete, b1), c1)" "concat c1 = ReadyForQueryMessage_Encode () @ []"
    "PutCompleteMessage_Decode (NewPutCompleteMessage 0) b1 = Some (NewPutCompleteMessage (ucast SingleKeyEncryption))"
    by auto
  from rfq.read_encoded [OF 1(2) len(2)] 1 show ?thesis by (auto simp: SingleKeyEncryption_def)
qed

lemma putFunc_answered:
  assumes "\<not> conn_closed con" "conn_fails con = None" "snd stdin = None" and "concat (conn_in con) = put_reply True"
  shows "\<exists>con'. putFunc fl [name] stdin con = Some (None, [49, 10], con')"
proof -
  define y where "y = con\<lparr>conn_out := conn_out con @ PutMessageV3_Encode (NewPutMessageV3 name (fl_encrypt fl) (put_settings fl))\<rparr>"
  have y: "\<not> conn_closed y" "conn_fails y = None" "conn_in y = conn_in con" using assms(1,2) by (simp_all add: y_def)
  from put_stdin_sends [OF y(1,2) assms(3)] obtain ds where
    ds: "put_stdin stdin y = Some (None, y\<lparr>conn_out := conn_out y @ concat (map copy_data_packet ds)\<rparr>)" by blast
  from read_put_reply [OF assms(4)] obtain b1 c1 b2 c2 where
    "ReadPacket (conn_in con) = (Inr (MessageTypePutComplete, b1), c1)"
    "PutCompleteMessage_Decode (NewPutCompleteMessage 0) b1 = Some (NewPutCompleteMessage 1)"
    "ReadPacket c1 = (Inr (MessageTypeReadyForQuery, b2), c2)" by blast
  moreover have "bytes_of (dec_of_nat (unat (1 :: u16)) @ [CHR 0x0A]) = [49, 10]" by code_simp
  ultimately show ?thesis using assms(1,2) y ds
    by (simp add: putFunc_def send_request_def read_answer_def go_index_def conn_Write_healthy y_def [symmetric]
        NewPutCompleteMessage_def)
qed

section \<open>Serving an upload\<close>

lemma YClient_Close_update_out:
  "snd (YClient_Close (y\<lparr>conn_out := x\<rparr>)) = (snd (YClient_Close y))\<lparr>conn_out := x\<rparr>"
  by (simp add: YClient_Close_def)

lemma ProcConn_put:
  assumes cin: "concat (conn_in ycl) = PutMessageV3_Encode m @ concat (map copy_data_packet ds) @ rest"
    and rest: "ends_data rest" and ds: "list_all (\<lambda>d. length d + 20 \<le> unat maxMsgLen) ds"
    and m: "nul_free (put3_Name m)" "settings_ok (put3_Settings m)" "length (PutMessageV3_Encode m) \<le> unat maxMsgLen"
      "\<not> put3_Encrypt m"
    and lim: "\<not> EnableRateLimiter (StorageCnf (the_instance w))"
    and y: "\<not> conn_closed ycl" "conn_fails ycl = None"
  shows "\<exists>ycl'. ProcConn E sch s bs cr cnf ycl w =
    map_option (\<lambda>(e, w'). (e, ycl'\<lparr>conn_out := conn_out ycl @ (if e = None then put_reply True else [])\<rparr>, w'))
      (PutFileToDest s (put3_Name m) (concat ds, BodyEOF) (put3_Settings m) w)"
proof -
  from putV3.read_decoded [OF cin] m obtain body c where
    r: "ReadPacket (conn_in ycl) = (Inr (MessageTypePutV3, body), c)"
    "concat c = concat (map copy_data_packet ds) @ rest" "PutMessageV3_Decode PutMessageV3_zero body = Some m" by auto
  define y1 where "y1 = SetOPType (sch_opstart sch) MessageTypePutV3 (ycl\<lparr>conn_in := c\<rparr>)"
  have y1: "\<not> conn_closed y1" "conn_fails y1 = None" "conn_out y1 = conn_out ycl" "conn_in y1 = c"
    using y by (simp_all add: y1_def client_simps)
  have "concat (conn_in (SetExternalFilePath (put3_Name m) y1)) = concat (map copy_data_packet ds) @ rest"
    using r(2) y1(4) by (simp add: client_simps)
  from put_feed_plain [OF this rest ds, of E cr] obtain c' n where
    fed: "put_feed E (configured_limiter E w) False cr (SetExternalFilePath (put3_Name m) y1) =
      Some ((concat ds, BodyEOF), SetByteOffset n (SetExternalFilePath (put3_Name m) y1\<lparr>conn_in := c'\<rparr>))"
    by (auto simp: limiter_off [OF lim])
  from ProcessPut_stores [OF fed y1(1,2), of s "put3_Settings m" True] obtain y2 where
    "ProcessPutExtended E s (put3_Name m) False (put3_Settings m) cr True y1 w =
      map_option (\<lambda>(e, w'). (e, y2\<lparr>conn_out := conn_out ycl @ (if e = None then put_reply True else [])\<rparr>, w'))
        (PutFileToDest s (put3_Name m) (concat ds, BodyEOF) (put3_Settings m) w)"
    unfolding y1(3) by blast
  with r m(4) show ?thesis
    by (intro exI [of _ "snd (YClient_Close y2)"])
      (simp add: ProcConn_request [OF r(1)] y1_def [simplified, symmetric] dispatch_def option.map_comp comp_def
        YClient_Close_update_out case_prod_beta')
qed

lemma file_put_returns: "\<exists>e w'. file_PutFileToDest cnf n (bs, BodyEOF) ss w = Some (e, w')"
  by (auto simp: file_PutFileToDest_def Let_def split: prod.splits option.splits)

lemma file_put_get:
  assumes "file_PutFileToDest cnf n body ss w = Some (None, w')"
  shows "\<exists>t. fs_get (host w') (fs_path cnf n) = Some (FileNode (fst body) t)" and "the_instance w' = the_instance w"
  using assms
  by (auto simp: file_PutFileToDest_def Create_def WriteFile_def fs_get_def update_conv' Let_def
      split: prod.splits option.splits body_end.splits if_splits)

section \<open>Obsolete chunks\<close>

text \<open>
  A storage whose objects do not depend on the database, and a backup storage whose reads leave them
  alone: \<open>ProcessDeleteObsolete\<close> touches only files that no backup and no table needs.
\<close>

locale obsolete_mgr = storage st objects key region movable
  for st :: "('r, 'd) world StorageInteractor" and objects key region movable +
  fixes bs :: "('r, 'd) world StorageInteractor" and um :: "byte list \<Rightarrow> u64 option"
  assumes db_free: "objects b (w\<lparr>db := d\<rparr>) = objects b w"
    and backup_free: "GetFirstLSN bs um seg w = Some (r, w') \<Longrightarrow> objects b w' = objects b w"
begin

definition chosen :: "u64 \<Rightarrow> virtual_index \<Rightarrow> string \<Rightarrow> string \<times> u64 \<Rightarrow> bool" where
  "chosen first vi message e \<longleftrightarrow> snd e < first \<and> map_of vi (fst e) \<noteq> Some True \<and> Contains (fst e) message"

lemma expire_frame: "DeleteFromExpireIndex px conn f w = (r, w') \<Longrightarrow> objects b w' = objects b w"
  by (auto simp: DeleteFromExpireIndex_def db_free split: prod.splits sum.splits)

lemma obsolete_loop_frame:
  assumes "\<And>e. e \<in> set ei \<Longrightarrow> chosen first vi message e \<Longrightarrow>
      \<not> region (key (fst e)) k \<and> \<not> region (key (''/trash'' @ fst e)) k"
  shows "objects b (obsolete_loop px conn st first vi message ei w) k = objects b w k"
  using assms
proof (induction ei arbitrary: w)
  case (Cons e ei)
  obtain str v where e: "e = (str, v)" by fastforce
  obtain r w1 where d: "DeleteFromExpireIndex px conn str w = (r, w1)" by fastforce
  obtain rm w2 where m: "MoveObject st (DefaultBucket st) str (''/trash'' @ str) w1 = (rm, w2)" by fastforce
  have ih: "objects b (obsolete_loop px conn st first vi message ei w) k = objects b w k" for w
    using Cons.IH Cons.prems by simp
  have w1: "objects b w1 = objects b w" by (rule expire_frame [OF d])
  show ?case
  proof (cases "chosen first vi message e")
    case True
    with Cons.prems [of e] move_frame [OF m] e have "objects b w2 k = objects b w1 k" by auto
    with True e d m w1 ih show ?thesis by (cases r) (auto simp: chosen_def)
  next
    case False
    with e d w1 ih show ?thesis by (cases r) (auto simp: chosen_def)
  qed
qed simp

lemma obsolete_frame:
  assumes run: "ProcessDeleteObsolete E sch msg st bs ycl w = Some (res, ycl', w')"
    and um: "ext_unmarshal E = um" and order: "\<And>ei. set (sch_expire sch ei) \<subseteq> set ei"
    and ch: "objects b w' k \<noteq> objects b w k"
  shows "\<exists>vi ei w1 first w2 e. GetVirtualExpireIndexes (ext_pgx E) (do_Port msg) w = (Inr (vi, ei), w1) \<and>
    GetFirstLSN bs um (do_Segnum msg) w1 = Some (Inr first, w2) \<and> first \<noteq> - 1 \<and> e \<in> set ei \<and>
    chosen first vi (do_Message msg) e \<and> (region (key (fst e)) k \<or> region (key (''/trash'' @ fst e)) k)"
proof -
  obtain r1 w1 where g: "GetVirtualExpireIndexes (ext_pgx E) (do_Port msg) w = (r1, w1)" by fastforce
  with GetVirtualExpireIndexes_world obtain d where "w1 = w\<lparr>db := d\<rparr>" by blast
  then have o1: "objects b w1 = objects b w" by (simp add: db_free)
  with run g ch obtain vi ei where r1: "r1 = Inr (vi, ei)"
    by (cases r1) (auto simp: ProcessDeleteObsolete_def)
  obtain r2 w2 where f: "GetFirstLSN bs um (do_Segnum msg) w1 = Some (r2, w2)"
    using run g r1 um by (cases "GetFirstLSN bs um (do_Segnum msg) w1") (auto simp: ProcessDeleteObsolete_def)
  have o2: "objects b w2 = objects b w" using backup_free [OF f] o1 by simp
  with run g r1 f um ch obtain first where r2: "r2 = Inr first" by (cases r2) (auto simp: ProcessDeleteObsolete_def)
  have n1: "first \<noteq> - 1" using run g r1 f r2 um ch o2 by (auto simp: ProcessDeleteObsolete_def)
  obtain conn where "w' = obsolete_loop (ext_pgx E) conn st first vi (do_Message msg) (sch_expire sch ei) w2"
    using run g r1 f r2 um n1 ch o2 by (auto simp: ProcessDeleteObsolete_def Let_def split: sum.splits)
  with ch o2 obsolete_loop_frame [of "sch_expire sch ei" first vi "do_Message msg" k b "ext_pgx E" conn w2]
  obtain e where "e \<in> set (sch_expire sch ei)" "chosen first vi (do_Message msg) e"
    "region (key (fst e)) k \<or> region (key (''/trash'' @ fst e)) k" by auto
  with g r1 f r2 n1 order show ?thesis by blast
qed

end

interpretation fileObsolete: obsolete_mgr "FileStorageInteractor cnf" fs_objects "fs_key cnf" in_tree "\<lambda>_ _. True"
  "FileStorageInteractor bcnf" um
proof
  show "fs_objects b (w\<lparr>db := d\<rparr>) = fs_objects b w" for b w d by (simp add: fs_objects_def)
  show "fs_objects b w' = fs_objects b w" if "GetFirstLSN (FileStorageInteractor bcnf) um seg w = Some (r, w')"
    for seg w r w' b
    using fileStorage.GetFirstLSN_frame [OF that] .
qed

section \<open>Files to copy\<close>

text \<open>What is copied and what is reported as skipped, as comprehensions over the source's listing.\<close>

definition to_copy :: "Storage \<Rightarrow> bool \<Rightarrow> virtual_index \<Rightarrow> (string \<times> int) list \<Rightarrow> ObjectInfo \<Rightarrow> bool" where
  "to_copy cfg skipCopy vi copied obj \<longleftrightarrow>
     (skipCopy \<longrightarrow> map_of vi (TrimPrefix (obj_Path obj) (StoragePrefix cfg)) \<noteq> None) \<and>
     map_of copied (obj_Path obj) = None"

lemma copy_filter_spec:
  "fst (copy_filter cfg skipCopy vi copied objs tc sk) = tc @ filter (to_copy cfg skipCopy vi copied) objs"
  by (induction objs arbitrary: tc sk) (auto simp: to_copy_def Let_def)

lemma copy_filter_skipped:
  "set (snd (copy_filter cfg skipCopy vi copied objs tc sk)) = set sk \<union>
     {obj \<in> set objs. map_of vi (TrimPrefix (obj_Path obj) (StoragePrefix cfg)) = None \<or> map_of copied (obj_Path obj) \<noteq> None}"
proof (induction objs arbitrary: tc sk)
  case (Cons obj objs)
  show ?case using Cons.IH by (auto simp: Let_def)
qed simp

end
