(* ===== verification/SessionPool.thy ===== *)
theory SessionPool
  imports Config
begin

text \<open>
  The session pool of the S3 storage, \<open>pkg/storage/sessionpool.go\<close>, as a transition system: any
  number of goroutines call \<open>GetSession\<close>, each one a sequence of the atomic steps of its body.
  The weighted semaphore holds \<open>StorageConcurrency\<close> permits; the gauge \<open>usedConnections\<close> is an
  atomic counter.
\<close>

section \<open>The pool\<close>

datatype pc = Idle | Waiting | Acquired | Creating | Created | Released

record S3SessionPool =
  sem_size :: nat
  sem_held :: nat
  usedConnections :: int
  callers :: "pc list"

definition NewSessionPool :: "Storage \<Rightarrow> nat \<Rightarrow> S3SessionPool" where
  "NewSessionPool cnf n =
     \<lparr>sem_size = nat (StorageConcurrency cnf), sem_held = 0, usedConnections = 0,
      callers = replicate n Idle\<rparr>"

definition StorageUsedConcurrency :: "S3SessionPool \<Rightarrow> int" where
  "StorageUsedConcurrency p = usedConnections p"

text \<open>
  One step of caller \<open>i\<close>: it calls \<open>GetSession\<close>; the semaphore lets it through; the gauge is
  raised; the session is created; then the deferred function releases the semaphore and lowers the
  gauge, in this order.
\<close>

inductive session_step :: "S3SessionPool \<Rightarrow> S3SessionPool \<Rightarrow> bool" where
  enter: "i < length (callers p) \<Longrightarrow> callers p ! i = Idle \<Longrightarrow>
    session_step p (p\<lparr>callers := (callers p)[i := Waiting]\<rparr>)"
| acquire: "i < length (callers p) \<Longrightarrow> callers p ! i = Waiting \<Longrightarrow> sem_held p < sem_size p \<Longrightarrow>
    session_step p (p\<lparr>sem_held := sem_held p + 1, callers := (callers p)[i := Acquired]\<rparr>)"
| raise: "i < length (callers p) \<Longrightarrow> callers p ! i = Acquired \<Longrightarrow>
    session_step p (p\<lparr>usedConnections := usedConnections p + 1, callers := (callers p)[i := Creating]\<rparr>)"
| create: "i < length (callers p) \<Longrightarrow> callers p ! i = Creating \<Longrightarrow>
    session_step p (p\<lparr>callers := (callers p)[i := Created]\<rparr>)"
| release: "i < length (callers p) \<Longrightarrow> callers p ! i = Created \<Longrightarrow>
    session_step p (p\<lparr>sem_held := sem_held p - 1, callers := (callers p)[i := Released]\<rparr>)"
| lower: "i < length (callers p) \<Longrightarrow> callers p ! i = Released \<Longrightarrow>
    session_step p (p\<lparr>usedConnections := usedConnections p - 1, callers := (callers p)[i := Idle]\<rparr>)"

inductive_cases session_stepE: "session_step p q"

section \<open>The invariant\<close>

definition holding :: "pc \<Rightarrow> bool" where
  "holding c \<longleftrightarrow> c = Acquired \<or> c = Creating \<or> c = Created"

definition counted :: "pc \<Rightarrow> bool" where
  "counted c \<longleftrightarrow> c = Creating \<or> c = Created \<or> c = Released"

definition number :: "('a \<Rightarrow> bool) \<Rightarrow> 'a list \<Rightarrow> nat" where
  "number P xs = length (filter P xs)"

lemma number_update:
  "i < length xs \<Longrightarrow>
   number P (xs[i := x]) + (if P (xs ! i) then 1 else 0) = number P xs + (if P x then 1 else 0)"
proof (induction xs arbitrary: i)
  case (Cons y ys)
  show ?case
  proof (cases i)
    case (Suc j)
    with Cons show ?thesis by (auto simp: number_def)
  qed (auto simp: number_def)
qed simp

definition pool_inv :: "S3SessionPool \<Rightarrow> bool" where
  "pool_inv p \<longleftrightarrow>
     sem_held p = number holding (callers p) \<and> sem_held p \<le> sem_size p \<and>
     usedConnections p = int (number counted (callers p))"

lemma pool_inv_init: "pool_inv (NewSessionPool cnf n)"
  by (simp add: pool_inv_def NewSessionPool_def number_def holding_def counted_def)

lemma pool_inv_move:
  assumes "pool_inv p" and i: "i < length (callers p)"
    and h: "sem_held q + of_bool (holding (callers p ! i)) = sem_held p + of_bool (holding c)"
    and u: "usedConnections q + of_bool (counted (callers p ! i)) = usedConnections p + of_bool (counted c)"
    and q: "callers q = (callers p)[i := c]" "sem_held q \<le> sem_size q"
  shows "pool_inv q"
  using assms(1) q h u number_update [OF i, of holding c] number_update [OF i, of counted c]
  by (simp add: pool_inv_def of_bool_def split: if_splits)

lemma held_pos:
  assumes "pool_inv p" and "i < length (callers p)" and "holding (callers p ! i)"
  shows "0 < sem_held p"
  using assms number_update [OF assms(2), of holding Idle] by (simp add: pool_inv_def holding_def)

lemma pool_inv_step:
  assumes "session_step p q" and inv: "pool_inv p"
  shows "pool_inv q \<and> sem_size q = sem_size p"
proof -
  have le: "sem_held p \<le> sem_size p" using inv by (simp add: pool_inv_def)
  from assms(1) show ?thesis
  proof cases
    case (release i)
    then have "0 < sem_held p" using held_pos [OF inv] by (simp add: holding_def)
    with release le show ?thesis
      using pool_inv_move [OF inv, of i q Released] by (simp add: holding_def counted_def)
  next
    case (enter i)
    with le show ?thesis
      using pool_inv_move [OF inv, of i q Waiting] by (simp add: holding_def counted_def)
  next
    case (acquire i)
    with le show ?thesis
      using pool_inv_move [OF inv, of i q Acquired] by (simp add: holding_def counted_def)
  next
    case (raise i)
    with le show ?thesis
      using pool_inv_move [OF inv, of i q Creating] by (simp add: holding_def counted_def)
  next
    case (create i)
    with le show ?thesis
      using pool_inv_move [OF inv, of i q Created] by (simp add: holding_def counted_def)
  next
    case (lower i)
    with le show ?thesis
      using pool_inv_move [OF inv, of i q Idle] by (simp add: holding_def counted_def)
  qed
qed

lemma pool_reachable:
  "session_step\<^sup>*\<^sup>* p q \<Longrightarrow> pool_inv p \<Longrightarrow> pool_inv q \<and> sem_size q = sem_size p"
  by (induction rule: rtranclp_induct) (auto dest: pool_inv_step)

lemma number_creating_le: "number (\<lambda>c. c = Creating) xs \<le> number holding xs"
  by (induction xs) (auto simp: number_def holding_def)

text \<open>With a permit, some caller can always go on.\<close>

lemma session_callers: "session_step\<^sup>*\<^sup>* p q \<Longrightarrow> length (callers q) = length (callers p)"
  by (induction rule: rtranclp_induct) (auto elim!: session_stepE)

lemma session_progress:
  assumes "pool_inv p" and "0 < sem_size p" and "callers p \<noteq> []"
  shows "\<exists>q. session_step p q"
proof (cases "\<exists>i < length (callers p). callers p ! i \<noteq> Waiting")
  case True
  then obtain i where i: "i < length (callers p)" "callers p ! i \<noteq> Waiting" by blast
  then show ?thesis by (cases "callers p ! i") (auto intro: session_step.intros)
next
  case False
  then have "list_all (\<lambda>c. c = Waiting) (callers p)" by (simp add: list_all_length)
  then have "number holding (callers p) = 0" by (auto simp: number_def holding_def list_all_iff filter_empty_conv)
  with assms have "sem_held p < sem_size p" by (simp add: pool_inv_def)
  moreover have "0 < length (callers p)" using assms(3) by simp
  ultimately show ?thesis using False session_step.acquire [of 0 p] by auto
qed

end
