(* ===== verification/Samples.thy ===== *)
theory Samples
  imports Serving SessionPool
begin

text \<open>
  A small installation on which statements of the development can be evaluated: a file storage with
  four chunks and a backup storage with one backup, a database with one table's index, the in-memory
  S3 service of \<open>Storages\<close> and the tagging cipher of \<open>Crypt\<close>.
\<close>

text \<open>
  The database answers every connection with the same rows: \<open>/live\<close> is in the virtual index,
  \<open>/old\<close> expired at LSN 5 and \<open>/kept\<close> at LSN 20.
\<close>

definition sample_pgx :: "unit pgx" where
  "sample_pgx = \<lparr>
     ParseEnvLibpq = None, RuntimeParams = [],
     pgx_Connect = (\<lambda>port name params d. None),
     pgx_Query = (\<lambda>port name sql args d.
       (Inr \<lparr>row_list =
           (if sql = q_databases then [Inr [''1663'', ''5'', ''postgres''], Inr [''1663'', ''16384'', ''app'']]
            else if sql = q_schema then [Inr [''t'']]
            else if sql = q_version then [Inr [''1.8.4'']]
            else if sql = q_expire then [Inr [''/old'', ''5''], Inr [''/kept'', ''20'']]
            else if sql = q_virtual then [Inr [''/live'']]
            else if sql = q_lsn then [Inr [''30'']]
            else []), rows_Err = None\<rparr>, d)),
     ParseLSN = (\<lambda>s. Inr (of_nat (nat_of_dec 0 s))),
     FormatLSN = (\<lambda>n. dec_of_nat (unat n)),
     TestMode = True\<rparr>"

text \<open>A sentinel holds its LSN in one byte.\<close>

definition sample_unmarshal :: "byte list \<Rightarrow> u64 option" where
  "sample_unmarshal bs = (case bs of [b] \<Rightarrow> Some (ucast b) | _ \<Rightarrow> None)"

definition sample_cnf :: Storage where
  "sample_cnf = Storage_zero\<lparr>StoragePrefix := ''/data/'', StorageBucket := ''b'', StorageType := ''fs''\<rparr>"

definition sample_backup_cnf :: Storage where
  "sample_backup_cnf = Storage_zero\<lparr>StoragePrefix := ''/backup/'', StorageBucket := ''b'', StorageType := ''fs''\<rparr>"

definition sample_fs :: fs where
  "sample_fs =
     [(''/data'', DirNode), (''/data/live'', FileNode [1] 0), (''/data/old'', FileNode [2, 3] 0),
      (''/data/kept'', FileNode [4] 0), (''/data/fresh'', FileNode [5] 990),
      (''/backup'', DirNode), (''/backup/segments_005'', DirNode), (''/backup/segments_005/seg0'', DirNode),
      (''/backup/segments_005/seg0/basebackups_005'', DirNode),
      (''/backup/segments_005/seg0/basebackups_005/base_backup_stop_sentinel.json'', FileNode [10] 0)]"

definition sample_world :: "(mem, unit) world" where
  "sample_world = \<lparr>host = sample_fs, clock = 1000, the_instance = Instance_zero, cacheFile = NoCacheFile,
     multipartUploads = [], remote = [((''b'', ''pre/a''), [7]), ((''b'', ''pre/c''), [8])], db = ()\<rparr>"

definition sample_vacuum :: Vacuum where
  "sample_vacuum = (BuildVacuum [])\<lparr>ProtectionWindow := 100\<rparr>"

definition sample_ext :: "(mem, unit, unit, unit, unit) externals" where
  "sample_ext = \<lparr>ext_s3 = mem_s3,
     ext_decoders = \<lparr>toml_Decode = (\<lambda>_ i. (None, i)), yaml_Decode = (\<lambda>_ i. (None, i)), json_Decode = (\<lambda>_ i. (None, i))\<rparr>,
     ext_unmarshal = sample_unmarshal, ext_pgx = sample_pgx, ext_pgp = tag_pgp, ext_sizes = (\<lambda>_ _. []),
     ext_limiter = \<lparr>Burst = 2, WaitN = (\<lambda>_. None)\<rparr>\<rparr>"

definition sample_sch :: scheduling where
  "sample_sch = \<lparr>sch_opstart = 1000, sch_now = (\<lambda>_. 1000), sch_file_now = (\<lambda>_ _. 1000),
     sch_workers = (\<lambda>_ _. []), sch_copy = (\<lambda>_ xs. xs), sch_expire = (\<lambda>xs. xs)\<rparr>"

abbreviation sample_storage :: "(mem, unit) world StorageInteractor" where
  "sample_storage \<equiv> FileStorageInteractor sample_cnf"

abbreviation sample_backups :: "(mem, unit) world StorageInteractor" where
  "sample_backups \<equiv> FileStorageInteractor sample_backup_cnf"

abbreviation sample_mgr :: "(mem, unit) world BasicGarbageMgr" where
  "sample_mgr \<equiv> server_mgr sample_storage sample_backups sample_unmarshal sample_pgx sample_vacuum"

definition sample_garbage_msg :: DeleteMessage where
  "sample_garbage_msg = \<lparr>del_Name = [], del_Port = 6000, del_Segnum = 0, del_Confirm = True, del_Garbage = True,
     del_CrazyDrop = False\<rparr>"

text \<open>A client that is served, and an S3 storage on the in-memory service.\<close>

definition sample_client :: "byte list list \<Rightarrow> YClient" where
  "sample_client cin = NewYClient cin None"

definition sample_s3 :: S3Storage where
  "sample_s3 = \<lparr>s3_cnf = Storage_zero\<lparr>StoragePrefix := ''pre'', StorageBucket := ''b''\<rparr>,
     TSToBucketMap = [(''pg_default'', ''b'')],
     credentialMap = [(''b'', \<lparr>AccessKeyId = [], SecretAccessKey = []\<rparr>)]\<rparr>"

definition sample_flags :: flags where
  "sample_flags = \<lparr>fl_cfgPath = [], fl_oldCfgPath = [], fl_logLevel = [], fl_decrypt = False, fl_useKEK = False, fl_ssCopy = False,
     fl_encrypt = False, fl_storageClass = ''STANDARD'', fl_tableSpace = ''pg_default'',
     fl_multipartChunkSize = 16, fl_multipartUpload = True, fl_offset = 0, fl_segmentPort = 6000,
     fl_segmentNum = 0, fl_confirm = True, fl_garbage = False, fl_crazyDrop = False\<rparr>"



definition sample_cat :: CatMessageV2 where
  "sample_cat = NewCatMessageV2 ''f'' True False 3 [\<lparr>sett_Name = ''TableSpace'', sett_Value = ''x''\<rparr>]"

text \<open>What the evaluations share.\<close>

lemma sample_unlimited: "\<not> EnableRateLimiter (StorageCnf (the_instance sample_world))"
  by code_simp

lemma sample_old: "fs_get (host sample_world) (fs_path sample_cnf ''old'') = Some (FileNode [2, 3] 0)"
  by code_simp

lemma sample_new: "fs_path sample_cnf ''new'' = ''/data/new''"
  by code_simp

lemma sample_put: "\<exists>w'. file_PutFileToDest sample_cnf ''new'' (bs, BodyEOF) ss sample_world = Some (None, w')"
proof -
  have "map_option fst (file_PutFileToDest sample_cnf ''new'' (bs, BodyEOF) ss sample_world) = Some None"
    by code_simp
  then show ?thesis by (rule map_option_fst_Some)
qed

end
