(* ===== verification/StorageProperties.thy ===== *)
theory StorageProperties
  imports Samples
begin

text \<open>
  The properties of the storages and of the S3 session pool, each with a witness on the
  installation of \<open>Samples\<close>.
\<close>

section \<open>Storages\<close>

text \<open>
  C8. The file storage keeps the contract the handlers rely on (the locale \<open>storage\<close>): reading and
  listing change no object, deleting and moving touch only what they name, a successful delete
  removes the object, a successful move puts its content at the target, and a failed move leaves it
  at the source or the target.
\<close>

theorem file_storage_contract:
  "storage (FileStorageInteractor cnf :: ('r, 'd) world StorageInteractor) fs_objects (fs_key cnf) in_tree (\<lambda>_ _. True)"
  by (rule fileStorage.storage_axioms)



text \<open>
  An upload that the S3 storage reports as done has stored exactly the body under the object's
  path in the bucket of its tablespace, has changed no other object of any bucket, and its body had
  come to a proper end.
\<close>

lemma s3_put_stored:
  assumes "s3_documented api objs" and "s3_PutFileToDest api s name body setts w = Some (None, w')"
  shows "\<exists>bucket. tablespace_bucket s setts = Inr bucket \<and> snd body = BodyEOF \<and>
    objs (remote w') = (objs (remote w))(bucket := (objs (remote w) bucket)(objectPath s name \<mapsto> fst body))"
  using assms by (intro s3_put_effect) (simp_all add: s3_documented_def)

text \<open>
  C34. Paging: a bucket listing visits the pages the service serves, however many, and returns the
  objects below the storage prefix in the order of the service, each with its path below that
  prefix; it panics when an object's key is the storage prefix itself.
\<close>

theorem s3_listing_pages:
  assumes "acquire api s bucket w = (Inr sess, w1)"
    and "serves (api_ListObjectsV2 api sess bucket (objectPath s p)) None (remote w1) pages r"
  shows "s3_ListBucketPath api s bucket p False w =
    (let pre = StoragePrefix (s3_cnf s); objs = concat (map out_Contents pages) in
     if list_ex (\<lambda>obj. s3_Key obj = pre) objs then None
     else Some (Inr (map (listed pre) (filter (\<lambda>obj. HasPrefix (s3_Key obj) pre) objs)), w1\<lparr>remote := r\<rparr>))"
  using assms list_pages_serves [OF assms(2), of "StoragePrefix (s3_cnf s)" "[]"]
  by (simp add: s3_ListBucketPath_def list_contents_spec Let_def)

theorem s3_listing_pages_witness:
  "s3_ListBucketPath mem_s3 sample_s3 ''b'' [] False sample_world =
     Some (Inr [\<lparr>obj_Path = ''/a'', obj_Size = 1, obj_LastMod = 0\<rparr>, \<lparr>obj_Path = ''/c'', obj_Size = 1, obj_LastMod = 0\<rparr>],
       sample_world)"
proof -
  let ?page = "\<lparr>out_Contents = [\<lparr>s3_Key = ''pre/a'', s3_Size = 1, s3_LastModified = 0\<rparr>,
      \<lparr>s3_Key = ''pre/c'', s3_Size = 1, s3_LastModified = 0\<rparr>], out_IsTruncated = False, out_NextContinuationToken = None\<rparr>"
  let ?sess = "(s3_cnf sample_s3, \<lparr>AccessKeyId = [], SecretAccessKey = []\<rparr>)"
  have a: "acquire mem_s3 sample_s3 ''b'' sample_world = (Inr ?sess, sample_world)" by code_simp
  have "serves (api_ListObjectsV2 mem_s3 ?sess ''b'' (objectPath sample_s3 [])) None (remote sample_world) [?page]
      (remote sample_world)" by code_simp
  from s3_listing_pages [OF a this] show ?thesis by (simp add: sample_s3_def listed_def HasPrefix_def)
qed

text \<open>
  The path that a listing reports for a key addresses that same key when it is handed back to a
  delete or a move, for a storage prefix and keys of ordinary path elements.
\<close>

lemma listed_path_addresses_key:
  assumes "ps \<noteq> []" "list_all plain ps" and "qs \<noteq> []" "list_all plain qs" and "s3_Key obj = JoinSlash (ps @ qs)"
  shows "s3_key (JoinSlash ps) (obj_Path (listed (JoinSlash ps) obj)) = s3_Key obj"
  by (rule s3_key_listed [OF assms])

text \<open>
  The listing cache: a listing that was answered by the service and cached is answered from
  the cache the next time, without those objects whose path does not start with the storage prefix,
  which is cut from the paths of all of them.
\<close>

lemma cached_listing:
  assumes "BucketCachePath (ProxyCnf (the_instance w)) \<noteq> []" "cacheFile w \<noteq> BadText"
    and "isl (readCache api (s3_cnf s) p w)" and "s3_ListPath api s p True setts w = Some (Inr ms, w')"
  shows "s3_ListPath api s p' True setts w' =
    Some (Inr (filter (\<lambda>obj. HasPrefix (obj_Path obj) (Join [''/'', StoragePrefix (s3_cnf s), p'])) ms), w')"
proof -
  from assms(3,4) obtain b where "s3_ListBucketPath api s b p True w = Some (Inr ms, w')"
    by (auto simp: s3_ListPath_def Let_def isl_def split: sum.splits)
  from s3_ListBucketPath_cached [OF this] obtain r where
    "w' = snd (putInCache (storage_ID api (s3_cnf s)) ms (w\<lparr>remote := r\<rparr>))" ..
  with cache_read_back [of "w\<lparr>remote := r\<rparr>" api "s3_cnf s" ms _ w' p'] assms(1,2) show ?thesis
    by (cases "putInCache (storage_ID api (s3_cnf s)) ms (w\<lparr>remote := r\<rparr>)") (auto simp: s3_ListPath_def)
qed

text \<open>
  C26. The session pool, for any number of goroutines and any interleaving of their steps: the
  semaphore never admits more callers than \<open>StorageConcurrency\<close>, so no more sessions are created at
  once; the gauge equals the number of callers between its raising and its lowering; and with at
  least one permit the callers never block each other for ever.
\<close>

theorem session_pool_bounded:
  assumes "session_step\<^sup>*\<^sup>* (NewSessionPool cnf n) p"
  shows "int (number (\<lambda>c. c = Creating) (callers p)) \<le> max 0 (StorageConcurrency cnf) \<and>
    StorageUsedConcurrency p = int (number counted (callers p)) \<and>
    (0 < StorageConcurrency cnf \<and> 0 < n \<longrightarrow> (\<exists>q. session_step p q))"
proof -
  have inv: "pool_inv p" and size: "sem_size p = nat (StorageConcurrency cnf)"
    using pool_reachable [OF assms pool_inv_init] by (simp_all add: NewSessionPool_def)
  have "length (callers p) = n" using session_callers [OF assms] by (simp add: NewSessionPool_def)
  then have "\<exists>q. session_step p q" if "0 < StorageConcurrency cnf \<and> 0 < n"
    using that size by (intro session_progress [OF inv]) auto
  moreover have "int (number (\<lambda>c. c = Creating) (callers p)) \<le> max 0 (StorageConcurrency cnf)"
    using inv size number_creating_le [of "callers p"] int_nat_eq [of "StorageConcurrency cnf"]
    unfolding pool_inv_def max_def by linarith
  ultimately show ?thesis using inv by (simp add: pool_inv_def StorageUsedConcurrency_def)
qed

theorem session_pool_bounded_witness:
  "let p = NewSessionPool (Storage_zero\<lparr>StorageConcurrency := 1\<rparr>) 2 in
   \<exists>q. session_step p q \<and> int (number (\<lambda>c. c = Creating) (callers q)) \<le> 1 \<and> (\<exists>r. session_step q r)"
proof -
  let ?cnf = "Storage_zero\<lparr>StorageConcurrency := 1\<rparr>"
  let ?p = "NewSessionPool ?cnf 2"
  have s: "session_step ?p (?p\<lparr>callers := (callers ?p)[0 := Waiting]\<rparr>)"
    by (rule session_step.enter) (simp_all add: NewSessionPool_def)
  with session_pool_bounded [of ?cnf 2 "?p\<lparr>callers := (callers ?p)[0 := Waiting]\<rparr>"] show ?thesis
    unfolding Let_def by (intro exI [of _ "?p\<lparr>callers := (callers ?p)[0 := Waiting]\<rparr>"]) auto
qed

end
