(* ===== verification/GarbageProperties.thy ===== *)
theory GarbageProperties
  imports Samples
begin

text \<open>
  The properties of the garbage manager, its workers and the trash, each with a witness
  on the installation of \<open>Samples\<close>.
\<close>

section \<open>Two runs\<close>


lemma sample_garbage_run:
  "\<exists>w'. DeleteGarbageInBucket sample_mgr 1000 (\<lambda>_. []) ''b'' sample_garbage_msg sample_world = Some (None, w') \<and>
     fs_objects ''b'' w' ''/data/old'' = None \<and> fs_objects ''b'' sample_world ''/data/old'' = Some [2, 3]"
proof -
  have "map_option (\<lambda>(r, w'). (r, fs_objects ''b'' w' ''/data/old''))
      (DeleteGarbageInBucket sample_mgr 1000 (\<lambda>_. []) ''b'' sample_garbage_msg sample_world) = Some (None, None)"
    by code_simp
  moreover have "fs_objects ''b'' sample_world ''/data/old'' = Some [2, 3]" by code_simp
  ultimately show ?thesis by auto
qed


section \<open>Garbage\<close>

text \<open>
  C10. Garbage collection deletes no data that is in use: whatever object of a file storage a run
  over a bucket changed, it belongs to a file that the bucket's listing reported, that the virtual
  index of no table marks as live, that was last modified at least the protection window before the
  start, and whose expiry, if the expire index knows it, precedes the first backup that is kept; or
  it is that file's place in the trash.
\<close>

theorem garbage_only:
  assumes "DeleteGarbageInBucket (server_mgr (FileStorageInteractor cnf) (FileStorageInteractor bcnf) um px vcnf)
      now scheds b msg w = Some (res, w')"
    and "fs_objects b' w' k \<noteq> fs_objects b' w k"
  shows "\<exists>first vi ei wl metas wd w0 f. f \<in> set metas \<and>
    ListBucketPath (FileStorageInteractor cnf) b (del_Name msg) True w0 = Some (Inr metas, wl) \<and>
    GetVirtualExpireIndexes px (del_Port msg) wl = (Inr (vi, ei), wd) \<and>
    (if CheckBackup vcnf then GetFirstLSN (FileStorageInteractor bcnf) um (del_Segnum msg) w = Some (Inr first, w0)
     else first = - 1 \<and> w0 = w) \<and>
    map_of vi (obj_Path f) \<noteq> Some True \<and> obj_LastMod f + max 0 (ProtectionWindow vcnf) \<le> now \<and>
    (\<forall>lsn. map_of ei (obj_Path f) = Some lsn \<longrightarrow> lsn < first) \<and>
    (in_tree (fs_key cnf (obj_Path f)) k \<or>
     \<not> del_CrazyDrop msg \<and> in_tree (fs_key cnf (TrashPathFromRegPath (obj_Path f) (sint (del_Segnum msg)))) k)"
  using fileGarbage.garbage_changed [OF assms] unfolding fileGarbage.touched_def server_mgr_simps by blast

theorem garbage_only_witness:
  "\<exists>w' f. DeleteGarbageInBucket sample_mgr 1000 (\<lambda>_. []) ''b'' sample_garbage_msg sample_world = Some (None, w') \<and>
    fs_objects ''b'' w' ''/data/old'' \<noteq> fs_objects ''b'' sample_world ''/data/old'' \<and>
    obj_LastMod (f :: ObjectInfo) + 100 \<le> 1000 \<and> (in_tree (fs_key sample_cnf (obj_Path f)) ''/data/old'' \<or>
     in_tree (fs_key sample_cnf (TrashPathFromRegPath (obj_Path f) 0)) ''/data/old'')"
proof -
  from sample_garbage_run obtain w' where
    run: "DeleteGarbageInBucket sample_mgr 1000 (\<lambda>_. []) ''b'' sample_garbage_msg sample_world = Some (None, w')"
    and ch: "fs_objects ''b'' w' ''/data/old'' \<noteq> fs_objects ''b'' sample_world ''/data/old''" by auto
  have pw: "max 0 (ProtectionWindow sample_vacuum) = 100" "sint (del_Segnum sample_garbage_msg) = 0"
    "\<not> del_CrazyDrop sample_garbage_msg \<longleftrightarrow> True" by code_simp+
  from garbage_only [OF run ch, unfolded pw] obtain f :: ObjectInfo where "obj_LastMod f + 100 \<le> 1000"
    "in_tree (fs_key sample_cnf (obj_Path f)) ''/data/old'' \<or>
     in_tree (fs_key sample_cnf (TrashPathFromRegPath (obj_Path f) 0)) ''/data/old''"
    unfolding simp_thms by blast
  with run ch show ?thesis by (intro exI conjI)
qed





text \<open>
  Without confirmation a delete request changes no object of a file storage, neither for a
  single file nor for garbage.
\<close>

lemma delete_dry_run:
  assumes "\<not> del_Confirm msg"
    and "ProcessDeleteExtended E sch msg (FileStorageInteractor cnf) (FileStorageInteractor bcnf) vcnf ycl w =
      Some (e, ycl', w')"
  shows "fs_objects b w' = fs_objects b w"
proof -
  let ?dh = "server_mgr (FileStorageInteractor cnf) (FileStorageInteractor bcnf) (ext_unmarshal E) (ext_pgx E) vcnf"
  obtain res where r: "(if del_Garbage msg then HandleDeleteGarbage ?dh (sch_now sch) (sch_workers sch) msg w
      else HandleDeleteFile ?dh msg w) = Some (res, w')"
    using assms(2) by (auto simp: ProcessDeleteExtended_def Let_def finish_request_def
        split: if_splits option.splits prod.splits)
  show ?thesis
  proof (cases "del_Garbage msg")
    case True
    with r have "HandleDeleteGarbage ?dh (sch_now sch) (sch_workers sch) msg w = Some (res, w')" by simp
    then show ?thesis
      unfolding HandleDeleteGarbage_def
    proof (rule for_buckets_keeps [where P = "\<lambda>v. fs_objects b v = fs_objects b w"], goal_cases)
      case (2 b1 v r v')
      from fileGarbage.garbage_dry_run [OF 2(2) assms(1)] 2(3) show ?case by simp
    qed simp
  next
    case False
    with r assms(1) show ?thesis by (simp add: HandleDeleteFile_def)
  qed
qed



section \<open>The workers\<close>







section \<open>The trash\<close>

text \<open>
  C13. Emptying the trash deletes only trash that is past its retention: whatever object of a file
  storage a run changed belongs to a file of the listing whose path contains \<open>trash\<close> and which was
  last modified, to the second, longer ago than the configured retention.
\<close>

theorem trash_only:
  assumes "DeletePrefixInBucket (server_mgr (FileStorageInteractor cnf) (FileStorageInteractor bcnf) um px vcnf)
      now scheds b msg w = Some (res, w')"
    and "fs_objects b' w' k \<noteq> fs_objects b' w k"
  shows "\<exists>fl w1 i. ListBucketPath (FileStorageInteractor cnf) b (del2_Prefix msg) True w = Some (Inr fl, w1) \<and>
    i < length fl \<and> Contains (obj_Path (fl ! i)) ''trash'' \<and>
    (obj_LastMod (fl ! i) + trashRetention vcnf) div Second < now i div Second \<and>
    in_tree (fs_key cnf (obj_Path (fl ! i))) k"
  using fileGarbage.trash_changed [OF assms]
  by (auto simp: ListDelete2Files_def split: option.splits sum.splits)

theorem trash_only_witness:
  "let w = sample_world\<lparr>host := (''/data/trash'', DirNode) # (''/data/trash/x'', FileNode [6] 0) # sample_fs\<rparr> in
   \<exists>w' f. DeletePrefixInBucket sample_mgr (\<lambda>_. 1000000 * Second) (\<lambda>_. []) ''b''
      \<lparr>del2_Prefix = ''trash'', del2_Confirm = True, del2_Garbage = True\<rparr> w = Some (None, w') \<and>
    fs_objects ''b'' w' ''/data/trash/x'' = None \<and> Contains (obj_Path (f :: ObjectInfo)) ''trash'' \<and>
    in_tree (fs_key sample_cnf (obj_Path f)) ''/data/trash/x''"
proof -
  let ?w = "sample_world\<lparr>host := (''/data/trash'', DirNode) # (''/data/trash/x'', FileNode [6] 0) # sample_fs\<rparr>"
  let ?m = "\<lparr>del2_Prefix = ''trash'', del2_Confirm = True, del2_Garbage = True\<rparr>"
  have "map_option (\<lambda>(r, w'). (r, fs_objects ''b'' w' ''/data/trash/x''))
      (DeletePrefixInBucket sample_mgr (\<lambda>_. 1000000 * Second) (\<lambda>_. []) ''b'' ?m ?w) = Some (None, None)" by code_simp
  then obtain w' where r: "DeletePrefixInBucket sample_mgr (\<lambda>_. 1000000 * Second) (\<lambda>_. []) ''b'' ?m ?w = Some (None, w')"
    and n: "fs_objects ''b'' w' ''/data/trash/x'' = None" by auto
  have o: "fs_objects ''b'' ?w ''/data/trash/x'' = Some [6]" by code_simp
  with n have "fs_objects ''b'' w' ''/data/trash/x'' \<noteq> fs_objects ''b'' ?w ''/data/trash/x''" by simp
  from trash_only [OF r this] r n show ?thesis unfolding Let_def by blast
qed



end
