(* ===== verification/ReaderProperties.thy ===== *)
theory ReaderProperties
  imports Samples
begin

text \<open>
  The properties of the readers and writers between a storage and a client, of the backups and of the
  database indexes, each with a witness on the installation of \<open>Samples\<close>.
\<close>

section \<open>Readers and writers\<close>



text \<open>
  With the rate limiter on, an upload is cut off and reported as complete: a chunk larger than
  the limiter's burst is written only up to the burst, the loop ends at the short count, and what was
  written so far is stored, whatever the client sends after it.
\<close>

lemma limiter_truncates_upload:
  assumes "concat (conn_in ycl) = copy_data_packet d @ rest" and "length d + 20 \<le> unat maxMsgLen"
    and "EnableRateLimiter (StorageCnf (the_instance w))"
    and "0 \<le> Burst (ext_limiter E)" "Burst (ext_limiter E) < int (length d)"
    and "\<not> conn_closed ycl" "conn_fails ycl = None"
    and "file_PutFileToDest cnf name (take (nat (Burst (ext_limiter E))) d, BodyEOF) ss w = Some (None, w')"
  shows "\<exists>ycl'. ProcessPutExtended E (FileStorageInteractor cnf) name False ss cr kv ycl w = Some (None, ycl', w') \<and>
    conn_out ycl' = conn_out ycl @ put_reply kv"
proof -
  let ?l = "ext_limiter E" and ?y = "SetExternalFilePath name ycl"
  let ?q = "(NewYproxyWriter [])\<lparr>yw_selfCl_offset := ByteOffset ?y\<rparr>"
  have d47: "length d < 2 ^ 47" using assms(2) by (simp add: maxMsgLen_eq)
  have lim: "configured_limiter E w = Some ?l" using assms(3) by (simp add: configured_limiter_def)
  from ReadPacket_copy_data [OF assms(1,2)] obtain c1 where
    c1: "ReadPacket (conn_in ?y) = (Inr (MessageTypeCopyData, drop 8 (copy_data_packet d)), c1)"
    by (auto simp: client_simps)
  have sz: "sint (of_nat (length d) :: u64) = int (length d)" using d47 by (subst sint_unat_u64) simp_all
  have "d \<noteq> []" using assms(4,5) by auto
  then have wr: "put_write (Some ?l) d ?q = Some ((nat (Burst ?l), None),
      \<lparr>yw_underlying = take (nat (Burst ?l)) d, yw_offsetReached = Burst ?l, yw_selfCl_offset = Burst ?l\<rparr>)"
    using assms(4,5) by (simp add: put_write_def YproxyWriter_Write_def limiter_Write_def Let_def Writer_getBurstableLimit_def
        pipe_Write_def NewYproxyWriter_def Let_def min_def nat_less_iff)
  have "put_loop (put_write (Some ?l)) (conn_in ?y) ?q =
      Some (\<lparr>yw_underlying = take (nat (Burst ?l)) d, yw_offsetReached = Burst ?l, yw_selfCl_offset = Burst ?l\<rparr>, c1)"
    using c1 wr sz assms(4,5) CopyDataMessage_Decode_packet [OF d47, of NewCopyDataMessage]
    by (subst put_loop.simps) simp
  then have "put_feed E (configured_limiter E w) False cr ?y =
      Some ((take (nat (Burst ?l)) d, BodyEOF), SetByteOffset (Burst ?l) (?y\<lparr>conn_in := c1\<rparr>))"
    unfolding lim by (simp add: put_feed_def Let_def)
  from ProcessPut_stores [OF this assms(6,7), of "FileStorageInteractor cnf" ss kv] assms(8) show ?thesis
    by (auto simp: FileStorageInteractor_def)
qed

text \<open>
  The retrying reader drops data when an error comes together with bytes: the bytes that the
  failed read delivered are counted in the position but never returned, and the caller gets the ones
  after them instead.
\<close>

lemma partial_read_lost:
  assumes "\<not> needReacquire y" and "read k (rr_underlying y) = Some ((Some lost, Some err), q1)" "err \<noteq> EOF"
    and "restart (offsetReached y + int (length lost)) q1 = (None, q2)" "read k q2 = Some ((Some bs, None), q3)"
  shows "\<exists>y'. YproxyRetryReader_Read restart read k y = Some ((Some bs, None), y') \<and>
    offsetReached y' = offsetReached y + int (length lost) + int (length bs)"
  using assms by (simp add: YproxyRetryReader_Read_def defaultRetryLimit_def numeral_eq_Suc Let_def)

section \<open>Backups and the database\<close>

text \<open>
  C32. The LSN of the first backup is the least one of the backups of the segment whose sentinel can
  be read and decoded, or the largest number when there is none.
\<close>

theorem first_backup:
  assumes "GetFirstLSN (FileStorageInteractor cnf) um seg w = Some (Inr first, w')"
  shows "\<exists>objs. ListPath (FileStorageInteractor cnf) (backup_prefix seg) True [] w = Some (Inr objs, w) \<and> w' = w \<and>
    (\<forall>obj \<in> set objs. \<forall>lsn. readable (FileStorageInteractor cnf) um w obj = Some lsn \<longrightarrow> first \<le> lsn) \<and>
    (first = - 1 \<or> (\<exists>obj \<in> set objs. readable (FileStorageInteractor cnf) um w obj = Some first))"
proof -
  have cat: "snd (CatFileFromStorage (FileStorageInteractor cnf) n 0 [] v) = v" for n v
    using file_Cat_world [of cnf n 0 "[]" v] by (cases "file_CatFileFromStorage cnf n 0 [] v")
      (auto simp: FileStorageInteractor_def)
  obtain objs v where l: "ListPath (FileStorageInteractor cnf) (backup_prefix seg) True [] w = Some (Inr objs, v)"
    using assms by (auto simp: GetFirstLSN_def split: option.splits sum.splits)
  then have "v = w" by (auto simp: FileStorageInteractor_def dest: file_ListPath_world)
  with assms l min_lsn_spec [OF cat, of um objs "- 1" w]
  have "w' = w" "first = foldl (\<lambda>m obj. case readable (FileStorageInteractor cnf) um w obj of None \<Rightarrow> m | Some lsn \<Rightarrow> min m lsn)
      (- 1) objs" by (auto simp: GetFirstLSN_def)
  with l \<open>v = w\<close> foldl_min_bound [of "readable (FileStorageInteractor cnf) um w" "- 1" objs] show ?thesis by auto
qed

theorem first_backup_witness:
  "\<exists>objs. ListPath sample_backups (backup_prefix 0) True [] sample_world = Some (Inr objs, sample_world) \<and>
    (\<forall>obj \<in> set objs. \<forall>lsn. readable sample_backups sample_unmarshal sample_world obj = Some lsn \<longrightarrow> 10 \<le> lsn)"
proof -
  have "map_option fst (GetFirstLSN sample_backups sample_unmarshal 0 sample_world) = Some (Inr 10)" by code_simp
  from map_option_fst_Some [OF this] obtain w' where
    "GetFirstLSN sample_backups sample_unmarshal 0 sample_world = Some (Inr 10, w')" by blast
  from first_backup [OF this] show ?thesis by blast
qed



end
