(* ===== verification/ConsoleAst.thy ===== *)
theory ConsoleAst
  imports YPrelude
begin

text \<open>
  The syntax trees and symbols of the console's query language (\<open>pkg/core/parser/ast.go\<close>, and the
  declarations at the head of \<open>gram.go\<close>). A variable of the interface type \<open>Node\<close> may be nil, so a
  field of that type is an \<open>option\<close>.
\<close>

section \<open>Syntax trees\<close>

datatype Node =
    SayHelloCommand
  | ShowCommand string
  | KKBCommand
  | CopyCommand string "Node option list"
  | OptionNode string "Node option"
  | AExprSConst string
  | AExprIConst int
  | AExprBConst bool

section \<open>Symbols\<close>

text \<open>\<open>yySymType\<close>: the value the lexer fills in for a token, and an entry of the parser's stack.\<close>

record yySymType =
  sym_yys :: int
  sym_str :: string
  sym_int :: int
  sym_node :: "Node option"
  sym_nodeList :: "Node option list"
  sym_bool :: bool

definition zero_sym :: yySymType where
  "zero_sym = \<lparr>sym_yys = 0, sym_str = [], sym_int = 0, sym_node = None, sym_nodeList = [], sym_bool = False\<rparr>"

section \<open>Token codes\<close>

definition SAY :: int where "SAY = 57346"
definition HELLO :: int where "HELLO = 57347"
definition SHOW :: int where "SHOW = 57348"
definition COPY :: int where "COPY = 57349"
definition WITH :: int where "WITH = 57350"
definition TOPENBR :: int where "TOPENBR = 57351"
definition TCLOSEBR :: int where "TCLOSEBR = 57352"
definition TCOMMA :: int where "TCOMMA = 57353"
definition FALSE_P :: int where "FALSE_P = 57354"
definition TRUE_P :: int where "TRUE_P = 57355"
definition SELECT :: int where "SELECT = 57356"
definition FROM :: int where "FROM = 57357"
definition WHERE :: int where "WHERE = 57358"
definition ORDER :: int where "ORDER = 57359"
definition BY :: int where "BY = 57360"
definition SORT :: int where "SORT = 57361"
definition ASC :: int where "ASC = 57362"
definition DESC :: int where "DESC = 57363"
definition GROUP :: int where "GROUP = 57364"
definition KURT :: int where "KURT = 57365"
definition KOBAIN :: int where "KOBAIN = 57366"
definition STOP :: int where "STOP = 57367"
definition SYSTEM :: int where "SYSTEM = 57368"
definition SCONST :: int where "SCONST = 57369"
definition IDENT :: int where "IDENT = 57370"
definition ICONST :: int where "ICONST = 57371"
definition TEQ :: int where "TEQ = 57372"
definition TSEMICOLON :: int where "TSEMICOLON = 57373"

lemmas token_codes = SAY_def HELLO_def SHOW_def COPY_def WITH_def TOPENBR_def TCLOSEBR_def TCOMMA_def
  FALSE_P_def TRUE_P_def SELECT_def FROM_def WHERE_def ORDER_def BY_def SORT_def ASC_def
  DESC_def GROUP_def KURT_def KOBAIN_def STOP_def SYSTEM_def SCONST_def IDENT_def ICONST_def
  TEQ_def TSEMICOLON_def

section \<open>\<open>strconv.Atoi\<close>\<close>

text \<open>
  The value \<open>Atoi\<close> returns beside its error, which the lexer drops: 0 for a text that is no decimal
  number, the nearest \<open>int\<close> for one out of range.
\<close>

definition dec_digit :: "char \<Rightarrow> bool" where
  "dec_digit c \<longleftrightarrow> 48 \<le> (of_char c :: nat) \<and> (of_char c :: nat) \<le> 57"

definition Atoi_value :: "string \<Rightarrow> int" where
  "Atoi_value s =
     (let (neg, ds) = (if take 1 s = ''-'' then (True, drop 1 s)
                       else if take 1 s = ''+'' then (False, drop 1 s) else (False, s));
          n = int (nat_of_dec 0 ds) in
      if ds = [] \<or> \<not> list_all dec_digit ds then 0
      else if neg then max (- n) (- (2 ^ 63)) else min n (2 ^ 63 - 1))"

end
