(* ===== verification/ConsoleLexer.thy ===== *)
theory ConsoleLexer
  imports ConsoleAst
begin

text \<open>
  The lexer of the console's query language, \<open>pkg/core/parser/lex.go\<close>: the state machine with its
  labels \<open>st\<close>, \<open>st_case\<close>, \<open>tr\<close> and \<open>_test_eof\<close>, one definition per state, and the method \<open>Lex\<close>
  over it. An index or a slice out of range is the panic \<open>None\<close>.
\<close>

section \<open>The lexer's state\<close>

text \<open>The field \<open>result\<close> of the struct is used by nothing.\<close>

record Lexer =
  lex_data :: "byte list"
  lex_p :: nat
  lex_pe :: nat
  lex_cs :: nat
  lex_ts :: nat
  lex_te :: nat
  lex_act :: nat

definition lexer_start :: nat where "lexer_start = 9"

definition NewLexer :: "byte list \<Rightarrow> Lexer" where
  "NewLexer data = \<lparr>lex_data = data, lex_p = 0, lex_pe = length data, lex_cs = lexer_start,
     lex_ts = 0, lex_te = 0, lex_act = 0\<rparr>"

definition ResetLexer :: "byte list \<Rightarrow> Lexer \<Rightarrow> Lexer" where
  "ResetLexer data l = l\<lparr>lex_pe := length data, lex_data := data, lex_cs := lexer_start,
     lex_ts := 0, lex_te := 0, lex_act := 0\<rparr>"

section \<open>The states\<close>

text \<open>Where the code of a state goes on for the byte it looks at: \<open>goto st<n>\<close> or \<open>goto tr<n>\<close>.\<close>

datatype jump = St nat | Tr nat

definition st_case_1 :: "byte \<Rightarrow> jump" where
  "st_case_1 c =
     (if c = 55 \<or> c = 95 then St 2
      else if c < 65 then (if 48 \<le> c \<and> c \<le> 51 then St 2 else St 0)
      else if 90 < c then (if 97 \<le> c \<and> c \<le> 122 then St 2 else St 0)
      else St 2)"

definition st_case_2 :: "byte \<Rightarrow> jump" where
  "st_case_2 c =
     (if c = 34 then Tr 2
      else if c = 36 \<or> c = 95 then St 2
      else if c < 65 then (if 48 \<le> c \<and> c \<le> 57 then St 2 else St 0)
      else if 90 < c then (if 97 \<le> c \<and> c \<le> 122 then St 2 else St 0)
      else St 2)"

definition st_case_3 :: "byte \<Rightarrow> jump" where
  "st_case_3 c =
     (if c = 39 then Tr 4 else St 3)"

definition st_case_4 :: "byte \<Rightarrow> jump" where
  "st_case_4 c =
     (if c = 45 then St 11
      else if c = 46 then St 5
      else if 48 \<le> c \<and> c \<le> 57 then St 13 else St 0)"

definition st_case_5 :: "byte \<Rightarrow> jump" where
  "st_case_5 c =
     (if 48 \<le> c \<and> c \<le> 57 then St 12 else St 0)"

definition st_case_6 :: "byte \<Rightarrow> jump" where
  "st_case_6 c =
     (if c = 42 then St 7 else St 0)"

definition st_case_7 :: "byte \<Rightarrow> jump" where
  "st_case_7 c =
     (if c = 42 then St 8 else St 7)"

definition st_case_8 :: "byte \<Rightarrow> jump" where
  "st_case_8 c =
     (if c = 42 then St 8
      else if c = 47 then Tr 12
      else St 7)"

definition st_case_9 :: "byte \<Rightarrow> jump" where
  "st_case_9 c =
     (if c = 32 then St 10
      else if c = 34 then St 1
      else if c = 39 then St 3
      else if c = 40 then Tr 15
      else if c = 41 then Tr 16
      else if c = 44 then Tr 17
      else if c = 45 then St 4
      else if c = 46 then St 5
      else if c = 47 then St 6
      else if c = 55 then St 15
      else if c = 61 then Tr 22
      else if c = 67 \<or> c = 99 then St 18
      else if c = 70 \<or> c = 102 then St 21
      else if c = 72 \<or> c = 104 then St 25
      else if c = 75 \<or> c = 107 then St 29
      else if c = 83 \<or> c = 115 then St 36
      else if c = 84 \<or> c = 116 then St 46
      else if c = 87 \<or> c = 119 then St 49
      else if c = 95 then Tr 23
      else if c < 52 then (if 13 < c then (if 48 \<le> c \<and> c \<le> 51 then St 15 else St 0)
       else if 9 \<le> c then St 10
       else St 0)
      else if 57 < c then (if 90 < c then (if 97 \<le> c \<and> c \<le> 122 then Tr 23 else St 0)
       else if 65 \<le> c then Tr 23
       else St 0)
      else St 17)"

definition st_case_10 :: "byte \<Rightarrow> jump" where
  "st_case_10 c =
     (if c = 32 then St 10 else if 9 \<le> c \<and> c \<le> 13 then St 10 else Tr 31)"

definition st_case_11 :: "byte \<Rightarrow> jump" where
  "st_case_11 c =
     (if c = 10 \<or> c = 13 then Tr 32
      else St 11)"

definition st_case_12 :: "byte \<Rightarrow> jump" where
  "st_case_12 c =
     (if 48 \<le> c \<and> c \<le> 57 then St 12 else Tr 33)"

definition st_case_13 :: "byte \<Rightarrow> jump" where
  "st_case_13 c =
     (if c = 46 then St 12 else if 48 \<le> c \<and> c \<le> 57 then St 13 else Tr 34)"

definition st_case_14 :: "byte \<Rightarrow> jump" where
  "st_case_14 c =
     (if c = 42 then St 8 else St 7)"

definition st_case_15 :: "byte \<Rightarrow> jump" where
  "st_case_15 c =
     (if c = 36 \<or> c = 95 then Tr 23
      else if c = 46 then St 12
      else if c < 65 then (if 48 \<le> c \<and> c \<le> 57 then St 15 else Tr 35)
      else if 90 < c then (if 97 \<le> c \<and> c \<le> 122 then Tr 23 else Tr 35)
      else Tr 23)"

definition st_case_16 :: "byte \<Rightarrow> jump" where
  "st_case_16 c =
     (if c = 36 \<or> c = 95 then Tr 23
      else if c < 65 then (if 48 \<le> c \<and> c \<le> 57 then Tr 23 else Tr 10)
      else if 90 < c then (if 97 \<le> c \<and> c \<le> 122 then Tr 23 else Tr 10)
      else Tr 23)"

definition st_case_17 :: "byte \<Rightarrow> jump" where
  "st_case_17 c =
     (if c = 46 then St 12 else if 48 \<le> c \<and> c \<le> 57 then St 17 else Tr 35)"

definition st_case_18 :: "byte \<Rightarrow> jump" where
  "st_case_18 c =
     (if c = 36 \<or> c = 95 then Tr 23
      else if c = 79 \<or> c = 111 then St 19
      else if c < 65 then (if 48 \<le> c \<and> c \<le> 57 then Tr 23 else Tr 36)
      else if 90 < c then (if 97 \<le> c \<and> c \<le> 122 then Tr 23 else Tr 36)
      else Tr 23)"

definition st_case_19 :: "byte \<Rightarrow> jump" where
  "st_case_19 c =
     (if c = 36 \<or> c = 95 then Tr 23
      else if c = 80 \<or> c = 112 then St 20
      else if c < 65 then (if 48 \<le> c \<and> c \<le> 57 then Tr 23 else Tr 36)
      else if 90 < c then (if 97 \<le> c \<and> c \<le> 122 then Tr 23 else Tr 36)
      else Tr 23)"

definition st_case_20 :: "byte \<Rightarrow> jump" where
  "st_case_20 c =
     (if c = 36 \<or> c = 95 then Tr 23
      else if c = 89 \<or> c = 121 then Tr 39
      else if c < 65 then (if 48 \<le> c \<and> c \<le> 57 then Tr 23 else Tr 36)
      else if 90 < c then (if 97 \<le> c \<and> c \<le> 122 then Tr 23 else Tr 36)
      else Tr 23)"

definition st_case_21 :: "byte \<Rightarrow> jump" where
  "st_case_21 c =
     (if c = 36 \<or> c = 95 then Tr 23
      else if c = 65 \<or> c = 97 then St 22
      else if c < 66 then (if 48 \<le> c \<and> c \<le> 57 then Tr 23 else Tr 36)
      else if 90 < c then (if 98 \<le> c \<and> c \<le> 122 then Tr 23 else Tr 36)
      else Tr 23)"

definition st_case_22 :: "byte \<Rightarrow> jump" where
  "st_case_22 c =
     (if c = 36 \<or> c = 95 then Tr 23
      else if c = 76 \<or> c = 108 then St 23
      else if c < 65 then (if 48 \<le> c \<and> c \<le> 57 then Tr 23 else Tr 36)
      else if 90 < c then (if 97 \<le> c \<and> c \<le> 122 then Tr 23 else Tr 36)
      else Tr 23)"

definition st_case_23 :: "byte \<Rightarrow> jump" where
  "st_case_23 c =
     (if c = 36 \<or> c = 95 then Tr 23
      else if c = 83 \<or> c = 115 then St 24
      else if c < 65 then (if 48 \<le> c \<and> c \<le> 57 then Tr 23 else Tr 36)
      else if 90 < c then (if 97 \<le> c \<and> c \<le> 122 then Tr 23 else Tr 36)
      else Tr 23)"

definition st_case_24 :: "byte \<Rightarrow> jump" where
  "st_case_24 c =
     (if c = 36 \<or> c = 95 then Tr 23
      else if c < 65 then (if 48 \<le> c \<and> c \<le> 57 then Tr 23 else Tr 36)
      else if 90 < c then (if 97 \<le> c \<and> c \<le> 122 then Tr 23 else Tr 36)
      else Tr 23)"

definition st_case_25 :: "byte \<Rightarrow> jump" where
  "st_case_25 c =
     (if c = 36 \<or> c = 95 then Tr 23
      else if c = 69 \<or> c = 101 then St 26
      else if c < 65 then (if 48 \<le> c \<and> c \<le> 57 then Tr 23 else Tr 36)
      else if 90 < c then (if 97 \<le> c \<and> c \<le> 122 then Tr 23 else Tr 36)
      else Tr 23)"

definition st_case_26 :: "byte \<Rightarrow> jump" where
  "st_case_26 c =
     (if c = 36 \<or> c = 95 then Tr 23
      else if c = 76 \<or> c = 108 then St 27
      else if c < 65 then (if 48 \<le> c \<and> c \<le> 57 then Tr 23 else Tr 36)
      else if 90 < c then (if 97 \<le> c \<and> c \<le> 122 then Tr 23 else Tr 36)
      else Tr 23)"

definition st_case_27 :: "byte \<Rightarrow> jump" where
  "st_case_27 c =
     (if c = 36 \<or> c = 95 then Tr 23
      else if c = 76 \<or> c = 108 then St 28
      else if c < 65 then (if 48 \<le> c \<and> c \<le> 57 then Tr 23 else Tr 36)
      else if 90 < c then (if 97 \<le> c \<and> c \<le> 122 then Tr 23 else Tr 36)
      else Tr 23)"

definition st_case_28 :: "byte \<Rightarrow> jump" where
  "st_case_28 c =
     (if c = 36 \<or> c = 95 then Tr 23
      else if c = 79 \<or> c = 111 then Tr 46
      else if c < 65 then (if 48 \<le> c \<and> c \<le> 57 then Tr 23 else Tr 36)
      else if 90 < c then (if 97 \<le> c \<and> c \<le> 122 then Tr 23 else Tr 36)
      else Tr 23)"

definition st_case_29 :: "byte \<Rightarrow> jump" where
  "st_case_29 c =
     (if c = 36 \<or> c = 95 then Tr 23
      else if c = 79 \<or> c = 111 then St 30
      else if c = 85 \<or> c = 117 then St 34
      else if c < 65 then (if 48 \<le> c \<and> c \<le> 57 then Tr 23 else Tr 36)
      else if 90 < c then (if 97 \<le> c \<and> c \<le> 122 then Tr 23 else Tr 36)
      else Tr 23)"

definition st_case_30 :: "byte \<Rightarrow> jump" where
  "st_case_30 c =
     (if c = 36 \<or> c = 95 then Tr 23
      else if c = 66 \<or> c = 98 then St 31
      else if c < 65 then (if 48 \<le> c \<and> c \<le> 57 then Tr 23 else Tr 36)
      else if 90 < c then (if 97 \<le> c \<and> c \<le> 122 then Tr 23 else Tr 36)
      else Tr 23)"

definition st_case_31 :: "byte \<Rightarrow> jump" where
  "st_case_31 c =
     (if c = 36 \<or> c = 95 then Tr 23
      else if c = 65 \<or> c = 97 then St 32
      else if c < 66 then (if 48 \<le> c \<and> c \<le> 57 then Tr 23 else Tr 36)
      else if 90 < c then (if 98 \<le> c \<and> c \<le> 122 then Tr 23 else Tr 36)
      else Tr 23)"

definition st_case_32 :: "byte \<Rightarrow> jump" where
  "st_case_32 c =
     (if c = 36 \<or> c = 95 then Tr 23
      else if c = 73 \<or> c = 105 then St 33
      else if c < 65 then (if 48 \<le> c \<and> c \<le> 57 then Tr 23 else Tr 36)
      else if 90 < c then (if 97 \<le> c \<and> c \<le> 122 then Tr 23 else Tr 36)
      else Tr 23)"

definition st_case_33 :: "byte \<Rightarrow> jump" where
  "st_case_33 c =
     (if c = 36 \<or> c = 95 then Tr 23
      else if c = 78 \<or> c = 110 then Tr 52
      else if c < 65 then (if 48 \<le> c \<and> c \<le> 57 then Tr 23 else Tr 36)
      else if 90 < c then (if 97 \<le> c \<and> c \<le> 122 then Tr 23 else Tr 36)
      else Tr 23)"

definition st_case_34 :: "byte \<Rightarrow> jump" where
  "st_case_34 c =
     (if c = 36 \<or> c = 95 then Tr 23
      else if c = 82 \<or> c = 114 then St 35
      else if c < 65 then (if 48 \<le> c \<and> c \<le> 57 then Tr 23 else Tr 36)
      else if 90 < c then (if 97 \<le> c \<and> c \<le> 122 then Tr 23 else Tr 36)
      else Tr 23)"

definition st_case_35 :: "byte \<Rightarrow> jump" where
  "st_case_35 c =
     (if c = 36 \<or> c = 95 then Tr 23
      else if c = 84 \<or> c = 116 then Tr 54
      else if c < 65 then (if 48 \<le> c \<and> c \<le> 57 then Tr 23 else Tr 36)
      else if 90 < c then (if 97 \<le> c \<and> c \<le> 122 then Tr 23 else Tr 36)
      else Tr 23)"

definition st_case_36 :: "byte \<Rightarrow> jump" where
  "st_case_36 c =
     (if c = 36 \<or> c = 95 then Tr 23
      else if c = 65 \<or> c = 97 then St 37
      else if c = 72 \<or> c = 104 then St 38
      else if c = 84 \<or> c = 116 then St 40
      else if c = 89 \<or> c = 121 then St 42
      else if c < 66 then (if 48 \<le> c \<and> c \<le> 57 then Tr 23 else Tr 36)
      else if 90 < c then (if 98 \<le> c \<and> c \<le> 122 then Tr 23 else Tr 36)
      else Tr 23)"

definition st_case_37 :: "byte \<Rightarrow> jump" where
  "st_case_37 c =
     (if c = 36 \<or> c = 95 then Tr 23
      else if c = 89 \<or> c = 121 then Tr 59
      else if c < 65 then (if 48 \<le> c \<and> c \<le> 57 then Tr 23 else Tr 36)
      else if 90 < c then (if 97 \<le> c \<and> c \<le> 122 then Tr 23 else Tr 36)
      else Tr 23)"

definition st_case_38 :: "byte \<Rightarrow> jump" where
  "st_case_38 c =
     (if c = 36 \<or> c = 95 then Tr 23
      else if c = 79 \<or> c = 111 then St 39
      else if c < 65 then (if 48 \<le> c \<and> c \<le> 57 then Tr 23 else Tr 36)
      else if 90 < c then (if 97 \<le> c \<and> c \<le> 122 then Tr 23 else Tr 36)
      else Tr 23)"

definition st_case_39 :: "byte \<Rightarrow> jump" where
  "st_case_39 c =
     (if c = 36 \<or> c = 95 then Tr 23
      else if c = 87 \<or> c = 119 then Tr 61
      else if c < 65 then (if 48 \<le> c \<and> c \<le> 57 then Tr 23 else Tr 36)
      else if 90 < c then (if 97 \<le> c \<and> c \<le> 122 then Tr 23 else Tr 36)
      else Tr 23)"

definition st_case_40 :: "byte \<Rightarrow> jump" where
  "st_case_40 c =
     (if c = 36 \<or> c = 95 then Tr 23
      else if c = 79 \<or> c = 111 then St 41
      else if c < 65 then (if 48 \<le> c \<and> c \<le> 57 then Tr 23 else Tr 36)
      else if 90 < c then (if 97 \<le> c \<and> c \<le> 122 then Tr 23 else Tr 36)
      else Tr 23)"

definition st_case_41 :: "byte \<Rightarrow> jump" where
  "st_case_41 c =
     (if c = 36 \<or> c = 95 then Tr 23
      else if c = 80 \<or> c = 112 then Tr 63
      else if c < 65 then (if 48 \<le> c \<and> c \<le> 57 then Tr 23 else Tr 36)
      else if 90 < c then (if 97 \<le> c \<and> c \<le> 122 then Tr 23 else Tr 36)
      else Tr 23)"

definition st_case_42 :: "byte \<Rightarrow> jump" where
  "st_case_42 c =
     (if c = 36 \<or> c = 95 then Tr 23
      else if c = 83 \<or> c = 115 then St 43
      else if c < 65 then (if 48 \<le> c \<and> c \<le> 57 then Tr 23 else Tr 36)
      else if 90 < c then (if 97 \<le> c \<and> c \<le> 122 then Tr 23 else Tr 36)
      else Tr 23)"

definition st_case_43 :: "byte \<Rightarrow> jump" where
  "st_case_43 c =
     (if c = 36 \<or> c = 95 then Tr 23
      else if c = 84 \<or> c = 116 then St 44
      else if c < 65 then (if 48 \<le> c \<and> c \<le> 57 then Tr 23 else Tr 36)
      else if 90 < c then (if 97 \<le> c \<and> c \<le> 122 then Tr 23 else Tr 36)
      else Tr 23)"

definition st_case_44 :: "byte \<Rightarrow> jump" where
  "st_case_44 c =
     (if c = 36 \<or> c = 95 then Tr 23
      else if c = 69 \<or> c = 101 then St 45
      else if c < 65 then (if 48 \<le> c \<and> c \<le> 57 then Tr 23 else Tr 36)
      else if 90 < c then (if 97 \<le> c \<and> c \<le> 122 then Tr 23 else Tr 36)
      else Tr 23)"

definition st_case_45 :: "byte \<Rightarrow> jump" where
  "st_case_45 c =
     (if c = 36 \<or> c = 95 then Tr 23
      else if c = 77 \<or> c = 109 then Tr 67
      else if c < 65 then (if 48 \<le> c \<and> c \<le> 57 then Tr 23 else Tr 36)
      else if 90 < c then (if 97 \<le> c \<and> c \<le> 122 then Tr 23 else Tr 36)
      else Tr 23)"

definition st_case_46 :: "byte \<Rightarrow> jump" where
  "st_case_46 c =
     (if c = 36 \<or> c = 95 then Tr 23
      else if c = 82 \<or> c = 114 then St 47
      else if c < 65 then (if 48 \<le> c \<and> c \<le> 57 then Tr 23 else Tr 36)
      else if 90 < c then (if 97 \<le> c \<and> c \<le> 122 then Tr 23 else Tr 36)
      else Tr 23)"

definition st_case_47 :: "byte \<Rightarrow> jump" where
  "st_case_47 c =
     (if c = 36 \<or> c = 95 then Tr 23
      else if c = 85 \<or> c = 117 then St 48
      else if c < 65 then (if 48 \<le> c \<and> c \<le> 57 then Tr 23 else Tr 36)
      else if 90 < c then (if 97 \<le> c \<and> c \<le> 122 then Tr 23 else Tr 36)
      else Tr 23)"

definition st_case_48 :: "byte \<Rightarrow> jump" where
  "st_case_48 c =
     (if c = 36 \<or> c = 95 then Tr 23
      else if c < 65 then (if 48 \<le> c \<and> c \<le> 57 then Tr 23 else Tr 36)
      else if 90 < c then (if 97 \<le> c \<and> c \<le> 122 then Tr 23 else Tr 36)
      else Tr 23)"

definition st_case_49 :: "byte \<Rightarrow> jump" where
  "st_case_49 c =
     (if c = 36 \<or> c = 95 then Tr 23
      else if c = 73 \<or> c = 105 then St 50
      else if c < 65 then (if 48 \<le> c \<and> c \<le> 57 then Tr 23 else Tr 36)
      else if 90 < c then (if 97 \<le> c \<and> c \<le> 122 then Tr 23 else Tr 36)
      else Tr 23)"

definition st_case_50 :: "byte \<Rightarrow> jump" where
  "st_case_50 c =
     (if c = 36 \<or> c = 95 then Tr 23
      else if c = 84 \<or> c = 116 then St 51
      else if c < 65 then (if 48 \<le> c \<and> c \<le> 57 then Tr 23 else Tr 36)
      else if 90 < c then (if 97 \<le> c \<and> c \<le> 122 then Tr 23 else Tr 36)
      else Tr 23)"

definition st_case_51 :: "byte \<Rightarrow> jump" where
  "st_case_51 c =
     (if c = 36 \<or> c = 95 then Tr 23
      else if c = 72 \<or> c = 104 then Tr 72
      else if c < 65 then (if 48 \<le> c \<and> c \<le> 57 then Tr 23 else Tr 36)
      else if 90 < c then (if 97 \<le> c \<and> c \<le> 122 then Tr 23 else Tr 36)
      else Tr 23)"

text \<open>\<open>switch lex.cs\<close>; the state 0 is the error state, which is left at once.\<close>

definition st_cases :: "(byte \<Rightarrow> jump) list" where
  "st_cases =
     [\<lambda>c. St 0, st_case_1, st_case_2, st_case_3, st_case_4, st_case_5, st_case_6, st_case_7, st_case_8, 
      st_case_9, st_case_10, st_case_11, st_case_12, st_case_13, st_case_14, st_case_15, 
      st_case_16, st_case_17, st_case_18, st_case_19, st_case_20, st_case_21, st_case_22, 
      st_case_23, st_case_24, st_case_25, st_case_26, st_case_27, st_case_28, st_case_29, 
      st_case_30, st_case_31, st_case_32, st_case_33, st_case_34, st_case_35, st_case_36, 
      st_case_37, st_case_38, st_case_39, st_case_40, st_case_41, st_case_42, st_case_43, 
      st_case_44, st_case_45, st_case_46, st_case_47, st_case_48, st_case_49, st_case_50, 
      st_case_51]"

text \<open>The actions at the end of the input, after \<open>_test_eof\<close>.\<close>

definition eof_action :: "nat \<Rightarrow> nat option" where
  "eof_action cs =
     (if cs = 10 then Some 31
      else if cs = 11 then Some 32
      else if cs = 12 then Some 33
      else if cs = 13 then Some 34
      else if cs = 7 \<or> cs = 8 then Some 10
      else if cs = 14 then Some 32
      else if cs = 15 then Some 35
      else if cs = 16 then Some 10
      else if cs = 17 then Some 35
      else if 18 \<le> cs \<and> cs \<le> 51 then Some 36
      else None)"

text \<open>
  The transitions that mark the end of a possible token and go on: the value of \<open>act\<close> and the next
  state.
\<close>

definition mark_action :: "nat \<Rightarrow> (nat \<times> nat) option" where
  "mark_action k =
     (if k = 12 then Some (2, 14)
      else if k = 23 then Some (16, 16)
      else if k = 39 then Some (9, 16)
      else if k = 46 then Some (7, 16)
      else if k = 52 then Some (12, 16)
      else if k = 54 then Some (11, 16)
      else if k = 59 then Some (6, 16)
      else if k = 61 then Some (8, 16)
      else if k = 63 then Some (13, 16)
      else if k = 67 then Some (14, 16)
      else if k = 72 then Some (10, 16)
      else None)"

section \<open>Running the machine\<close>

datatype scan_end = Final nat Lexer | Out Lexer

text \<open>
  The code at the label \<open>st_case_n\<close>: it ends in a final transition, leaves the machine
  (\<open>goto st0\<close>), or goes to the label of the next state.
\<close>

definition exec_case :: "nat \<Rightarrow> Lexer \<Rightarrow> (scan_end + nat \<times> Lexer) option" where
  "exec_case n l =
     (let l = (if n = 9 then l\<lparr>lex_ts := lex_p l\<rparr> else l) in
      case go_index (lex_data l) (lex_p l) of
        None \<Rightarrow> None
      | Some c \<Rightarrow>
          (case go_index st_cases n of
             None \<Rightarrow> None
           | Some st_case \<Rightarrow>
               (case st_case c of
                  St k \<Rightarrow> Some (if k = 0 then Inl (Out (l\<lparr>lex_cs := 0\<rparr>)) else Inr (k, l))
                | Tr k \<Rightarrow>
                    (case mark_action k of
                       Some (a, st) \<Rightarrow> Some (Inr (st, l\<lparr>lex_te := lex_p l + 1, lex_act := a\<rparr>))
                     | None \<Rightarrow> Some (Inl (Final k l))))))"

lemma exec_case_stays:
  "exec_case n l = Some (Inr (k, l')) \<Longrightarrow>
     lex_p l' = lex_p l \<and> lex_data l' = lex_data l \<and> lex_pe l' = lex_pe l \<and> lex_p l < length (lex_data l)"
  by (auto simp: exec_case_def Let_def go_index_def split: if_splits jump.splits option.splits)

text \<open>
  \<open>scan n\<close> starts at \<open>st_case_n\<close> and runs until the machine leaves the states. At the label
  of a state the position is raised, and at the end of the input the action of \<open>_test_eof\<close> is taken.
\<close>

function scan :: "nat \<Rightarrow> Lexer \<Rightarrow> scan_end option" where
  "scan n l =
     (case exec_case n l of
        None \<Rightarrow> None
      | Some (Inl e) \<Rightarrow> Some e
      | Some (Inr (k, l)) \<Rightarrow>
          (let l = l\<lparr>lex_p := lex_p l + 1\<rparr> in
           if lex_p l = lex_pe l
           then (let l = l\<lparr>lex_cs := k\<rparr> in
                 case eof_action k of Some t \<Rightarrow> Some (Final t l) | None \<Rightarrow> Some (Out l))
           else scan k l))"
  by pat_completeness auto

termination
  by (relation "measure (\<lambda>(n, l). length (lex_data l) - lex_p l)") (auto dest: exec_case_stays)

declare scan.simps [simp del]

section \<open>Actions\<close>

text \<open>
  What a final transition does: it delivers a token (\<open>fbreak\<close>), leaves the machine without one
  (\<open>goto st0\<close>), or goes on at \<open>st9\<close>. In \<open>Skip\<close> the position is the one after the increment at
  \<open>st9\<close>; like the increment at a token, it undoes the \<open>p--\<close> before it.
\<close>

datatype lex_end = Token int yySymType Lexer | Halt Lexer | Skip Lexer

definition str_token :: "int \<Rightarrow> nat \<Rightarrow> nat \<Rightarrow> yySymType \<Rightarrow> Lexer \<Rightarrow> lex_end option" where
  "str_token tok lo hi lval l =
     map_option (\<lambda>b. Token tok (lval\<lparr>sym_str := string_of b\<rparr>) (l\<lparr>lex_cs := 9\<rparr>)) (go_slice (lex_data l) lo hi)"

definition int_token :: "yySymType \<Rightarrow> Lexer \<Rightarrow> lex_end option" where
  "int_token lval l =
     map_option (\<lambda>b. Token ICONST (lval\<lparr>sym_int := Atoi_value (string_of b)\<rparr>) (l\<lparr>lex_cs := 9\<rparr>))
       (go_slice (lex_data l) (lex_ts l) (lex_te l))"

text \<open>\<open>switch lex.act\<close> at \<open>tr10\<close>\<close>

definition act_token :: "nat \<Rightarrow> int option" where
  "act_token a =
     (if a = 6 then Some SAY
      else if a = 7 then Some HELLO
      else if a = 8 then Some SHOW
      else if a = 9 then Some COPY
      else if a = 10 then Some WITH
      else if a = 11 then Some KURT
      else if a = 12 then Some KOBAIN
      else if a = 13 then Some STOP
      else if a = 14 then Some SYSTEM
      else if a = 16 then Some IDENT
      else None)"

definition tr10 :: "yySymType \<Rightarrow> Lexer \<Rightarrow> lex_end option" where
  "tr10 lval l =
     (if lex_act l = 0 then Some (Halt (l\<lparr>lex_cs := 0\<rparr>))
      else if lex_act l = 2 then Some (Skip (l\<lparr>lex_p := lex_te l\<rparr>))
      else case act_token (lex_act l) of
          Some tok \<Rightarrow> str_token tok (lex_ts l) (lex_te l) lval (l\<lparr>lex_p := lex_te l\<rparr>)
        | None \<Rightarrow> Some (Skip (l\<lparr>lex_p := lex_p l + 1\<rparr>)))"

definition final_action :: "nat \<Rightarrow> yySymType \<Rightarrow> Lexer \<Rightarrow> lex_end option" where
  "final_action k lval l =
     (let past = l\<lparr>lex_te := lex_p l + 1, lex_p := lex_p l + 1\<rparr>; here = l\<lparr>lex_te := lex_p l\<rparr> in
      if k = 2 then str_token IDENT (lex_ts l + 1) (lex_te past - 1) lval past
      else if k = 4 then str_token SCONST (lex_ts l + 1) (lex_te past - 1) lval past
      else if k = 10 then tr10 lval l
      else if k = 15 then str_token TOPENBR (lex_ts l) (lex_te past) lval past
      else if k = 16 then str_token TCLOSEBR (lex_ts l) (lex_te past) lval past
      else if k = 17 then str_token TCOMMA (lex_ts l) (lex_te past) lval past
      else if k = 22 then str_token TEQ (lex_ts l) (lex_te past) lval past
      else if k = 31 \<or> k = 32 then Some (Skip here)
      else if k = 33 then str_token SCONST (lex_ts l) (lex_te here) lval here
      else if k = 34 \<or> k = 35 then int_token lval here
      else if k = 36 then str_token IDENT (lex_ts l) (lex_te here) lval here
      else None)"

definition end_action :: "yySymType \<Rightarrow> scan_end \<Rightarrow> lex_end option" where
  "end_action lval e = (case e of Final k l \<Rightarrow> final_action k lval l | Out l \<Rightarrow> Some (Halt l))"

section \<open>Progress of a scan\<close>

lemma scan_keeps:
  "scan n l = Some e \<Longrightarrow> e = Final k l' \<Longrightarrow>
     lex_data l' = lex_data l \<and> lex_pe l' = lex_pe l \<and> lex_p l \<le> lex_p l' \<and>
     (lex_act l' = lex_act l \<and> lex_te l' = lex_te l \<or> lex_p l < lex_te l')"
proof (induction n l arbitrary: e rule: scan.induct)
  case (1 n l)
  show ?case
  proof (cases "exec_case n l")
    case None
    with 1 show ?thesis by (subst (asm) scan.simps) simp
  next
    case (Some r)
    show ?thesis
    proof (cases r)
      case (Inl e')
      with 1(2) Some have "e = e'" by (subst (asm) scan.simps) simp
      with Some Inl 1(3) show ?thesis
        by (auto simp: exec_case_def Let_def split: if_splits jump.splits option.splits)
    next
      case (Inr kl)
      obtain m l1 where kl: "kl = (m, l1)" by (cases kl)
      have l1: "lex_p l1 = lex_p l" "lex_data l1 = lex_data l" "lex_pe l1 = lex_pe l"
        "lex_act l1 = lex_act l \<and> lex_te l1 = lex_te l \<or> lex_te l1 = lex_p l + 1"
        using Some unfolding Inr kl
        by (auto simp: exec_case_def Let_def split: if_splits jump.splits option.splits)
      show ?thesis
      proof (cases "lex_p l + 1 = lex_pe l")
        case True
        with 1(2,3) Some Inr kl l1 show ?thesis
          by (subst (asm) scan.simps) (auto simp: Let_def split: option.splits)
      next
        case False
        have "scan m (l1\<lparr>lex_p := lex_p l1 + 1\<rparr>) = Some e"
          using 1(2) Some False unfolding Inr kl by (subst (asm) scan.simps) (simp add: Let_def l1)
        from 1(1) [OF Some Inr kl [symmetric] refl _ this 1(3)] False l1 show ?thesis by auto
      qed
    qed
  qed
qed

text \<open>A scan that began at \<open>st_case_9\<close> and skips has moved on.\<close>

lemma st_case_9_jumps:
  "st_case_9 c = Tr k \<Longrightarrow> k \<in> {15, 16, 17, 22, 23}"
  by (auto simp: st_case_9_def split: if_splits)

lemma scan_9_final:
  assumes "scan 9 l = Some (Final k l')" and "k \<notin> {15, 16, 17, 22}"
  shows "lex_p l < lex_p l'"
proof (cases "exec_case 9 l")
  case None
  with assms show ?thesis by (subst (asm) scan.simps) simp
next
  case (Some r)
  show ?thesis
  proof (cases r)
    case (Inl e)
    with Some assms(1) have "exec_case 9 l = Some (Inl (Final k l'))"
      by (subst (asm) scan.simps) simp
    then have jump: "st_case_9 (lex_data l ! lex_p l) = Tr k" and "mark_action k = None"
      by (auto simp: exec_case_def Let_def go_index_def st_cases_def split: if_splits jump.splits option.splits)
    with st_case_9_jumps [OF jump] assms(2) show ?thesis by (auto simp: mark_action_def)
  next
    case (Inr kl)
    obtain m l1 where kl: "kl = (m, l1)" by (cases kl)
    note stays = exec_case_stays [OF Some [unfolded Inr kl]]
    show ?thesis
    proof (cases "lex_p l + 1 = lex_pe l")
      case True
      with assms(1) Some Inr kl stays show ?thesis
        by (subst (asm) scan.simps) (auto simp: Let_def split: option.splits)
    next
      case False
      have "scan m (l1\<lparr>lex_p := lex_p l1 + 1\<rparr>) = Some (Final k l')"
        using assms(1) Some False unfolding Inr kl by (subst (asm) scan.simps) (simp add: Let_def stays)
      from scan_keeps [OF this refl] stays show ?thesis by auto
    qed
  qed
qed

lemma skip_progress:
  assumes "scan 9 l = Some e" and "end_action lval e = Some (Skip l')" and "lex_act l = 0"
  shows "lex_p l < lex_p l' \<and> lex_data l' = lex_data l \<and> lex_pe l' = lex_pe l"
proof -
  from assms(2) obtain k l1 where e: "e = Final k l1" and f: "final_action k lval l1 = Some (Skip l')"
    by (auto simp: end_action_def split: scan_end.splits)
  then have k: "k \<in> {10, 31, 32}"
    by (auto simp: final_action_def Let_def str_token_def int_token_def split: if_splits)
  with scan_9_final [OF assms(1) [unfolded e]] have "lex_p l < lex_p l1" by auto
  with k f scan_keeps [OF assms(1) e] assms(3) show ?thesis
    by (auto simp: final_action_def Let_def tr10_def str_token_def split: if_splits option.splits)
qed

lemma scan_in_range: "scan n l = Some e \<Longrightarrow> lex_p l < length (lex_data l)"
  by (subst (asm) scan.simps) (auto simp: exec_case_def Let_def go_index_def split: if_splits option.splits)

section \<open>\<open>Lex\<close>\<close>

text \<open>The label \<open>st9\<close>, after its increment: the loop over blanks and comments.\<close>

function st9 :: "yySymType \<Rightarrow> Lexer \<Rightarrow> (int \<times> yySymType \<times> Lexer) option" where
  "st9 lval l =
     (let l = l\<lparr>lex_ts := 0, lex_act := 0\<rparr> in
      if lex_p l = lex_pe l then Some (0, lval, l\<lparr>lex_cs := 9\<rparr>)
      else case scan 9 l of
          None \<Rightarrow> None
        | Some e \<Rightarrow>
            (case end_action lval e of
               None \<Rightarrow> None
             | Some (Token tok lval l) \<Rightarrow> Some (tok, lval, l)
             | Some (Halt l) \<Rightarrow> Some (0, lval, l)
             | Some (Skip l) \<Rightarrow> st9 lval l))"
  by pat_completeness auto
termination
proof (relation "measure (\<lambda>(lval, l). length (lex_data l) - lex_p l)")
  fix lval :: yySymType and l x e r l'
  assume "x = l\<lparr>lex_ts := 0, lex_act := 0\<rparr>" "scan 9 x = Some e" "end_action lval e = Some r" "r = Skip l'"
  with skip_progress [of x e lval l'] scan_in_range [of 9 x e]
  show "((lval, l'), lval, l) \<in> measure (\<lambda>(lval, l). length (lex_data l) - lex_p l)" by auto
qed simp

declare st9.simps [simp del]

definition Lex :: "yySymType \<Rightarrow> Lexer \<Rightarrow> (int \<times> yySymType \<times> Lexer) option" where
  "Lex lval l =
     (let r = (if lex_p l = lex_pe l
               then Some (case eof_action (lex_cs l) of None \<Rightarrow> Out l | Some k \<Rightarrow> Final k l)
               else if lex_cs l = 0 then Some (Out l)
               else if lex_cs l \<le> 51 then scan (lex_cs l) l
               else Some (Out (l\<lparr>lex_cs := 9\<rparr>)))
      in case r of
           None \<Rightarrow> None
         | Some e \<Rightarrow>
             (case end_action lval e of
                None \<Rightarrow> None
              | Some (Token tok lval l) \<Rightarrow> Some (tok, lval, l)
              | Some (Halt l) \<Rightarrow> Some (0, lval, l)
              | Some (Skip l) \<Rightarrow> st9 lval l))"

end
