(* ===== verification/LexerSafety.thy ===== *)
theory LexerSafety
  imports ConsoleLexer
begin

text \<open>
  The lexer is total: whatever the bytes of a query, no index or slice of \<open>lex.go\<close> is out of range,
  every call of \<open>Lex\<close> returns, tokens come from a fixed set, and every token that is not a word moves
  the lexer on. (A word token may be delivered twice, after an unfinished comment that follows it.)
\<close>

section \<open>Where the states go\<close>

definition final_trs :: "nat set" where
  "final_trs = {2, 4, 10, 15, 16, 17, 22, 31, 32, 33, 34, 35, 36}"

lemmas st_case_defs = st_case_1_def st_case_2_def st_case_3_def st_case_4_def st_case_5_def st_case_6_def
  st_case_7_def st_case_8_def st_case_9_def st_case_10_def st_case_11_def st_case_12_def st_case_13_def
  st_case_14_def st_case_15_def st_case_16_def st_case_17_def st_case_18_def st_case_19_def st_case_20_def
  st_case_21_def st_case_22_def st_case_23_def st_case_24_def st_case_25_def st_case_26_def st_case_27_def
  st_case_28_def st_case_29_def st_case_30_def st_case_31_def st_case_32_def st_case_33_def st_case_34_def
  st_case_35_def st_case_36_def st_case_37_def st_case_38_def st_case_39_def st_case_40_def st_case_41_def
  st_case_42_def st_case_43_def st_case_44_def st_case_45_def st_case_46_def st_case_47_def st_case_48_def
  st_case_49_def st_case_50_def st_case_51_def

definition jump_ok :: "jump \<Rightarrow> bool" where
  "jump_ok j = (case j of St k \<Rightarrow> k \<le> 51 \<and> k \<noteq> 9 | Tr k \<Rightarrow> mark_action k \<noteq> None \<or> k \<in> final_trs)"

lemma jump_ok_simps [simp]:
  "k \<le> 51 \<Longrightarrow> k \<noteq> 9 \<Longrightarrow> jump_ok (St k)"
  "jump_ok (Tr 2)" "jump_ok (Tr 4)" "jump_ok (Tr 10)" "jump_ok (Tr 15)" "jump_ok (Tr 16)" "jump_ok (Tr 17)"
  "jump_ok (Tr 22)" "jump_ok (Tr 31)" "jump_ok (Tr 32)" "jump_ok (Tr 33)" "jump_ok (Tr 34)" "jump_ok (Tr 35)"
  "jump_ok (Tr 36)" "jump_ok (Tr 12)" "jump_ok (Tr 23)" "jump_ok (Tr 39)" "jump_ok (Tr 46)" "jump_ok (Tr 52)"
  "jump_ok (Tr 54)" "jump_ok (Tr 59)" "jump_ok (Tr 61)" "jump_ok (Tr 63)" "jump_ok (Tr 67)" "jump_ok (Tr 72)"
  by (simp_all add: jump_ok_def mark_action_def final_trs_def)

lemma st_cases_ok: "list_all (\<lambda>f. \<forall>c. jump_ok (f c)) st_cases"
  by (simp add: st_cases_def st_case_defs)

lemma st_cases_length [simp]: "length st_cases = 52"
  by (simp add: st_cases_def)

lemma st_case_ok: "n \<le> 51 \<Longrightarrow> jump_ok ((st_cases ! n) c)"
  using st_cases_ok by (simp add: list_all_length)


section \<open>Scans never fail\<close>

definition marked :: "nat \<Rightarrow> bool" where
  "marked a \<longleftrightarrow> a = 2 \<or> act_token a \<noteq> None"

lemma mark_action_ok:
  "mark_action k = Some (a, st) \<Longrightarrow> marked a \<and> st \<in> {14, 16}"
  by (auto simp: mark_action_def act_token_def marked_def split: if_splits)

lemma eof_action_final: "eof_action k = Some t \<Longrightarrow> t \<in> final_trs - {2, 4, 15, 16, 17, 22}"
  by (auto simp: eof_action_def final_trs_def split: if_splits)

text \<open>What a scan that began in \<open>l\<close> may end with; \<open>ts\<close> is the start of the token.\<close>

fun scan_post :: "Lexer \<Rightarrow> nat \<Rightarrow> scan_end \<Rightarrow> bool" where
  "scan_post l ts (Out l') \<longleftrightarrow> True"
| "scan_post l ts (Final k l') \<longleftrightarrow>
     k \<in> final_trs \<and> lex_data l' = lex_data l \<and> lex_pe l' = lex_pe l \<and> lex_ts l' = ts \<and>
     lex_p l \<le> lex_p l' \<and> lex_p l' \<le> lex_pe l \<and> (k \<in> {2, 4, 15, 16, 17, 22} \<longrightarrow> lex_p l' < lex_pe l) \<and>
     (lex_act l' = lex_act l \<and> lex_te l' = lex_te l \<or>
      marked (lex_act l') \<and> lex_p l < lex_te l' \<and> lex_te l' \<le> lex_p l')"

lemma scan_post_step:
  assumes "scan_post (l1\<lparr>lex_p := lex_p l1 + 1\<rparr>) ts e"
    and "lex_p l1 = lex_p l" "lex_data l1 = lex_data l" "lex_pe l1 = lex_pe l"
    and "lex_act l1 = lex_act l \<and> lex_te l1 = lex_te l \<or>
      marked (lex_act l1) \<and> lex_te l1 = lex_p l + 1"
  shows "scan_post l ts e"
proof (cases e)
  case (Final k l')
  have "lex_act l' = lex_act l1 \<and> lex_te l' = lex_te l1 \<or> marked (lex_act l') \<and> lex_p l1 + 1 < lex_te l' \<and> lex_te l' \<le> lex_p l'"
    and le: "lex_p l1 + 1 \<le> lex_p l'" using assms(1) unfolding Final by simp_all
  then have "lex_act l' = lex_act l \<and> lex_te l' = lex_te l \<or> marked (lex_act l') \<and> lex_p l < lex_te l' \<and> lex_te l' \<le> lex_p l'"
    using assms(2,5) by (elim disjE) simp_all
  with le assms(1-4) show ?thesis unfolding Final by simp
qed simp

lemma exec_case_ok:
  assumes "n \<le> 51" and "lex_p l < length (lex_data l)"
  obtains (out) l' where "exec_case n l = Some (Inl (Out l'))"
  | (final) k l' where "exec_case n l = Some (Inl (Final k l'))" "k \<in> final_trs"
      "l' = (if n = 9 then l\<lparr>lex_ts := lex_p l\<rparr> else l)"
  | (enter) k l' where "exec_case n l = Some (Inr (k, l'))" "k \<le> 51" "k \<noteq> 9"
      "lex_p l' = lex_p l" "lex_data l' = lex_data l" "lex_pe l' = lex_pe l"
      "lex_ts l' = (if n = 9 then lex_p l else lex_ts l)"
      "lex_act l' = lex_act l \<and> lex_te l' = lex_te l \<or>
       marked (lex_act l') \<and> lex_te l' = lex_p l + 1"
proof -
  let ?c = "lex_data l ! lex_p l" and ?l = "if n = 9 then l\<lparr>lex_ts := lex_p l\<rparr> else l"
  have eq: "exec_case n l = (case (st_cases ! n) ?c of
      St k \<Rightarrow> Some (if k = 0 then Inl (Out (?l\<lparr>lex_cs := 0\<rparr>)) else Inr (k, ?l))
    | Tr k \<Rightarrow> (case mark_action k of
          Some (a, st) \<Rightarrow> Some (Inr (st, ?l\<lparr>lex_te := lex_p l + 1, lex_act := a\<rparr>))
        | None \<Rightarrow> Some (Inl (Final k ?l))))"
    using assms by (simp add: exec_case_def Let_def go_index_def split: jump.split option.split)
  note ok = st_case_ok [OF assms(1), of ?c]
  show thesis
  proof (cases "(st_cases ! n) ?c")
    case (St k)
    with ok have "k \<le> 51" "k \<noteq> 9" by (auto simp: jump_ok_def)
    show thesis
    proof (cases "k = 0")
      case True
      with St eq show thesis by (intro out) simp
    next
      case False
      with St eq have "exec_case n l = Some (Inr (k, ?l))" by simp
      then show thesis by (rule enter) (use \<open>k \<le> 51\<close> \<open>k \<noteq> 9\<close> in simp_all)
    qed
  next
    case (Tr k)
    show thesis
    proof (cases "mark_action k")
      case None
      with Tr eq have "exec_case n l = Some (Inl (Final k ?l))" by simp
      then show thesis by (rule final) (use Tr ok None in \<open>simp_all add: jump_ok_def\<close>)
    next
      case (Some ast)
      obtain a st where ast: "ast = (a, st)" by (cases ast)
      with Some Tr eq have "exec_case n l = Some (Inr (st, ?l\<lparr>lex_te := lex_p l + 1, lex_act := a\<rparr>))" by simp
      then show thesis by (rule enter) (use mark_action_ok [OF Some [unfolded ast]] in auto)
    qed
  qed
qed

lemma scan_total:
  assumes "n \<le> 51" "lex_p l < lex_pe l" "lex_pe l = length (lex_data l)"
  shows "\<exists>e. scan n l = Some e \<and> scan_post l (if n = 9 then lex_p l else lex_ts l) e"
  using assms
proof (induction n l rule: scan.induct)
  case (1 n l)
  let ?ts = "if n = 9 then lex_p l else lex_ts l"
  from 1(2-4) have "lex_p l < length (lex_data l)" by simp
  with 1(2) show ?case
  proof (cases rule: exec_case_ok)
    case (out l')
    then show ?thesis by (subst scan.simps) simp
  next
    case (final k l')
    then show ?thesis using 1(3) by (subst scan.simps) auto
  next
    case (enter k l1)
    let ?l = "l1\<lparr>lex_p := lex_p l1 + 1\<rparr>"
    have "\<exists>e. scan n l = Some e \<and> scan_post ?l ?ts e"
    proof (cases "lex_p ?l = lex_pe ?l")
      case True
      with enter eof_action_final show ?thesis
        by (subst scan.simps) (auto simp: Let_def split: option.splits)
    next
      case False
      then have "\<exists>e. scan k ?l = Some e \<and> scan_post ?l (if k = 9 then lex_p ?l else lex_ts ?l) e"
        using 1(1) [OF enter(1) refl refl refl] enter 1(3,4) by simp
      with enter False show ?thesis by (subst scan.simps) (simp add: Let_def)
    qed
    with scan_post_step [of l1 ?ts _ l] enter show ?thesis by blast
  qed
qed


section \<open>\<open>Lex\<close> never fails\<close>

text \<open>
  The state between two calls: at the start state, within the data, and with \<open>act\<close> either cleared or
  left over from a word that ended where the lexer stands.
\<close>

definition lex_ok :: "Lexer \<Rightarrow> bool" where
  "lex_ok l \<longleftrightarrow> lex_cs l = 9 \<and> lex_pe l = length (lex_data l) \<and> lex_p l \<le> lex_pe l \<and>
     (lex_act l = 0 \<or> act_token (lex_act l) \<noteq> None \<and> lex_te l = lex_p l)"

definition lex_words :: "int set" where
  "lex_words = {SAY, HELLO, SHOW, COPY, WITH, KURT, KOBAIN, STOP, SYSTEM, IDENT}"

definition lex_tokens :: "int set" where
  "lex_tokens = lex_words \<union> {SCONST, ICONST, TEQ, TOPENBR, TCLOSEBR, TCOMMA}"

lemma act_token_none [simp]: "act_token 0 = None" "act_token 2 = None"
  by (simp_all add: act_token_def)

lemma act_token_word: "act_token a = Some tok \<Longrightarrow> tok \<in> lex_words"
  by (auto simp: act_token_def lex_words_def split: if_splits)

lemma lex_ok_NewLexer [simp]: "lex_ok (NewLexer data)"
  by (simp add: lex_ok_def NewLexer_def lexer_start_def)

fun end_post :: "Lexer \<Rightarrow> lex_end \<Rightarrow> bool" where
  "end_post l (Token tok lv l') \<longleftrightarrow> tok \<in> lex_tokens \<and> lex_ok l' \<and> lex_data l' = lex_data l \<and> lex_pe l' = lex_pe l \<and>
     lex_p l \<le> lex_p l' \<and> (tok \<notin> lex_words \<longrightarrow> lex_p l < lex_p l')"
| "end_post l (Halt l') \<longleftrightarrow> True"
| "end_post l (Skip l') \<longleftrightarrow> lex_data l' = lex_data l \<and> lex_pe l' = lex_pe l \<and> lex_p l < lex_p l' \<and> lex_p l' \<le> lex_pe l"

lemma str_token_post:
  assumes "tok \<in> lex_tokens" "lo \<le> hi" "hi \<le> lex_pe l'" "lex_pe l' = length (lex_data l')" "lex_p l' \<le> lex_pe l'"
    "lex_data l' = lex_data l" "lex_pe l' = lex_pe l" "lex_act l' = 0 \<or> act_token (lex_act l') \<noteq> None \<and> lex_te l' = lex_p l'"
    "lex_p l \<le> lex_p l'" "tok \<notin> lex_words \<longrightarrow> lex_p l < lex_p l'"
  shows "\<exists>r. str_token tok lo hi lv l' = Some r \<and> end_post l r"
  using assms by (simp add: str_token_def go_slice_def lex_ok_def)

lemma tr10_post:
  assumes "scan_post l (lex_p l) (Final 10 l')" "lex_pe l = length (lex_data l)" "lex_p l < lex_p l'"
    and "lex_act l = 0 \<or> act_token (lex_act l) \<noteq> None \<and> lex_te l = lex_p l"
  shows "\<exists>r. tr10 lv l' = Some r \<and> end_post l r"
proof -
  consider (zero) "lex_act l' = 0" | (comment) "lex_act l' = 2" "lex_p l < lex_te l'" "lex_te l' \<le> lex_p l'"
    | (word) tok where "act_token (lex_act l') = Some tok" "lex_p l \<le> lex_te l'" "lex_te l' \<le> lex_p l'"
    using assms(1,3,4) by (auto simp: marked_def)
  then show ?thesis
  proof cases
    case (word tok)
    then have "lex_act l' \<noteq> 0" "lex_act l' \<noteq> 2" by (metis act_token_none option.distinct(1))+
    moreover have "\<exists>r. str_token tok (lex_ts l') (lex_te l') lv (l'\<lparr>lex_p := lex_te l'\<rparr>) = Some r \<and> end_post l r"
      using word assms(1,2) act_token_word [OF word(1)] by (intro str_token_post) (auto simp: lex_tokens_def)
    ultimately show ?thesis using word by (simp add: tr10_def)
  qed (use assms(1) in \<open>auto simp: tr10_def\<close>)
qed


lemma int_token_post:
  assumes "lex_pe l' = length (lex_data l')" "lex_ts l' \<le> lex_te l'" "lex_te l' = lex_p l'" "lex_p l' \<le> lex_pe l'"
    "lex_data l' = lex_data l" "lex_pe l' = lex_pe l" "lex_act l' = 0 \<or> act_token (lex_act l') \<noteq> None"
    "lex_p l < lex_p l'"
  shows "\<exists>r. int_token lv l' = Some r \<and> end_post l r"
  using assms by (simp add: int_token_def go_slice_def lex_ok_def lex_tokens_def)

text \<open>
  A comment is the only scan that leaves \<open>act = 2\<close>, and it ends in \<open>tr10\<close> or \<open>tr32\<close>: a token is never
  delivered with it.
\<close>

lemma scan_comment:
  assumes "scan n l = Some (Final k l')" "n \<in> {7, 8, 14}"
  shows "k \<in> {10, 32}"
  using assms
proof (induction n l rule: scan.induct)
  case (1 n l)
  have step: "exec_case n l = Some (Inl e) \<Longrightarrow> False" for e
    using 1(3) by (auto simp: exec_case_def Let_def go_index_def st_cases_def st_case_7_def st_case_8_def
        st_case_14_def mark_action_def split: if_splits)
  have enter: "exec_case n l = Some (Inr (m, l1)) \<Longrightarrow> m \<in> {7, 8, 14}" for m l1
    using 1(3) by (auto simp: exec_case_def Let_def go_index_def st_cases_def st_case_7_def st_case_8_def
        st_case_14_def mark_action_def split: if_splits)
  obtain m l1 where e: "exec_case n l = Some (Inr (m, l1))"
    using 1(2) step by (subst (asm) scan.simps) (auto split: option.splits sum.splits)
  show ?case
  proof (cases "lex_p l1 + 1 = lex_pe l1")
    case True
    with 1(2) e enter [OF e] show ?thesis
      by (subst (asm) scan.simps) (auto simp: Let_def eof_action_def)
  next
    case False
    with 1(2) e have "scan m (l1\<lparr>lex_p := lex_p l1 + 1\<rparr>) = Some (Final k l')"
      by (subst (asm) scan.simps) (simp add: Let_def)
    from 1(1) [OF e refl refl refl _ this] False enter [OF e] show ?thesis by simp
  qed
qed

lemma scan_not_comment:
  assumes "scan n l = Some (Final k l')" "k \<notin> {10, 32}" "lex_act l \<noteq> 2"
  shows "lex_act l' \<noteq> 2"
  using assms
proof (induction n l rule: scan.induct)
  case (1 n l)
  show ?case
  proof (cases "exec_case n l")
    case None
    with 1(2) show ?thesis by (subst (asm) scan.simps) simp
  next
    case (Some r)
    show ?thesis
    proof (cases r)
      case (Inl e)
      with 1(2) Some have "exec_case n l = Some (Inl (Final k l'))" by (subst (asm) scan.simps) simp
      with 1(4) show ?thesis
        by (auto simp: exec_case_def Let_def split: if_splits jump.splits option.splits)
    next
      case (Inr ml)
      obtain m l1 where ml: "ml = (m, l1)" by (cases ml)
      have a: "lex_act l1 \<noteq> 2 \<or> m = 14"
        using Some 1(4) unfolding Inr ml
        by (auto simp: exec_case_def Let_def mark_action_def split: if_splits jump.splits option.splits)
      show ?thesis
      proof (cases "lex_p l1 + 1 = lex_pe l1")
        case True
        with 1(2) Some Inr ml have "eof_action m = Some k \<and> lex_act l' = lex_act l1"
          by (subst (asm) scan.simps) (auto simp: Let_def split: option.splits)
        with a 1(3) show ?thesis by (auto simp: eof_action_def)
      next
        case False
        with 1(2) Some Inr ml have r: "scan m (l1\<lparr>lex_p := lex_p l1 + 1\<rparr>) = Some (Final k l')"
          by (subst (asm) scan.simps) (simp add: Let_def)
        have "m \<noteq> 14" using scan_comment [OF r] 1(3) by auto
        with 1(1) [OF Some Inr ml [symmetric] refl _ r 1(3)] False a show ?thesis by simp
      qed
    qed
  qed
qed

lemma end_action_ok:
  assumes r: "scan 9 l = Some e" and post: "scan_post l (lex_p l) e" and pe: "lex_pe l = length (lex_data l)"
    and act: "lex_act l = 0 \<or> act_token (lex_act l) \<noteq> None \<and> lex_te l = lex_p l"
  shows "\<exists>r. end_action lv e = Some r \<and> end_post l r"
proof (cases e)
  case (Final k l')
  note p = post [unfolded Final] and scan = r [unfolded Final]
  have k: "k \<in> final_trs" using p by simp
  have moved: "k \<notin> {15, 16, 17, 22} \<Longrightarrow> lex_p l < lex_p l'" by (rule scan_9_final [OF scan])
  have "lex_act l' = lex_act l \<or> marked (lex_act l')" using p unfolding scan_post.simps by blast
  moreover have "lex_act l \<noteq> 2" using act by (metis act_token_none(2) zero_neq_numeral)
  then have "k \<notin> {10, 32} \<Longrightarrow> lex_act l' \<noteq> 2" using scan_not_comment [OF scan] by blast
  ultimately have act': "k \<notin> {10, 32} \<Longrightarrow> lex_act l' = 0 \<or> act_token (lex_act l') \<noteq> None"
    using act unfolding marked_def by metis
  have f: "lex_data l' = lex_data l" "lex_pe l' = lex_pe l" "lex_ts l' = lex_p l" "lex_p l \<le> lex_p l'"
    "lex_p l' \<le> lex_pe l" and lt: "k \<in> {2, 4, 15, 16, 17, 22} \<Longrightarrow> lex_p l' < lex_pe l" using p by simp_all
  let ?past = "l'\<lparr>lex_te := lex_p l' + 1, lex_p := lex_p l' + 1\<rparr>" and ?here = "l'\<lparr>lex_te := lex_p l'\<rparr>"
  have str: "\<exists>r. str_token tok lo hi lv ?here = Some r \<and> end_post l r"
    if "tok \<in> lex_tokens" "lo \<le> hi" "hi \<le> lex_pe l" "k \<notin> {10, 15, 16, 17, 22, 32}" for tok lo hi
    using that f pe moved act' by (intro str_token_post) auto
  have past: "\<exists>r. str_token tok lo hi lv ?past = Some r \<and> end_post l r"
    if "tok \<in> lex_tokens" "lo \<le> hi" "hi \<le> lex_pe l" "k \<in> {2, 4, 15, 16, 17, 22}" for tok lo hi
    using that f pe lt act' by (intro str_token_post) auto
  have int: "\<exists>r. int_token lv ?here = Some r \<and> end_post l r" if "k \<in> {34, 35}"
    using that f pe moved act' by (intro int_token_post) auto
  consider "k = 2" | "k = 4" | (tr10) "k = 10" | "k = 15" | "k = 16" | "k = 17" | "k = 22" | "k = 31" | "k = 32"
    | "k = 34" | "k = 35" | "k = 33" | "k = 36"
    using k unfolding final_trs_def by blast
  then have "\<exists>r. final_action k lv l' = Some r \<and> end_post l r"
  proof cases
    case tr10
    with tr10_post [of l l' lv] p pe moved act show ?thesis by (simp add: final_action_def)
  qed (use f moved lt str past int in \<open>simp_all add: final_action_def Let_def lex_tokens_def lex_words_def\<close>)
  with Final show ?thesis by (simp add: end_action_def)
qed (simp add: end_action_def)


lemma st9_ok:
  assumes "lex_pe l = length (lex_data l)" "lex_p l \<le> lex_pe l"
  shows "\<exists>tok lv' l'. st9 lv l = Some (tok, lv', l') \<and> (tok = 0 \<or> end_post l (Token tok lv' l'))"
  using assms
proof (induction lv l rule: st9.induct)
  case (1 lv l)
  let ?l = "l\<lparr>lex_ts := 0, lex_act := 0\<rparr>"
  show ?case
  proof (cases "lex_p l = lex_pe l")
    case True
    then show ?thesis by (subst st9.simps) (simp add: Let_def)
  next
    case False
    with 1(2,3) have "lex_p ?l < lex_pe ?l" "lex_pe ?l = length (lex_data ?l)" by simp_all
    from scan_total [OF _ this, of 9] obtain e where e: "scan 9 ?l = Some e" "scan_post ?l (lex_p ?l) e" by auto
    from end_action_ok [OF e, of lv] 1(2) obtain r where r: "end_action lv e = Some r" "end_post ?l r" by auto
    show ?thesis
    proof (cases r)
      case (Token tok lv' l')
      with False e(1) r show ?thesis by (subst st9.simps) (simp add: Let_def)
    next
      case (Halt l')
      with False e(1) r show ?thesis by (subst st9.simps) (simp add: Let_def)
    next
      case (Skip l')
      with r 1(2) have "lex_pe l' = length (lex_data l')" "lex_p l' \<le> lex_pe l'" by simp_all
      from 1(1) [OF refl _ e(1) r(1) Skip this] False obtain tok lv' l'' where
        "st9 lv l' = Some (tok, lv', l'')" "tok = 0 \<or> end_post l' (Token tok lv' l'')" by auto
      moreover have "st9 lv l = st9 lv l'"
        using False e(1) r(1) Skip by (subst st9.simps) (simp add: Let_def)
      ultimately show ?thesis using r(2) Skip by auto
    qed
  qed
qed

text \<open>Every call returns: at the end of the query, or with a token and the state ready for the next call.\<close>

lemma Lex_ok:
  assumes "lex_ok l"
  shows "\<exists>tok lv' l'. Lex lv l = Some (tok, lv', l') \<and> (tok = 0 \<or> end_post l (Token tok lv' l'))"
proof (cases "lex_p l = lex_pe l")
  case True
  with assms show ?thesis by (simp add: Lex_def lex_ok_def eof_action_def end_action_def)
next
  case False
  with assms have ok: "lex_cs l = 9" "lex_p l < lex_pe l" "lex_pe l = length (lex_data l)" by (auto simp: lex_ok_def)
  from scan_total [OF _ ok(2,3), of 9] obtain e where e: "scan 9 l = Some e" "scan_post l (lex_p l) e" by auto
  from end_action_ok [OF e ok(3), of lv] assms obtain r where r: "end_action lv e = Some r" "end_post l r"
    by (auto simp: lex_ok_def)
  show ?thesis
  proof (cases r)
    case (Skip l')
    with r ok have "lex_pe l' = length (lex_data l')" "lex_p l' \<le> lex_pe l'" by simp_all
    from st9_ok [OF this, of lv] obtain tok lv' l'' where
      "st9 lv l' = Some (tok, lv', l'')" "tok = 0 \<or> end_post l' (Token tok lv' l'')" by auto
    with Skip r ok e(1) show ?thesis by (auto simp: Lex_def)
  qed (use ok e(1) r in \<open>simp_all add: Lex_def\<close>)
qed

end
