(* ===== verification/LexerWords.thy ===== *)
theory LexerWords
  imports LexerSafety
begin

text \<open>
  What the states of the lexer recognise as words: the states 18 to 51 stand for the prefixes of the
  keywords (and of \<open>false\<close> and \<open>true\<close>, which end as identifiers), the state 16 for any other word. A
  scan inside a word ends at the end of the word, with the keyword's action if it is one, in any case
  of its letters.
\<close>

definition ident_cont :: "byte \<Rightarrow> bool" where
  "ident_cont c \<longleftrightarrow> c = 36 \<or> c = 95 \<or> 48 \<le> c \<and> c \<le> 57 \<or> 65 \<le> c \<and> c \<le> 90 \<or> 97 \<le> c \<and> c \<le> 122"

definition ident_letter :: "byte \<Rightarrow> bool" where
  "ident_letter c \<longleftrightarrow> c = 95 \<or> 65 \<le> c \<and> c \<le> 90 \<or> 97 \<le> c \<and> c \<le> 122"

definition lower :: "byte \<Rightarrow> byte" where
  "lower c = (if 65 \<le> c \<and> c \<le> 90 then c + 32 else c)"

text \<open>The keywords in lower case, with the value of \<open>act\<close> for each\<close>

definition kw_table :: "(byte list \<times> nat) list" where
  "kw_table =
     [([115, 97, 121], 6),
      ([104, 101, 108, 108, 111], 7),
      ([115, 104, 111, 119], 8),
      ([99, 111, 112, 121], 9),
      ([119, 105, 116, 104], 10),
      ([107, 117, 114, 116], 11),
      ([107, 111, 98, 97, 105, 110], 12),
      ([115, 116, 111, 112], 13),
      ([115, 121, 115, 116, 101, 109], 14)]"

definition word_act :: "byte list \<Rightarrow> nat" where
  "word_act w = (case map_of kw_table w of Some a \<Rightarrow> a | None \<Rightarrow> 16)"

text \<open>The keyword prefix that each of the states 18 to 51 stands for\<close>

definition spells :: "byte list list" where
  "spells =
     [[99], [99, 111], [99, 111, 112], [102],
      [102, 97], [102, 97, 108], [102, 97, 108, 115], [104],
      [104, 101], [104, 101, 108], [104, 101, 108, 108], [107],
      [107, 111], [107, 111, 98], [107, 111, 98, 97], [107, 111, 98, 97, 105],
      [107, 117], [107, 117, 114], [115], [115, 97],
      [115, 104], [115, 104, 111], [115, 116], [115, 116, 111],
      [115, 121], [115, 121, 115], [115, 121, 115, 116], [115, 121, 115, 116, 101],
      [116], [116, 114], [116, 114, 117], [119],
      [119, 105], [119, 105, 116]]"

definition spell :: "nat \<Rightarrow> byte list" where
  "spell n = spells ! (n - 18)"

definition no_ext :: "byte list \<Rightarrow> bool" where
  "no_ext w = list_all (\<lambda>(k, a). take (length w) k = w \<longrightarrow> k = w) kw_table"

lemma unat_lower: "unat (lower c) = (if 65 \<le> unat c \<and> unat c \<le> 90 then unat c + 32 else unat c)"
  by (simp add: lower_def word_le_nat_alt unat_word_ariths)

lemma lower_eq:
  "lower c = 97 \<longleftrightarrow> c = 97 \<or> c = 65" "lower c = 98 \<longleftrightarrow> c = 98 \<or> c = 66" "lower c = 99 \<longleftrightarrow> c = 99 \<or> c = 67"
  "lower c = 100 \<longleftrightarrow> c = 100 \<or> c = 68" "lower c = 101 \<longleftrightarrow> c = 101 \<or> c = 69" "lower c = 102 \<longleftrightarrow> c = 102 \<or> c = 70"
  "lower c = 103 \<longleftrightarrow> c = 103 \<or> c = 71" "lower c = 104 \<longleftrightarrow> c = 104 \<or> c = 72" "lower c = 105 \<longleftrightarrow> c = 105 \<or> c = 73"
  "lower c = 106 \<longleftrightarrow> c = 106 \<or> c = 74" "lower c = 107 \<longleftrightarrow> c = 107 \<or> c = 75" "lower c = 108 \<longleftrightarrow> c = 108 \<or> c = 76"
  "lower c = 109 \<longleftrightarrow> c = 109 \<or> c = 77" "lower c = 110 \<longleftrightarrow> c = 110 \<or> c = 78" "lower c = 111 \<longleftrightarrow> c = 111 \<or> c = 79"
  "lower c = 112 \<longleftrightarrow> c = 112 \<or> c = 80" "lower c = 113 \<longleftrightarrow> c = 113 \<or> c = 81" "lower c = 114 \<longleftrightarrow> c = 114 \<or> c = 82"
  "lower c = 115 \<longleftrightarrow> c = 115 \<or> c = 83" "lower c = 116 \<longleftrightarrow> c = 116 \<or> c = 84" "lower c = 117 \<longleftrightarrow> c = 117 \<or> c = 85"
  "lower c = 118 \<longleftrightarrow> c = 118 \<or> c = 86" "lower c = 119 \<longleftrightarrow> c = 119 \<or> c = 87" "lower c = 120 \<longleftrightarrow> c = 120 \<or> c = 88"
  "lower c = 121 \<longleftrightarrow> c = 121 \<or> c = 89" "lower c = 122 \<longleftrightarrow> c = 122 \<or> c = 90"
  by (auto simp: lower_def word_le_nat_alt)

definition word_step :: "nat \<Rightarrow> byte \<Rightarrow> bool" where
  "word_step n c \<longleftrightarrow> (case (st_cases ! n) c of
     St m \<Rightarrow> 18 \<le> m \<and> m \<le> 51 \<and> spell m = spell n @ [lower c]
   | Tr k \<Rightarrow> mark_action k = Some (word_act (spell n @ [lower c]), 16) \<and> no_ext (spell n @ [lower c]))"

lemmas word_defs = word_step_def st_cases_def st_case_defs ident_cont_def spell_def spells_def mark_action_def
  word_act_def kw_table_def no_ext_def lower_eq word_le_nat_alt word_less_nat_alt

lemma word_step_18:
  assumes "ident_cont c"
  shows "word_step 18 c" "word_step 19 c" "word_step 20 c" "word_step 21 c" "word_step 22 c"
    "word_step 23 c" "word_step 24 c" "word_step 25 c" "word_step 26 c"
  using assms by (auto simp: word_defs split: if_splits; simp add: word_unat_eq_iff)+

lemma word_step_27:
  assumes "ident_cont c"
  shows "word_step 27 c" "word_step 28 c" "word_step 29 c" "word_step 30 c" "word_step 31 c"
    "word_step 32 c" "word_step 33 c" "word_step 34 c" "word_step 35 c"
  using assms by (auto simp: word_defs split: if_splits; simp add: word_unat_eq_iff)+

lemma word_step_36:
  assumes "ident_cont c"
  shows "word_step 36 c" "word_step 37 c" "word_step 38 c" "word_step 39 c" "word_step 40 c"
    "word_step 41 c" "word_step 42 c" "word_step 43 c"
  using assms by (auto simp: word_defs split: if_splits; simp add: word_unat_eq_iff)+

lemma word_step_44:
  assumes "ident_cont c"
  shows "word_step 44 c" "word_step 45 c" "word_step 46 c" "word_step 47 c" "word_step 48 c"
    "word_step 49 c" "word_step 50 c" "word_step 51 c"
  using assms by (auto simp: word_defs split: if_splits; simp add: word_unat_eq_iff)+

lemma word_states:
  assumes "18 \<le> n" "n \<le> 51"
  shows "n \<in> {18, 19, 20, 21, 22, 23, 24, 25, 26, 27, 28, 29, 30, 31, 32, 33, 34, 35, 36, 37, 38, 39, 40, 41, 42, 43,
    44, 45, 46, 47, 48, 49, 50, 51 :: nat}"
  using assms by simp presburger

lemma word_step:
  assumes "18 \<le> n" "n \<le> 51" "ident_cont c"
  shows "word_step n c"
  using word_states [OF assms(1,2)] assms(3)
  by (elim insertE) (simp_all only: word_step_18 word_step_27 word_step_36 word_step_44 empty_iff)

text \<open>Any other byte ends the word.\<close>

lemma not_ident_cont:
  "\<not> ident_cont c \<Longrightarrow> unat c < 36 \<or> 36 < unat c \<and> unat c < 48 \<or> 57 < unat c \<and> unat c < 65 \<or>
     90 < unat c \<and> unat c < 95 \<or> 95 < unat c \<and> unat c < 97 \<or> 122 < unat c"
  by (auto simp: ident_cont_def word_le_nat_alt word_unat_eq_iff)

lemma word_stop_18:
  assumes "\<not> ident_cont c"
  shows "(st_cases ! 18) c = Tr 36" "(st_cases ! 19) c = Tr 36" "(st_cases ! 20) c = Tr 36" "(st_cases ! 21) c = Tr 36"
    "(st_cases ! 22) c = Tr 36" "(st_cases ! 23) c = Tr 36" "(st_cases ! 24) c = Tr 36" "(st_cases ! 25) c = Tr 36"
    "(st_cases ! 26) c = Tr 36" "(st_cases ! 27) c = Tr 36" "(st_cases ! 28) c = Tr 36" "(st_cases ! 29) c = Tr 36"
    "(st_cases ! 30) c = Tr 36" "(st_cases ! 31) c = Tr 36" "(st_cases ! 32) c = Tr 36" "(st_cases ! 33) c = Tr 36"
    "(st_cases ! 34) c = Tr 36"
  using not_ident_cont [OF assms]
  by (elim disjE conjE; simp add: st_cases_def st_case_defs word_le_nat_alt word_less_nat_alt word_unat_eq_iff)+

lemma word_stop_35:
  assumes "\<not> ident_cont c"
  shows "(st_cases ! 35) c = Tr 36" "(st_cases ! 36) c = Tr 36" "(st_cases ! 37) c = Tr 36" "(st_cases ! 38) c = Tr 36"
    "(st_cases ! 39) c = Tr 36" "(st_cases ! 40) c = Tr 36" "(st_cases ! 41) c = Tr 36" "(st_cases ! 42) c = Tr 36"
    "(st_cases ! 43) c = Tr 36" "(st_cases ! 44) c = Tr 36" "(st_cases ! 45) c = Tr 36" "(st_cases ! 46) c = Tr 36"
    "(st_cases ! 47) c = Tr 36" "(st_cases ! 48) c = Tr 36" "(st_cases ! 49) c = Tr 36" "(st_cases ! 50) c = Tr 36"
    "(st_cases ! 51) c = Tr 36"
  using not_ident_cont [OF assms]
  by (elim disjE conjE; simp add: st_cases_def st_case_defs word_le_nat_alt word_less_nat_alt word_unat_eq_iff)+

lemma word_stop:
  assumes "18 \<le> n" "n \<le> 51" "\<not> ident_cont c"
  shows "(st_cases ! n) c = Tr 36"
  using word_states [OF assms(1,2)] assms(3)
  by (elim insertE) (simp_all add: word_stop_18 word_stop_35)


section \<open>Scanning a word\<close>

text \<open>At the label of state \<open>n\<close>, after the increment of the position\<close>

definition enter :: "nat \<Rightarrow> Lexer \<Rightarrow> scan_end option" where
  "enter n l =
     (if lex_p l = lex_pe l
      then Some (case eof_action n of Some t \<Rightarrow> Final t (l\<lparr>lex_cs := n\<rparr>) | None \<Rightarrow> Out (l\<lparr>lex_cs := n\<rparr>))
      else scan n l)"

lemma scan_enter:
  assumes "n \<noteq> 9" "n \<le> 51" "lex_p l < length (lex_data l)"
  shows "scan n l = (case (st_cases ! n) (lex_data l ! lex_p l) of
     St k \<Rightarrow> if k = 0 then Some (Out (l\<lparr>lex_cs := 0\<rparr>)) else enter k (l\<lparr>lex_p := lex_p l + 1\<rparr>)
   | Tr k \<Rightarrow> (case mark_action k of
       None \<Rightarrow> Some (Final k l)
     | Some (a, st) \<Rightarrow> enter st (l\<lparr>lex_te := lex_p l + 1, lex_act := a, lex_p := lex_p l + 1\<rparr>)))"
  using assms
  by (subst scan.simps) (auto simp: exec_case_def go_index_def Let_def enter_def split: jump.splits option.splits)

text \<open>The lexer stands in front of \<open>w\<close>, and \<open>rest\<close> follows.\<close>

definition faces :: "Lexer \<Rightarrow> byte list \<Rightarrow> byte list \<Rightarrow> bool" where
  "faces l w rest \<longleftrightarrow> lex_pe l = length (lex_data l) \<and> lex_p l \<le> length (lex_data l) \<and> drop (lex_p l) (lex_data l) = w @ rest"

lemma faces_Cons:
  assumes "faces l (c # w) rest"
  shows "lex_p l < length (lex_data l)" "lex_data l ! lex_p l = c" "lex_pe l = length (lex_data l)" "lex_p l \<noteq> lex_pe l"
    and "faces (l\<lparr>lex_p := lex_p l + 1\<rparr>) w rest"
proof -
  have d: "drop (lex_p l) (lex_data l) = c # (w @ rest)" using assms by (simp add: faces_def)
  then show lt: "lex_p l < length (lex_data l)" by (metis drop_all leI list.distinct(1))
  show "lex_data l ! lex_p l = c" using d lt by (metis Cons_nth_drop_Suc list.inject)
  show "lex_pe l = length (lex_data l)" "lex_p l \<noteq> lex_pe l" using assms lt by (auto simp: faces_def)
  show "faces (l\<lparr>lex_p := lex_p l + 1\<rparr>) w rest"
    using assms d lt by (simp add: faces_def) (metis Cons_nth_drop_Suc list.inject)
qed

lemma faces_Nil:
  assumes "faces l [] rest"
  shows "rest = [] \<longleftrightarrow> lex_p l = lex_pe l"
    and "rest = c # cs \<Longrightarrow> lex_p l < length (lex_data l) \<and> lex_data l ! lex_p l = c"
proof -
  show "rest = [] \<longleftrightarrow> lex_p l = lex_pe l" using assms by (auto simp: faces_def)
  assume "rest = c # cs"
  then have "faces l (c # cs) []" using assms by (simp add: faces_def)
  from faces_Cons(1,2) [OF this] show "lex_p l < length (lex_data l) \<and> lex_data l ! lex_p l = c" by simp
qed

definition ends_word :: "byte list \<Rightarrow> bool" where
  "ends_word rest \<longleftrightarrow> (case rest of [] \<Rightarrow> True | c # cs \<Rightarrow> \<not> ident_cont c)"

lemma no_ext_snoc:
  assumes "no_ext w"
  shows "word_act (w @ [x]) = 16" "no_ext (w @ [x])"
proof -
  have not: "(w @ v, a) \<notin> set kw_table" if "v \<noteq> []" for v a
    using assms that by (force simp: no_ext_def list_all_iff)
  then have "map_of kw_table (w @ [x]) = None" by (auto simp: map_of_eq_None_iff)
  then show "word_act (w @ [x]) = 16" by (simp add: word_act_def)
  have "take (length (w @ [x])) k = w @ [x] \<longrightarrow> k = w @ [x]" if "(k, a) \<in> set kw_table" for k a
  proof
    assume "take (length (w @ [x])) k = w @ [x]"
    then have "k = w @ ([x] @ drop (length (w @ [x])) k)" by (metis append_assoc append_take_drop_id)
    with not [of "[x] @ drop (length (w @ [x])) k" a] that show "k = w @ [x]" by auto
  qed
  then show "no_ext (w @ [x])" by (auto simp: no_ext_def list_all_iff)
qed

lemma st_16: "(st_cases ! 16) c = (if ident_cont c then Tr 23 else Tr 10)"
  by (auto simp: st_cases_def st_case_16_def ident_cont_def word_le_nat_alt word_less_nat_alt)

lemma enter_16:
  assumes "faces l w rest" "list_all ident_cont w" "ends_word rest"
    and "lex_te l = lex_p l" "lex_act l = word_act u" "no_ext u"
  shows "\<exists>l'. enter 16 l = Some (Final 10 l') \<and> lex_data l' = lex_data l \<and> lex_pe l' = lex_pe l \<and> lex_ts l' = lex_ts l \<and>
    lex_p l' = lex_p l + length w \<and> lex_te l' = lex_p l' \<and> lex_act l' = word_act (u @ map lower w)"
  using assms
proof (induction w arbitrary: l u)
  case Nil
  show ?case
  proof (cases rest)
    case Nil
    with Nil.prems faces_Nil(1) [OF Nil.prems(1)] show ?thesis by (simp add: enter_def eof_action_def)
  next
    case (Cons c cs)
    with Nil.prems(3) have "\<not> ident_cont c" by (simp add: ends_word_def)
    with Nil.prems faces_Nil [OF Nil.prems(1)] Cons show ?thesis
      by (simp add: enter_def scan_enter st_16 mark_action_def)
  qed
next
  case (Cons c w)
  note f = faces_Cons [OF Cons.prems(1)]
  let ?l = "l\<lparr>lex_te := lex_p l + 1, lex_act := 16, lex_p := lex_p l + 1\<rparr>"
  have "enter 16 l = enter 16 ?l"
    using f Cons.prems(2) by (subst enter_def) (simp add: scan_enter st_16 mark_action_def)
  moreover have "faces ?l w rest" using f(5) by (simp add: faces_def)
  ultimately show ?case
    using Cons.IH [of ?l "u @ [lower c]"] Cons.prems no_ext_snoc [OF Cons.prems(6)] by simp
qed

lemma word_act_spell: "18 \<le> n \<Longrightarrow> n \<le> 51 \<Longrightarrow> word_act (spell n) = 16"
proof -
  assume "18 \<le> n" "n \<le> 51"
  moreover have "list_all (\<lambda>w. word_act w = 16) spells" by (simp add: spells_def word_act_def kw_table_def)
  moreover have "length spells = 34" by (simp add: spells_def)
  ultimately show ?thesis by (simp add: spell_def list_all_length)
qed

text \<open>A scan inside a word ends at the end of the word, with its keyword or as an identifier.\<close>

definition word_end :: "Lexer \<Rightarrow> nat \<Rightarrow> byte list \<Rightarrow> scan_end option \<Rightarrow> bool" where
  "word_end l len u r \<longleftrightarrow> (\<exists>k l'. r = Some (Final k l') \<and> lex_data l' = lex_data l \<and> lex_pe l' = lex_pe l \<and>
     lex_ts l' = lex_ts l \<and> lex_p l' = lex_p l + len \<and>
     (k = 36 \<and> word_act u = 16 \<or> k = 10 \<and> lex_te l' = lex_p l' \<and> lex_act l' = word_act u))"

lemma enter_word:
  assumes "faces l w rest" "list_all ident_cont w" "ends_word rest" "18 \<le> n" "n \<le> 51"
  shows "word_end l (length w) (spell n @ map lower w) (enter n l)"
  using assms
proof (induction w arbitrary: l n)
  case Nil
  note act = word_act_spell [OF Nil.prems(4,5)]
  show ?case
  proof (cases rest)
    case Nil
    with Nil.prems faces_Nil(1) [OF Nil.prems(1)] act show ?thesis
      by (simp add: enter_def eof_action_def word_end_def)
  next
    case (Cons c cs)
    with Nil.prems(3) have "(st_cases ! n) c = Tr 36" using word_stop [OF Nil.prems(4,5)] by (simp add: ends_word_def)
    with Nil.prems faces_Nil [OF Nil.prems(1)] Cons act show ?thesis
      by (simp add: enter_def scan_enter mark_action_def word_end_def)
  qed
next
  case (Cons c w)
  note f = faces_Cons [OF Cons.prems(1)]
  have n9: "n \<noteq> 9" using Cons.prems(4) by auto
  have step: "word_step n c" using Cons.prems by (intro word_step) simp_all
  have scan: "enter n l = scan n l" using f by (simp add: enter_def)
  show ?case
  proof (cases "(st_cases ! n) c")
    case (St m)
    with step have m: "18 \<le> m" "m \<le> 51" "spell m = spell n @ [lower c]" by (simp_all add: word_step_def)
    have "word_end (l\<lparr>lex_p := lex_p l + 1\<rparr>) (length w) (spell m @ map lower w)
        (enter m (l\<lparr>lex_p := lex_p l + 1\<rparr>))"
      using Cons.prems(2) by (intro Cons.IH [OF f(5) _ Cons.prems(3) m(1,2)]) simp
    with St m scan f n9 Cons.prems(5) show ?thesis by (simp add: scan_enter word_end_def)
  next
    case (Tr k)
    let ?u = "spell n @ [lower c]"
    let ?l = "l\<lparr>lex_te := lex_p l + 1, lex_act := word_act ?u, lex_p := lex_p l + 1\<rparr>"
    from Tr step have k: "mark_action k = Some (word_act ?u, 16)" "no_ext ?u" by (simp_all add: word_step_def)
    have "faces ?l w rest" using f(5) by (simp add: faces_def)
    from enter_16 [OF this _ Cons.prems(3) _ _ k(2)] Cons.prems(2) obtain l' where
      "enter 16 ?l = Some (Final 10 l')" "lex_data l' = lex_data l" "lex_pe l' = lex_pe l" "lex_ts l' = lex_ts l"
      "lex_p l' = lex_p l + 1 + length w" "lex_te l' = lex_p l'" "lex_act l' = word_act (?u @ map lower w)" by auto
    with Tr k(1) scan f n9 Cons.prems(5) show ?thesis by (simp add: scan_enter word_end_def)
  qed
qed

end
