(* ===== verification/LexerTokens.thy ===== *)
theory LexerTokens
  imports LexerWords
begin

text \<open>
  The tokens of the query language: words, strings in quotes, numbers and punctuation, each lexed to
  its code and value wherever it stands in a query (\<open>lexeme\<close>).
\<close>

section \<open>Tokens\<close>

definition blank :: "byte \<Rightarrow> bool" where
  "blank c \<longleftrightarrow> c = 32 \<or> 9 \<le> c \<and> c \<le> 13"

text \<open>What is looked at from the start state\<close>

lemma scan_9:
  assumes "faces l (c # w) rest"
  shows "scan 9 l = (let l = l\<lparr>lex_ts := lex_p l\<rparr> in case st_case_9 c of
     St k \<Rightarrow> if k = 0 then Some (Out (l\<lparr>lex_cs := 0\<rparr>)) else enter k (l\<lparr>lex_p := lex_p l + 1\<rparr>)
   | Tr k \<Rightarrow> (case mark_action k of
       None \<Rightarrow> Some (Final k l)
     | Some (a, st) \<Rightarrow> enter st (l\<lparr>lex_te := lex_p l + 1, lex_act := a, lex_p := lex_p l + 1\<rparr>)))"
  using faces_Cons [OF assms]
  by (subst scan.simps)
    (auto simp: exec_case_def go_index_def Let_def enter_def st_cases_def split: jump.splits option.splits)

text \<open>
  \<open>w\<close> is a token of code \<open>tok\<close> and value \<open>upd\<close>, wherever it stands in a query, if a blank or the end
  follows.
\<close>

definition lexeme :: "byte list \<Rightarrow> int \<Rightarrow> (yySymType \<Rightarrow> yySymType) \<Rightarrow> bool" where
  "lexeme w tok upd \<longleftrightarrow> tok \<noteq> 0 \<and> (\<exists>c v. w = c # v \<and> \<not> blank c) \<and>
     (\<forall>l lv rest. faces l w rest \<longrightarrow> (case rest of [] \<Rightarrow> True | c # cs \<Rightarrow> c = 32) \<longrightarrow>
       (\<exists>e l'. scan 9 l = Some e \<and> end_action lv e = Some (Token tok (upd lv) l') \<and> faces l' [] rest \<and> lex_cs l' = 9))"

lemma faces_slice:
  assumes "faces l w rest"
  shows "go_slice (lex_data l) (lex_p l) (lex_p l + length w) = Some w"
    and "faces (l\<lparr>lex_p := lex_p l + length w\<rparr>) [] rest"
proof -
  have d: "drop (lex_p l) (lex_data l) = w @ rest" "lex_p l \<le> length (lex_data l)" using assms by (simp_all add: faces_def)
  have len: "lex_p l + length w \<le> length (lex_data l)" using arg_cong [OF d(1), of length] d(2) by simp
  then show "go_slice (lex_data l) (lex_p l) (lex_p l + length w) = Some w" using d(1) by (simp add: go_slice_def)
  have "drop (lex_p l + length w) (lex_data l) = rest" using arg_cong [OF d(1), of "drop (length w)"] by (simp add: add.commute)
  with len assms show "faces (l\<lparr>lex_p := lex_p l + length w\<rparr>) [] rest" by (simp add: faces_def)
qed

lemma faces_upd [simp]:
  "faces (l\<lparr>lex_ts := a\<rparr>) w rest = faces l w rest" "faces (l\<lparr>lex_te := a\<rparr>) w rest = faces l w rest"
  "faces (l\<lparr>lex_act := a\<rparr>) w rest = faces l w rest" "faces (l\<lparr>lex_cs := a\<rparr>) w rest = faces l w rest"
  by (simp_all add: faces_def)

text \<open>Words\<close>

definition word_tok :: "byte list \<Rightarrow> int" where
  "word_tok w = the (act_token (word_act (map lower w)))"

lemma word_act_cases: "word_act w \<in> {6, 7, 8, 9, 10, 11, 12, 13, 14, 16}"
proof (cases "map_of kw_table w")
  case (Some a)
  then have "a \<in> snd ` set kw_table" by (force dest: map_of_SomeD)
  with Some show ?thesis by (auto simp: word_act_def kw_table_def)
qed (simp add: word_act_def)

lemma word_act_token: "act_token (word_act w) = Some (the (act_token (word_act w)))" "word_act w \<noteq> 0" "word_act w \<noteq> 2"
  using word_act_cases [of w] by (auto simp: act_token_def)

lemma first_letter:
  assumes "ident_letter c"
  shows "(\<exists>m. st_case_9 c = St m \<and> 18 \<le> m \<and> m \<le> 51 \<and> spell m = [lower c]) \<or>
    st_case_9 c = Tr 23 \<and> word_act [lower c] = 16 \<and> no_ext [lower c]"
  using assms
  by (auto simp: ident_letter_def st_case_9_def spell_def spells_def word_act_def kw_table_def no_ext_def lower_eq
      word_le_nat_alt word_less_nat_alt; simp add: word_unat_eq_iff)

lemma scan_word:
  assumes f: "faces l (c # w) rest" and c: "ident_letter c" and w: "list_all ident_cont w" "ends_word rest"
  shows "word_end (l\<lparr>lex_ts := lex_p l\<rparr>) (Suc (length w)) (map lower (c # w)) (scan 9 l)"
proof -
  note fc = faces_Cons [OF f]
  let ?l = "l\<lparr>lex_ts := lex_p l, lex_p := lex_p l + 1\<rparr>"
  have f': "faces ?l w rest" using fc(5) by (simp add: faces_def)
  from first_letter [OF c] show ?thesis
  proof (elim disjE exE conjE)
    fix m assume m: "st_case_9 c = St m" "18 \<le> m" "m \<le> 51" "spell m = [lower c]"
    from enter_word [OF f' w m(2,3)] have "word_end ?l (length w) (map lower (c # w)) (enter m ?l)" by (simp add: m(4))
    with m(1,2) show ?thesis by (simp add: scan_9 [OF f] Let_def word_end_def)
  next
    assume t: "st_case_9 c = Tr 23" "word_act [lower c] = 16" "no_ext [lower c]"
    let ?m = "l\<lparr>lex_ts := lex_p l, lex_te := lex_p l + 1, lex_act := 16, lex_p := lex_p l + 1\<rparr>"
    have "faces ?m w rest" using f' by (simp add: faces_def)
    from enter_16 [OF this w _ _ t(3)] t(2) obtain l' where
      "enter 16 ?m = Some (Final 10 l')" "lex_data l' = lex_data l" "lex_pe l' = lex_pe l" "lex_ts l' = lex_p l"
      "lex_p l' = lex_p l + 1 + length w" "lex_te l' = lex_p l'" "lex_act l' = word_act ([lower c] @ map lower w)" by auto
    with t(1) show ?thesis by (simp add: scan_9 [OF f] Let_def word_end_def mark_action_def)
  qed
qed

lemma ends_word_blank: "(case rest of [] \<Rightarrow> True | c # cs \<Rightarrow> c = 32) \<Longrightarrow> ends_word rest"
  by (auto simp: ends_word_def ident_cont_def split: list.splits)

lemma lexeme_word:
  assumes c: "ident_letter c" and w: "list_all ident_cont w"
  shows "lexeme (c # w) (word_tok (c # w)) (\<lambda>lv. lv\<lparr>sym_str := string_of (c # w)\<rparr>)"
proof -
  have tok: "word_tok (c # w) \<noteq> 0"
    using act_token_word [OF word_act_token(1) [of "map lower (c # w)"]] by (auto simp: word_tok_def lex_words_def token_codes)
  have nb: "\<not> blank c" using c by (auto simp: blank_def ident_letter_def word_le_nat_alt word_unat_eq_iff)
  have "\<exists>e l'. scan 9 l = Some e \<and>
      end_action lv e = Some (Token (word_tok (c # w)) (lv\<lparr>sym_str := string_of (c # w)\<rparr>) l') \<and> faces l' [] rest \<and> lex_cs l' = 9"
    if f: "faces l (c # w) rest" and b: "case rest of [] \<Rightarrow> True | c # cs \<Rightarrow> c = 32" for l lv rest
  proof -
    from scan_word [OF f c w ends_word_blank [OF b]] obtain k l' where
      r: "scan 9 l = Some (Final k l')" "lex_data l' = lex_data l" "lex_pe l' = lex_pe l" "lex_ts l' = lex_p l"
        "lex_p l' = lex_p l + length (c # w)" and
      k: "k = 36 \<and> word_act (map lower (c # w)) = 16 \<or> k = 10 \<and> lex_te l' = lex_p l' \<and> lex_act l' = word_act (map lower (c # w))"
      by (auto simp: word_end_def)
    have "faces l' [] rest" using faces_slice(2) [OF f] r by (simp add: faces_def)
    moreover have "go_slice (lex_data l') (lex_ts l') (lex_p l') = Some (c # w)"
      using faces_slice(1) [OF f] r by simp
    moreover obtain tok where "act_token (word_act (map lower (c # w))) = Some tok" "word_tok (c # w) = tok"
      using word_act_token(1) [of "map lower (c # w)"] by (auto simp: word_tok_def)
    ultimately show ?thesis using r(1) k word_act_token(2,3) [of "map lower (c # w)"]
      by (auto simp: end_action_def final_action_def Let_def str_token_def tr10_def act_token_def [of 16])
  qed
  with tok nb show ?thesis by (auto simp: lexeme_def)
qed


text \<open>Strings in quotes\<close>

lemma enter_quoted:
  assumes "faces l (s @ [39]) rest" "39 \<notin> set s"
  shows "\<exists>l'. enter 3 l = Some (Final 4 l') \<and> lex_data l' = lex_data l \<and> lex_pe l' = lex_pe l \<and> lex_ts l' = lex_ts l \<and>
    lex_p l' = lex_p l + length s"
  using assms
proof (induction s arbitrary: l)
  case Nil
  then have "faces l (39 # []) rest" by simp
  from faces_Cons [OF this] show ?case
    by (simp add: enter_def scan_enter st_cases_def st_case_3_def mark_action_def)
next
  case (Cons c s)
  then have f: "faces l (c # (s @ [39])) rest" by simp
  note fc = faces_Cons [OF f]
  have "enter 3 l = enter 3 (l\<lparr>lex_p := lex_p l + 1\<rparr>)"
    using fc Cons.prems(2) by (subst enter_def) (auto simp: scan_enter st_cases_def st_case_3_def)
  with Cons.IH [OF fc(5)] Cons.prems(2) show ?case by auto
qed

lemma lexeme_quoted:
  assumes "39 \<notin> set s"
  shows "lexeme (39 # s @ [39]) SCONST (\<lambda>lv. lv\<lparr>sym_str := string_of s\<rparr>)"
proof -
  have "\<exists>e l'. scan 9 l = Some e \<and> end_action lv e = Some (Token SCONST (lv\<lparr>sym_str := string_of s\<rparr>) l') \<and>
      faces l' [] rest \<and> lex_cs l' = 9" if f: "faces l (39 # s @ [39]) rest" for l lv rest
  proof -
    note fc = faces_Cons [OF f]
    let ?l = "l\<lparr>lex_ts := lex_p l, lex_p := lex_p l + 1\<rparr>"
    have f': "faces ?l (s @ [39]) rest" using fc(5) by (simp add: faces_def)
    from enter_quoted [OF this assms] obtain l' where
      r: "enter 3 ?l = Some (Final 4 l')" "lex_data l' = lex_data l" "lex_pe l' = lex_pe l" "lex_ts l' = lex_p l"
      "lex_p l' = lex_p l + 1 + length s" by auto
    have "scan 9 l = Some (Final 4 l')" using r(1) by (simp add: scan_9 [OF f] Let_def st_case_9_def)
    moreover have "go_slice (lex_data l) (lex_p l + 1) (lex_p l + 1 + length s) = Some s"
      using faces_slice(1) [of ?l s "39 # rest"] f' by (simp add: faces_def)
    moreover have "faces (l'\<lparr>lex_te := lex_p l' + 1, lex_p := lex_p l' + 1, lex_cs := 9\<rparr>) [] rest"
      using faces_slice(2) [OF f'] r by (simp add: faces_def add.commute add.left_commute)
    ultimately show ?thesis using r by (simp add: end_action_def final_action_def Let_def str_token_def)
  qed
  then show ?thesis by (simp add: lexeme_def blank_def token_codes)
qed

text \<open>Punctuation\<close>

lemma lexeme_punct:
  assumes "(c, k :: nat, tok) \<in> {(40, 15, TOPENBR), (41, 16, TCLOSEBR), (44, 17, TCOMMA)}"
  shows "lexeme [c] tok (\<lambda>lv. lv\<lparr>sym_str := string_of [c]\<rparr>)"
proof -
  have "\<exists>e l'. scan 9 l = Some e \<and> end_action lv e = Some (Token tok (lv\<lparr>sym_str := string_of [c]\<rparr>) l') \<and>
      faces l' [] rest \<and> lex_cs l' = 9" if f: "faces l [c] rest" for l lv rest
  proof -
    have "st_case_9 c = Tr k \<and> mark_action k = None"
      using assms by (elim insertE; simp add: st_case_9_def mark_action_def)
    then have "scan 9 l = Some (Final k (l\<lparr>lex_ts := lex_p l\<rparr>))" by (simp add: scan_9 [OF f] Let_def)
    with faces_slice [OF f] assms show ?thesis
      by (elim insertE; simp add: end_action_def final_action_def Let_def str_token_def faces_def)
  qed
  moreover have "tok \<noteq> 0" "\<not> blank c" using assms by (elim insertE; simp add: blank_def token_codes)+
  ultimately show ?thesis by (simp add: lexeme_def)
qed

text \<open>Numbers\<close>

definition digit :: "byte \<Rightarrow> bool" where
  "digit c \<longleftrightarrow> 48 \<le> c \<and> c \<le> 57"

lemma st_digits:
  "digit c \<Longrightarrow> (st_cases ! 15) c = St 15" "digit c \<Longrightarrow> (st_cases ! 17) c = St 17" "digit c \<Longrightarrow> (st_cases ! 13) c = St 13"
  "(st_cases ! 15) 32 = Tr 35" "(st_cases ! 17) 32 = Tr 35" "(st_cases ! 13) 32 = Tr 34"
  by (auto simp: st_cases_def st_case_15_def st_case_17_def st_case_13_def digit_def word_le_nat_alt word_less_nat_alt)

lemma enter_digits:
  assumes "faces l ds rest" "list_all digit ds" "case rest of [] \<Rightarrow> True | c # cs \<Rightarrow> c = 32"
    and "(n, k) \<in> {(15, 35), (17, 35), (13, 34)}"
  shows "\<exists>l'. enter n l = Some (Final k l') \<and> lex_data l' = lex_data l \<and> lex_pe l' = lex_pe l \<and> lex_ts l' = lex_ts l \<and>
    lex_p l' = lex_p l + length ds"
  using assms(1,2)
proof (induction ds arbitrary: l)
  case Nil
  show ?case
  proof (cases rest)
    case Nil
    with assms(4) faces_Nil(1) [OF Nil.prems(1)] show ?thesis by (auto simp: enter_def eof_action_def)
  next
    case (Cons c cs)
    with assms(3) have "c = 32" by simp
    with assms(4) faces_Nil [OF Nil.prems(1)] Cons show ?thesis
      by (auto simp: enter_def scan_enter st_digits mark_action_def)
  qed
next
  case (Cons c ds)
  note fc = faces_Cons [OF Cons.prems(1)]
  have "enter n l = enter n (l\<lparr>lex_p := lex_p l + 1\<rparr>)"
    using fc Cons.prems(2) assms(4) by (subst enter_def) (auto simp: scan_enter st_digits)
  with Cons.IH [OF fc(5)] Cons.prems(2) show ?case by auto
qed

lemma lexeme_int:
  assumes "list_all digit ds" "ds \<noteq> []" "w = ds \<or> w = 45 # ds"
  shows "lexeme w ICONST (\<lambda>lv. lv\<lparr>sym_int := Atoi_value (string_of w)\<rparr>)"
proof -
  obtain c v where w: "w = c # v" and v: "list_all digit v" and
    first: "(\<exists>m \<in> {15, 17}. st_case_9 c = St m) \<and> digit c \<or> c = 45 \<and> v \<noteq> []"
  proof -
    obtain d ds' where ds: "ds = d # ds'" using assms(2) by (cases ds) auto
    have "digit d \<Longrightarrow> \<exists>m \<in> {15, 17}. st_case_9 d = St m"
      by (auto simp: digit_def st_case_9_def word_le_nat_alt word_less_nat_alt; simp add: word_unat_eq_iff)
    with assms ds that show thesis by (elim disjE) auto
  qed
  have "\<exists>e l'. scan 9 l = Some e \<and> end_action lv e = Some (Token ICONST (lv\<lparr>sym_int := Atoi_value (string_of w)\<rparr>) l') \<and>
      faces l' [] rest \<and> lex_cs l' = 9"
    if f: "faces l w rest" and b: "case rest of [] \<Rightarrow> True | c # cs \<Rightarrow> c = 32" for l lv rest
  proof -
    note fc = faces_Cons [OF f [unfolded w]]
    let ?l = "l\<lparr>lex_ts := lex_p l, lex_p := lex_p l + 1\<rparr>"
    have f': "faces ?l v rest" using fc(5) by (simp add: faces_def)
    have "\<exists>k \<in> {34, 35}. \<exists>l'. scan 9 l = Some (Final k l') \<and> lex_data l' = lex_data l \<and> lex_pe l' = lex_pe l \<and>
        lex_ts l' = lex_p l \<and> lex_p l' = lex_p l + length w"
      using first
    proof (elim disjE conjE bexE)
      fix m :: nat assume m: "m \<in> {15, 17}" "st_case_9 c = St m"
      with enter_digits [OF f' v b, of m 35] show ?thesis
        by (auto simp: scan_9 [OF f [unfolded w]] Let_def w)
    next
      assume "c = 45" "v \<noteq> []"
      then obtain d v' where d: "v = d # v'" by (cases v) auto
      note fd = faces_Cons [OF f' [unfolded d]]
      have "scan 9 l = enter 4 ?l" using \<open>c = 45\<close> by (simp add: scan_9 [OF f [unfolded w]] Let_def st_case_9_def)
      also have "\<dots> = enter 13 (?l\<lparr>lex_p := lex_p ?l + 1\<rparr>)"
        using fd v d by (subst enter_def)
          (auto simp: scan_enter st_cases_def st_case_4_def digit_def word_le_nat_alt word_unat_eq_iff)
      finally show ?thesis
        using enter_digits [OF fd(5) _ b, of 13 34] v by (auto simp: d w)
    qed
    then obtain k l' where r: "k \<in> {34, 35}" "scan 9 l = Some (Final k l')" "lex_data l' = lex_data l"
      "lex_pe l' = lex_pe l" "lex_ts l' = lex_p l" "lex_p l' = lex_p l + length w" by blast
    have "faces l' [] rest" using faces_slice(2) [OF f] r by (simp add: faces_def)
    with faces_slice(1) [OF f] r show ?thesis
      by (auto simp: end_action_def final_action_def Let_def int_token_def)
  qed
  moreover have "\<not> blank c" using first by (auto simp: blank_def digit_def word_le_nat_alt word_unat_eq_iff)
  ultimately show ?thesis by (auto simp: lexeme_def w token_codes)
qed

end
