(* ===== verification/ParserTables.thy ===== *)
theory ParserTables
  imports ConsoleParser
begin

text \<open>
  The entries of the parser's tables as rewrite rules (the collection \<open>yy_tab\<close>), single rounds of
  the driver, and the fact that no state shifts the symbol \<open>error\<close>, so that a syntax error always
  ends the parse.
\<close>

named_theorems yy_tab \<open>entries of the parser's tables\<close>

section \<open>The tables\<close>

lemma yyAct_tab [yy_tab]:
  shows
    "tab yyAct 0 = Some 33" "tab yyAct 1 = Some 32" "tab yyAct 2 = Some 13" "tab yyAct 3 = Some 7"
    "tab yyAct 4 = Some 25" "tab yyAct 5 = Some 8" "tab yyAct 6 = Some 11" "tab yyAct 7 = Some 15"
    "tab yyAct 8 = Some 23" "tab yyAct 9 = Some 18" "tab yyAct 10 = Some 16" "tab yyAct 11 = Some 17"
    "tab yyAct 12 = Some 26" "tab yyAct 13 = Some 27" "tab yyAct 14 = Some 21" "tab yyAct 15 = Some 31"
    "tab yyAct 16 = Some 19" "tab yyAct 17 = Some 30" "tab yyAct 18 = Some 14" "tab yyAct 19 = Some 12"
    "tab yyAct 20 = Some 1" "tab yyAct 21 = Some 22" "tab yyAct 22 = Some 10" "tab yyAct 23 = Some 20"
    "tab yyAct 24 = Some 9" "tab yyAct 25 = Some 24" "tab yyAct 26 = Some 29" "tab yyAct 27 = Some 28"
    "tab yyAct 28 = Some 5" "tab yyAct 29 = Some 6" "tab yyAct 30 = Some 4" "tab yyAct 31 = Some 3"
    "tab yyAct 32 = Some 2" "tab yyAct 33 = Some 0" "tab yyAct 34 = Some 0" "tab yyAct 35 = Some 0"
    "tab yyAct 36 = Some 34"
  by (simp_all add: tab_def go_index_def yyAct_def)

lemma yyPact_tab [yy_tab]:
  shows
    "tab yyPact 0 = Some (- 1)" "tab yyPact 1 = Some (- 1000)" "tab yyPact 2 = Some (- 29)" "tab yyPact 3 = Some (- 1000)"
    "tab yyPact 4 = Some (- 1000)" "tab yyPact 5 = Some (- 1000)" "tab yyPact 6 = Some (- 1000)" "tab yyPact 7 = Some 13"
    "tab yyPact 8 = Some (- 21)" "tab yyPact 9 = Some (- 16)" "tab yyPact 10 = Some (- 13)" "tab yyPact 11 = Some (- 18)"
    "tab yyPact 12 = Some (- 1000)" "tab yyPact 13 = Some (- 1000)" "tab yyPact 14 = Some (- 1000)" "tab yyPact 15 = Some (- 1000)"
    "tab yyPact 16 = Some (- 1000)" "tab yyPact 17 = Some (- 1000)" "tab yyPact 18 = Some 8" "tab yyPact 19 = Some 5"
    "tab yyPact 20 = Some (- 1000)" "tab yyPact 21 = Some (- 24)" "tab yyPact 22 = Some 2" "tab yyPact 23 = Some (- 1000)"
    "tab yyPact 24 = Some (- 12)" "tab yyPact 25 = Some (- 1000)" "tab yyPact 26 = Some (- 1000)" "tab yyPact 27 = Some (- 24)"
    "tab yyPact 28 = Some (- 1000)" "tab yyPact 29 = Some (- 1000)" "tab yyPact 30 = Some (- 1000)" "tab yyPact 31 = Some (- 1000)"
    "tab yyPact 32 = Some (- 1000)" "tab yyPact 33 = Some (- 1000)" "tab yyPact 34 = Some (- 1000)"
  by (simp_all add: tab_def go_index_def yyPact_def)

lemma yyPgo_tab [yy_tab]:
  shows
    "tab yyPgo 0 = Some 0" "tab yyPgo 1 = Some 32" "tab yyPgo 2 = Some 31" "tab yyPgo 3 = Some 30"
    "tab yyPgo 4 = Some 29" "tab yyPgo 5 = Some 28" "tab yyPgo 6 = Some 28" "tab yyPgo 7 = Some 8"
    "tab yyPgo 8 = Some 27" "tab yyPgo 9 = Some 26" "tab yyPgo 10 = Some 25" "tab yyPgo 11 = Some 23"
    "tab yyPgo 12 = Some 21" "tab yyPgo 13 = Some 20" "tab yyPgo 14 = Some 19"
  by (simp_all add: tab_def go_index_def yyPgo_def)

lemma yyR1_tab [yy_tab]:
  shows
    "tab yyR1 0 = Some 0" "tab yyR1 1 = Some 13" "tab yyR1 2 = Some 14" "tab yyR1 3 = Some 14"
    "tab yyR1 4 = Some 6" "tab yyR1 5 = Some 6" "tab yyR1 6 = Some 1" "tab yyR1 7 = Some 1"
    "tab yyR1 8 = Some 1" "tab yyR1 9 = Some 1" "tab yyR1 10 = Some 1" "tab yyR1 11 = Some 2"
    "tab yyR1 12 = Some 3" "tab yyR1 13 = Some 4" "tab yyR1 14 = Some 11" "tab yyR1 15 = Some 12"
    "tab yyR1 16 = Some 12" "tab yyR1 17 = Some 7" "tab yyR1 18 = Some 8" "tab yyR1 19 = Some 8"
    "tab yyR1 20 = Some 8" "tab yyR1 21 = Some 8" "tab yyR1 22 = Some 9" "tab yyR1 23 = Some 9"
    "tab yyR1 24 = Some 10" "tab yyR1 25 = Some 5" "tab yyR1 26 = Some 5"
  by (simp_all add: tab_def go_index_def yyR1_def)

lemma yyR2_tab [yy_tab]:
  shows
    "tab yyR2 0 = Some 0" "tab yyR2 1 = Some 2" "tab yyR2 2 = Some 1" "tab yyR2 3 = Some 0"
    "tab yyR2 4 = Some 1" "tab yyR2 5 = Some 1" "tab yyR2 6 = Some 1" "tab yyR2 7 = Some 1"
    "tab yyR2 8 = Some 1" "tab yyR2 9 = Some 1" "tab yyR2 10 = Some 0" "tab yyR2 11 = Some 2"
    "tab yyR2 12 = Some 2" "tab yyR2 13 = Some 4" "tab yyR2 14 = Some 3" "tab yyR2 15 = Some 1"
    "tab yyR2 16 = Some 3" "tab yyR2 17 = Some 2" "tab yyR2 18 = Some 1" "tab yyR2 19 = Some 1"
    "tab yyR2 20 = Some 1" "tab yyR2 21 = Some 0" "tab yyR2 22 = Some 1" "tab yyR2 23 = Some 1"
    "tab yyR2 24 = Some 1" "tab yyR2 25 = Some 2" "tab yyR2 26 = Some 2"
  by (simp_all add: tab_def go_index_def yyR2_def)

lemma yyChk_tab [yy_tab]:
  shows
    "tab yyChk 0 = Some (- 1000)" "tab yyChk 1 = Some (- 13)" "tab yyChk 2 = Some (- 1)" "tab yyChk 3 = Some (- 2)"
    "tab yyChk 4 = Some (- 3)" "tab yyChk 5 = Some (- 5)" "tab yyChk 6 = Some (- 4)" "tab yyChk 7 = Some 4"
    "tab yyChk 8 = Some 6" "tab yyChk 9 = Some 25" "tab yyChk 10 = Some 23" "tab yyChk 11 = Some 7"
    "tab yyChk 12 = Some (- 14)" "tab yyChk 13 = Some 31" "tab yyChk 14 = Some 5" "tab yyChk 15 = Some 28"
    "tab yyChk 16 = Some 26" "tab yyChk 17 = Some 24" "tab yyChk 18 = Some 27" "tab yyChk 19 = Some 8"
    "tab yyChk 20 = Some (- 11)" "tab yyChk 21 = Some 9" "tab yyChk 22 = Some (- 12)" "tab yyChk 23 = Some (- 7)"
    "tab yyChk 24 = Some (- 10)" "tab yyChk 25 = Some 28" "tab yyChk 26 = Some 10" "tab yyChk 27 = Some 11"
    "tab yyChk 28 = Some (- 8)" "tab yyChk 29 = Some (- 9)" "tab yyChk 30 = Some 29" "tab yyChk 31 = Some 27"
    "tab yyChk 32 = Some 13" "tab yyChk 33 = Some 12" "tab yyChk 34 = Some (- 7)"
  by (simp_all add: tab_def go_index_def yyChk_def)

lemma yyDef_tab [yy_tab]:
  shows
    "tab yyDef 0 = Some 10" "tab yyDef 1 = Some (- 2)" "tab yyDef 2 = Some 3" "tab yyDef 3 = Some 6"
    "tab yyDef 4 = Some 7" "tab yyDef 5 = Some 8" "tab yyDef 6 = Some 9" "tab yyDef 7 = Some 0"
    "tab yyDef 8 = Some 0" "tab yyDef 9 = Some 0" "tab yyDef 10 = Some 0" "tab yyDef 11 = Some 0"
    "tab yyDef 12 = Some 1" "tab yyDef 13 = Some 2" "tab yyDef 14 = Some 11" "tab yyDef 15 = Some 12"
    "tab yyDef 16 = Some 25" "tab yyDef 17 = Some 26" "tab yyDef 18 = Some 0" "tab yyDef 19 = Some 0"
    "tab yyDef 20 = Some 13" "tab yyDef 21 = Some 0" "tab yyDef 22 = Some 0" "tab yyDef 23 = Some 15"
    "tab yyDef 24 = Some 21" "tab yyDef 25 = Some 24" "tab yyDef 26 = Some 14" "tab yyDef 27 = Some 0"
    "tab yyDef 28 = Some 17" "tab yyDef 29 = Some 18" "tab yyDef 30 = Some 19" "tab yyDef 31 = Some 20"
    "tab yyDef 32 = Some 22" "tab yyDef 33 = Some 23" "tab yyDef 34 = Some 16"
  by (simp_all add: tab_def go_index_def yyDef_def)

lemma yytok_tab [yy_tab]:
  shows "yytok 0 = Some 1" "yytok SAY = Some 4" "yytok HELLO = Some 5" "yytok SHOW = Some 6"
    "yytok COPY = Some 7" "yytok WITH = Some 8" "yytok TOPENBR = Some 9" "yytok TCLOSEBR = Some 10"
    "yytok TCOMMA = Some 11" "yytok KURT = Some 23" "yytok KOBAIN = Some 24" "yytok STOP = Some 25"
    "yytok SYSTEM = Some 26" "yytok SCONST = Some 27" "yytok IDENT = Some 28" "yytok ICONST = Some 29"
    "yytok TEQ = Some 30"
  by (simp_all add: yytok_def Let_def tab_def go_index_def yy_tables token_codes)

lemma yyExca_tab [yy_tab]: "exca_state yyExca 1 = Some [1, - 1, - 2, 0]"
  by (simp add: yyExca_def)

section \<open>Rounds of the driver\<close>

lemmas yy_consts = yyInitialStackSize_def yyEofCode_def yyErrCode_def yyLast_def yyFlag_def

lemma lookahead_held [simp]: "0 \<le> yychar c \<Longrightarrow> lookahead c = Some c"
  by (simp add: lookahead_def)

lemma lookahead_pull:
  "yychar c < 0 \<Longrightarrow> Tokenizer_Lex (yylval c) (yylexer c) = Some (tok, lv, t) \<Longrightarrow> yytok tok = Some n \<Longrightarrow>
    lookahead c = Some (c\<lparr>yychar := tok, yytoken := n, yylval := lv, yylexer := t\<rparr>)"
  by (simp add: lookahead_def yylex1_def)

lemma grow_small [simp]: "i < int (length S) \<Longrightarrow> grow i S = S"
  by (simp add: grow_def)

lemma yyrun_goes: "yyround at c = Some (Inr (at', c')) \<Longrightarrow> yyrun at c = yyrun at' c'"
  by (subst yyrun.simps) simp

lemma yyrun_ends: "yyround at c = Some (Inl r) \<Longrightarrow> yyrun at c = Some r"
  by (subst yyrun.simps) simp

text \<open>No state shifts the symbol \<open>error\<close>, so every syntax error ends the parse.\<close>

definition state_ok :: "int \<Rightarrow> bool" where
  "state_ok s \<longleftrightarrow> 0 \<le> s \<and> s < 35"

lemma state_cases:
  "state_ok s \<Longrightarrow> s \<in> set [0, 1, 2, 3, 4, 5, 6, 7, 8, 9, 10, 11, 12, 13, 14, 15, 16, 17, 18, 19, 20, 21, 22,
     23, 24, 25, 26, 27, 28, 29, 30, 31, 32, 33, 34]"
  unfolding state_ok_def by simp presburger

lemma no_error_shift:
  assumes "state_ok s"
  shows "\<exists>a. tab yyPact s = Some a \<and> (a + 2 < 0 \<or> 37 \<le> a + 2 \<or>
    (\<exists>st chk. tab yyAct (a + 2) = Some st \<and> tab yyChk st = Some chk \<and> chk \<noteq> 2))"
  using state_cases [OF assms] by (auto simp: yy_tab)

lemma yyrecover_none:
  assumes "p \<le> length S" and "\<forall>i < p. state_ok (sym_yys (S ! i))"
  shows "yyrecover S p = Some None"
  using assms
proof (induction p)
  case (Suc p)
  from no_error_shift [of "sym_yys (S ! p)"] Suc.prems obtain a where
    a: "tab yyPact (sym_yys (S ! p)) = Some a" "a + 2 < 0 \<or> 37 \<le> a + 2 \<or>
      (\<exists>st chk. tab yyAct (a + 2) = Some st \<and> tab yyChk st = Some chk \<and> chk \<noteq> 2)" by auto
  with Suc show ?case by (auto simp: go_index_def yy_consts Let_def)
qed simp

end
