(* ===== verification/ConsoleGrammar.thy ===== *)
theory ConsoleGrammar
  imports ParserTables LexerSafety
begin

text \<open>
  What the parser's tables implement: the grammar of the console's commands as a function on the
  list of tokens, and the proof that the driver, on every query, returns and accepts exactly the
  token lists of the grammar, with the grammar's tree (\<open>Parse_spec\<close>).
\<close>

section \<open>The grammar\<close>

text \<open>
  What the tables implement, on the list of tokens of a query (code and value of each). An option
  without an argument takes the argument of the option before it, from the third option on: the
  action of the empty production leaves \<open>$$\<close> alone, which holds what the stack had there.
\<close>

type_synonym token = "int \<times> yySymType"

definition g_fin :: "Node option \<Rightarrow> token list \<Rightarrow> Node option option" where
  "g_fin nd ts = (if ts = [] then Some nd else None)"

definition g_word :: "int \<Rightarrow> (yySymType \<Rightarrow> token list \<Rightarrow> Node option option) \<Rightarrow> token list \<Rightarrow> Node option option" where
  "g_word tok k ts = (case ts of [] \<Rightarrow> None | (t, v) # ts \<Rightarrow> if t = tok then k v ts else None)"

definition g_arg :: "Node option \<Rightarrow> token list \<Rightarrow> Node option \<times> token list" where
  "g_arg stale ts =
     (case ts of
        [] \<Rightarrow> (stale, [])
      | (t, v) # us \<Rightarrow>
          (if t = ICONST then (Some (AExprIConst (sym_int v)), us)
           else if t = SCONST then (Some (AExprSConst (sym_str v)), us)
           else (stale, ts)))"

lemma g_arg_length: "(a, us) = g_arg stale ts \<Longrightarrow> length us \<le> length ts"
  by (auto simp: g_arg_def split: list.splits if_splits)

function g_rest :: "string \<Rightarrow> Node option \<Rightarrow> Node option list \<Rightarrow> token list \<Rightarrow> Node option option" where
  "g_rest path prev opts ts =
     (case ts of
        [] \<Rightarrow> None
      | (t, v) # us \<Rightarrow>
          (if t = TCLOSEBR then g_fin (Some (CopyCommand path opts)) us
           else if t = TCOMMA then
             (case us of
                [] \<Rightarrow> None
              | (t', w) # vs \<Rightarrow>
                  (if t' = IDENT
                   then (case g_arg prev vs of
                           (a, ws) \<Rightarrow> g_rest path a (opts @ [Some (OptionNode (sym_str w) a)]) ws)
                   else None))
           else None))"
  by pat_completeness auto
termination
  by (relation "measure (\<lambda>(path, prev, opts, ts). length ts)") (auto dest!: g_arg_length)

declare g_rest.simps [simp del]

definition g_options :: "string \<Rightarrow> token list \<Rightarrow> Node option option" where
  "g_options path = g_word IDENT (\<lambda>w ts.
     case g_arg None ts of (a, us) \<Rightarrow> g_rest path None [Some (OptionNode (sym_str w) a)] us)"

definition tree_of :: "token list \<Rightarrow> Node option option" where
  "tree_of ts =
     (case ts of
        [] \<Rightarrow> Some None
      | (t, v) # us \<Rightarrow>
          (if t = SAY then g_word HELLO (\<lambda>w. g_fin (Some SayHelloCommand)) us
           else if t = SHOW then g_word IDENT (\<lambda>w. g_fin (Some (ShowCommand (sym_str w)))) us
           else if t = STOP then g_word SYSTEM (\<lambda>w. g_fin (Some KKBCommand)) us
           else if t = KURT then g_word KOBAIN (\<lambda>w. g_fin (Some KKBCommand)) us
           else if t = COPY then
             g_word SCONST (\<lambda>path. g_word WITH (\<lambda>w. g_word TOPENBR (\<lambda>b. g_options (sym_str path)))) us
           else None))"

text \<open>The tokens of a query: what \<open>Lex\<close> returns one after the other until the end.\<close>

inductive lexes :: "yySymType \<Rightarrow> Lexer \<Rightarrow> token list \<Rightarrow> bool" where
  lexes_end: "Lex lv l = Some (0, lv', l') \<Longrightarrow> lexes lv l []"
| lexes_token: "Lex lv l = Some (tok, lv', l') \<Longrightarrow> tok \<noteq> 0 \<Longrightarrow> lexes lv' l' ts \<Longrightarrow> lexes lv l ((tok, lv') # ts)"

inductive_cases lexes_NilE: "lexes lv l []"
inductive_cases lexes_ConsE: "lexes lv l (t # ts)"

lemma lexes_iff:
  assumes "Lex lv l = Some (tok, lv', l')"
  shows "lexes lv l ts \<longleftrightarrow> (if tok = 0 then ts = [] else \<exists>us. ts = (tok, lv') # us \<and> lexes lv' l' us)"
  using assms by (cases ts) (auto elim: lexes_NilE lexes_ConsE intro: lexes.intros)

section \<open>The driver parses the grammar\<close>

text \<open>The tokens a driver will still see: the one it holds, then what the lexer delivers.\<close>

definition feeds :: "yyParser \<Rightarrow> token list \<Rightarrow> bool" where
  "feeds c ts \<longleftrightarrow>
     (if yychar c < 0 then lexes (yylval c) (tk_l (yylexer c)) ts
      else if yychar c = 0 then ts = []
      else \<exists>us. ts = (yychar c, yylval c) # us \<and> lexes (yylval c) (tk_l (yylexer c)) us)"

text \<open>
  From \<open>c\<close> the driver returns, and it accepts exactly if the tokens it sees form a command by the
  grammar \<open>G\<close> of the rest, with that command as its tree.
\<close>

definition parses :: "yyParser \<Rightarrow> (token list \<Rightarrow> Node option option) \<Rightarrow> bool" where
  "parses c G \<longleftrightarrow>
     (\<exists>r c'. yyrun Yystack c = Some (r, c') \<and> (r = 0 \<or> r = 1 \<and> tk_LastError (yylexer c') = ''syntax error'') \<and>
        (\<forall>nd. r = 0 \<and> tk_ParseTree (yylexer c') = nd \<longleftrightarrow> (\<exists>ts. feeds c ts \<and> G ts = Some nd)))"

text \<open>
  Between two rounds: \<open>xs\<close> are the states on the stack, which is within its first allocation, \<open>s\<close>
  is the state to be pushed, and there was no error so far.
\<close>

definition stacked :: "yyParser \<Rightarrow> int \<Rightarrow> int list \<Rightarrow> bool" where
  "stacked c s xs \<longleftrightarrow> length (yyS c) = 16 \<and> yystate c = s \<and> Errflag c = 0 \<and> yyp c = int (length xs) - 1 \<and>
     map sym_yys (take (length xs) (yyS c)) = xs \<and> length xs < 15 \<and> list_all state_ok (s # xs)"

definition pushed :: "yyParser \<Rightarrow> yySymType list" where
  "pushed c = (yyS c)[nat (yyp c + 1) := (yyVAL c)\<lparr>sym_yys := yystate c\<rparr>]"

definition push :: "yyParser \<Rightarrow> yyParser" where
  "push c = c\<lparr>yyp := yyp c + 1, yyS := pushed c\<rparr>"

lemma stacked_stack: "stacked c s xs \<Longrightarrow> i < length xs \<Longrightarrow> sym_yys (yyS c ! i) = xs ! i"
  unfolding stacked_def by (metis length_map nth_map nth_take)

lemma stacked_pushed:
  assumes "stacked c s xs"
  shows "map sym_yys (take (Suc (length xs)) (pushed c)) = xs @ [s]"
proof (rule nth_equalityI)
  fix i assume "i < length (map sym_yys (take (Suc (length xs)) (pushed c)))"
  then have "i < length xs \<or> i = length xs" by auto
  with assms stacked_stack [OF assms, of i] show "map sym_yys (take (Suc (length xs)) (pushed c)) ! i = (xs @ [s]) ! i"
    by (auto simp: pushed_def stacked_def nth_append)
qed (use assms in \<open>simp add: pushed_def stacked_def\<close>)

lemma pushed_length [simp]: "length (pushed c) = length (yyS c)"
  by (simp add: pushed_def)

lemma yystack_push: "stacked c s xs \<Longrightarrow> yystack c = Some (push c)"
  by (simp add: yystack_def push_def pushed_def Let_def grow_def stacked_def)

text \<open>A driver that holds a token, with the lexer ready unless it is the end\<close>

definition held :: "yyParser \<Rightarrow> bool" where
  "held c \<longleftrightarrow> yytok (yychar c) = Some (yytoken c) \<and>
     (yychar c = 0 \<or> yychar c \<in> lex_tokens \<and> lex_ok (tk_l (yylexer c)))"

definition empty_handed :: "yyParser \<Rightarrow> bool" where
  "empty_handed c \<longleftrightarrow> yychar c = - 1 \<and> lex_ok (tk_l (yylexer c))"

lemma lex_tokens_pos: "tok \<in> lex_tokens \<Longrightarrow> 0 < tok"
  by (auto simp: lex_tokens_def lex_words_def token_codes)

lemma yytok_lex_tokens: "tok \<in> lex_tokens \<Longrightarrow> \<exists>n. yytok tok = Some n"
  by (auto simp: lex_tokens_def lex_words_def yy_tab)

lemma feeds_held: "held c \<Longrightarrow> yychar c \<noteq> 0 \<Longrightarrow>
    feeds c ts \<longleftrightarrow> (\<exists>us. ts = (yychar c, yylval c) # us \<and> lexes (yylval c) (tk_l (yylexer c)) us)"
  using lex_tokens_pos [of "yychar c"] by (auto simp: feeds_def held_def)

lemma feeds_end: "yychar c = 0 \<Longrightarrow> feeds c ts \<longleftrightarrow> ts = []"
  by (simp add: feeds_def)

lemma feeds_empty: "empty_handed c \<Longrightarrow> feeds c ts \<longleftrightarrow> lexes (yylval c) (tk_l (yylexer c)) ts"
  by (simp add: feeds_def empty_handed_def)

lemma parses_goes:
  assumes "yyround Yystack c = Some (Inr (Yystack, c'))" and "parses c' G'"
    and "\<And>nd. (\<exists>ts. feeds c ts \<and> G ts = Some nd) \<longleftrightarrow> (\<exists>ts. feeds c' ts \<and> G' ts = Some nd)"
  shows "parses c G"
  using assms(2,3) unfolding parses_def yyrun_goes [OF assms(1)] by simp

text \<open>A reduction changes neither the token held nor the lexer.\<close>

lemma parses_reduce:
  assumes "yyround Yystack c = Some (Inr (Yystack, c'))" and "parses c' G"
    and "yychar c' = yychar c" "yylval c' = yylval c" "tk_l (yylexer c') = tk_l (yylexer c)"
  shows "parses c G"
  using assms by (intro parses_goes [of c c' G G]) (simp_all add: feeds_def)

lemma parses_shift:
  assumes "yyround Yystack c = Some (Inr (Yystack, c'))" and "held c" "yychar c \<noteq> 0"
    and "parses c' G'" "yychar c' = - 1" "yylval c' = yylval c" "tk_l (yylexer c') = tk_l (yylexer c)"
    and "\<And>us. G ((yychar c, yylval c) # us) = G' us"
  shows "parses c G"
proof -
  have "feeds c' ts \<longleftrightarrow> lexes (yylval c) (tk_l (yylexer c)) ts" for ts using assms(5-7) by (simp add: feeds_def)
  then show ?thesis by (intro parses_goes [OF assms(1,4)]) (auto simp: feeds_held [OF assms(2,3)] assms(8))
qed

lemma parses_pull:
  assumes c: "empty_handed c" "stacked c s xs" and pact: "tab yyPact s = Some a" "- 1000 < a"
    and held: "\<And>tok n lv l. yytok tok = Some n \<Longrightarrow> Lex (yylval c) (tk_l (yylexer c)) = Some (tok, lv, l) \<Longrightarrow>
      held (c\<lparr>yychar := tok, yytoken := n, yylval := lv, yylexer := (yylexer c)\<lparr>tk_l := l\<rparr>\<rparr>) \<Longrightarrow>
      tok \<noteq> 0 \<longrightarrow> lex_p (tk_l (yylexer c)) \<le> lex_p l \<and> (tok \<notin> lex_words \<longrightarrow> lex_p (tk_l (yylexer c)) < lex_p l) \<and>
        lex_pe l = lex_pe (tk_l (yylexer c)) \<Longrightarrow>
      parses (c\<lparr>yychar := tok, yytoken := n, yylval := lv, yylexer := (yylexer c)\<lparr>tk_l := l\<rparr>\<rparr>) G"
  shows "parses c G"
proof -
  let ?l = "tk_l (yylexer c)"
  from c have "lex_ok ?l" "yychar c = - 1" by (simp_all add: empty_handed_def)
  from Lex_ok [OF this(1), of "yylval c"] obtain tok lv l where
    lex: "Lex (yylval c) ?l = Some (tok, lv, l)" and post: "tok = 0 \<or> end_post ?l (Token tok lv l)" by blast
  obtain n where n: "yytok tok = Some n" using post yytok_lex_tokens [of tok] by (auto simp: yy_tab)
  let ?c = "c\<lparr>yychar := tok, yytoken := n, yylval := lv, yylexer := (yylexer c)\<lparr>tk_l := l\<rparr>\<rparr>"
  have tok: "0 \<le> tok" using post lex_tokens_pos [of tok] by auto
  have "held ?c" using n post by (auto simp: held_def)
  with held [OF n lex] post have "parses ?c G" by auto
  moreover have "feeds c ts \<longleftrightarrow> feeds ?c ts" for ts
    using lexes_iff [OF lex, of ts] tok \<open>yychar c = - 1\<close> by (simp add: feeds_def)
  moreover have "yyround Yystack c = yyround Yystack ?c"
  proof -
    have "lookahead (push c) = Some (push ?c)"
      using lex n \<open>yychar c = - 1\<close> by (simp add: lookahead_def yylex1_def Tokenizer_Lex_def push_def pushed_def)
    moreover have "lookahead (push ?c) = Some (push ?c)" using tok by (simp add: push_def)
    moreover have "stacked ?c s xs" "yystate (push c) = s" "yystate (push ?c) = s"
      using c(2) by (simp_all add: stacked_def push_def)
    ultimately show ?thesis
      using pact by (simp add: yyround_def yystack_push [OF c(2)] yystack_push [of ?c s xs] yynewstate_def yy_consts Let_def)
  qed
  then have "yyrun Yystack c = yyrun Yystack ?c" by (simp add: yyrun.simps)
  ultimately show ?thesis by (simp add: parses_def)
qed

text \<open>A token that the state cannot take ends the parse with a syntax error.\<close>

lemma parses_error:
  assumes c: "stacked c s xs" "held c" and err: "yynewstate (push c) = yyerror (push c)"
    and G: "\<And>us. G ((yychar c, yylval c) # us) = None" "yychar c = 0 \<Longrightarrow> G [] = None"
  shows "parses c G"
proof -
  have ok: "length (pushed c) = 16" "yyp c = int (length xs) - 1" "length xs < 15" "Errflag c = 0"
    "list_all state_ok (xs @ [s])" using c(1) by (auto simp: stacked_def)
  have "\<forall>i < Suc (length xs). state_ok (sym_yys (pushed c ! i))"
  proof (intro allI impI)
    fix i assume "i < Suc (length xs)"
    then have "sym_yys (pushed c ! i) = (xs @ [s]) ! i"
      using stacked_pushed [OF c(1)] ok(1,3) by (metis length_map nth_map nth_take length_append_singleton)
    with ok(5) \<open>i < Suc (length xs)\<close> show "state_ok (sym_yys (pushed c ! i))"
      by (simp add: list_all_length del: list_all_append)
  qed
  then have rec: "yyrecover (pushed c) (Suc (length xs)) = Some None" using ok by (intro yyrecover_none) auto
  then have "\<exists>c'. yyerror (push c) = Some (Inl (1, c')) \<and> tk_LastError (yylexer c') = ''syntax error''"
    using ok by (simp add: yyerror_def Let_def Tokenizer_Error_def yyErrorMessage_def yyErrorVerbose_def push_def nat_add_distrib)
  with err obtain c' where "yyround Yystack c = Some (Inl (1, c'))" "tk_LastError (yylexer c') = ''syntax error''"
    by (auto simp: yyround_def yystack_push [OF c(1)])
  moreover have "feeds c ts \<Longrightarrow> G ts = None" for ts
    using G feeds_held [OF c(2), of ts] feeds_end [of c ts] by (cases "yychar c = 0") auto
  ultimately show ?thesis unfolding parses_def by (auto simp: yyrun_ends)
qed

lemma held_char: "held c \<Longrightarrow> 0 \<le> yychar c"
  using lex_tokens_pos [of "yychar c"] by (auto simp: held_def)

text \<open>The state \<open>s\<close> shifts the token \<open>n\<close>, to the state \<open>st\<close>.\<close>

definition shifts :: "int \<Rightarrow> int \<Rightarrow> int \<Rightarrow> bool" where
  "shifts s n st \<longleftrightarrow> (\<exists>a. tab yyPact s = Some a \<and> - 1000 < a \<and> 0 \<le> a + n \<and> a + n < 37 \<and>
     tab yyAct (a + n) = Some st \<and> tab yyChk st = Some n)"

definition no_shift :: "int \<Rightarrow> int \<Rightarrow> bool" where
  "no_shift s n \<longleftrightarrow> (\<exists>a. tab yyPact s = Some a \<and> - 1000 < a \<and> (a + n < 0 \<or> 37 \<le> a + n \<or>
     (\<exists>st chk. tab yyAct (a + n) = Some st \<and> tab yyChk st = Some chk \<and> chk \<noteq> n)))"

lemma parses_reject:
  assumes c: "stacked c s xs" "held c" and tab: "no_shift s (yytoken c)" "tab yyDef s = Some 0"
    and G: "\<And>us. G ((yychar c, yylval c) # us) = None" "yychar c = 0 \<Longrightarrow> G [] = None"
  shows "parses c G"
proof (rule parses_error [OF c _ G])
  have "yystate c = s" using c(1) by (simp add: stacked_def)
  with tab held_char [OF c(2)] show "yynewstate (push c) = yyerror (push c)"
    by (auto simp: push_def yynewstate_def yydefault_def yy_consts Let_def no_shift_def)
qed

definition shift :: "int \<Rightarrow> yyParser \<Rightarrow> yyParser" where
  "shift st c = (push c)\<lparr>yychar := - 1, yytoken := - 1, yyVAL := yylval c, yystate := st\<rparr>"

lemma stacked_shift: "stacked c s xs \<Longrightarrow> state_ok st \<Longrightarrow> length xs < 14 \<Longrightarrow> stacked (shift st c) st (xs @ [s])"
  using stacked_pushed [of c s xs] by (simp add: stacked_def shift_def push_def)

lemma parses_shifted:
  assumes "stacked c s xs" "held c" "yychar c \<noteq> 0" "shifts s (yytoken c) st"
    and "parses (shift st c) G'" and "\<And>us. G ((yychar c, yylval c) # us) = G' us"
  shows "parses c G"
proof (rule parses_shift [OF _ assms(2,3,5)])
  have "yystate c = s" "Errflag c = 0" using assms(1) by (simp_all add: stacked_def)
  with assms(4) held_char [OF assms(2)] have "yynewstate (push c) = Some (Inr (Yystack, shift st c))"
    by (auto simp: push_def shift_def yynewstate_def yy_consts Let_def shifts_def)
  then show "yyround Yystack c = Some (Inr (Yystack, shift st c))"
    by (simp add: yyround_def yystack_push [OF assms(1)])
qed (use assms(6) in \<open>simp_all add: shift_def push_def\<close>)

definition reduce :: "nat \<Rightarrow> int \<Rightarrow> yySymType \<Rightarrow> Tokenizer \<Rightarrow> yyParser \<Rightarrow> yyParser" where
  "reduce r st v t c = c\<lparr>yyS := pushed c, yyp := yyp c + 1 - int r, yyVAL := v, yystate := st, yylexer := t\<rparr>"

lemma stacked_reduce:
  assumes "stacked c s xs" "state_ok st" "r \<le> length xs" "length xs < 14"
    and ys: "ys = take (Suc (length xs) - r) (xs @ [s])"
  shows "stacked (reduce r st v t c) st ys"
proof -
  have len: "length ys = Suc (length xs) - r" using ys by auto
  have "map sym_yys (take (length ys) (pushed c)) = ys"
    using arg_cong [OF stacked_pushed [OF assms(1)], of "take (length ys)"] len
    by (simp add: take_map min_def) (simp add: ys)
  moreover have "list_all state_ok ys"
    using assms(1) ys by (auto simp: stacked_def list_all_iff dest!: in_set_takeD split: if_splits)
  ultimately show ?thesis using assms(1-4) len by (simp add: stacked_def reduce_def of_nat_diff)
qed

lemma tab_stack: "0 \<le> i \<Longrightarrow> i < int (length S) \<Longrightarrow> tab S i = Some (S ! nat i)"
  by (simp add: tab_def go_index_def nat_less_iff)

lemma parses_reduced:
  assumes c: "stacked c s xs" and pact: "tab yyPact s = Some (- 1000) \<or> held c \<and> no_shift s (yytoken c)"
    and tabs: "tab yyDef s = Some d" "0 < d" "tab yyR2 d = Some (int r)" "r \<le> length xs" "tab yyR1 d = Some n"
    and goto: "yygoto n ((xs @ [s]) ! (length xs - r)) = Some st"
    and act: "yyaction d (yyDollar (pushed c) (int (length xs))) (pushed c ! Suc (length xs - r)) (yylexer c) = Some (v, t)"
    and t: "tk_l t = tk_l (yylexer c)" and p: "parses (reduce r st v t c) G"
  shows "parses c G"
proof (rule parses_reduce [OF _ p])
  have ok: "yystate c = s" "yyp c = int (length xs) - 1" "length (pushed c) = 16" "length xs < 15"
    using c by (simp_all add: stacked_def)
  have below: "sym_yys (pushed c ! (length xs - r)) = (xs @ [s]) ! (length xs - r)"
    using arg_cong [OF stacked_pushed [OF c], of "\<lambda>l. l ! (length xs - r)"] ok by simp
  have idx: "nat (int (length xs) - int r + 1) = Suc (length xs - r)" using tabs(4) by linarith
  have "yydefault (push c) = map_option (\<lambda>c. Inr (Yystack, c)) (yyreduce d (push c))"
    using tabs ok(1) by (simp add: yydefault_def push_def)
  moreover have "yyreduce d (push c) = Some (reduce r st v t c)"
    using tabs goto act ok below idx
    by (simp add: yyreduce_def push_def reduce_def Let_def grow_def nat_diff_distrib tab_stack of_nat_diff Suc_diff_le)
  moreover have "yynewstate (push c) = yydefault (push c)"
    using pact ok(1) held_char [of c] by (auto simp: push_def yynewstate_def yy_consts Let_def no_shift_def)
  ultimately show "yyround Yystack c = Some (Inr (Yystack, reduce r st v t c))"
    by (simp add: yyround_def yystack_push [OF c])
qed (use t in \<open>simp_all add: reduce_def\<close>)

section \<open>The states\<close>

lemma yygoto_tab [yy_tab]:
  "yygoto 14 2 = Some 12" "yygoto 13 0 = Some 1" "yygoto 1 0 = Some 2" "yygoto 2 0 = Some 3" "yygoto 3 0 = Some 4"
  "yygoto 5 0 = Some 5" "yygoto 4 0 = Some 6" "yygoto 11 19 = Some 20" "yygoto 12 21 = Some 22"
  "yygoto 7 21 = Some 23" "yygoto 7 27 = Some 34" "yygoto 10 21 = Some 24" "yygoto 10 27 = Some 24"
  "yygoto 8 24 = Some 28"
  by (simp_all add: yygoto_def Let_def yy_consts yy_tab)

lemma shifts_tab [yy_tab]:
  "shifts 0 4 7" "shifts 0 6 8" "shifts 0 25 9" "shifts 0 23 10" "shifts 0 7 11" "shifts 7 5 14" "shifts 8 28 15"
  "shifts 9 26 16" "shifts 10 24 17" "shifts 11 27 18" "shifts 18 8 19" "shifts 19 9 21" "shifts 21 28 25"
  "shifts 22 10 26" "shifts 22 11 27" "shifts 27 28 25" "shifts 24 29 30" "shifts 24 27 31"
  by (simp_all add: shifts_def yy_tab)

definition held_tokens :: "int set" where
  "held_tokens = {1, 4, 5, 6, 7, 8, 9, 10, 11, 23, 24, 25, 26, 27, 28, 29, 30}"

lemma no_shift_tab:
  assumes "n \<in> held_tokens"
  shows "n \<notin> {4, 6, 7, 23, 25} \<Longrightarrow> no_shift 0 n" "no_shift 2 n" "n \<noteq> 5 \<Longrightarrow> no_shift 7 n" "n \<noteq> 28 \<Longrightarrow> no_shift 8 n"
    "n \<noteq> 26 \<Longrightarrow> no_shift 9 n" "n \<noteq> 24 \<Longrightarrow> no_shift 10 n" "n \<noteq> 27 \<Longrightarrow> no_shift 11 n" "n \<noteq> 8 \<Longrightarrow> no_shift 18 n"
    "n \<noteq> 9 \<Longrightarrow> no_shift 19 n" "n \<noteq> 28 \<Longrightarrow> no_shift 21 n" "n \<noteq> 28 \<Longrightarrow> no_shift 27 n"
    "n \<notin> {10, 11} \<Longrightarrow> no_shift 22 n" "n \<notin> {27, 29} \<Longrightarrow> no_shift 24 n"
  using assms unfolding held_tokens_def by (elim insertE; simp add: no_shift_def yy_tab)+

lemma held_number:
  assumes "held c"
  shows "yytoken c \<in> held_tokens"
    and "yytoken c = 1 \<longleftrightarrow> yychar c = 0" "yytoken c = 4 \<longleftrightarrow> yychar c = SAY" "yytoken c = 5 \<longleftrightarrow> yychar c = HELLO"
    "yytoken c = 6 \<longleftrightarrow> yychar c = SHOW" "yytoken c = 7 \<longleftrightarrow> yychar c = COPY" "yytoken c = 8 \<longleftrightarrow> yychar c = WITH"
    "yytoken c = 9 \<longleftrightarrow> yychar c = TOPENBR" "yytoken c = 10 \<longleftrightarrow> yychar c = TCLOSEBR" "yytoken c = 11 \<longleftrightarrow> yychar c = TCOMMA"
    "yytoken c = 23 \<longleftrightarrow> yychar c = KURT" "yytoken c = 24 \<longleftrightarrow> yychar c = KOBAIN" "yytoken c = 25 \<longleftrightarrow> yychar c = STOP"
    "yytoken c = 26 \<longleftrightarrow> yychar c = SYSTEM" "yytoken c = 27 \<longleftrightarrow> yychar c = SCONST" "yytoken c = 28 \<longleftrightarrow> yychar c = IDENT"
    "yytoken c = 29 \<longleftrightarrow> yychar c = ICONST"
proof -
  have "yychar c = 0 \<and> yytoken c = 1 \<or> yychar c = SAY \<and> yytoken c = 4 \<or> yychar c = HELLO \<and> yytoken c = 5 \<or>
    yychar c = SHOW \<and> yytoken c = 6 \<or> yychar c = COPY \<and> yytoken c = 7 \<or> yychar c = WITH \<and> yytoken c = 8 \<or>
    yychar c = TOPENBR \<and> yytoken c = 9 \<or> yychar c = TCLOSEBR \<and> yytoken c = 10 \<or> yychar c = TCOMMA \<and> yytoken c = 11 \<or>
    yychar c = KURT \<and> yytoken c = 23 \<or> yychar c = KOBAIN \<and> yytoken c = 24 \<or> yychar c = STOP \<and> yytoken c = 25 \<or>
    yychar c = SYSTEM \<and> yytoken c = 26 \<or> yychar c = SCONST \<and> yytoken c = 27 \<or> yychar c = IDENT \<and> yytoken c = 28 \<or>
    yychar c = ICONST \<and> yytoken c = 29 \<or> yychar c = TEQ \<and> yytoken c = 30"
    using assms unfolding held_def lex_tokens_def lex_words_def
    by (elim conjE disjE UnE insertE; simp add: yy_tab)
  note cases = this
  show "yytoken c \<in> held_tokens" using cases by (elim disjE; simp add: held_tokens_def)
  show "yytoken c = 1 \<longleftrightarrow> yychar c = 0" "yytoken c = 4 \<longleftrightarrow> yychar c = SAY" "yytoken c = 5 \<longleftrightarrow> yychar c = HELLO"
    "yytoken c = 6 \<longleftrightarrow> yychar c = SHOW" "yytoken c = 7 \<longleftrightarrow> yychar c = COPY" "yytoken c = 8 \<longleftrightarrow> yychar c = WITH"
    "yytoken c = 9 \<longleftrightarrow> yychar c = TOPENBR" "yytoken c = 10 \<longleftrightarrow> yychar c = TCLOSEBR" "yytoken c = 11 \<longleftrightarrow> yychar c = TCOMMA"
    "yytoken c = 23 \<longleftrightarrow> yychar c = KURT" "yytoken c = 24 \<longleftrightarrow> yychar c = KOBAIN" "yytoken c = 25 \<longleftrightarrow> yychar c = STOP"
    "yytoken c = 26 \<longleftrightarrow> yychar c = SYSTEM" "yytoken c = 27 \<longleftrightarrow> yychar c = SCONST" "yytoken c = 28 \<longleftrightarrow> yychar c = IDENT"
    "yytoken c = 29 \<longleftrightarrow> yychar c = ICONST"
    using cases by (elim disjE; simp add: token_codes)+
qed

lemma pushed_nth:
  assumes "stacked c s xs"
  shows "i = length xs \<Longrightarrow> pushed c ! i = (yyVAL c)\<lparr>sym_yys := s\<rparr>" and "i \<noteq> length xs \<Longrightarrow> pushed c ! i = yyS c ! i"
  using assms by (simp_all add: stacked_def pushed_def)

lemmas yy_act = yyaction_def yyDollar_def go_slice_def go_index_def

lemma stacked_length: "stacked c s xs \<Longrightarrow> length (yyS c) = 16"
  by (simp add: stacked_def)

text \<open>State 1, after a whole command: only the end of the query is accepted.\<close>

lemma at_1:
  assumes c: "stacked c 1 [0]" "held c"
  shows "parses c (g_fin (tk_ParseTree (yylexer c)))"
proof (cases "yychar c = 0")
  case True
  with held_number(2) [OF c(2)] have "yytoken c = 1" by simp
  with c(1) True have "yynewstate (push c) = Some (Inl (0, push c))"
    by (simp add: push_def yynewstate_def yydefault_def yy_consts yy_tab stacked_def)
  then have "yyround Yystack c = Some (Inl (0, push c))" by (simp add: yyround_def yystack_push [OF c(1)])
  with True show ?thesis unfolding parses_def by (auto simp: yyrun_ends feeds_end g_fin_def push_def)
next
  case False
  with held_number(2) [OF c(2)] have "yytoken c \<noteq> 1" by simp
  with c(1) held_char [OF c(2)] have "yynewstate (push c) = yyerror (push c)"
    by (simp add: yynewstate_def yydefault_def push_def yy_consts Let_def yy_tab stacked_def)
  with False show ?thesis by (intro parses_error [OF c]) (simp_all add: g_fin_def)
qed

text \<open>State 2, after a command\<close>

lemma at_2:
  assumes c: "stacked c 2 [0]" "held c"
  shows "parses c (g_fin (tk_ParseTree (yylexer c)))"
proof -
  let ?c = "reduce 0 12 (pushed c ! 2) (yylexer c) c"
  let ?d = "reduce 2 1 (pushed ?c ! 1) (yylexer ?c) ?c"
  have c': "stacked ?c 12 [0, 2]" by (rule stacked_reduce [OF c(1)]) (simp_all add: state_ok_def)
  have "stacked ?d 1 [0]" by (rule stacked_reduce [OF c']) (simp_all add: state_ok_def)
  then have "parses ?d (g_fin (tk_ParseTree (yylexer ?d)))"
    using c(2) by (intro at_1) (simp_all add: held_def reduce_def)
  then have "parses ?c (g_fin (tk_ParseTree (yylexer c)))"
    by (intro parses_reduced [OF c', where d = 1 and n = 13 and r = 2 and st = 1])
      (simp_all add: yy_tab yyaction_def, simp_all add: reduce_def)
  then show ?thesis
    using held_number(1) [OF c(2)] c(2) stacked_length [OF c(1)]
    by (intro parses_reduced [OF c(1), where d = 3 and n = 14 and r = 0 and st = 12])
      (simp_all add: yy_tab yy_act no_shift_tab numeral_2_eq_2)
qed

text \<open>How far the lexer is\<close>

abbreviation lex_left :: "yyParser \<Rightarrow> nat" where
  "lex_left c \<equiv> lex_pe (tk_l (yylexer c)) - lex_p (tk_l (yylexer c))"

definition same_stack :: "yyParser \<Rightarrow> yyParser \<Rightarrow> bool" where
  "same_stack c c' \<longleftrightarrow> yyS c' = yyS c \<and> yyVAL c' = yyVAL c \<and> tk_ParseTree (yylexer c') = tk_ParseTree (yylexer c)"

text \<open>The states that look at the next token\<close>

definition looks :: "int \<Rightarrow> bool" where
  "looks s \<longleftrightarrow> (\<exists>a. tab yyPact s = Some a \<and> - 1000 < a)"

lemma looks_tab [yy_tab]: "looks 0" "looks 2" "looks 7" "looks 8" "looks 9" "looks 10" "looks 11" "looks 18" "looks 19"
  "looks 21" "looks 22" "looks 24" "looks 27"
  by (simp_all add: looks_def yy_tab)

lemma parses_next:
  assumes c: "empty_handed c" "stacked c s xs" and pact: "looks s"
    and held: "\<And>c'. stacked c' s xs \<Longrightarrow> held c' \<Longrightarrow> same_stack c c' \<Longrightarrow>
      yychar c' \<noteq> 0 \<longrightarrow> lex_left c' \<le> lex_left c \<and> (yychar c' \<notin> lex_words \<longrightarrow> lex_left c' < lex_left c) \<Longrightarrow> parses c' G"
  shows "parses c G"
proof -
  from pact obtain a where pact: "tab yyPact s = Some a" "- 1000 < a" by (auto simp: looks_def)
  show ?thesis
  proof (rule parses_pull [OF c pact])
    fix tok n lv l
    let ?c = "c\<lparr>yychar := tok, yytoken := n, yylval := lv, yylexer := (yylexer c)\<lparr>tk_l := l\<rparr>\<rparr>"
    assume h: "held ?c" and p: "tok \<noteq> 0 \<longrightarrow> lex_p (tk_l (yylexer c)) \<le> lex_p l \<and>
      (tok \<notin> lex_words \<longrightarrow> lex_p (tk_l (yylexer c)) < lex_p l) \<and> lex_pe l = lex_pe (tk_l (yylexer c))"
    have "tok \<noteq> 0 \<Longrightarrow> lex_p l \<le> lex_pe l" using h by (auto simp: held_def lex_ok_def)
    with p h c show "parses ?c G" by (intro held) (auto simp: stacked_def same_stack_def)
  qed
qed

text \<open>A word that must come next, and what is parsed after it\<close>

lemma parses_word:
  assumes c: "empty_handed c" "stacked c s xs" "length xs < 14" and pact: "looks s" "tab yyDef s = Some 0"
    and word: "yytok tok = Some n" "tok \<in> lex_tokens" "shifts s n st" "state_ok st"
    and other: "\<And>m. m \<in> held_tokens \<Longrightarrow> m \<noteq> n \<Longrightarrow> no_shift s m"
    and k: "\<And>c'. stacked c' st (xs @ [s]) \<Longrightarrow> empty_handed c' \<Longrightarrow> yyS c' = pushed c \<Longrightarrow> lex_left c' \<le> lex_left c \<Longrightarrow>
      parses c' (k (yyVAL c'))"
  shows "parses c (g_word tok k)"
proof (rule parses_next [OF c(1,2) pact(1)])
  fix c'
  assume c': "stacked c' s xs" "held c'" "same_stack c c'"
    and p: "yychar c' \<noteq> 0 \<longrightarrow> lex_left c' \<le> lex_left c \<and> (yychar c' \<notin> lex_words \<longrightarrow> lex_left c' < lex_left c)"
  show "parses c' (g_word tok k)"
  proof (cases "yychar c' = tok")
    case True
    with c'(2) word lex_tokens_pos [of tok] have n: "yytoken c' = n" "yychar c' \<noteq> 0" by (auto simp: held_def)
    have "pushed c' = pushed c" using c' c(2) by (simp add: pushed_def same_stack_def stacked_def)
    with c' n p have "parses (shift st c') (k (yyVAL (shift st c')))"
      by (intro k stacked_shift word(4) c(3)) (auto simp: shift_def push_def empty_handed_def held_def)
    then show ?thesis using True n word(3)
      by (intro parses_shifted [OF c'(1,2)]) (simp_all add: g_word_def shift_def push_def)
  next
    case False
    have "yytoken c' \<noteq> n"
    proof
      assume "yytoken c' = n"
      with c'(2) word(1) have "yytok (yychar c') = yytok tok" by (simp add: held_def)
      with c'(2) word(2) False show False
        unfolding held_def lex_tokens_def lex_words_def by (elim conjE disjE UnE insertE; simp add: yy_tab)
    qed
    with other [OF held_number(1) [OF c'(2)]] pact(2) False show ?thesis
      by (intro parses_reject [OF c'(1,2)]) (simp_all add: g_word_def)
  qed
qed

text \<open>The states 3 to 6, after a command of each kind\<close>

lemma after_command:
  assumes c: "stacked c s [0]" "s \<in> {3, 4, 5, 6}" "empty_handed c"
  shows "parses c (g_fin (sym_node (yyVAL c)))"
proof -
  let ?t = "setParseTree (sym_node (yyVAL c)) (yylexer c)"
  let ?c = "reduce 1 2 (pushed c ! 1) ?t c"
  have c': "stacked ?c 2 [0]" by (rule stacked_reduce [OF c(1)]) (simp_all add: state_ok_def)
  have "parses ?c (g_fin (sym_node (yyVAL c)))"
  proof (rule parses_next [OF _ c'])
    fix c'' assume "stacked c'' 2 [0]" "held c''" "same_stack ?c c''"
    with at_2 [of c''] show "parses c'' (g_fin (sym_node (yyVAL c)))"
      by (simp add: same_stack_def reduce_def setParseTree_def)
  qed (use c(3) in \<open>simp_all add: yy_tab empty_handed_def reduce_def setParseTree_def\<close>)
  then show ?thesis
    using c(2) stacked_length [OF c(1)] pushed_nth(1) [OF c(1)]
    by (intro parses_reduced [OF c(1), where d = "s + 3" and n = 1 and r = 1 and st = 2])
      (auto simp: yy_tab yy_act setParseTree_def)
qed

text \<open>The two words of the simple commands\<close>

lemma after_words:
  assumes c: "stacked c s [0, s']" "empty_handed c"
    and d: "(s, d :: int, n :: int, st :: int, nd) \<in> {(14, 11, 2, 3, SayHelloCommand), (15, 12, 3, 4, ShowCommand (sym_str (yyVAL c))),
      (16, 25, 5, 5, KKBCommand), (17, 26, 5, 5, KKBCommand)}"
  shows "parses c (g_fin (Some nd))"
proof -
  let ?v = "(pushed c ! 1)\<lparr>sym_node := Some nd\<rparr>"
  let ?c = "reduce 2 st ?v (yylexer c) c"
  have "stacked ?c st [0]" by (rule stacked_reduce [OF c(1)]) (use d in \<open>auto simp: state_ok_def\<close>)
  with after_command [of ?c st] d c(2) have "parses ?c (g_fin (Some nd))"
    by (auto simp: empty_handed_def reduce_def)
  moreover have "tab yyPact s = Some (- 1000)" "tab yyDef s = Some d" "0 < d" "tab yyR2 d = Some 2" "tab yyR1 d = Some n"
    "yygoto n 0 = Some st"
    using d by (elim insertE; simp add: yy_tab)+
  moreover have "yyaction d (yyDollar (pushed c) 2) (pushed c ! Suc 0) (yylexer c) = Some (?v, yylexer c)"
    using d stacked_length [OF c(1)] pushed_nth(1) [OF c(1)] by (elim insertE; simp add: yy_act numeral_2_eq_2)
  ultimately show ?thesis
    by (intro parses_reduced [OF c(1), where d = d and n = n and r = 2 and st = st]) simp_all
qed

lemmas word_tab = yy_tab no_shift_tab lex_tokens_def lex_words_def state_ok_def

lemma at_7:
  assumes "empty_handed c" "stacked c 7 [0]"
  shows "parses c (g_word HELLO (\<lambda>w. g_fin (Some SayHelloCommand)))"
  by (rule parses_word [OF assms, where n = 5 and st = 14]) (simp_all add: word_tab after_words)

lemma at_8:
  assumes "empty_handed c" "stacked c 8 [0]"
  shows "parses c (g_word IDENT (\<lambda>w. g_fin (Some (ShowCommand (sym_str w)))))"
  by (rule parses_word [OF assms, where n = 28 and st = 15]) (simp_all add: word_tab after_words)

lemma at_9:
  assumes "empty_handed c" "stacked c 9 [0]"
  shows "parses c (g_word SYSTEM (\<lambda>w. g_fin (Some KKBCommand)))"
  by (rule parses_word [OF assms, where n = 26 and st = 16]) (simp_all add: word_tab after_words)

lemma at_10:
  assumes "empty_handed c" "stacked c 10 [0]"
  shows "parses c (g_word KOBAIN (\<lambda>w. g_fin (Some KKBCommand)))"
  by (rule parses_word [OF assms, where n = 24 and st = 17]) (simp_all add: word_tab after_words)

section \<open>The options of \<open>COPY\<close>\<close>

lemma parses_cong: "parses c G' \<Longrightarrow> (\<And>ts. feeds c ts \<Longrightarrow> G ts = G' ts) \<Longrightarrow> parses c G"
  unfolding parses_def by metis

text \<open>After the closing bracket\<close>

lemma at_26:
  assumes c: "stacked c 26 [0, 11, 18, 19, 21, 22]" "empty_handed c"
  shows "parses c (g_fin (Some (CopyCommand (sym_str (yyS c ! 2)) (sym_nodeList (yyS c ! 5)))))"
proof -
  let ?v = "(pushed c ! 4)\<lparr>sym_nodeList := sym_nodeList (yyS c ! 5)\<rparr>"
  let ?c = "reduce 3 20 ?v (yylexer c) c"
  let ?w = "(pushed ?c ! 1)\<lparr>sym_node := Some (CopyCommand (sym_str (yyS c ! 2)) (sym_nodeList (yyS c ! 5)))\<rparr>"
  let ?d = "reduce 4 6 ?w (yylexer ?c) ?c"
  have c': "stacked ?c 20 [0, 11, 18, 19]" by (rule stacked_reduce [OF c(1)]) (simp_all add: state_ok_def)
  have "stacked ?d 6 [0]" by (rule stacked_reduce [OF c']) (simp_all add: state_ok_def)
  from after_command [OF this] c(2)
  have "parses ?d (g_fin (Some (CopyCommand (sym_str (yyS c ! 2)) (sym_nodeList (yyS c ! 5)))))"
    by (simp add: empty_handed_def reduce_def)
  moreover have "yyaction 13 (yyDollar (pushed ?c) 4) (pushed ?c ! 1) (yylexer ?c) = Some (?w, yylexer ?c)"
    using stacked_length [OF c'] pushed_nth(1) [OF c', of 4] pushed_nth(2) [OF c', of 2] pushed_nth(2) [OF c(1), of 2]
    by (simp add: yy_act) (simp add: reduce_def)
  ultimately have "parses ?c (g_fin (Some (CopyCommand (sym_str (yyS c ! 2)) (sym_nodeList (yyS c ! 5)))))"
    by (intro parses_reduced [OF c', where d = 13 and n = 4 and r = 4 and st = 6]) (simp_all add: yy_tab)
  moreover have "yyaction 14 (yyDollar (pushed c) 6) (pushed c ! 4) (yylexer c) = Some (?v, yylexer c)"
    using stacked_length [OF c(1)] pushed_nth(2) [OF c(1), of 5] by (simp add: yy_act)
  ultimately show ?thesis
    by (intro parses_reduced [OF c(1), where d = 14 and n = 11 and r = 3 and st = 20]) (simp_all add: yy_tab eval_nat_numeral)
qed

text \<open>The argument of an option; \<open>k\<close> parses what follows it.\<close>

definition seen :: "yyParser \<Rightarrow> yyParser \<Rightarrow> bool" where
  "seen c c' \<longleftrightarrow> empty_handed c' \<and> lex_left c' \<le> lex_left c \<or>
     held c' \<and> (yychar c' \<noteq> 0 \<longrightarrow> lex_left c' \<le> lex_left c \<and> (yychar c' \<notin> lex_words \<longrightarrow> lex_left c' < lex_left c))"

lemma arg_const:
  assumes c: "stacked c 24 xs" "length xs < 12" "held c"
    and st: "(yychar c, st :: int, d :: int, a) \<in> {(ICONST, 30, 19, AExprIConst (sym_int (yylval c))), (SCONST, 31, 20, AExprSConst (sym_str (yylval c)))}"
    and k: "\<And>c'. stacked c' 28 (xs @ [24]) \<Longrightarrow> sym_node (yyVAL c') = Some a \<Longrightarrow> (\<And>i. i \<noteq> Suc (length xs) \<Longrightarrow> yyS c' ! i = pushed c ! i) \<Longrightarrow>
      empty_handed c' \<Longrightarrow> lex_left c' = lex_left c \<Longrightarrow> parses c' (k (Some a))"
  shows "parses c (\<lambda>ts. case g_arg stale ts of (a, us) \<Rightarrow> k a us)"
proof -
  have st': "state_ok st" "yychar c \<noteq> 0" "shifts 24 (yytoken c) st" "tab yyPact st = Some (- 1000)" "tab yyDef st = Some d"
    "0 < d" "tab yyR2 d = Some 1" "tab yyR1 d = Some 8"
    using st held_number(15,17) [OF c(3)] by (elim insertE; simp add: yy_tab state_ok_def token_codes)+
  let ?c = "shift st c"
  have c': "stacked ?c st (xs @ [24])" using c st' by (intro stacked_shift) auto
  let ?v = "(pushed ?c ! Suc (length xs))\<lparr>sym_node := Some a\<rparr>"
  let ?d = "reduce 1 28 ?v (yylexer ?c) ?c"
  have idx: "nat (2 + int (length xs)) = Suc (Suc (length xs))" by simp
  have val: "pushed ?c ! Suc (length xs) = (yylval c)\<lparr>sym_yys := st\<rparr>"
    using pushed_nth(1) [OF c', of "Suc (length xs)"] by (simp add: shift_def)
  have "stacked ?d 28 (xs @ [24])" by (rule stacked_reduce [OF c']) (use c in \<open>simp_all add: state_ok_def\<close>)
  moreover have "yyS ?d ! i = pushed c ! i" if "i \<noteq> Suc (length xs)" for i
    using pushed_nth(2) [OF c', of i] that by (simp add: reduce_def shift_def push_def)
  ultimately have "parses ?d (k (Some a))"
    using c(3) st'(2) by (intro k) (simp_all add: reduce_def shift_def push_def empty_handed_def held_def)
  moreover have "yyaction d (yyDollar (pushed ?c) (int (Suc (length xs)))) (pushed ?c ! Suc (length xs)) (yylexer ?c) =
      Some (?v, yylexer ?c)"
    using st stacked_length [OF c'] val c(2) idx by (elim insertE; simp add: yy_act nth_append)
  ultimately have "parses ?c (k (Some a))"
    using st' by (intro parses_reduced [OF c', where d = d and n = 8 and r = 1 and st = 28]) (simp_all add: yy_tab nth_append)
  then show ?thesis using st
    by (intro parses_shifted [OF c(1,3) st'(2,3)]) (auto simp: g_arg_def token_codes)
qed


lemma at_24:
  assumes c: "stacked c 24 xs" "length xs < 12" "empty_handed c"
    and stale: "stale = sym_node (yyS c ! Suc (length xs))"
    and k: "\<And>c' a. stacked c' 28 (xs @ [24]) \<Longrightarrow> sym_node (yyVAL c') = a \<Longrightarrow>
      (\<And>i. i \<noteq> Suc (length xs) \<Longrightarrow> yyS c' ! i = pushed c ! i) \<Longrightarrow> seen c c' \<Longrightarrow> parses c' (k a)"
  shows "parses c (\<lambda>ts. case g_arg stale ts of (a, us) \<Rightarrow> k a us)"
proof (rule parses_next [OF c(3,1)])
  fix c' assume c': "stacked c' 24 xs" "held c'" "same_stack c c'"
    and left: "yychar c' \<noteq> 0 \<longrightarrow> lex_left c' \<le> lex_left c \<and> (yychar c' \<notin> lex_words \<longrightarrow> lex_left c' < lex_left c)"
  have same: "pushed c' = pushed c" using c' c(1) by (simp add: pushed_def same_stack_def stacked_def)
  have k': "parses c'' (k (Some a))"
    if "stacked c'' 28 (xs @ [24])" "sym_node (yyVAL c'') = Some a" "\<And>i. i \<noteq> Suc (length xs) \<Longrightarrow> yyS c'' ! i = pushed c' ! i"
      "empty_handed c''" "lex_left c'' = lex_left c'" "yychar c' \<noteq> 0" for c'' a
    using k [OF that(1,2)] that(3-6) left by (simp add: same seen_def)
  consider (int) "yychar c' = ICONST" | (str) "yychar c' = SCONST" | (none) "yychar c' \<noteq> ICONST" "yychar c' \<noteq> SCONST" by blast
  then show "parses c' (\<lambda>ts. case g_arg stale ts of (a, us) \<Rightarrow> k a us)"
  proof cases
    case int
    then have "yychar c' \<noteq> 0" by (simp add: token_codes)
    with int k' show ?thesis
      by (intro arg_const [OF c'(1) c(2) c'(2), of 30 19 "AExprIConst (sym_int (yylval c'))"]) auto
  next
    case str
    then have "yychar c' \<noteq> 0" by (simp add: token_codes)
    with str k' show ?thesis
      by (intro arg_const [OF c'(1) c(2) c'(2), of 31 20 "AExprSConst (sym_str (yylval c'))"]) auto
  next
    case none
    let ?v = "pushed c' ! Suc (length xs)"
    let ?d = "reduce 0 28 ?v (yylexer c') c'"
    have v: "sym_node ?v = stale" using pushed_nth(2) [OF c(1)] by (simp add: same stale)
    have "stacked ?d 28 (xs @ [24])" by (rule stacked_reduce [OF c'(1)]) (use c(2) in \<open>simp_all add: state_ok_def\<close>)
    then have "parses ?d (k stale)"
      using v left c'(2) by (intro k) (simp_all add: reduce_def same seen_def held_def)
    moreover have "yyaction 21 (yyDollar (pushed c') (int (length xs))) ?v (yylexer c') = Some (?v, yylexer c')"
      using stacked_length [OF c'(1)] c(2) by (simp add: yy_act nat_add_distrib)
    ultimately have "parses c' (k stale)"
      using held_number [OF c'(2)] none c'(2)
      by (intro parses_reduced [OF c'(1), where d = 21 and n = 8 and r = 0 and st = 28])
        (simp_all add: yy_tab no_shift_tab)
    then show ?thesis
      by (rule parses_cong) (use none feeds_held [OF c'(2)] feeds_end [of c'] in
          \<open>cases "yychar c' = 0"; auto simp: g_arg_def\<close>)
  qed
qed (simp add: yy_tab)

text \<open>The label of an option, in the states 21 (the first) and 27 (after a comma)\<close>

lemma option_label:
  assumes c: "empty_handed c" "stacked c s xs" "s \<in> {21, 27}" "length xs < 10"
    and k: "\<And>c' v a. stacked c' 28 (xs @ [s, 24]) \<Longrightarrow> sym_node (yyVAL c') = a \<Longrightarrow> sym_str (yyS c' ! Suc (length xs)) = sym_str v \<Longrightarrow>
      (\<And>i. i \<noteq> Suc (length xs) \<Longrightarrow> i \<noteq> Suc (Suc (length xs)) \<Longrightarrow> yyS c' ! i = pushed c ! i) \<Longrightarrow>
      seen c c' \<Longrightarrow> parses c' (k v a)"
    and stale: "stale = sym_node (yyS c ! Suc (Suc (length xs)))"
  shows "parses c (g_word IDENT (\<lambda>v ts. case g_arg stale ts of (a, us) \<Rightarrow> k v a us))"
proof (rule parses_word [OF c(1,2), where n = 28 and st = 25])
  fix c' assume c': "stacked c' 25 (xs @ [s])" "empty_handed c'" "yyS c' = pushed c" and left: "lex_left c' \<le> lex_left c"
  let ?d = "reduce 1 24 (pushed c' ! Suc (length xs)) (yylexer c') c'"
  have d: "stacked ?d 24 (xs @ [s])" by (rule stacked_reduce [OF c'(1)]) (use c(4) in \<open>simp_all add: state_ok_def\<close>)
  have ident: "pushed c' ! Suc (length xs) = (yyVAL c')\<lparr>sym_yys := 25\<rparr>" using pushed_nth(1) [OF c'(1)] by simp
  have below: "yyS ?d ! i = pushed c ! i" if "i \<noteq> Suc (length xs)" for i
    using pushed_nth(2) [OF c'(1), of i] that c'(3) by (simp add: reduce_def)
  have "parses ?d (\<lambda>ts. case g_arg stale ts of (a, us) \<Rightarrow> k (yyVAL c') a us)"
  proof (rule at_24 [OF d])
    show "stale = sym_node (yyS ?d ! Suc (length (xs @ [s])))"
      using below [of "Suc (Suc (length xs))"] pushed_nth(2) [OF c(2)] by (simp add: stale)
    fix c'' a
    assume c'': "stacked c'' 28 ((xs @ [s]) @ [24])" "sym_node (yyVAL c'') = a" "seen ?d c''"
      and S: "\<And>i. i \<noteq> Suc (length (xs @ [s])) \<Longrightarrow> yyS c'' ! i = pushed ?d ! i"
    have "yyS c'' ! Suc (length xs) = (yyVAL c')\<lparr>sym_yys := 24\<rparr>"
      using S [of "Suc (length xs)"] pushed_nth(1) [OF d] ident by (simp add: reduce_def)
    moreover have "yyS c'' ! i = pushed c ! i" if "i \<noteq> Suc (length xs)" "i \<noteq> Suc (Suc (length xs))" for i
      using S [of i] pushed_nth(2) [OF d, of i] below [of i] that by simp
    moreover have "seen c c''" using c''(3) left by (auto simp: seen_def reduce_def)
    ultimately show "parses c'' (k (yyVAL c') a)" using c'' by (intro k) simp_all
  qed (use c'(2) c(4) in \<open>simp_all add: reduce_def empty_handed_def\<close>)
  moreover have "yyaction 24 (yyDollar (pushed c') (int (Suc (length xs)))) (pushed c' ! Suc (length xs)) (yylexer c') =
      Some (pushed c' ! Suc (length xs), yylexer c')"
    using stacked_length [OF c'(1)] c(4) by (simp add: yy_act nat_add_distrib)
  ultimately show "parses c' (\<lambda>ts. case g_arg stale ts of (a, us) \<Rightarrow> k (yyVAL c') a us)"
    using c(3) by (intro parses_reduced [OF c'(1), where d = 24 and n = 10 and r = 1 and st = 24])
      (auto simp: yy_tab nth_append)
qed (use c in \<open>auto simp: word_tab\<close>)

text \<open>A parsed option is reduced to \<open>st\<close> with its node.\<close>

lemma option_node:
  assumes c: "stacked c 28 (xs @ [s, 24])" "length xs < 10" and s: "yygoto 7 s = Some st" "state_ok st"
    and k: "\<And>c'. stacked c' st (xs @ [s]) \<Longrightarrow>
      sym_node (yyVAL c') = Some (OptionNode (sym_str (yyS c ! Suc (length xs))) (sym_node (yyVAL c))) \<Longrightarrow>
      yyS c' = pushed c \<Longrightarrow> seen c0 c' \<Longrightarrow> parses c' G"
    and seen: "seen c0 c"
  shows "parses c G"
proof -
  let ?nd = "Some (OptionNode (sym_str (yyS c ! Suc (length xs))) (sym_node (yyVAL c)))"
  let ?v = "(pushed c ! Suc (length xs))\<lparr>sym_node := ?nd\<rparr>"
  let ?c = "reduce 2 st ?v (yylexer c) c"
  have "stacked ?c st (xs @ [s])" by (rule stacked_reduce [OF c(1)]) (use s(2) c(2) in simp_all)
  then have "parses ?c G"
    using seen by (intro k) (simp_all add: reduce_def seen_def empty_handed_def held_def)
  moreover have "nat (3 + int (length xs)) = Suc (Suc (Suc (length xs)))" by simp
  then have "yyaction 17 (yyDollar (pushed c) (int (Suc (Suc (length xs))))) (pushed c ! Suc (length xs)) (yylexer c) =
      Some (?v, yylexer c)"
    using stacked_length [OF c(1)] c(2) pushed_nth(1) [OF c(1), of "Suc (Suc (length xs))"] pushed_nth(2) [OF c(1), of "Suc (length xs)"]
    by (simp add: yy_act)
  ultimately show ?thesis
    using s(1) by (intro parses_reduced [OF c(1), where d = 17 and n = 7 and r = 2 and st = st])
      (simp_all add: yy_tab nth_append numeral_2_eq_2)
qed

text \<open>The list of options. First everything but a comma; then the loop over the commas.\<close>

abbreviation opts_stack :: "int list" where "opts_stack \<equiv> [0, 11, 18, 19, 21]"

abbreviation g_opts :: "yyParser \<Rightarrow> token list \<Rightarrow> Node option option" where
  "g_opts c \<equiv> g_rest (sym_str (yyS c ! 2)) (sym_node (yyS c ! 8)) (sym_nodeList (yyVAL c))"

lemma at_22_no_comma:
  assumes c: "stacked c 22 opts_stack" "held c" "yychar c \<noteq> TCOMMA"
  shows "parses c (g_opts c)"
proof (cases "yychar c = TCLOSEBR")
  case True
  then have n: "yychar c \<noteq> 0" "yytoken c = 10" using held_number(9) [OF c(2)] by (simp_all add: token_codes)
  let ?c = "shift 26 c"
  have c': "stacked ?c 26 [0, 11, 18, 19, 21, 22]" using stacked_shift [OF c(1), of 26] by (simp add: state_ok_def)
  have "parses ?c (g_fin (Some (CopyCommand (sym_str (yyS c ! 2)) (sym_nodeList (yyVAL c)))))"
    using at_26 [OF c'] c(2) n(1) pushed_nth(1) [OF c(1), of 5] pushed_nth(2) [OF c(1), of 2]
    by (simp add: shift_def push_def empty_handed_def held_def)
  then show ?thesis using True n
    by (intro parses_shifted [OF c(1,2) n(1)]) (simp_all add: yy_tab g_rest.simps)
next
  case False
  then have "yytoken c \<notin> {10, 11}" using held_number(9,10) [OF c(2)] c(3) by simp
  with False c(3) show ?thesis using held_number(1) [OF c(2)]
    by (intro parses_reject [OF c(1,2)]) (simp_all add: yy_tab no_shift_tab g_rest.simps)
qed

text \<open>After an option the list goes on, if every comma further on is parsed.\<close>

lemma option_done:
  assumes c: "stacked c 22 opts_stack" "seen c0 c"
    and comma: "\<And>c'. stacked c' 22 opts_stack \<Longrightarrow> held c' \<Longrightarrow> yychar c' = TCOMMA \<Longrightarrow> lex_left c' < lex_left c0 \<Longrightarrow>
      parses c' (g_opts c')"
  shows "parses c (g_opts c)"
proof -
  have not_word: "TCOMMA \<notin> lex_words" "TCOMMA \<noteq> 0" by (simp_all add: lex_words_def token_codes)
  show ?thesis
  proof (cases "held c")
    case True
    then have "\<not> empty_handed c" using held_char [of c] by (auto simp: empty_handed_def)
    with True c not_word comma [of c] at_22_no_comma [of c] show ?thesis by (cases "yychar c = TCOMMA") (auto simp: seen_def)
  next
    case False
    with c(2) have e: "empty_handed c" "lex_left c \<le> lex_left c0" by (auto simp: seen_def)
    show ?thesis
    proof (rule parses_next [OF e(1) c(1)])
      fix c' assume c': "stacked c' 22 opts_stack" "held c'" "same_stack c c'"
        and left: "yychar c' \<noteq> 0 \<longrightarrow> lex_left c' \<le> lex_left c \<and> (yychar c' \<notin> lex_words \<longrightarrow> lex_left c' < lex_left c)"
      have "parses c' (g_opts c')"
        using c' left not_word comma [of c'] at_22_no_comma [of c'] e(2) by (cases "yychar c' = TCOMMA") auto
      with c'(3) show "parses c' (g_opts c)" by (simp add: same_stack_def)
    qed (simp add: yy_tab)
  qed
qed

text \<open>The reduction of the list in the states 23 (its first option) and 34\<close>

lemma option_added:
  assumes c: "stacked c 34 [0, 11, 18, 19, 21, 22, 27]" "seen c0 c"
    and comma: "\<And>c'. stacked c' 22 opts_stack \<Longrightarrow> held c' \<Longrightarrow> yychar c' = TCOMMA \<Longrightarrow> lex_left c' < lex_left c0 \<Longrightarrow>
      parses c' (g_opts c')"
  shows "parses c (g_rest (sym_str (yyS c ! 2)) (sym_node (yyS c ! 8)) (sym_nodeList (yyS c ! 5) @ [sym_node (yyVAL c)]))"
proof -
  let ?v = "(pushed c ! 5)\<lparr>sym_nodeList := sym_nodeList (yyS c ! 5) @ [sym_node (yyVAL c)]\<rparr>"
  let ?c = "reduce 3 22 ?v (yylexer c) c"
  have "stacked ?c 22 opts_stack" by (rule stacked_reduce [OF c(1)]) (simp_all add: state_ok_def)
  moreover have "seen c0 ?c" using c(2) by (simp add: seen_def reduce_def empty_handed_def held_def)
  ultimately have "parses ?c (g_opts ?c)" using comma by (rule option_done)
  then have "parses ?c (g_rest (sym_str (yyS c ! 2)) (sym_node (yyS c ! 8)) (sym_nodeList (yyS c ! 5) @ [sym_node (yyVAL c)]))"
    using pushed_nth(2) [OF c(1), of 2] pushed_nth(2) [OF c(1), of 8] by (simp add: reduce_def)
  moreover have "yyaction 16 (yyDollar (pushed c) 7) (pushed c ! 5) (yylexer c) = Some (?v, yylexer c)"
    using stacked_length [OF c(1)] pushed_nth(1) [OF c(1), of 7] pushed_nth(2) [OF c(1), of 5] by (simp add: yy_act)
  ultimately show ?thesis
    by (intro parses_reduced [OF c(1), where d = 16 and n = 12 and r = 3 and st = 22]) (simp_all add: yy_tab eval_nat_numeral)
qed

lemma g_rest_comma:
  "g_rest path prev opts ((TCOMMA, v) # us) =
     g_word IDENT (\<lambda>w ts. case g_arg prev ts of (a, ws) \<Rightarrow>
       g_rest path a (opts @ [Some (OptionNode (sym_str w) a)]) ws) us"
proof -
  have "TCOMMA \<noteq> TCLOSEBR" by (simp add: token_codes)
  then show ?thesis by (subst g_rest.simps) (simp add: g_word_def)
qed

lemma at_22_comma:
  assumes "stacked c 22 opts_stack" "held c" "yychar c = TCOMMA"
  shows "parses c (g_opts c)"
  using assms
proof (induction "lex_left c" arbitrary: c rule: less_induct)
  case less
  note c = less.prems
  let ?path = "sym_str (yyS c ! 2)" and ?prev = "sym_node (yyS c ! 8)" and ?opts = "sym_nodeList (yyVAL c)"
  let ?c = "shift 27 c"
  have n: "yychar c \<noteq> 0" "yytoken c = 11" using held_number(10) [OF c(2)] c(3) by (simp_all add: token_codes)
  have c': "stacked ?c 27 [0, 11, 18, 19, 21, 22]" using stacked_shift [OF c(1), of 27] by (simp add: state_ok_def)
  have e: "empty_handed ?c" "lex_left ?c = lex_left c"
    using c(2) n by (simp_all add: shift_def push_def empty_handed_def held_def)
  have S: "yyS ?c ! i = (if i = 5 then (yyVAL c)\<lparr>sym_yys := 22\<rparr> else yyS c ! i)" for i
    using pushed_nth [OF c(1), of i] by (simp add: shift_def push_def eval_nat_numeral)
  have "parses ?c (g_word IDENT (\<lambda>v ts. case g_arg ?prev ts of (a, us) \<Rightarrow>
      g_rest ?path a (?opts @ [Some (OptionNode (sym_str v) a)]) us))"
  proof (rule option_label [OF e(1) c'])
    fix d v a
    assume d: "stacked d 28 ([0, 11, 18, 19, 21, 22] @ [27, 24])" "sym_node (yyVAL d) = a"
      "sym_str (yyS d ! Suc (length [0 :: int, 11, 18, 19, 21, 22])) = sym_str v" "seen ?c d"
      and Sd: "\<And>i. i \<noteq> Suc (length [0 :: int, 11, 18, 19, 21, 22]) \<Longrightarrow> i \<noteq> Suc (Suc (length [0 :: int, 11, 18, 19, 21, 22])) \<Longrightarrow>
        yyS d ! i = pushed ?c ! i"
    have d2: "yyS d ! 2 = yyS c ! 2" "yyS d ! 5 = (yyVAL c)\<lparr>sym_yys := 22\<rparr>" "sym_str (yyS d ! 7) = sym_str v"
      using Sd [of 2] Sd [of 5] d(3) pushed_nth(2) [OF c', of 2] pushed_nth(2) [OF c', of 5] S
      by (simp_all add: eval_nat_numeral)
    have "seen c d" using d(4) e(2) by (auto simp: seen_def)
    show "parses d (g_rest ?path a (?opts @ [Some (OptionNode (sym_str v) a)]))"
    proof (rule option_node [OF d(1)])
      fix c2 assume c2: "stacked c2 34 ([0, 11, 18, 19, 21, 22] @ [27])" "yyS c2 = pushed d" "seen c c2"
        "sym_node (yyVAL c2) = Some (OptionNode (sym_str (yyS d ! Suc (length [0 :: int, 11, 18, 19, 21, 22]))) (sym_node (yyVAL d)))"
      have "parses c2 (g_rest (sym_str (yyS c2 ! 2)) (sym_node (yyS c2 ! 8)) (sym_nodeList (yyS c2 ! 5) @ [sym_node (yyVAL c2)]))"
        using c2(1,3) less.hyps by (intro option_added [of c2 c]) simp_all
      then show "parses c2 (g_rest ?path a (?opts @ [Some (OptionNode (sym_str v) a)]))"
        using c2(2,4) d d2 pushed_nth(1) [OF d(1), of 8] pushed_nth(2) [OF d(1), of 2] pushed_nth(2) [OF d(1), of 5]
        by (simp add: eval_nat_numeral)
    qed (use \<open>seen c d\<close> in \<open>simp_all add: yy_tab state_ok_def\<close>)
  qed (use S [of 8] in \<open>simp_all add: eval_nat_numeral\<close>)
  then show ?case
    by (rule parses_shifted [OF c(1,2) n(1), rotated]) (simp_all add: c(3) n(2) yy_tab g_rest_comma)
qed

lemma at_22: 
  assumes "stacked c 22 opts_stack" "seen c0 c"
  shows "parses c (g_opts c)"
  using assms by (rule option_done) (rule at_22_comma)

lemma first_option:
  assumes c: "stacked c 23 opts_stack" "seen c0 c"
  shows "parses c (g_rest (sym_str (yyS c ! 2)) (sym_node (yyS c ! 8)) [sym_node (yyVAL c)])"
proof -
  let ?v = "(pushed c ! 5)\<lparr>sym_nodeList := [sym_node (yyVAL c)]\<rparr>"
  let ?c = "reduce 1 22 ?v (yylexer c) c"
  have "stacked ?c 22 opts_stack" by (rule stacked_reduce [OF c(1)]) (simp_all add: state_ok_def)
  moreover have "seen c0 ?c" using c(2) by (simp add: seen_def reduce_def empty_handed_def held_def)
  ultimately have "parses ?c (g_opts ?c)" by (rule at_22)
  then have "parses ?c (g_rest (sym_str (yyS c ! 2)) (sym_node (yyS c ! 8)) [sym_node (yyVAL c)])"
    using pushed_nth(2) [OF c(1), of 2] pushed_nth(2) [OF c(1), of 8] by (simp add: reduce_def)
  moreover have "yyaction 15 (yyDollar (pushed c) 5) (pushed c ! 5) (yylexer c) = Some (?v, yylexer c)"
    using stacked_length [OF c(1)] pushed_nth(1) [OF c(1), of 5] by (simp add: yy_act)
  ultimately show ?thesis
    by (intro parses_reduced [OF c(1), where d = 15 and n = 12 and r = 1 and st = 22]) (simp_all add: yy_tab eval_nat_numeral)
qed

lemma at_21:
  assumes c: "empty_handed c" "stacked c 21 [0, 11, 18, 19]" and zero: "sym_node (yyS c ! 6) = None" "sym_node (yyS c ! 8) = None"
  shows "parses c (g_options (sym_str (yyS c ! 2)))"
  unfolding g_options_def
proof (rule option_label [OF c])
  fix d v a
  assume d: "stacked d 28 ([0, 11, 18, 19] @ [21, 24])" "sym_node (yyVAL d) = a"
    "sym_str (yyS d ! Suc (length [0 :: int, 11, 18, 19])) = sym_str v" "seen c d"
    and Sd: "\<And>i. i \<noteq> Suc (length [0 :: int, 11, 18, 19]) \<Longrightarrow> i \<noteq> Suc (Suc (length [0 :: int, 11, 18, 19])) \<Longrightarrow>
      yyS d ! i = pushed c ! i"
  have d2: "yyS d ! 2 = yyS c ! 2" "yyS d ! 8 = yyS c ! 8"
    using Sd [of 2] Sd [of 8] pushed_nth(2) [OF c(2), of 2] pushed_nth(2) [OF c(2), of 8] by simp_all
  show "parses d (g_rest (sym_str (yyS c ! 2)) None [Some (OptionNode (sym_str v) a)])"
  proof (rule option_node [OF d(1)])
    fix c2 assume c2: "stacked c2 23 ([0, 11, 18, 19] @ [21])" "yyS c2 = pushed d" "seen c c2"
      "sym_node (yyVAL c2) = Some (OptionNode (sym_str (yyS d ! Suc (length [0 :: int, 11, 18, 19]))) (sym_node (yyVAL d)))"
    have "parses c2 (g_rest (sym_str (yyS c2 ! 2)) (sym_node (yyS c2 ! 8)) [sym_node (yyVAL c2)])"
      using c2(1,3) by (intro first_option [of c2 c]) simp_all
    then show "parses c2 (g_rest (sym_str (yyS c ! 2)) None [Some (OptionNode (sym_str v) a)])"
      using c2(2,4) d d2 zero pushed_nth(2) [OF d(1), of 2] pushed_nth(2) [OF d(1), of 8]
      by (simp add: eval_nat_numeral)
  qed (use d in \<open>simp_all add: yy_tab state_ok_def\<close>)
qed (use zero in \<open>simp_all add: eval_nat_numeral\<close>)

lemma at_11:
  assumes c: "empty_handed c" "stacked c 11 [0]" and zero: "\<And>i. 4 < i \<Longrightarrow> i < 16 \<Longrightarrow> sym_node (yyS c ! i) = None"
  shows "parses c (g_word SCONST (\<lambda>path. g_word WITH (\<lambda>w. g_word TOPENBR (\<lambda>b. g_options (sym_str path)))))"
proof (rule parses_word [OF c, where n = 27 and st = 18])
  fix c1 assume c1: "stacked c1 18 ([0] @ [11])" "empty_handed c1" "yyS c1 = pushed c"
  show "parses c1 (g_word WITH (\<lambda>w. g_word TOPENBR (\<lambda>b. g_options (sym_str (yyVAL c1)))))"
  proof (rule parses_word [OF c1(2,1), where n = 8 and st = 19])
    fix c2 assume c2: "stacked c2 19 (([0] @ [11]) @ [18])" "empty_handed c2" "yyS c2 = pushed c1"
    show "parses c2 (g_word TOPENBR (\<lambda>b. g_options (sym_str (yyVAL c1))))"
    proof (rule parses_word [OF c2(2,1), where n = 9 and st = 21])
      fix c3 assume c3: "stacked c3 21 ((([0] @ [11]) @ [18]) @ [19])" "empty_handed c3" "yyS c3 = pushed c2"
      have S: "yyS c3 ! 2 = (yyVAL c1)\<lparr>sym_yys := 18\<rparr>" "yyS c3 ! 6 = yyS c ! 6" "yyS c3 ! 8 = yyS c ! 8"
        using pushed_nth(2) [OF c(2)] pushed_nth(1) [OF c1(1), of 2] pushed_nth(2) [OF c1(1)] pushed_nth(2) [OF c2(1)]
        by (simp_all add: c1(3) c2(3) c3(3))
      with c3 zero at_21 [of c3] show "parses c3 (g_options (sym_str (yyVAL c1)))" by simp
    qed (simp_all add: word_tab)
  qed (simp_all add: word_tab)
qed (simp_all add: word_tab)

text \<open>The empty command\<close>

lemma at_0_empty:
  assumes c: "stacked c 0 []" "held c" "tk_ParseTree (yylexer c) = None" "yytoken c \<notin> {4, 6, 7, 23, 25}"
  shows "parses c (g_fin None)"
proof -
  let ?v = "(pushed c ! 1)\<lparr>sym_node := None\<rparr>"
  let ?c = "reduce 0 2 ?v (yylexer c) c"
  have "stacked ?c 2 [0]" by (rule stacked_reduce [OF c(1)]) (simp_all add: state_ok_def)
  moreover have "held ?c" using c(2) by (simp add: reduce_def held_def)
  ultimately have "parses ?c (g_fin None)" using at_2 [of ?c] c(3) by (simp add: reduce_def)
  moreover have "yyaction 10 (yyDollar (pushed c) 0) (pushed c ! Suc 0) (yylexer c) = Some (?v, yylexer c)"
    using stacked_length [OF c(1)] by (simp add: yy_act)
  ultimately show ?thesis
    using held_number(1) [OF c(2)] c(2,4)
    by (intro parses_reduced [OF c(1), where d = 10 and n = 1 and r = 0 and st = 2]) (simp_all add: yy_tab no_shift_tab)
qed

lemma at_0:
  assumes c: "stacked c 0 []" "empty_handed c" "tk_ParseTree (yylexer c) = None" and zero: "\<And>i. i < 16 \<Longrightarrow> sym_node (yyS c ! i) = None"
  shows "parses c tree_of"
proof (rule parses_next [OF c(2,1)])
  fix c' assume c': "stacked c' 0 []" "held c'" "same_stack c c'"
  have sh: "stacked (shift st c') st [0]" if "state_ok st" for st using stacked_shift [OF c'(1) that] by simp
  have e: "empty_handed (shift st c')" if "yychar c' \<noteq> 0" for st
    using c'(2) that by (simp add: shift_def push_def empty_handed_def held_def)
  have nz: "sym_node (yyS (shift st c') ! i) = None" if "0 < i" "i < 16" for st i
    using zero [of i] c'(3) pushed_nth(2) [OF c'(1), of i] that by (simp add: shift_def push_def same_stack_def)
  note num = held_number [OF c'(2)] and cmd = parses_shifted [OF c'(1,2)]
  note nodes = tree_of_def token_codes yy_tab state_ok_def
  consider "yychar c' = SAY" | "yychar c' = SHOW" | "yychar c' = STOP" | "yychar c' = KURT" | "yychar c' = COPY"
    | (none) "yychar c' \<notin> {SAY, SHOW, STOP, KURT, COPY}" by blast
  then show "parses c' tree_of"
  proof cases
    case 1
    then show ?thesis using num(3) by (intro cmd [OF _ _ at_7 [OF e sh]]) (simp_all add: nodes)
  next
    case 2
    then show ?thesis using num(5) by (intro cmd [OF _ _ at_8 [OF e sh]]) (simp_all add: nodes)
  next
    case 3
    then show ?thesis using num(13) by (intro cmd [OF _ _ at_9 [OF e sh]]) (simp_all add: nodes)
  next
    case 4
    then show ?thesis using num(11) by (intro cmd [OF _ _ at_10 [OF e sh]]) (simp_all add: nodes)
  next
    case 5
    then show ?thesis using num(6) nz by (intro cmd [OF _ _ at_11 [OF e sh]]) (simp_all add: nodes)
  next
    case none
    have "parses c' (g_fin None)"
      using none num c' c(3) by (intro at_0_empty) (simp_all add: same_stack_def)
    then show ?thesis
      by (rule parses_cong) (use none feeds_held [OF c'(2)] feeds_end [of c'] in
          \<open>cases "yychar c' = 0"; auto simp: tree_of_def g_fin_def\<close>)
  qed
qed (simp add: yy_tab)

section \<open>\<open>Parse\<close>\<close>

lemma parses_start: "parses (yyNewParser (NewStringTokenizer sql)) tree_of"
proof -
  let ?c = "yyNewParser (NewStringTokenizer sql)"
  have "stacked ?c 0 []" by (simp add: stacked_def yyNewParser_def yy_consts state_ok_def)
  moreover have "empty_handed ?c" "tk_ParseTree (yylexer ?c) = None"
    by (simp_all add: empty_handed_def yyNewParser_def NewStringTokenizer_def)
  moreover have "sym_node (yyS ?c ! i) = None" if "i < 16" for i
    using that by (simp add: yyNewParser_def yy_consts zero_sym_def)
  ultimately show ?thesis by (rule at_0)
qed

lemma Parse_spec:
  "\<exists>r. Parse sql = Some r \<and>
    (\<forall>nd. r = Inr nd \<longleftrightarrow> (\<exists>ts. lexes zero_sym (NewLexer (bytes_of sql)) ts \<and> tree_of ts = Some nd)) \<and>
    (\<forall>e. r = Inl e \<longrightarrow> (\<exists>pos. e = Errorf (''syntax error on pos '' @ dec_of_nat pos)))"
proof -
  let ?c = "yyNewParser (NewStringTokenizer sql)"
  have feeds: "feeds ?c ts \<longleftrightarrow> lexes zero_sym (NewLexer (bytes_of sql)) ts" for ts
    by (simp add: feeds_def yyNewParser_def NewStringTokenizer_def)
  from parses_start [of sql] obtain r c' where
    run: "yyrun Yystack ?c = Some (r, c')" "r = 0 \<or> r = 1 \<and> tk_LastError (yylexer c') = ''syntax error''"
      "\<forall>nd. r = 0 \<and> tk_ParseTree (yylexer c') = nd \<longleftrightarrow> (\<exists>ts. feeds ?c ts \<and> tree_of ts = Some nd)"
    unfolding parses_def by blast
  then have "Parse sql = Some (parse_result (r, yylexer c'))" by (simp add: Parse_def yyParse_def)
  with run(2,3) show ?thesis by (auto simp: parse_result_def feeds)
qed

end
