(* ===== verification/ConsolePrinter.thy ===== *)
theory ConsolePrinter
  imports LexerTokens ConsoleGrammar
begin

text \<open>
  The commands of the console written back as queries, and the proof that \<open>Parse\<close> reads them as they
  were (\<open>Parse_print_command\<close>); the shape of every tree that \<open>Parse\<close> returns (\<open>Parse_shape\<close>).
\<close>

section \<open>Lists of tokens\<close>

type_synonym item = "byte list \<times> int \<times> (yySymType \<Rightarrow> yySymType)"

definition item_ok :: "item \<Rightarrow> bool" where
  "item_ok = (\<lambda>(w, tok, upd). lexeme w tok upd)"

fun item_toks :: "yySymType \<Rightarrow> item list \<Rightarrow> token list" where
  "item_toks lv [] = []"
| "item_toks lv ((w, tok, upd) # is) = (tok, upd lv) # item_toks (upd lv) is"

text \<open>The texts of the items, each after a blank\<close>

fun spaced :: "item list \<Rightarrow> byte list" where
  "spaced [] = []"
| "spaced ((w, tok, upd) # is) = 32 # w @ spaced is"

lemma spaced_rest: "case spaced is of [] \<Rightarrow> True | c # cs \<Rightarrow> c = 32"
  by (cases "is") auto

lemma skip_blank:
  assumes "faces l (32 # c # w) rest" "\<not> blank c"
  shows "\<exists>e l'. scan 9 l = Some e \<and> end_action lv e = Some (Skip l') \<and> faces l' (c # w) rest"
proof -
  note f = faces_Cons [OF assms(1)]
  let ?l = "l\<lparr>lex_ts := lex_p l, lex_p := lex_p l + 1\<rparr>"
  have f': "faces ?l (c # w) rest" using f(5) by (simp add: faces_def)
  note fc = faces_Cons [OF f']
  have "(st_cases ! 10) c = Tr 31" using assms(2) by (auto simp: st_cases_def st_case_10_def blank_def)
  then have "enter 10 ?l = Some (Final 31 ?l)" using fc by (simp add: enter_def scan_enter mark_action_def)
  then have "scan 9 l = Some (Final 31 ?l)" by (simp add: scan_9 [OF assms(1)] Let_def st_case_9_def)
  with f' show ?thesis by (simp add: end_action_def final_action_def Let_def)
qed

lemma st9_token:
  assumes "lexeme w tok upd" "faces l w rest" "case rest of [] \<Rightarrow> True | c # cs \<Rightarrow> c = 32"
  shows "\<exists>l'. st9 lv l = Some (tok, upd lv, l') \<and> faces l' [] rest \<and> lex_cs l' = 9"
proof -
  let ?l = "l\<lparr>lex_ts := 0, lex_act := 0\<rparr>"
  have f: "faces ?l w rest" using assms(2) by (simp add: faces_def)
  from assms(1) obtain c v where "w = c # v" by (auto simp: lexeme_def)
  with f have "lex_p l \<noteq> lex_pe l" using faces_Cons(4) [of ?l c v rest] by simp
  moreover from assms(1,3) f obtain e l' where
    "scan 9 ?l = Some e" "end_action lv e = Some (Token tok (upd lv) l')" "faces l' [] rest" "lex_cs l' = 9"
    unfolding lexeme_def by blast
  ultimately show ?thesis by (subst st9.simps) (simp add: Let_def)
qed

lemma lexes_spaced:
  assumes "list_all item_ok is" "lex_cs l = 9" "faces l (spaced is) []"
  shows "lexes lv l (item_toks lv is)"
  using assms
proof (induction "is" arbitrary: l lv)
  case Nil
  then have "lex_p l = lex_pe l" using faces_Nil(1) [of l "[]"] by simp
  with Nil(2) have "Lex lv l = Some (0, lv, l)" by (simp add: Lex_def eof_action_def end_action_def)
  then show ?case by (simp add: lexes_end)
next
  case (Cons i "is")
  obtain w tok upd where i: "i = (w, tok, upd)" by (cases i)
  with Cons.prems have lx: "lexeme w tok upd" "list_all item_ok is" by (simp_all add: item_ok_def)
  from lx(1) obtain c v where w: "w = c # v" "\<not> blank c" "tok \<noteq> 0" by (auto simp: lexeme_def)
  have f: "faces l (32 # c # (v @ spaced is)) []" using Cons.prems(3) i w by simp
  from skip_blank [OF f w(2), of lv] obtain e l1 where
    e: "scan 9 l = Some e" "end_action lv e = Some (Skip l1)" "faces l1 (c # (v @ spaced is)) []" by blast
  have "faces l1 w (spaced is)" using e(3) w(1) by (simp add: faces_def)
  from st9_token [OF lx(1) this spaced_rest, of lv] obtain l2 where
    l2: "st9 lv l1 = Some (tok, upd lv, l2)" "faces l2 [] (spaced is)" "lex_cs l2 = 9" by blast
  have "Lex lv l = Some (tok, upd lv, l2)"
    using e l2 faces_Cons(4) [OF f] Cons.prems(2) by (simp add: Lex_def)
  moreover have "lexes (upd lv) l2 (item_toks (upd lv) is)"
    using l2 by (intro Cons.IH lx(2)) (simp_all add: faces_def)
  ultimately show ?case using w(3) i by (simp add: lexes_token)
qed

lemma lexes_items:
  assumes "item_ok (w, tok, upd)" "list_all item_ok is" "lex_cs l = 9" "faces l (w @ spaced is) []"
  shows "lexes lv l (item_toks lv ((w, tok, upd) # is))"
proof -
  have f: "faces l w (spaced is)" using assms(4) by (simp add: faces_def)
  from assms(1) obtain c v where w: "w = c # v" "tok \<noteq> 0" by (auto simp: lexeme_def item_ok_def)
  have lx: "lexeme w tok upd" using assms(1) by (simp add: item_ok_def)
  from lx f spaced_rest [of "is"] obtain e l' where
    e: "scan 9 l = Some e" "end_action lv e = Some (Token tok (upd lv) l')" "faces l' [] (spaced is)" "lex_cs l' = 9"
    unfolding lexeme_def by blast
  have "Lex lv l = Some (tok, upd lv, l')"
    using e faces_Cons(4) [of l c v "spaced is"] f w assms(3) by (simp add: Lex_def)
  moreover have "lexes (upd lv) l' (item_toks (upd lv) is)"
    using e(3,4) by (intro lexes_spaced assms(2)) (simp_all add: faces_def)
  ultimately show ?thesis using w(2) by (simp add: lexes_token)
qed

section \<open>Printing\<close>

text \<open>
  A command written as a query: its words one blank apart, strings in quotes, numbers in decimal. An
  identifier is a word that is no keyword in any case; there is no way to write a quote in a string.
\<close>

definition ident :: "string \<Rightarrow> bool" where
  "ident s \<longleftrightarrow> (case bytes_of s of [] \<Rightarrow> False | c # w \<Rightarrow> ident_letter c \<and> list_all ident_cont w) \<and>
     map_of kw_table (map lower (bytes_of s)) = None"

definition quotable :: "string \<Rightarrow> bool" where
  "quotable s \<longleftrightarrow> 39 \<notin> set (bytes_of s)"

definition quote :: "string \<Rightarrow> string" where
  "quote s = [char_of_byte 39] @ s @ [char_of_byte 39]"

fun const_words :: "Node option \<Rightarrow> string list" where
  "const_words (Some (AExprSConst s)) = [quote s]"
| "const_words (Some (AExprIConst i)) = [dec_of_int i]"
| "const_words _ = []"

fun const_ok :: "Node option \<Rightarrow> bool" where
  "const_ok (Some (AExprSConst s)) = quotable s"
| "const_ok (Some (AExprIConst i)) = (- (2 ^ 63) \<le> i \<and> i < 2 ^ 63)"
| "const_ok _ = False"

fun option_words :: "Node option \<Rightarrow> string list" where
  "option_words (Some (OptionNode n a)) = n # const_words a"
| "option_words _ = []"

fun option_ok :: "Node option \<Rightarrow> bool" where
  "option_ok (Some (OptionNode n a)) \<longleftrightarrow> ident n \<and> const_ok a"
| "option_ok _ \<longleftrightarrow> False"

fun command_words :: "Node \<Rightarrow> string list" where
  "command_words SayHelloCommand = [''SAY'', ''HELLO'']"
| "command_words (ShowCommand s) = [''SHOW'', s]"
| "command_words KKBCommand = [''STOP'', ''SYSTEM'']"
| "command_words (CopyCommand p opts) =
     [''COPY'', quote p, ''WITH'', ''(''] @ option_words (hd opts) @
     concat (map (\<lambda>opt. '','' # option_words opt) (tl opts)) @ ['')'']"
| "command_words _ = []"

fun printable :: "Node \<Rightarrow> bool" where
  "printable SayHelloCommand = True"
| "printable (ShowCommand s) = ident s"
| "printable KKBCommand = True"
| "printable (CopyCommand p opts) \<longleftrightarrow> quotable p \<and> opts \<noteq> [] \<and> list_all option_ok opts"
| "printable _ = False"

fun unwords :: "string list \<Rightarrow> string" where
  "unwords [] = []"
| "unwords (w # ws) = w @ concat (map (\<lambda>w. CHR '' '' # w) ws)"

definition print_command :: "Node \<Rightarrow> string" where
  "print_command nd = unwords (command_words nd)"

section \<open>The tokens of a printed command\<close>

definition word_item :: "string \<Rightarrow> int \<Rightarrow> item" where
  "word_item s tok = (bytes_of s, tok, \<lambda>lv. lv\<lparr>sym_str := s\<rparr>)"

definition quoted_item :: "string \<Rightarrow> item" where
  "quoted_item s = (bytes_of (quote s), SCONST, \<lambda>lv. lv\<lparr>sym_str := s\<rparr>)"

definition int_item :: "int \<Rightarrow> item" where
  "int_item i = (bytes_of (dec_of_int i), ICONST, \<lambda>lv. lv\<lparr>sym_int := i\<rparr>)"

fun const_items :: "Node option \<Rightarrow> item list" where
  "const_items (Some (AExprSConst s)) = [quoted_item s]"
| "const_items (Some (AExprIConst i)) = [int_item i]"
| "const_items _ = []"

fun option_items :: "Node option \<Rightarrow> item list" where
  "option_items (Some (OptionNode n a)) = word_item n IDENT # const_items a"
| "option_items _ = []"

fun command_items :: "Node \<Rightarrow> item list" where
  "command_items SayHelloCommand = [word_item ''SAY'' SAY, word_item ''HELLO'' HELLO]"
| "command_items (ShowCommand s) = [word_item ''SHOW'' SHOW, word_item s IDENT]"
| "command_items KKBCommand = [word_item ''STOP'' STOP, word_item ''SYSTEM'' SYSTEM]"
| "command_items (CopyCommand p opts) =
     [word_item ''COPY'' COPY, quoted_item p, word_item ''WITH'' WITH, word_item ''('' TOPENBR] @ option_items (hd opts) @
     concat (map (\<lambda>opt. word_item '','' TCOMMA # option_items opt) (tl opts)) @ [word_item '')'' TCLOSEBR]"
| "command_items _ = []"

lemma word_item_ok:
  assumes "case bytes_of s of [] \<Rightarrow> False | c # w \<Rightarrow> ident_letter c \<and> list_all ident_cont w" "word_tok (bytes_of s) = tok"
  shows "item_ok (word_item s tok)"
proof -
  obtain c w where w: "bytes_of s = c # w" "ident_letter c" "list_all ident_cont w" using assms(1) by (auto split: list.splits)
  then show ?thesis using lexeme_word [OF w(2,3)] assms(2) string_of_bytes_of [of s] by (simp add: item_ok_def word_item_def)
qed

lemma keyword_items [simp]:
  "item_ok (word_item ''SAY'' SAY)" "item_ok (word_item ''HELLO'' HELLO)" "item_ok (word_item ''SHOW'' SHOW)"
  "item_ok (word_item ''STOP'' STOP)" "item_ok (word_item ''SYSTEM'' SYSTEM)" "item_ok (word_item ''COPY'' COPY)"
  "item_ok (word_item ''WITH'' WITH)"
  by (rule word_item_ok; simp add: bytes_of_def byte_of_char_def ident_letter_def ident_cont_def word_tok_def lower_def
      word_act_def kw_table_def act_token_def)+

lemma punct_item_ok:
  assumes "(byte_of_char c, k :: nat, tok) \<in> {(40, 15, TOPENBR), (41, 16, TCLOSEBR), (44, 17, TCOMMA)}"
  shows "item_ok (word_item [c] tok)"
  using lexeme_punct [OF assms] by (simp add: item_ok_def word_item_def bytes_of_def string_of_def)

lemma punct_items [simp]:
  "item_ok (word_item ''('' TOPENBR)" "item_ok (word_item '')'' TCLOSEBR)" "item_ok (word_item '','' TCOMMA)"
  by (rule punct_item_ok; simp add: byte_of_char_def)+

lemma ident_item: "ident s \<Longrightarrow> item_ok (word_item s IDENT)"
  by (auto simp: ident_def word_tok_def word_act_def act_token_def intro!: word_item_ok split: list.splits)

lemma quoted_item_ok: "quotable s \<Longrightarrow> item_ok (quoted_item s)"
  using lexeme_quoted [of "bytes_of s"] string_of_bytes_of [of s]
  by (simp add: quotable_def item_ok_def quoted_item_def quote_def bytes_of_def)

lemma dec_of_nat_digit: "list_all dec_digit (dec_of_nat n)"
  by (auto simp: list_all_iff dec_digit_def dest!: dec_of_nat_digits)

lemma dec_of_nat_sign: "take 1 (dec_of_nat n) \<noteq> ''-''" "take 1 (dec_of_nat n) \<noteq> ''+''"
  using dec_of_nat_digit [of n] by (cases "dec_of_nat n"; auto simp: dec_digit_def)+

lemma Atoi_dec_of_int: "- (2 ^ 63) \<le> i \<Longrightarrow> i < 2 ^ 63 \<Longrightarrow> Atoi_value (dec_of_int i) = i"
  using dec_of_nat_sign [of "nat i"] dec_of_nat_digit
  by (auto simp: Atoi_value_def dec_of_int_def nat_of_dec_of_nat Let_def)

lemma dec_digit_byte: "dec_digit c \<Longrightarrow> digit (byte_of_char c)"
  by (simp add: dec_digit_def digit_def byte_of_char_def word_le_nat_alt unat_of_nat)

lemma int_item_ok: "- (2 ^ 63) \<le> i \<Longrightarrow> i < 2 ^ 63 \<Longrightarrow> item_ok (int_item i)"
proof -
  assume i: "- (2 ^ 63) \<le> i" "i < 2 ^ 63"
  have "list_all digit (bytes_of (dec_of_nat (nat \<bar>i\<bar>)))"
    using dec_of_nat_digit [of "nat \<bar>i\<bar>"] by (simp add: bytes_of_def list_all_iff dec_digit_byte)
  moreover have "bytes_of (dec_of_nat (nat \<bar>i\<bar>)) \<noteq> []" by (simp add: bytes_of_def)
  moreover have "bytes_of (dec_of_int i) = bytes_of (dec_of_nat (nat \<bar>i\<bar>)) \<or>
      bytes_of (dec_of_int i) = 45 # bytes_of (dec_of_nat (nat \<bar>i\<bar>))"
    by (simp add: dec_of_int_def bytes_of_def byte_of_char_def)
  ultimately have "lexeme (bytes_of (dec_of_int i)) ICONST (\<lambda>lv. lv\<lparr>sym_int := Atoi_value (string_of (bytes_of (dec_of_int i)))\<rparr>)"
    by (rule lexeme_int)
  then show ?thesis by (simp add: Atoi_dec_of_int [OF i] item_ok_def int_item_def)
qed

lemma const_items_ok: "const_ok a \<Longrightarrow> list_all item_ok (const_items a)"
  by (induction a rule: const_ok.induct) (simp_all add: quoted_item_ok int_item_ok)

lemma option_items_ok: "option_ok opt \<Longrightarrow> list_all item_ok (option_items opt)"
  by (induction opt rule: option_ok.induct) (simp_all add: ident_item const_items_ok)

lemma comma_items_ok:
  "list_all option_ok opts \<Longrightarrow> list_all item_ok (concat (map (\<lambda>opt. word_item '','' TCOMMA # option_items opt) opts))"
  by (induction opts) (simp_all add: option_items_ok)

lemma command_items_ok: "printable nd \<Longrightarrow> list_all item_ok (command_items nd)"
proof (induction nd rule: printable.induct)
  case (4 p opts)
  then obtain opt opts' where "opts = opt # opts'" by (cases opts) auto
  with 4 show ?case by (simp add: quoted_item_ok option_items_ok comma_items_ok)
qed (simp_all add: ident_item)

text \<open>The printed query is the text of the items\<close>

lemma const_words_items: "map bytes_of (const_words a) = map fst (const_items a)"
  by (induction a rule: const_words.induct) (simp_all add: quoted_item_def int_item_def)

lemma option_words_items: "map bytes_of (option_words opt) = map fst (option_items opt)"
  by (induction opt rule: option_words.induct) (simp_all add: word_item_def const_words_items)

lemma command_words_items: "map bytes_of (command_words nd) = map fst (command_items nd)"
  by (induction nd rule: command_words.induct)
    (simp_all add: word_item_def quoted_item_def option_words_items map_concat comp_def)

lemma spaced_words: "map bytes_of ws = map fst is \<Longrightarrow> bytes_of (concat (map ((#) CHR '' '') ws)) = spaced is"
proof (induction ws arbitrary: "is")
  case (Cons w ws)
  then obtain i is' where "is = i # is'" "bytes_of w = fst i" by auto
  with Cons show ?case by (cases i) (simp add: bytes_of_def byte_of_char_def)
qed simp

lemma lexes_command:
  assumes "printable nd"
  shows "lexes zero_sym (NewLexer (bytes_of (print_command nd))) (item_toks zero_sym (command_items nd))"
proof -
  obtain w ws where ws: "command_words nd = w # ws" using assms by (cases nd) auto
  obtain v tok upd "is" where i: "command_items nd = (v, tok, upd) # is"
    using command_words_items [of nd] ws by (cases "command_items nd") auto
  have m: "bytes_of w = v" "map bytes_of ws = map fst is" using command_words_items [of nd] ws i by simp_all
  have "bytes_of (print_command nd) = v @ spaced is"
    using spaced_words [OF m(2)] by (simp add: print_command_def ws m(1))
  then show ?thesis
    using command_items_ok [OF assms] unfolding i
    by (intro lexes_items) (simp_all add: faces_def NewLexer_def lexer_start_def)
qed

section \<open>Printed commands parse\<close>

text \<open>The arguments of a printed option\<close>

lemma item_toks_items [simp]:
  "item_toks lv (word_item s tok # is) = (tok, lv\<lparr>sym_str := s\<rparr>) # item_toks (lv\<lparr>sym_str := s\<rparr>) is"
  "item_toks lv (quoted_item s # is) = (SCONST, lv\<lparr>sym_str := s\<rparr>) # item_toks (lv\<lparr>sym_str := s\<rparr>) is"
  "item_toks lv (int_item i # is) = (ICONST, lv\<lparr>sym_int := i\<rparr>) # item_toks (lv\<lparr>sym_int := i\<rparr>) is"
  by (simp_all add: word_item_def quoted_item_def int_item_def)

lemma g_arg_const:
  "const_ok a \<Longrightarrow> \<exists>lv'. item_toks lv (const_items a @ is) = item_toks lv (const_items a) @ item_toks lv' is \<and>
     g_arg st (item_toks lv (const_items a @ is)) = (a, item_toks lv' is)"
  by (induction a rule: const_ok.induct) (auto simp: g_arg_def token_codes)

lemma g_rest_options:
  assumes "list_all option_ok opts"
  shows "g_rest path prev acc (item_toks lv (concat (map (\<lambda>opt. word_item '','' TCOMMA # option_items opt) opts) @ [word_item '')'' TCLOSEBR]))
    = Some (Some (CopyCommand path (acc @ opts)))"
  using assms
proof (induction opts arbitrary: prev acc lv)
  case Nil
  then show ?case by (simp add: g_rest.simps g_fin_def)
next
  case (Cons opt opts)
  then obtain n a where opt: "opt = Some (OptionNode n a)" "const_ok a" by (cases opt rule: option_ok.cases) auto
  let ?lv = "lv\<lparr>sym_str := '',''\<rparr>\<lparr>sym_str := n\<rparr>"
  from g_arg_const [OF opt(2), of ?lv _ prev] obtain lv' where
    "g_arg prev (item_toks ?lv (const_items a @ concat (map (\<lambda>opt. word_item '','' TCOMMA # option_items opt) opts) @ [word_item '')'' TCLOSEBR]))
      = (a, item_toks lv' (concat (map (\<lambda>opt. word_item '','' TCOMMA # option_items opt) opts) @ [word_item '')'' TCLOSEBR]))" by blast
  moreover have "TCOMMA \<noteq> TCLOSEBR" by (simp add: token_codes)
  ultimately show ?case using Cons opt(1) by (subst g_rest.simps) simp
qed

lemma tree_of_command:
  assumes "printable nd"
  shows "tree_of (item_toks lv (command_items nd)) = Some (Some nd)"
  using assms
proof (induction nd rule: printable.induct)
  case (4 p opts)
  then obtain n a opts' where opts: "opts = Some (OptionNode n a) # opts'" "const_ok a" "list_all option_ok opts'"
    by (cases opts; cases "hd opts" rule: option_ok.cases) auto
  let ?is = "concat (map (\<lambda>opt. word_item '','' TCOMMA # option_items opt) opts') @ [word_item '')'' TCLOSEBR]"
  from g_arg_const [OF opts(2), of _ ?is] have
    "\<exists>lv'. g_arg None (item_toks lv (const_items a @ ?is)) = (a, item_toks lv' ?is)" for lv by blast
  then obtain f where f: "\<And>lv. g_arg None (item_toks lv (const_items a @ ?is)) = (a, item_toks (f lv) ?is)" by metis
  have "COPY \<noteq> SAY" "COPY \<noteq> SHOW" "COPY \<noteq> STOP" "COPY \<noteq> KURT" by (simp_all add: token_codes)
  then show ?case
    using g_rest_options [OF opts(3)] by (simp add: opts(1) tree_of_def g_word_def g_options_def f)
qed (simp_all add: tree_of_def g_word_def g_fin_def token_codes)

lemma Parse_print_command:
  assumes "printable nd"
  shows "Parse (print_command nd) = Some (Inr (Some nd))"
  using Parse_spec [of "print_command nd"] lexes_command [OF assms] tree_of_command [OF assms] by metis

section \<open>The shape of parsed trees\<close>

text \<open>
  What a query can parse to: a command, with at least one option for COPY, each a name with a string,
  an integer or no argument; no boolean, no option or constant at the top.
\<close>

fun arg_shape :: "Node option \<Rightarrow> bool" where
  "arg_shape None = True"
| "arg_shape (Some (AExprSConst s)) = True"
| "arg_shape (Some (AExprIConst i)) = True"
| "arg_shape (Some _) = False"

fun option_shape :: "Node option \<Rightarrow> bool" where
  "option_shape (Some (OptionNode n a)) = arg_shape a"
| "option_shape _ = False"

fun query_shape :: "Node option \<Rightarrow> bool" where
  "query_shape None = True"
| "query_shape (Some SayHelloCommand) = True"
| "query_shape (Some (ShowCommand s)) = True"
| "query_shape (Some KKBCommand) = True"
| "query_shape (Some (CopyCommand p opts)) = (opts \<noteq> [] \<and> list_all option_shape opts)"
| "query_shape (Some _) = False"

lemma g_arg_shape: "arg_shape stale \<Longrightarrow> g_arg stale ts = (a, us) \<Longrightarrow> arg_shape a"
  by (auto simp: g_arg_def split: list.splits if_splits)

lemma g_word_Some: "g_word tok k ts = Some nd \<Longrightarrow> \<exists>v us. ts = (tok, v) # us \<and> k v us = Some nd"
  by (auto simp: g_word_def split: list.splits if_splits)

lemma g_fin_Some: "g_fin nd ts = Some nd' \<Longrightarrow> nd' = nd"
  by (simp add: g_fin_def split: if_splits)

lemma g_rest_shape:
  assumes "g_rest path prev opts ts = Some nd" "arg_shape prev" "opts \<noteq> []" "list_all option_shape opts"
  shows "query_shape nd"
  using assms
proof (induction path prev opts ts rule: g_rest.induct)
  case (1 path prev opts ts)
  obtain t v us where ts: "ts = (t, v) # us"
    using 1(2) by (cases ts) (auto simp: g_rest.simps [of _ _ _ "[]"])
  consider "t = TCLOSEBR" | w vs where "t \<noteq> TCLOSEBR" "t = TCOMMA" "us = (IDENT, w) # vs"
    using 1(2) ts by (auto simp: g_rest.simps [of _ _ _ "(t, v) # us"] split: if_splits list.splits)
  then show ?case
  proof cases
    case 1
    with \<open>g_rest path prev opts ts = Some nd\<close> have "nd = Some (CopyCommand path opts)"
      by (auto simp: g_rest.simps [of _ _ _ "_ # us"] ts dest: g_fin_Some)
    with "1.prems" show ?thesis by simp
  next
    case 2
    obtain a ws where a: "g_arg prev vs = (a, ws)" by (cases "g_arg prev vs")
    with 2 1(2) ts have "g_rest path a (opts @ [Some (OptionNode (sym_str w) a)]) ws = Some nd"
      by (simp add: g_rest.simps [of _ _ _ "_ # _ # vs"])
    then show ?thesis
      by (rule "1.IH" [OF ts refl 2(1,2) 2(3) refl refl a [symmetric]]) (use g_arg_shape [OF "1.prems"(2) a] "1.prems"(4) in simp_all)
  qed
qed

lemma g_options_shape:
  assumes "g_options path ts = Some nd"
  shows "query_shape nd"
proof -
  from assms obtain v :: yySymType and us where
    us: "(case g_arg None us of (a, us) \<Rightarrow> g_rest path None [Some (OptionNode (sym_str v) a)] us) = Some nd"
    using g_word_Some [OF assms [unfolded g_options_def]] by blast
  obtain a ws where a: "g_arg None us = (a, ws)" by (cases "g_arg None us")
  with us have "g_rest path None [Some (OptionNode (sym_str v) a)] ws = Some nd" by simp
  then show ?thesis using g_arg_shape [OF _ a] by (simp add: g_rest_shape)
qed

lemma tree_of_shape: "tree_of ts = Some nd \<Longrightarrow> query_shape nd"
  by (auto simp: tree_of_def dest!: g_word_Some g_fin_Some g_options_shape split: list.splits if_splits)

lemma Parse_shape: "Parse sql = Some (Inr nd) \<Longrightarrow> query_shape nd"
  using Parse_spec [of sql] by (auto dest: tree_of_shape)

end
