(* ===== verification/Console.thy ===== *)
theory Console
  imports ConsolePrinter Interaction
begin

text \<open>
  The monitoring console (\<open>pkg/core/pg/pg.go\<close>): a session speaks the PostgreSQL protocol, through
  \<open>pgproto3\<close>, parses each query and answers it.

  A connection is the messages still to be received, the messages buffered by \<open>Send\<close>, those written
  by \<open>Flush\<close>, and when writing starts to fail: \<open>cc_fails = Some (n, e)\<close> says that \<open>n\<close> more writes succeed
  and then each fails with \<open>e\<close>. Only what the session reads of a message is kept of it.
\<close>

section \<open>Messages and connections\<close>

type_synonym u32 = "32 word"

datatype startup_msg = SSLRequest | StartupMessage (ProtocolVersion: u32) | OtherStartup

datatype frontend_msg = Query string | OtherFrontend

type_synonym FieldDescription = "string \<times> u32"

datatype backend_msg =
    NegotiateNoSSL
  | AuthenticationCleartextPassword
  | AuthenticationOk
  | ReadyForQuery byte
  | RowDescription "FieldDescription list"
  | DataRow "string list"
  | CommandComplete string
  | ErrorResponse string

record console_conn =
  cc_startup :: "(error + startup_msg) list"
  cc_in :: "(error + frontend_msg) list"
  cc_buf :: "backend_msg list"
  cc_out :: "backend_msg list"
  cc_fails :: "(nat \<times> error) option"
  cc_closed :: bool

definition cc_Write :: "backend_msg list \<Rightarrow> console_conn \<Rightarrow> error option \<times> console_conn" where
  "cc_Write ms c =
     (case cc_fails c of
        None \<Rightarrow> (None, c\<lparr>cc_out := cc_out c @ ms\<rparr>)
      | Some (0, e) \<Rightarrow> (Some e, c)
      | Some (Suc n, e) \<Rightarrow> (None, c\<lparr>cc_out := cc_out c @ ms, cc_fails := Some (n, e)\<rparr>))"

definition Send :: "backend_msg \<Rightarrow> console_conn \<Rightarrow> console_conn" where
  "Send m c = c\<lparr>cc_buf := cc_buf c @ [m]\<rparr>"

definition Flush :: "console_conn \<Rightarrow> error option \<times> console_conn" where
  "Flush c = cc_Write (cc_buf c) (c\<lparr>cc_buf := []\<rparr>)"

text \<open>The messages a handler sends one after the other\<close>

fun Sends :: "backend_msg list \<Rightarrow> console_conn \<Rightarrow> console_conn" where
  "Sends [] c = c"
| "Sends (m # ms) c = Sends ms (Send m c)"

definition textoid :: u32 where "textoid = 25"
definition booloid :: u32 where "booloid = 16"
definition TxIdle :: byte where "TxIdle = 73"

text \<open>
  The environment of a session: the start time of the instance, the pool at the time of the n-th
  message, the order in which the pool is walked, and the printing of times and floating-point
  numbers.
\<close>

record ('f, 't) console_env =
  ce_start :: int
  ce_pool :: "nat \<Rightarrow> 't PoolImpl"
  ce_order :: "(u64 \<times> YClient) list \<Rightarrow> (u64 \<times> YClient) list"
  ce_time :: "int \<Rightarrow> string"
  ce_float :: "'f \<Rightarrow> string"

section \<open>SHOW\<close>

definition quantToString :: "int \<Rightarrow> string" where
  "quantToString ct =
     (if ct = 0 then ''< 1 MB'' else if ct = 1 then ''< 16 MB'' else if ct = 2 then ''>= 16 MB'' else [])"

fun reportQuants :: "('f, 't) console_env \<Rightarrow> 'f QuantInfo list \<Rightarrow> int \<Rightarrow> console_conn \<Rightarrow> console_conn" where
  "reportQuants env [] ct c = c"
| "reportQuants env (info # qs) ct c =
     reportQuants env qs ct (Send (DataRow (qi_Op info # quantToString ct # map (ce_float env) (qi_Q info))) c)"

text \<open>The quantiles .001, .01, .1, .25, .5, .75, .9, .99, .999\<close>

definition quants :: "('f, 't) tdigest \<Rightarrow> 'f list" where
  "quants td = map (\<lambda>(n, d). float_div td n d)
     [(1, 1000), (1, 100), (1, 10), (25, 100), (5, 10), (75, 100), (9, 10), (99, 100), (999, 1000)]"

definition client_row :: "('f, 't) console_env \<Rightarrow> u64 \<times> YClient \<Rightarrow> backend_msg" where
  "client_row env info =
     DataRow [MessageType_String (OPType (snd info)), dec_of_nat (unat (fst info)), dec_of_int (ByteOffset (snd info)),
       ce_time env (OPStart (snd info)), ExternalFilePath (snd info)]"

definition ShowClients :: "('f, 't) console_env \<Rightarrow> 't PoolImpl \<Rightarrow> console_conn \<Rightarrow> error option \<times> console_conn" where
  "ShowClients env p c =
     (case ClientPoolForeach (ce_order env) (\<lambda>i cl infos. (None, cl, infos @ [(i, cl)])) p [] of
        (Some err, _, _) \<Rightarrow> (Some err, c)
      | (None, _, infos) \<Rightarrow>
          Flush (Sends
            (RowDescription [(''opType'', textoid), (''client_id'', textoid), (''byte offset'', textoid),
               (''opstart'', textoid), (''xpath'', textoid)] #
             map (client_row env) infos @ [CommandComplete ''CLIENTS'', ReadyForQuery TxIdle]) c))"

definition ShowStats ::
    "('f, 't) tdigest \<Rightarrow> ('f, 't) console_env \<Rightarrow> 't PoolImpl \<Rightarrow> console_conn \<Rightarrow> error option \<times> console_conn" where
  "ShowStats td env p c =
     (let c = Send (RowDescription
                ([(''opType'', textoid), (''size category'', textoid)] @
                 map (\<lambda>q. (''quantiles_'' @ ce_float env q, textoid)) (quants td))) c;
          c = foldl (\<lambda>c ct. reportQuants env (pool_Quantile td ct (quants td) p) ct c) c [0, 1, 2]
      in Flush (Sends [CommandComplete ''STATS'', ReadyForQuery TxIdle] c))"

definition ShowSystem :: "('f, 't) console_env \<Rightarrow> Instance \<Rightarrow> console_conn \<Rightarrow> error option \<times> console_conn" where
  "ShowSystem env inst c =
     Flush (Sends
       [RowDescription [(''start time'', textoid), (''storage concurrency'', textoid)],
        DataRow [ce_time env (ce_start env), dec_of_int (StorageConcurrency (StorageCnf inst))],
        CommandComplete ''STATS'', ReadyForQuery TxIdle] c)"

definition ProcessShow ::
    "('f, 't) tdigest \<Rightarrow> ('f, 't) console_env \<Rightarrow> string \<Rightarrow> 't PoolImpl \<Rightarrow> Instance \<Rightarrow> console_conn \<Rightarrow>
     error option \<times> console_conn" where
  "ProcessShow td env s p inst c =
     (if s = ''clients'' then ShowClients env p c
      else if s = ''stats'' then ShowStats td env p c
      else if s = ''stat_system'' then ShowSystem env inst c
      else Flush (Sends [ErrorResponse ''unrecognized SHOW type'', ReadyForQuery TxIdle] c))"

section \<open>COPY\<close>

text \<open>
  The lexer takes only ASCII letters into a name, so \<open>strings.ToLower\<close> is needed on those alone.
\<close>

definition ToLower :: "string \<Rightarrow> string" where
  "ToLower s = string_of (map lower (bytes_of s))"

text \<open>The loop over the options. A type assertion on an argument of another type panics (\<open>None\<close>).\<close>

fun copy_options :: "Node option list \<Rightarrow> int \<Rightarrow> string \<Rightarrow> (int \<times> string) option" where
  "copy_options [] port oldCfgPath = Some (port, oldCfgPath)"
| "copy_options (optNode # opts) port oldCfgPath =
     (case optNode of
        Some (OptionNode name arg) \<Rightarrow>
          (if ToLower name = ''config'' then
             (case arg of Some (AExprSConst v) \<Rightarrow> copy_options opts port v | _ \<Rightarrow> None)
           else if ToLower name = ''port'' then
             (case arg of Some (AExprIConst v) \<Rightarrow> copy_options opts v oldCfgPath | _ \<Rightarrow> None)
           else copy_options opts port oldCfgPath)
      | _ \<Rightarrow> None)"

definition object_row :: "string \<Rightarrow> ObjectInfo \<Rightarrow> backend_msg" where
  "object_row skipped obj = DataRow [obj_Path obj, dec_of_int (sint (obj_Size obj)), skipped]"

definition ProcessCopy ::
    "('r, 'd, 'k, 's, 'p) externals \<Rightarrow> string \<Rightarrow> u64 \<Rightarrow> string \<Rightarrow> ('r, 'd) world StorageInteractor \<Rightarrow> console_conn \<Rightarrow>
     ('r, 'd) world \<Rightarrow> (error option \<times> console_conn \<times> ('r, 'd) world) option" where
  "ProcessCopy E pfx port oldCfgPath s c w =
     (let c = Send (RowDescription [(''path'', textoid), (''size'', textoid), (''skipped'', booloid)]) c in
      case ReadInstanceConfig (ext_decoders E) (config_files (host w)) oldCfgPath of
        (_, Some err) \<Rightarrow> Some (None, c, w)
      | (instanceCnf, None) \<Rightarrow>
      case NewStorage (ext_s3 E) (StorageCnf instanceCnf) [] of
        Inl err \<Rightarrow> Some (Some err, c, w)
      | Inr oldStorage \<Rightarrow>
      case ListFilesToCopy (ext_pgx E) pfx port (StorageCnf instanceCnf) oldStorage s w of
        None \<Rightarrow> None
      | Some (Inl err, w) \<Rightarrow> Some (Some err, c, w)
      | Some (Inr (objects, skipped), w) \<Rightarrow>
          Some (None, Sends (map (object_row ''f'') objects @ map (object_row ''t'') skipped) c, w))"

section \<open>A session\<close>

text \<open>
  How a session ends: it returns and the connection is closed, the process exits, or it panics, which
  ends the process too.
\<close>

datatype console_end = Returned | Exited int | Panicked

fun console_startup :: "(error + startup_msg) list \<Rightarrow> console_conn \<Rightarrow> bool \<times> console_conn" where
  "console_startup [] c = (False, c\<lparr>cc_startup := []\<rparr>)"
| "console_startup (Inl err # ms) c = (False, c\<lparr>cc_startup := ms\<rparr>)"
| "console_startup (Inr SSLRequest # ms) c = console_startup ms (snd (cc_Write [NegotiateNoSSL] c))"
| "console_startup (Inr (StartupMessage v) # ms) c = (True, c\<lparr>cc_startup := ms\<rparr>)"
| "console_startup (Inr OtherStartup # ms) c = (False, c\<lparr>cc_startup := ms\<rparr>)"

text \<open>A session that cannot receive a message ends; otherwise it goes on with the rest.\<close>

definition Receive :: "console_conn \<Rightarrow> (error + frontend_msg) \<times> console_conn" where
  "Receive c = (case cc_in c of [] \<Rightarrow> (Inl EOF, c) | m # ms \<Rightarrow> (m, c\<lparr>cc_in := ms\<rparr>))"

definition console_auth :: "console_conn \<Rightarrow> bool \<times> console_conn" where
  "console_auth c =
     (let c = snd (Flush (Send AuthenticationCleartextPassword c)) in
      case Receive c of
        (Inl err, c) \<Rightarrow> (False, c)
      | (Inr _, c) \<Rightarrow>
          (let c = snd (Flush (Send AuthenticationOk c));
               c = snd (Flush (Send (ReadyForQuery TxIdle) c)) in
           (True, c)))"

text \<open>A query, with the pool as it finds it; it may end the process.\<close>

definition console_query ::
    "('r, 'd, 'k, 's, 'p) externals \<Rightarrow> ('f, 't) tdigest \<Rightarrow> ('f, 't) console_env \<Rightarrow> ('r, 'd) world StorageInteractor \<Rightarrow>
     't PoolImpl \<Rightarrow> string \<Rightarrow> console_conn \<Rightarrow> ('r, 'd) world \<Rightarrow>
     (console_end option \<times> console_conn \<times> ('r, 'd) world) option" where
  "console_query E td env s p sql c w =
     (case Parse sql of
        None \<Rightarrow> None
      | Some (Inl err) \<Rightarrow>
          Some (None, snd (Flush (Sends [ErrorResponse (''failed to parse query: '' @ error_text err), ReadyForQuery 0] c)), w)
      | Some (Inr (Some SayHelloCommand)) \<Rightarrow>
          Some (None, snd (Flush (Sends [RowDescription [(''row'', textoid)], DataRow [''hi''],
                                   CommandComplete ''YPROXYHELLO'', ReadyForQuery TxIdle] c)), w)
      | Some (Inr (Some (ShowCommand t))) \<Rightarrow> Some (None, snd (ProcessShow td env t p (the_instance w) c), w)
      | Some (Inr (Some (CopyCommand path opts))) \<Rightarrow>
          (case copy_options opts 6000 ''/etc/yproxy/yproxy.yaml'' of
             None \<Rightarrow> Some (Some Panicked, c, w)
           | Some (port, oldCfgPath) \<Rightarrow>
               map_option (\<lambda>(_, c, w).
                   (None, snd (Flush (Sends [CommandComplete ''COPY'', ReadyForQuery TxIdle] c)), w))
                 (ProcessCopy E path (of_int port) oldCfgPath s c w))
      | Some (Inr (Some KKBCommand)) \<Rightarrow>
          Some (Some (Exited 2), snd (Flush (Sends [RowDescription [(''row'', textoid)], DataRow [''exit''],
                                   CommandComplete ''EXIT'', ReadyForQuery TxIdle] c)), w)
      | Some (Inr _) \<Rightarrow>
          Some (None, snd (Flush (Sends [ErrorResponse ''unknown command'', ReadyForQuery TxIdle] c)), w))"

text \<open>The main cycle, over the messages that arrive; other messages than queries are only logged.\<close>

fun console_loop ::
    "('r, 'd, 'k, 's, 'p) externals \<Rightarrow> ('f, 't) tdigest \<Rightarrow> ('f, 't) console_env \<Rightarrow> ('r, 'd) world StorageInteractor \<Rightarrow>
     nat \<Rightarrow> (error + frontend_msg) list \<Rightarrow> console_conn \<Rightarrow> ('r, 'd) world \<Rightarrow>
     (console_end \<times> console_conn \<times> ('r, 'd) world) option" where
  "console_loop E td env s n [] c w = Some (Returned, c\<lparr>cc_in := []\<rparr>, w)"
| "console_loop E td env s n (Inl err # ms) c w = Some (Returned, c\<lparr>cc_in := ms\<rparr>, w)"
| "console_loop E td env s n (Inr OtherFrontend # ms) c w = console_loop E td env s (n + 1) ms c w"
| "console_loop E td env s n (Inr (Query sql) # ms) c w =
     (case console_query E td env s (ce_pool env n) sql c w of
        None \<Rightarrow> None
      | Some (Some e, c, w) \<Rightarrow> Some (e, c\<lparr>cc_in := ms\<rparr>, w)
      | Some (None, c, w) \<Rightarrow> console_loop E td env s (n + 1) ms c w)"

definition cc_Close :: "console_conn \<Rightarrow> console_conn" where
  "cc_Close c = c\<lparr>cc_closed := True\<rparr>"

text \<open>The connection is closed when the session returns or panics, and not when the process exits.\<close>

definition PostgresIface ::
    "('r, 'd, 'k, 's, 'p) externals \<Rightarrow> ('f, 't) tdigest \<Rightarrow> ('f, 't) console_env \<Rightarrow> ('r, 'd) world StorageInteractor \<Rightarrow>
     console_conn \<Rightarrow> ('r, 'd) world \<Rightarrow> (console_end \<times> console_conn \<times> ('r, 'd) world) option" where
  "PostgresIface E td env s cl w =
     (case console_startup (cc_startup cl) cl of
        (False, c) \<Rightarrow> Some (Returned, cc_Close c, w)
      | (True, c) \<Rightarrow>
      case console_auth c of
        (False, c) \<Rightarrow> Some (Returned, cc_Close c, w)
      | (True, c) \<Rightarrow>
          map_option (\<lambda>(e, c, w). (e, (case e of Exited _ \<Rightarrow> c | _ \<Rightarrow> cc_Close c), w))
            (console_loop E td env s 0 (cc_in c) c w))"

end
