(* ===== verification/Metrics.thy ===== *)
theory Metrics
  imports Client Complex_Main
begin

text \<open>
  The metrics (\<open>pkg/metrics\<close>): what is observed of requests and deletions, the metrics the server
  registers, and the web server that exposes them.
\<close>

section \<open>Requests\<close>

definition HandlerNames :: "string list" where
  "HandlerNames =
     [''READ'', ''WRITE'', ''LIMIT_READ'', ''LIMIT_WRITE'', ''S3_PUT'', ''S3_GET'', ''CAT'', ''CATV2'', ''PUT'', ''PUTV2'',
      ''PUTV3'', ''DELETE'', ''LIST'', ''LISTV2'', ''OBJECT META'', ''COPY'', ''COPYV2'', ''GOOL'', ''ERROR'', ''UNTRASHIFY'',
      ''COLLECT OBSOLETE'', ''DELETE OBSOLETE'']"

text \<open>The observations of the two histograms, by source; sizes and times are whole numbers.\<close>

record 'f histograms =
  HistogramSizeVec :: "(string \<times> int) list"
  HistogramLatencyVec :: "(string \<times> 'f) list"

definition StoreLatencyAndSizeInfo ::
    "(int \<Rightarrow> int \<Rightarrow> 'f) \<Rightarrow> string \<Rightarrow> int \<Rightarrow> int \<Rightarrow> 'f histograms \<Rightarrow> 'f histograms" where
  "StoreLatencyAndSizeInfo fdiv opType sz latency m =
     (if opType \<notin> set HandlerNames then m
      else
        (let m = m\<lparr>HistogramSizeVec := HistogramSizeVec m @ [(opType, sz)]\<rparr> in
         if sz \<noteq> 0 then m\<lparr>HistogramLatencyVec := HistogramLatencyVec m @ [(opType, fdiv latency sz)]\<rparr> else m))"

section \<open>Deletions\<close>

text \<open>
  The progress of deletions, by bucket and operation: gauges are set, counters are raised, histograms
  take observations. The tracker keeps its own count beside them.
\<close>

type_synonym labels = "string \<times> string"

record delete_metrics =
  DeleteProcessTotal :: "(labels \<times> int) list"
  DeleteProcessRemaining :: "(labels \<times> int) list"
  DeleteProcessProcessed :: "(labels \<times> int) list"
  DeleteProcessDeleted :: "(labels \<times> int) list"
  DeleteProcessKept :: "(labels \<times> int) list"
  DeleteRequestLatency :: "((labels \<times> string) \<times> int) list"
  DeleteRequestSize :: "(labels \<times> int) list"

record DeleteOpTracker =
  trk_bucket :: string
  trk_operation :: string
  trk_processed :: int

definition NewDeleteOpTracker :: "string \<Rightarrow> string \<Rightarrow> DeleteOpTracker" where
  "NewDeleteOpTracker bucket operation = \<lparr>trk_bucket = bucket, trk_operation = operation, trk_processed = 0\<rparr>"

definition tracker_labels :: "DeleteOpTracker \<Rightarrow> labels" where
  "tracker_labels t = (trk_bucket t, trk_operation t)"

definition counter_value :: "(labels \<times> int) list \<Rightarrow> labels \<Rightarrow> int" where
  "counter_value v l = (case map_of v l of None \<Rightarrow> 0 | Some n \<Rightarrow> n)"

definition counter_Add :: "labels \<Rightarrow> int \<Rightarrow> (labels \<times> int) list \<Rightarrow> (labels \<times> int) list" where
  "counter_Add l n v = AList.update l (counter_value v l + n) v"

definition SetTotal :: "DeleteOpTracker \<Rightarrow> int \<Rightarrow> delete_metrics \<Rightarrow> delete_metrics" where
  "SetTotal t n m = m\<lparr>DeleteProcessTotal := AList.update (tracker_labels t) n (DeleteProcessTotal m)\<rparr>"

definition SetRemaining :: "DeleteOpTracker \<Rightarrow> int \<Rightarrow> delete_metrics \<Rightarrow> delete_metrics" where
  "SetRemaining t n m = m\<lparr>DeleteProcessRemaining := AList.update (tracker_labels t) n (DeleteProcessRemaining m)\<rparr>"

definition ObserveList :: "DeleteOpTracker \<Rightarrow> int \<Rightarrow> int \<Rightarrow> delete_metrics \<Rightarrow> delete_metrics" where
  "ObserveList t d itemCount m =
     m\<lparr>DeleteRequestLatency := DeleteRequestLatency m @ [((tracker_labels t, ''list''), d)],
       DeleteRequestSize := DeleteRequestSize m @ [(tracker_labels t, itemCount)]\<rparr>"

definition ObserveDelete :: "DeleteOpTracker \<Rightarrow> int \<Rightarrow> delete_metrics \<Rightarrow> delete_metrics" where
  "ObserveDelete t d m =
     m\<lparr>DeleteRequestLatency := DeleteRequestLatency m @ [((tracker_labels t, ''delete''), d)]\<rparr>"

text \<open>The count of a tracker is an \<open>atomic.Int64\<close>.\<close>

definition AddProcessed :: "int \<Rightarrow> DeleteOpTracker \<Rightarrow> delete_metrics \<Rightarrow> int \<times> DeleteOpTracker \<times> delete_metrics" where
  "AddProcessed n t m =
     (let k = sint (of_int (trk_processed t + n) :: u64) in
      (k, t\<lparr>trk_processed := k\<rparr>,
       m\<lparr>DeleteProcessProcessed := counter_Add (tracker_labels t) n (DeleteProcessProcessed m)\<rparr>))"

definition AddDeleted :: "DeleteOpTracker \<Rightarrow> int \<Rightarrow> delete_metrics \<Rightarrow> delete_metrics" where
  "AddDeleted t n m = m\<lparr>DeleteProcessDeleted := counter_Add (tracker_labels t) n (DeleteProcessDeleted m)\<rparr>"

definition AddKept :: "DeleteOpTracker \<Rightarrow> int \<Rightarrow> delete_metrics \<Rightarrow> delete_metrics" where
  "AddKept t n m = m\<lparr>DeleteProcessKept := counter_Add (tracker_labels t) n (DeleteProcessKept m)\<rparr>"

fun add_all :: "int list \<Rightarrow> DeleteOpTracker \<Rightarrow> delete_metrics \<Rightarrow> DeleteOpTracker \<times> delete_metrics" where
  "add_all [] t m = (t, m)"
| "add_all (n # ns) t m = (case AddProcessed n t m of (_, t, m) \<Rightarrow> add_all ns t m)"

text \<open>The tracker and its counter agree, for counts that fit.\<close>

lemma add_all_agree:
  assumes "\<forall>n \<in> set ns. 0 \<le> n" "0 \<le> trk_processed t" "trk_processed t + sum_list ns < 2 ^ 63" "add_all ns t m = (t', m')"
  shows "trk_processed t' = trk_processed t + sum_list ns \<and>
    counter_value (DeleteProcessProcessed m') (tracker_labels t) =
      counter_value (DeleteProcessProcessed m) (tracker_labels t) + sum_list ns"
  using assms
proof (induction ns arbitrary: t m)
  case (Cons n ns)
  have nonneg: "0 \<le> sum_list ns" using Cons.prems(1) by (simp add: sum_list_nonneg)
  with Cons.prems have k: "sint (of_int (trk_processed t + n) :: u64) = trk_processed t + n"
    by (simp add: signed_of_int signed_take_bit_int_eq_self del: of_int_add)
  let ?m = "m\<lparr>DeleteProcessProcessed := counter_Add (tracker_labels t) n (DeleteProcessProcessed m)\<rparr>"
  let ?t = "t\<lparr>trk_processed := trk_processed t + n\<rparr>"
  have "add_all ns ?t ?m = (t', m')" using Cons.prems(4) k by (simp add: AddProcessed_def Let_def del: of_int_add)
  from Cons.IH [OF _ _ _ this] Cons.prems nonneg show ?case
    by (simp add: counter_Add_def counter_value_def update_conv' tracker_labels_def)
qed simp

definition tracker_Operation :: "DeleteOpTracker \<Rightarrow> string" where
  "tracker_Operation t = trk_operation t"

section \<open>The registered metrics\<close>

text \<open>
  Every metric has a name, the names of its labels and, when it is a histogram, the upper bounds of
  its buckets. Prometheus panics when a name is registered twice, when the bounds of a histogram are
  not increasing, and when a metric is used with other labels than its own.
\<close>

record metric =
  mt_name :: string
  mt_labels :: "string list"
  mt_buckets :: "rat list"

definition latencyBuckets :: "rat list" where
  "latencyBuckets = [1 / 1000, 1 / 100, 5 / 100, 1 / 10, 5 / 10, 1, 5, 10, 50, 100, 500, 1000]"

definition sizeBuckets :: "rat list" where
  "sizeBuckets = [1, 128, 1024, 128 * 1024, 1024 * 1024, 2 * 1024 * 1024, 8 * 1024 * 1024, 16 * 1024 * 1024,
     128 * 1024 * 1024, 1024 * 1024 * 1024]"

definition itemCountBuckets :: "rat list" where
  "itemCountBuckets = [1, 10, 50, 100, 500, 1000, 5000, 10000, 50000]"

definition request_metrics :: "metric list" where
  "request_metrics =
     [\<lparr>mt_name = ''read_req_processed_total'', mt_labels = [], mt_buckets = []\<rparr>,
      \<lparr>mt_name = ''read_req_errors_total'', mt_labels = [], mt_buckets = []\<rparr>,
      \<lparr>mt_name = ''write_req_processed_total'', mt_labels = [], mt_buckets = []\<rparr>,
      \<lparr>mt_name = ''write_req_errors_total'', mt_labels = [], mt_buckets = []\<rparr>,
      \<lparr>mt_name = ''request_latency'', mt_labels = [''source''], mt_buckets = latencyBuckets\<rparr>,
      \<lparr>mt_name = ''request_size'', mt_labels = [''source''], mt_buckets = sizeBuckets\<rparr>]"

definition deletion_metrics :: "metric list" where
  "deletion_metrics =
     [\<lparr>mt_name = ''delete_process_items'', mt_labels = [''bucket'', ''operation''], mt_buckets = []\<rparr>,
      \<lparr>mt_name = ''delete_process_remaining'', mt_labels = [''bucket'', ''operation''], mt_buckets = []\<rparr>,
      \<lparr>mt_name = ''delete_process_processed_total'', mt_labels = [''bucket'', ''operation''], mt_buckets = []\<rparr>,
      \<lparr>mt_name = ''delete_process_deleted_total'', mt_labels = [''bucket'', ''operation''], mt_buckets = []\<rparr>,
      \<lparr>mt_name = ''delete_process_kept_total'', mt_labels = [''bucket'', ''operation''], mt_buckets = []\<rparr>,
      \<lparr>mt_name = ''delete_request_latency_seconds'', mt_labels = [''bucket'', ''operation'', ''stage''], mt_buckets = latencyBuckets\<rparr>,
      \<lparr>mt_name = ''delete_request_size'', mt_labels = [''bucket'', ''operation''], mt_buckets = itemCountBuckets\<rparr>]"

text \<open>The gauge of a client pool, and that of a session pool that has a name\<close>

definition client_pool_metrics :: "metric list" where
  "client_pool_metrics = [\<lparr>mt_name = ''client_connections'', mt_labels = [], mt_buckets = []\<rparr>]"

definition session_pool_metrics :: "string \<Rightarrow> metric list" where
  "session_pool_metrics poolName =
     (if poolName \<noteq> [] then [\<lparr>mt_name = ''external_connections_'' @ poolName, mt_labels = [], mt_buckets = []\<rparr>] else [])"

text \<open>
  All the metrics of a server: those of the packages, the client pool of its instance, and the
  session pools of its two storages and of the storages that \<open>n\<close> copies open, which have no name.
\<close>

definition server_metrics :: "nat \<Rightarrow> metric list" where
  "server_metrics n = request_metrics @ deletion_metrics @ client_pool_metrics @ session_pool_metrics ''yezzey'' @
     session_pool_metrics ''backup'' @ concat (replicate n (session_pool_metrics []))"

lemma server_metrics_registered:
  "distinct (map mt_name (server_metrics n))" "list_all (\<lambda>m. sorted_wrt (<) (mt_buckets m)) (server_metrics n)"
proof -
  have r: "concat (replicate n (session_pool_metrics [])) = []" by (induction n) (simp_all add: session_pool_metrics_def)
  show "distinct (map mt_name (server_metrics n))"
    unfolding server_metrics_def r
    by (simp add: request_metrics_def deletion_metrics_def client_pool_metrics_def session_pool_metrics_def)
  show "list_all (\<lambda>m. sorted_wrt (<) (mt_buckets m)) (server_metrics n)"
    unfolding server_metrics_def r
    by (simp add: request_metrics_def deletion_metrics_def client_pool_metrics_def session_pool_metrics_def
        latencyBuckets_def sizeBuckets_def itemCountBuckets_def)
qed

section \<open>The web server\<close>

text \<open>\<open>http.ServeMux\<close> as the paths that have a handler; registering a path twice panics.\<close>

definition HandleFunc :: "string \<Rightarrow> string list \<Rightarrow> string list option" where
  "HandleFunc pat mux = (if pat \<in> set mux then None else Some (mux @ [pat]))"

fun register_all :: "string list \<Rightarrow> string list \<Rightarrow> string list option" where
  "register_all [] mux = Some mux"
| "register_all (p # ps) mux = Option.bind (HandleFunc p mux) (register_all ps)"

record MetricsWebServer =
  mws_addr :: string
  mws_mux :: "string list"
  mws_started :: bool

definition NewMetricsWebServer :: "string \<Rightarrow> MetricsWebServer" where
  "NewMetricsWebServer httpAddr = \<lparr>mws_addr = httpAddr, mws_mux = [], mws_started = False\<rparr>"

definition enablePrometheusEndpoints :: "string list \<Rightarrow> string list option" where
  "enablePrometheusEndpoints = HandleFunc ''/metrics''"

definition configureMetricsWebServer :: "MetricsWebServer \<Rightarrow> MetricsWebServer option" where
  "configureMetricsWebServer mws = map_option (\<lambda>mux. mws\<lparr>mws_mux := mux\<rparr>) (enablePrometheusEndpoints [])"

text \<open>The goroutine that listens drops its error, so \<open>Serve\<close> never reports one.\<close>

definition mws_Serve :: "MetricsWebServer \<Rightarrow> (error option \<times> MetricsWebServer) option" where
  "mws_Serve mws = map_option (\<lambda>mws. (None, mws\<lparr>mws_started := True\<rparr>)) (configureMetricsWebServer mws)"

lemma mws_Serve_eq: "mws_Serve mws = Some (None, mws\<lparr>mws_mux := [''/metrics''], mws_started := True\<rparr>)"
  by (simp add: mws_Serve_def configureMetricsWebServer_def enablePrometheusEndpoints_def HandleFunc_def)

end
