(* ===== verification/Runtime.thy ===== *)
theory Runtime
  imports Console Metrics
begin

text \<open>
  The parts of the server around the connections: logging (\<open>pkg/ylogger\<close>), the systemd notifier
  (\<open>pkg/sdnotifier\<close>) and the debug web server (\<open>pkg/core/pprof.go\<close>).
\<close>

section \<open>Logging\<close>

datatype log_level = Disabled | TraceLevel | DebugLevel | InfoLevel | WarnLevel | ErrorLevel | FatalLevel

text \<open>The names of the levels are ASCII, as is the text that \<open>ToLower\<close> is meant for.\<close>

definition parseLevel :: "string \<Rightarrow> log_level" where
  "parseLevel level =
     (let l = ToLower level in
      if l = ''disabled'' then Disabled
      else if l = ''debug'' then DebugLevel
      else if l = ''info'' then InfoLevel
      else if l = ''warning'' then WarnLevel
      else if l = ''error'' then ErrorLevel
      else if l = ''fatal'' then FatalLevel
      else InfoLevel)"

record logger =
  log_file :: "string option"
  log_min :: log_level

text \<open>A log file that cannot be opened ends the process (\<open>log.Fatal\<close>): \<open>None\<close>.\<close>

definition newWriter :: "int \<Rightarrow> string \<Rightarrow> fs \<Rightarrow> (string option \<times> fs) option" where
  "newWriter now filepath fs =
     (if filepath = [] then Some (None, fs)
      else case OpenCreate now filepath fs of
          (Some err, fs) \<Rightarrow> None
        | (None, fs) \<Rightarrow> Some (Some filepath, fs))"

text \<open>A new logger takes every level.\<close>

definition NewZeroLogger :: "int \<Rightarrow> string \<Rightarrow> fs \<Rightarrow> (logger \<times> fs) option" where
  "NewZeroLogger now filepath fs =
     map_option (\<lambda>(out, fs). (\<lparr>log_file = out, log_min = TraceLevel\<rparr>, fs)) (newWriter now filepath fs)"

definition ReloadLogger :: "int \<Rightarrow> string \<Rightarrow> string \<Rightarrow> fs \<Rightarrow> (logger \<times> fs) option" where
  "ReloadLogger now filepath logLevel fs =
     (let level = parseLevel logLevel in
      map_option (\<lambda>(lg, fs). (lg\<lparr>log_min := level\<rparr>, fs)) (NewZeroLogger now filepath fs))"

section \<open>The systemd notifier\<close>

text \<open>
  The socket is what was sent to it so far and the errors its next writes report; without a socket
  nothing is sent.
\<close>

record notify_sock =
  ns_sent :: "byte list list"
  ns_errors :: "error option list"

record Notifier =
  nt_sock :: "notify_sock option"
  nt_debug :: bool

definition ns_Write :: "byte list \<Rightarrow> notify_sock \<Rightarrow> error option \<times> notify_sock" where
  "ns_Write msg s =
     (case ns_errors s of
        Some e # es \<Rightarrow> (Some e, s\<lparr>ns_errors := es\<rparr>)
      | es \<Rightarrow> (None, s\<lparr>ns_sent := ns_sent s @ [msg], ns_errors := drop 1 es\<rparr>))"

definition NewNotifier :: "error + notify_sock \<Rightarrow> bool \<Rightarrow> Notifier \<times> error option" where
  "NewNotifier dial debug =
     (case dial of
        Inl err \<Rightarrow> (\<lparr>nt_sock = None, nt_debug = debug\<rparr>, if debug then Some err else None)
      | Inr sock \<Rightarrow> (\<lparr>nt_sock = Some sock, nt_debug = debug\<rparr>, None))"

definition notifier_send :: "byte list \<Rightarrow> Notifier \<Rightarrow> error option \<times> Notifier" where
  "notifier_send msg n =
     (case nt_sock n of
        None \<Rightarrow> (None, n)
      | Some s \<Rightarrow>
          (case ns_Write msg s of
             (err, s) \<Rightarrow> (if nt_debug n then err else None, n\<lparr>nt_sock := Some s\<rparr>)))"

definition notifier_Ready :: "Notifier \<Rightarrow> error option \<times> Notifier" where
  "notifier_Ready = notifier_send (bytes_of (''READY=1'' @ [CHR 0x0A]))"

definition notifier_Notify :: "Notifier \<Rightarrow> error option \<times> Notifier" where
  "notifier_Notify = notifier_send (bytes_of (''WATCHDOG=1'' @ [CHR 0x0A]))"

definition notifier_Reloading :: "u64 \<Rightarrow> Notifier \<Rightarrow> error option \<times> Notifier" where
  "notifier_Reloading nsecs =
     notifier_send (bytes_of (''RELOADING=1'' @ [CHR 0x0A] @ ''MONOTONIC_USEC='' @ dec_of_nat (unat nsecs) @ [CHR 0x0A]))"

section \<open>The debug web server\<close>

text \<open>
  \<open>dws_timer\<close> is the timer the server refers to, if any: pending with its deadline, or expired
  (\<open>Some None\<close>). \<open>dws_calls\<close> counts the timer functions that have started and wait for the mutex;
  \<open>dws_orphans\<close> holds the deadlines of pending timers the server no longer refers to, for \<open>Shutdown\<close>
  drops its timer without stopping it.
\<close>

record DebugWebServer =
  dws_addr :: string
  dws_timer :: "int option option"
  dws_serving :: bool
  dws_mux :: "string list"
  dws_calls :: nat
  dws_orphans :: "int list"

definition NewDebugWebServer :: "string \<Rightarrow> DebugWebServer" where
  "NewDebugWebServer httpAddr =
     \<lparr>dws_addr = httpAddr, dws_timer = None, dws_serving = False, dws_mux = [], dws_calls = 0, dws_orphans = []\<rparr>"

text \<open>The handlers of a server that is started: a new multiplexer with the paths of \<open>pprof\<close> and \<open>expvar\<close>\<close>

definition enablePprofEndpoints :: "string list \<Rightarrow> string list option" where
  "enablePprofEndpoints =
     register_all [''/debug/pprof/'', ''/debug/pprof/cmdline'', ''/debug/pprof/profile'', ''/debug/pprof/symbol'', ''/debug/pprof/trace'']"

definition enableExpVarEndpoints :: "string list \<Rightarrow> string list option" where
  "enableExpVarEndpoints = register_all [''/debug/vars'']"

definition configureDebugWebServer :: "DebugWebServer \<Rightarrow> DebugWebServer option" where
  "configureDebugWebServer dws =
     map_option (\<lambda>mux. dws\<lparr>dws_mux := mux\<rparr>) (Option.bind (enablePprofEndpoints []) enableExpVarEndpoints)"

lemma configureDebugWebServer_eq:
  "configureDebugWebServer dws = Some (dws\<lparr>dws_mux := [''/debug/pprof/'', ''/debug/pprof/cmdline'', ''/debug/pprof/profile'',
     ''/debug/pprof/symbol'', ''/debug/pprof/trace'', ''/debug/vars'']\<rparr>)"
  by (simp add: configureDebugWebServer_def enablePprofEndpoints_def enableExpVarEndpoints_def HandleFunc_def)

text \<open>\<open>Reset\<close> starts the timer anew in either case, and reports whether it was still pending. Configuring the server never panics.\<close>

definition ServeFor :: "int \<Rightarrow> int \<Rightarrow> DebugWebServer \<Rightarrow> error option \<times> DebugWebServer" where
  "ServeFor now t dws =
     (case dws_timer dws of
        Some tm \<Rightarrow>
          (if tm = None then Some (Errorf ''previous debug server is being shutdown, retry later'') else None,
           dws\<lparr>dws_timer := Some (Some (now + t))\<rparr>)
      | None \<Rightarrow> (None, (the (configureDebugWebServer dws))\<lparr>dws_timer := Some (Some (now + t)), dws_serving := True\<rparr>))"

definition dws_Shutdown :: "DebugWebServer \<Rightarrow> DebugWebServer" where
  "dws_Shutdown dws =
     (case dws_timer dws of
        None \<Rightarrow> dws
      | Some tm \<Rightarrow>
          dws\<lparr>dws_timer := None, dws_serving := False,
              dws_orphans := (case tm of None \<Rightarrow> [] | Some d \<Rightarrow> [d]) @ dws_orphans dws\<rparr>)"

text \<open>
  The server, the clock and the timers: requests (\<open>SIGHUP\<close>, for at most \<open>T\<close>), a deadline that is
  reached, which starts a timer function, and such a function getting the mutex.
\<close>

inductive dws_step :: "int \<Rightarrow> DebugWebServer \<times> int \<Rightarrow> DebugWebServer \<times> int \<Rightarrow> bool" for T where
  request: "t \<le> T \<Longrightarrow> dws_step T (d, now) (snd (ServeFor now t d), now)"
| expire: "dws_timer d = Some (Some e) \<Longrightarrow> e \<le> now \<Longrightarrow>
    dws_step T (d, now) (d\<lparr>dws_timer := Some None, dws_calls := dws_calls d + 1\<rparr>, now)"
| orphan: "e \<in> set (dws_orphans d) \<Longrightarrow> e \<le> now \<Longrightarrow>
    dws_step T (d, now) (d\<lparr>dws_orphans := remove1 e (dws_orphans d), dws_calls := dws_calls d + 1\<rparr>, now)"
| call: "0 < dws_calls d \<Longrightarrow> dws_step T (d, now) (dws_Shutdown (d\<lparr>dws_calls := dws_calls d - 1\<rparr>), now)"
| passes: "now \<le> now' \<Longrightarrow> dws_step T (d, now) (d, now')"

inductive_cases dws_stepE: "dws_step T dn dn'"

text \<open>
  The server runs exactly while it has a timer. If that timer has expired, a timer function is about
  to shut the server down; if it is pending, it expires within the longest time ever asked for.
\<close>

definition dws_inv :: "int \<Rightarrow> DebugWebServer \<times> int \<Rightarrow> bool" where
  "dws_inv T = (\<lambda>(d, now).
     (dws_serving d \<longleftrightarrow> dws_timer d \<noteq> None) \<and>
     (dws_timer d = Some None \<longrightarrow> 0 < dws_calls d) \<and>
     (\<forall>e. dws_timer d = Some (Some e) \<longrightarrow> e \<le> now + T))"

lemma dws_inv_step: "dws_step T dn dn' \<Longrightarrow> dws_inv T dn \<Longrightarrow> dws_inv T dn'"
  by (induction rule: dws_step.induct) (auto simp: dws_inv_def ServeFor_def configureDebugWebServer_eq dws_Shutdown_def split: option.splits)

lemma dws_inv_reachable:
  assumes "(dws_step T)\<^sup>*\<^sup>* (NewDebugWebServer addr, now) dn"
  shows "dws_inv T dn"
  using assms
proof induction
  case base
  show ?case by (simp add: dws_inv_def NewDebugWebServer_def)
qed (rule dws_inv_step)

end
