(* ===== verification/Server.thy ===== *)
theory Server
  imports Runtime Serving
begin

text \<open>
  The server (\<open>pkg/core/core.go\<close>): starting up, accepting connections, the goroutines that serve
  them, the signals, and shutting down.

  The goroutines of the running server interleave: \<open>server_step\<close> is one step of one of them, chosen
  by an event. The request of a client is one step on the shared world, as is a console session.
\<close>

section \<open>Accepting connections\<close>

datatype 'c accept_result = Conn 'c | AcceptClosed | AcceptError error

text \<open>The connections for which \<open>DispatchServer\<close> starts a server, from what \<open>Accept\<close> returns\<close>

fun DispatchServer :: "'c accept_result list \<Rightarrow> 'c list" where
  "DispatchServer [] = []"
| "DispatchServer (AcceptClosed # rs) = []"
| "DispatchServer (AcceptError err # rs) = DispatchServer rs"
| "DispatchServer (Conn c # rs) = c # DispatchServer rs"

section \<open>Serving the interconnect and the statistics\<close>

definition interconnect :: "YClient \<Rightarrow> YClient" where
  "interconnect ycl =
     (let (mt, c) = (case ReadPacket (conn_in ycl) of (Inl err, c) \<Rightarrow> (0, c) | (Inr (mt, _), c) \<Rightarrow> (mt, c));
          ycl = ycl\<lparr>conn_in := c\<rparr>;
          ycl = (if mt = MessageTypeGool then snd (conn_Write (ReadyForQueryMessage_Encode ()) ycl)
                 else snd (ReplyError (Errorf ''wrong message type'') [] ycl))
      in snd (YClient_Close ycl))"

definition stat_line :: "u64 \<Rightarrow> YClient \<Rightarrow> string" where
  "stat_line i cl = dec_of_nat (unat i) @ '' | '' @ MessageType_String (OPType cl) @ '' | '' @ ExternalFilePath cl @ [CHR 0x0A]"

definition stat_session ::
    "((u64 \<times> YClient) list \<Rightarrow> (u64 \<times> YClient) list) \<Rightarrow> 't PoolImpl \<Rightarrow> YClient \<Rightarrow> YClient" where
  "stat_session order p con =
     (let con = snd (conn_Write (bytes_of (''Hello from stats server!!'' @ [CHR 0x0A])) con);
          con = snd (conn_Write (bytes_of (''Client id | Optype | External Path '' @ [CHR 0x0A])) con)
      in case ClientPoolForeach order
                (\<lambda>i cl con. case conn_Write (bytes_of (stat_line i cl)) con of ((n, err), con) \<Rightarrow> (err, cl, con)) p con of
           (_, _, con) \<Rightarrow> snd (YClient_Close con))"

section \<open>Starting up\<close>

text \<open>
  \<open>reusePort\<close> sets an option of a listening socket, with the numbers of Linux: the level, the option
  and its value are added to those set. The numbers of two options are combined as if they were flags.
\<close>

type_synonym sockopt = "nat \<times> nat \<times> int"

definition SOL_SOCKET :: nat where "SOL_SOCKET = 1"
definition SO_REUSEADDR :: nat where "SO_REUSEADDR = 2"
definition SO_REUSEPORT :: nat where "SO_REUSEPORT = 15"

definition reusePort :: "sockopt list \<Rightarrow> sockopt list" where
  "reusePort opts = opts @ [(SOL_SOCKET, or SO_REUSEADDR SO_REUSEPORT, 1)]"

lemma reusePort_port_only: "reusePort [] = [(SOL_SOCKET, SO_REUSEPORT, 1)]"
  by (simp add: reusePort_def SO_REUSEADDR_def SO_REUSEPORT_def)

text \<open>
  What happens at a tick of the retry loop around \<open>net.Listen\<close>. The loop waits while the address is
  in use; it has not ended when the list of ticks is exhausted (\<open>None\<close>).
\<close>

datatype listen_tick = Listening | AddrInUse | ListenError error | CtxDone

definition ContextCanceled :: error where "ContextCanceled = Errorf ''context canceled''"

fun listen_loop :: "listen_tick list \<Rightarrow> error option option" where
  "listen_loop [] = None"
| "listen_loop (Listening # ts) = Some None"
| "listen_loop (AddrInUse # ts) = listen_loop ts"
| "listen_loop (ListenError err # ts) = Some (Some err)"
| "listen_loop (CtxDone # ts) = Some (Some ContextCanceled)"

text \<open>What the host answers while the server starts\<close>

record startup_env =
  su_stat :: "error option"
  su_psql :: "error option"
  su_socket :: "listen_tick list"
  su_interconnect :: "listen_tick list"
  su_notify :: "error + notify_sock"

text \<open>
  What the connections of a started server share. The storages, the crypter and the handlers hold
  pointers into the global configuration, so a reload changes them: only the maps that \<open>NewStorage\<close>
  builds stay as they were at the start.
\<close>

record ('k) started =
  st_storage :: Storage
  st_backup :: Storage
  st_crypter :: "'k GPGCrypter option"
  st_notifier :: Notifier
  st_debug :: "DebugWebServer option"
  st_metrics :: "MetricsWebServer option"

definition live_storage :: "'r s3_api \<Rightarrow> Storage \<Rightarrow> Storage \<Rightarrow> ('r, 'd) world StorageInteractor" where
  "live_storage api boot now =
     (if StorageType boot = ''fs'' then FileStorageInteractor now
      else S3StorageInteractor api
             \<lparr>s3_cnf = now, TSToBucketMap = buildBucketMapFromCnf boot, credentialMap = buildCredMapFromCnf boot\<rparr>)"

definition live_crypter :: "'k GPGCrypter option \<Rightarrow> Crypto \<Rightarrow> 'k GPGCrypter option" where
  "live_crypter cr cnf = map_option (\<lambda>g. g\<lparr>gpg_cnf := cnf\<rparr>) cr"

text \<open>\<open>Run\<close>, up to waiting for the end. A key that cannot be loaded leaves the server without a crypter.\<close>

definition Run_crypter ::
    "('r, 'd, 'k, 's, 'p) externals \<Rightarrow> Instance \<Rightarrow> ('r, 'd) world \<Rightarrow> 'k GPGCrypter option" where
  "Run_crypter E inst w =
     (if GPGKeyPath (CryptoCnf inst) \<noteq> [] then
        (case NewCrypto (ext_pgp E) (host w) (CryptoCnf inst) of Inl err \<Rightarrow> None | Inr cr \<Rightarrow> Some cr)
      else None)"

definition Run_start ::
    "('r, 'd, 'k, 's, 'p) externals \<Rightarrow> startup_env \<Rightarrow> Instance \<Rightarrow> ('r, 'd) world \<Rightarrow> (error + 'k started) option" where
  "Run_start E env inst w =
     (if StatPort inst \<noteq> 0 \<and> su_stat env \<noteq> None then Some (Inl (the (su_stat env)))
      else
        (let dws = (if DebugPort inst \<noteq> 0
                    then Some (NewDebugWebServer (''[::1]:'' @ dec_of_int (DebugPort inst))) else None);
             mws = (if MetricsPort inst \<noteq> 0
                    then Some (snd (the (mws_Serve (NewMetricsWebServer (''[::1]:'' @ dec_of_int (MetricsPort inst)))))) else None) in
         case (NewStorage (ext_s3 E) (StorageCnf inst) ''yezzey'' :: error + ('r, 'd) world StorageInteractor) of
           Inl err \<Rightarrow> Some (Inl err)
         | Inr s \<Rightarrow>
         case (NewStorage (ext_s3 E) (BackupStorageCnf inst) ''backup'' :: error + ('r, 'd) world StorageInteractor) of
           Inl err \<Rightarrow> Some (Inl err)
         | Inr bs \<Rightarrow>
           if PsqlPort inst \<noteq> 0 \<and> su_psql env \<noteq> None then Some (Inl (the (su_psql env)))
           else case listen_loop (su_socket env) of
               None \<Rightarrow> None
             | Some (Some err) \<Rightarrow> Some (Inl err)
             | Some None \<Rightarrow>
                 (let cr = Run_crypter E inst w in
                  case listen_loop (su_interconnect env) of
                    None \<Rightarrow> None
                  | Some (Some err) \<Rightarrow> Some (Inl err)
                  | Some None \<Rightarrow>
                      (case NewNotifier (su_notify env) (SystemdNotificationsDebug inst) of
                         (n, err) \<Rightarrow>
                           (if err \<noteq> None \<and> SystemdNotificationsDebug inst then Some (Inl (the err))
                            else Some (Inr \<lparr>st_storage = StorageCnf inst, st_backup = BackupStorageCnf inst,
                                            st_crypter = cr, st_notifier = snd (notifier_Ready n), st_debug = dws, st_metrics = mws\<rparr>))))))"

text \<open>The storages of a started server are those that \<open>NewStorage\<close> made, as long as nothing is reloaded.\<close>

lemma NewStorage_live: "NewStorage api cnf nm = Inr s \<Longrightarrow> live_storage api cnf cnf = s"
  by (auto simp: NewStorage_def live_storage_def split: if_splits)

section \<open>The running server\<close>

text \<open>
  A client connection: accepted (its goroutine has run nothing yet), in the pool with its request
  still to be processed, processed, and gone. The number is the address of its \<open>YClient\<close>.
\<close>

datatype phase =
    Spawned YClient
  | Serving u64 YClient
  | Served u64 YClient
  | Gone YClient

datatype ic_phase = IcSpawned YClient | IcServing YClient | IcGone YClient

datatype signal = SIGHUP | SIGINT | SIGTERM | SIGUSR1 | SIGUSR2

record ('r, 'd, 't) server =
  srv_cfg :: config_vars
  srv_log :: logger
  srv_pool :: "'t PoolImpl"
  srv_conns :: "phase list"
  srv_ics :: "ic_phase list"
  srv_active :: int
  srv_listener :: bool
  srv_iclistener :: bool
  srv_debug :: "DebugWebServer option"
  srv_notifier :: Notifier
  srv_signals :: bool
  srv_stopped :: bool
  srv_returned :: bool
  srv_dead :: bool
  srv_world :: "('r, 'd) world"

text \<open>What does not change while the server runs, with the answers of its environment\<close>

record ('r, 'd, 'k, 's, 'p, 'f, 't) service =
  svc_E :: "('r, 'd, 'k, 's, 'p) externals"
  svc_td :: "('f, 't) tdigest"
  svc_boot :: "'k started"
  svc_mgr :: "('r, 'd, 'k, 's, 'p) externals \<Rightarrow> scheduling \<Rightarrow> ('r, 'd, 'k) ProtoMgr"
  svc_sch :: "u64 \<Rightarrow> scheduling"
  svc_env :: "('f, 't) console_env"
  svc_notify :: string

definition svc_storage :: "('r, 'd, 'k, 's, 'p, 'f, 't) service \<Rightarrow> ('r, 'd) world \<Rightarrow> ('r, 'd) world StorageInteractor" where
  "svc_storage S w = live_storage (ext_s3 (svc_E S)) (st_storage (svc_boot S)) (StorageCnf (the_instance w))"

definition svc_backup :: "('r, 'd, 'k, 's, 'p, 'f, 't) service \<Rightarrow> ('r, 'd) world \<Rightarrow> ('r, 'd) world StorageInteractor" where
  "svc_backup S w = live_storage (ext_s3 (svc_E S)) (st_backup (svc_boot S)) (BackupStorageCnf (the_instance w))"

text \<open>\<open>ProcConn\<close> as the server calls it, with the handlers of its instance\<close>

definition serve_request ::
    "('r, 'd, 'k, 's, 'p, 'f, 't) service \<Rightarrow> u64 \<Rightarrow> YClient \<Rightarrow> ('r, 'd) world \<Rightarrow>
     (error option \<times> YClient \<times> ('r, 'd) world) option" where
  "serve_request S i ycl w =
     ProcConn_with (svc_mgr S (svc_E S) (svc_sch S i)) (sch_opstart (svc_sch S i)) (svc_storage S w) (svc_backup S w)
       (live_crypter (st_crypter (svc_boot S)) (CryptoCnf (the_instance w))) (VacuumCnf (the_instance w)) ycl w"

text \<open>The addresses of the clients that are alive: Go gives no two of them the same.\<close>

fun phase_id :: "phase \<Rightarrow> u64 option" where
  "phase_id (Serving i ycl) = Some i"
| "phase_id (Served i ycl) = Some i"
| "phase_id (Spawned ycl) = None"
| "phase_id (Gone ycl) = None"

definition live_ids :: "phase list \<Rightarrow> u64 list" where
  "live_ids cs = List.map_filter phase_id cs"

text \<open>The loop over the signals; the goroutine ends at the first signal that stops the server.\<close>

definition handle_signal ::
    "('r, 'd, 'k, 's, 'p, 'f, 't) service \<Rightarrow> int \<Rightarrow> signal \<Rightarrow> ('r, 'd, 't) server \<Rightarrow> ('r, 'd, 't) server" where
  "handle_signal S now sig st =
     (case sig of
        SIGUSR1 \<Rightarrow>
          (let w = srv_world st in
           case ReloadInstanceConfig (ext_decoders (svc_E S)) (config_files (host w)) (svc_notify S) (srv_cfg st) of
             (err, cfg) \<Rightarrow>
               (let st = st\<lparr>srv_cfg := cfg, srv_world := w\<lparr>the_instance := cfgInstance cfg\<rparr>\<rparr> in
                if err \<noteq> None then st
                else case ReloadLogger now (LogPath (cfgInstance cfg)) (LogLevel (cfgInstance cfg)) (host w) of
                    None \<Rightarrow> st\<lparr>srv_dead := True\<rparr>
                  | Some (lg, fs) \<Rightarrow> st\<lparr>srv_log := lg, srv_world := (srv_world st)\<lparr>host := fs\<rparr>\<rparr>))
      | SIGHUP \<Rightarrow>
          (case srv_debug st of
             None \<Rightarrow> st
           | Some dws \<Rightarrow>
               st\<lparr>srv_debug := Some (snd (ServeFor now (DebugMinutes (the_instance (srv_world st)) * 60 * Second) dws))\<rparr>)
      | _ \<Rightarrow> st\<lparr>srv_listener := False, srv_iclistener := False, srv_signals := False, srv_stopped := True\<rparr>)"

datatype event =
    Accept YClient
  | Begin nat client_ptr
  | Process nat
  | Crash nat
  | Finish nat int
  | IcAccept YClient
  | IcBegin nat
  | IcFinish nat
  | Signalled int signal
  | ConsoleSession console_conn
  | StatSession YClient
  | Watchdog
  | Return

definition set_conn :: "nat \<Rightarrow> phase \<Rightarrow> ('r, 'd, 't) server \<Rightarrow> ('r, 'd, 't) server" where
  "set_conn k ph st = st\<lparr>srv_conns := (srv_conns st)[k := ph]\<rparr>"

text \<open>
  The steps. A step that is not possible in a state is \<open>None\<close>; nothing happens once \<open>Run\<close> has
  returned or the process has died. A request without a result either never returns, so that its
  connection takes no further step, or panics, which ends the process (\<open>Crash\<close>). The address of a
  client is that of no other client alive.
\<close>

fun server_event ::
    "('r, 'd, 'k, 's, 'p, 'f, 't) service \<Rightarrow> event \<Rightarrow> ('r, 'd, 't) server \<Rightarrow> ('r, 'd, 't) server option" where
  "server_event S (Accept ycl) st =
     (if srv_listener st then Some (st\<lparr>srv_conns := srv_conns st @ [Spawned ycl]\<rparr>) else None)"
| "server_event S (Begin k p) st =
     (let i = YClient_ID p in
      if k < length (srv_conns st) \<and> i \<notin> set (live_ids (srv_conns st)) then
        (case srv_conns st ! k of
           Spawned ycl \<Rightarrow>
             Some (set_conn k (Serving i ycl) (st\<lparr>srv_active := srv_active st + 1,
                                                  srv_pool := snd (pool_Put i ycl (srv_pool st))\<rparr>))
         | _ \<Rightarrow> None)
      else None)"
| "server_event S (Process k) st =
     (if k < length (srv_conns st) then
        (case srv_conns st ! k of
           Serving i ycl \<Rightarrow>
             (case serve_request S i ycl (srv_world st) of
                None \<Rightarrow> None
              | Some (err, ycl, w) \<Rightarrow>
                  Some (set_conn k (Served i ycl) (st\<lparr>srv_world := w,
                     srv_pool := (srv_pool st)\<lparr>pool_clients := AList.update i ycl (pool_clients (srv_pool st))\<rparr>\<rparr>)))
         | _ \<Rightarrow> None)
      else None)"
| "server_event S (Crash k) st =
     (if k < length (srv_conns st) then
        (case srv_conns st ! k of
           Serving i ycl \<Rightarrow>
             (case serve_request S i ycl (srv_world st) of
                None \<Rightarrow> Some (st\<lparr>srv_dead := True\<rparr>)
              | Some _ \<Rightarrow> None)
         | _ \<Rightarrow> None)
      else None)"
| "server_event S (Finish k now) st =
     (if k < length (srv_conns st) then
        (case srv_conns st ! k of
           Served i ycl \<Rightarrow>
             (case pool_Pop (svc_td S) now i (srv_pool st) of
                None \<Rightarrow> Some (st\<lparr>srv_dead := True\<rparr>)
              | Some (ok, err, cl, p) \<Rightarrow>
                  Some (set_conn k (Gone (snd (YClient_Close ycl))) (st\<lparr>srv_active := srv_active st - 1, srv_pool := p\<rparr>)))
         | _ \<Rightarrow> None)
      else None)"
| "server_event S (IcAccept ycl) st =
     (if srv_iclistener st then Some (st\<lparr>srv_ics := srv_ics st @ [IcSpawned ycl]\<rparr>) else None)"
| "server_event S (IcBegin k) st =
     (if k < length (srv_ics st) then
        (case srv_ics st ! k of
           IcSpawned ycl \<Rightarrow>
             Some (st\<lparr>srv_ics := (srv_ics st)[k := IcServing ycl], srv_active := srv_active st + 1\<rparr>)
         | _ \<Rightarrow> None)
      else None)"
| "server_event S (IcFinish k) st =
     (if k < length (srv_ics st) then
        (case srv_ics st ! k of
           IcServing ycl \<Rightarrow>
             Some (st\<lparr>srv_ics := (srv_ics st)[k := IcGone (interconnect ycl)], srv_active := srv_active st - 1\<rparr>)
         | _ \<Rightarrow> None)
      else None)"
| "server_event S (Signalled now sig) st = (if srv_signals st then Some (handle_signal S now sig st) else None)"
| "server_event S (ConsoleSession c) st =
     (case PostgresIface (svc_E S) (svc_td S) ((svc_env S)\<lparr>ce_pool := \<lambda>n. srv_pool st\<rparr>)
             (svc_storage S (srv_world st)) c (srv_world st) of
        None \<Rightarrow> None
      | Some (Returned, c, w) \<Rightarrow> Some (st\<lparr>srv_world := w\<rparr>)
      | Some (_, c, w) \<Rightarrow> Some (st\<lparr>srv_world := w, srv_dead := True\<rparr>))"
| "server_event S (StatSession con) st = Some st"
| "server_event S Watchdog st = Some (st\<lparr>srv_notifier := snd (notifier_Notify (srv_notifier st))\<rparr>)"
| "server_event S Return st =
     (if srv_stopped st \<and> srv_active st = 0 then Some (st\<lparr>srv_returned := True\<rparr>) else None)"

definition server_step ::
    "('r, 'd, 'k, 's, 'p, 'f, 't) service \<Rightarrow> event \<Rightarrow> ('r, 'd, 't) server \<Rightarrow> ('r, 'd, 't) server option" where
  "server_step S ev st = (if srv_returned st \<or> srv_dead st then None else server_event S ev st)"

text \<open>The server when \<open>Run\<close> has started it\<close>

definition NewServer :: "'k started \<Rightarrow> config_vars \<Rightarrow> logger \<Rightarrow> ('r, 'd) world \<Rightarrow> ('r, 'd, 't) server" where
  "NewServer boot cfg lg w =
     \<lparr>srv_cfg = cfg, srv_log = lg, srv_pool = NewClientPool, srv_conns = [], srv_ics = [], srv_active = 0,
      srv_listener = True, srv_iclistener = True, srv_debug = st_debug boot, srv_notifier = st_notifier boot, srv_signals = True, srv_stopped = False,
      srv_returned = False, srv_dead = False, srv_world = w\<lparr>the_instance := cfgInstance cfg\<rparr>\<rparr>"

end
