(* ===== verification/Shutdown.thy ===== *)
theory Shutdown
  imports Server
begin

text \<open>
  The invariant of the running server (which clients are in the pool, how many connections it waits
  for) and what happens after a signal that stops it.
\<close>

section \<open>Executions\<close>

text \<open>The events of an execution, one after the other; \<open>None\<close> if one of them is not possible\<close>

fun run_list :: "('e \<Rightarrow> 's \<Rightarrow> 's option) \<Rightarrow> 'e list \<Rightarrow> 's \<Rightarrow> 's option" where
  "run_list step [] s = Some s"
| "run_list step (e # es) s = (case step e s of None \<Rightarrow> None | Some s' \<Rightarrow> run_list step es s')"

abbreviation run_events ::
    "('r, 'd, 'k, 's, 'p, 'f, 't) service \<Rightarrow> event list \<Rightarrow> ('r, 'd, 't) server \<Rightarrow> ('r, 'd, 't) server option" where
  "run_events S \<equiv> run_list (server_step S)"

lemma run_list_append:
  "run_list step (es @ es') s = (case run_list step es s of None \<Rightarrow> None | Some s' \<Rightarrow> run_list step es' s')"
  by (induction es arbitrary: s) (auto split: option.splits)

text \<open>
  A system that can be stopped: its steps keep an invariant, and once it is stopped each of its own
  steps lowers the work that is left, which the steps of others do not raise.
\<close>

locale stoppable =
  fixes step :: "'e \<Rightarrow> 's \<Rightarrow> 's option" and inv :: "'s \<Rightarrow> bool" and stopped :: "'s \<Rightarrow> bool"
    and work :: "'s \<Rightarrow> nat" and own :: "'e \<Rightarrow> bool"
  assumes inv_step: "inv s \<Longrightarrow> step e s = Some s' \<Longrightarrow> inv s'"
    and work_step: "inv s \<Longrightarrow> stopped s \<Longrightarrow> step e s = Some s' \<Longrightarrow>
      stopped s' \<and> (if own e then work s' < work s else work s' = work s)"
begin

lemma run_inv: "inv s \<Longrightarrow> run_list step es s = Some s' \<Longrightarrow> inv s'"
  by (induction es arbitrary: s) (auto split: option.splits intro: inv_step)

lemma run_work:
  assumes "inv s" "stopped s" "run_list step es s = Some s'"
  shows "stopped s' \<and> length (filter own es) + work s' \<le> work s"
  using assms
proof (induction es arbitrary: s)
  case (Cons e es)
  then obtain s1 where s1: "step e s = Some s1" "run_list step es s1 = Some s'" by (auto split: option.splits)
  from Cons.IH [OF inv_step [OF Cons.prems(1) s1(1)] _ s1(2)] work_step [OF Cons.prems(1,2) s1(1)]
  show ?case by (auto split: if_splits)
qed simp

end

section \<open>The invariant\<close>

definition begun :: "phase \<Rightarrow> bool" where
  "begun ph \<longleftrightarrow> phase_id ph \<noteq> None"

fun ic_begun :: "ic_phase \<Rightarrow> bool" where
  "ic_begun (IcServing ycl) = True"
| "ic_begun _ = False"

text \<open>Each begun connection's client is in the pool under its address.\<close>

fun in_pool :: "'t PoolImpl \<Rightarrow> phase \<Rightarrow> bool" where
  "in_pool p (Serving i ycl) \<longleftrightarrow> map_of (pool_clients p) i = Some ycl"
| "in_pool p (Served i ycl) \<longleftrightarrow> map_of (pool_clients p) i = Some ycl \<and> conn_closed ycl"
| "in_pool p (Gone ycl) \<longleftrightarrow> conn_closed ycl"
| "in_pool p (Spawned ycl) \<longleftrightarrow> True"

definition clients_inv :: "'t PoolImpl \<Rightarrow> phase list \<Rightarrow> bool" where
  "clients_inv p cs \<longleftrightarrow> cats_inv p \<and> distinct (live_ids cs) \<and> dom (map_of (pool_clients p)) = set (live_ids cs) \<and>
     list_all (in_pool p) cs"

definition server_inv :: "('r, 'd, 't) server \<Rightarrow> bool" where
  "server_inv st \<longleftrightarrow> clients_inv (srv_pool st) (srv_conns st) \<and>
     srv_active st = int (length (filter begun (srv_conns st))) + int (length (filter ic_begun (srv_ics st))) \<and>
     srv_signals st = (\<not> srv_stopped st) \<and> (srv_stopped st \<longrightarrow> \<not> srv_listener st \<and> \<not> srv_iclistener st) \<and>
     (srv_returned st \<longrightarrow> srv_stopped st \<and> srv_active st = 0)"

lemma server_inv_new: "server_inv (NewServer boot cfg lg w)"
  by (simp add: server_inv_def clients_inv_def NewServer_def cats_inv_new live_ids_def NewClientPool_def cats_inv_def
      List.map_filter_def)

text \<open>Changing one connection in the list\<close>

lemma live_ids_split:
  assumes "k < length cs"
  shows "live_ids (cs[k := ph]) = live_ids (take k cs) @ (case phase_id ph of None \<Rightarrow> [] | Some i \<Rightarrow> [i]) @ live_ids (drop (Suc k) cs)"
  using assms by (simp add: live_ids_def upd_conv_take_nth_drop List.map_filter_def split: option.splits)

lemma live_ids_split_nth:
  assumes "k < length cs"
  shows "live_ids cs = live_ids (take k cs) @ (case phase_id (cs ! k) of None \<Rightarrow> [] | Some i \<Rightarrow> [i]) @ live_ids (drop (Suc k) cs)"
  using live_ids_split [OF assms, of "cs ! k"] by simp

lemma filter_update:
  assumes "k < length cs"
  shows "int (length (filter P (cs[k := x]))) = int (length (filter P cs)) - (if P (cs ! k) then 1 else 0) + (if P x then 1 else 0)"
proof -
  have "filter P cs = filter P (take k cs) @ (if P (cs ! k) then [cs ! k] else []) @ filter P (drop (Suc k) cs)"
    using arg_cong [OF id_take_nth_drop [OF assms], of "filter P"] by simp
  moreover have "filter P (cs[k := x]) = filter P (take k cs) @ (if P x then [x] else []) @ filter P (drop (Suc k) cs)"
    using assms by (simp add: upd_conv_take_nth_drop)
  ultimately show ?thesis by simp
qed

text \<open>A pool that changes at one address keeps the other clients.\<close>

lemma in_pool_other:
  assumes "list_all (in_pool p) cs" "i \<notin> set (live_ids cs)" "\<And>j. j \<noteq> i \<Longrightarrow> map_of (pool_clients p') j = map_of (pool_clients p) j"
  shows "list_all (in_pool p') cs"
  using assms(1,2)
proof (induction cs)
  case (Cons c cs)
  then show ?case using assms(3) by (cases c) (auto simp: live_ids_def List.map_filter_def)
qed simp

lemma list_all_split_nth:
  assumes "k < length cs"
  shows "list_all P (cs[k := x]) \<longleftrightarrow> list_all P (take k cs) \<and> P x \<and> list_all P (drop (Suc k) cs)"
  using assms by (simp add: upd_conv_take_nth_drop)

lemma list_all_split:
  assumes "k < length cs"
  shows "list_all P cs \<longleftrightarrow> list_all P (take k cs) \<and> P (cs ! k) \<and> list_all P (drop (Suc k) cs)"
  using list_all_split_nth [OF assms, of P "cs ! k"] by simp

lemma clients_inv_accept: "clients_inv p cs \<Longrightarrow> clients_inv p (cs @ [Spawned ycl])"
  by (simp add: clients_inv_def live_ids_def List.map_filter_def)

lemma clients_inv_begin:
  assumes "clients_inv p cs" "k < length cs" "cs ! k = Spawned ycl" "i \<notin> set (live_ids cs)"
  shows "clients_inv (snd (pool_Put i ycl p)) (cs[k := Serving i ycl])"
proof -
  let ?p = "snd (pool_Put i ycl p)"
  have p: "map_of (pool_clients ?p) = (map_of (pool_clients p))(i \<mapsto> ycl)" "opSpeed ?p = opSpeed p"
    by (simp_all add: pool_Put_def update_conv')
  have ids: "live_ids cs = live_ids (take k cs) @ live_ids (drop (Suc k) cs)"
    using live_ids_split_nth [OF assms(2)] assms(3) by simp
  have "list_all (in_pool p) cs" using assms(1) by (simp add: clients_inv_def)
  from in_pool_other [OF this assms(4), of ?p] p(1) have "list_all (in_pool ?p) cs" by simp
  with assms p ids show ?thesis
    unfolding clients_inv_def live_ids_split [OF assms(2)] list_all_split_nth [OF assms(2)]
    using list_all_split [OF assms(2), of "in_pool ?p"] by (auto simp: cats_inv_def)
qed

lemma clients_inv_process:
  assumes "clients_inv p cs" "k < length cs" "cs ! k = Serving i ycl" "conn_closed ycl'"
  shows "clients_inv (p\<lparr>pool_clients := AList.update i ycl' (pool_clients p)\<rparr>) (cs[k := Served i ycl'])"
proof -
  let ?p = "p\<lparr>pool_clients := AList.update i ycl' (pool_clients p)\<rparr>"
  have p: "map_of (pool_clients ?p) = (map_of (pool_clients p))(i \<mapsto> ycl')" by (simp add: update_conv')
  have ids: "live_ids cs = live_ids (take k cs) @ [i] @ live_ids (drop (Suc k) cs)"
    using live_ids_split_nth [OF assms(2)] assms(3) by simp
  have "list_all (in_pool ?p) (take k cs)" "list_all (in_pool ?p) (drop (Suc k) cs)"
    using assms(1) p ids list_all_split [OF assms(2), of "in_pool p"]
    by (auto simp: clients_inv_def intro!: in_pool_other [of p _ i])
  with assms p ids show ?thesis
    unfolding clients_inv_def live_ids_split [OF assms(2)] list_all_split_nth [OF assms(2)]
    by (auto simp: cats_inv_def)
qed

lemma clients_inv_finish:
  assumes "clients_inv p cs" "k < length cs" "cs ! k = Served i ycl"
  shows "\<exists>ok err cl p'. pool_Pop td now i p = Some (ok, err, cl, p') \<and> clients_inv p' (cs[k := Gone (snd (YClient_Close ycl))])"
proof -
  have pk: "map_of (pool_clients p) i = Some ycl"
    using assms list_all_split [OF assms(2), of "in_pool p"] by (simp add: clients_inv_def)
  from pool_Pop_found [OF _ pk, of td now] assms(1) obtain p' where
    p': "pool_Pop td now i p = Some (True, None, Some (snd (YClient_Close ycl)), p')" "cats_inv p'"
      "map_of (pool_clients p') = (map_of (pool_clients p))(i := None)" by (auto simp: clients_inv_def)
  have ids: "live_ids cs = live_ids (take k cs) @ [i] @ live_ids (drop (Suc k) cs)"
    using live_ids_split_nth [OF assms(2)] assms(3) by simp
  have "list_all (in_pool p') (take k cs)" "list_all (in_pool p') (drop (Suc k) cs)"
    using assms(1) p'(3) ids list_all_split [OF assms(2), of "in_pool p"]
    by (auto simp: clients_inv_def intro!: in_pool_other [of p _ i])
  with assms(1,2) p' ids have "clients_inv p' (cs[k := Gone (snd (YClient_Close ycl))])"
    unfolding clients_inv_def live_ids_split [OF assms(2)] list_all_split_nth [OF assms(2)]
    by auto
  with p'(1) show ?thesis by blast
qed

section \<open>Every step keeps the invariant\<close>

lemma server_inv_set:
  assumes "server_inv st" "k < length (srv_conns st)" "clients_inv p ((srv_conns st)[k := ph])"
    "n = (if begun ph then 1 else 0) - (if begun (srv_conns st ! k) then 1 else 0)" "\<not> srv_returned st"
  shows "server_inv (set_conn k ph (st\<lparr>srv_active := srv_active st + n, srv_pool := p\<rparr>))"
  using assms by (auto simp: server_inv_def set_conn_def filter_update [OF assms(2)])

lemma serve_request_closed: "serve_request S i ycl w = Some (err, ycl', w') \<Longrightarrow> conn_closed ycl'"
  unfolding serve_request_def by (rule ProcConn_closed)

lemma handle_signal_frame:
  "srv_pool (handle_signal S now sig st) = srv_pool st" "srv_conns (handle_signal S now sig st) = srv_conns st"
  "srv_ics (handle_signal S now sig st) = srv_ics st" "srv_active (handle_signal S now sig st) = srv_active st"
  "srv_returned (handle_signal S now sig st) = srv_returned st"
  by (simp_all add: handle_signal_def Let_def split: signal.splits prod.splits option.splits)

lemma handle_signal_stop:
  "srv_stopped (handle_signal S now sig st) = (srv_stopped st \<or> sig \<notin> {SIGHUP, SIGUSR1})"
  "srv_signals (handle_signal S now sig st) = (srv_signals st \<and> sig \<in> {SIGHUP, SIGUSR1})"
  "srv_listener (handle_signal S now sig st) = (srv_listener st \<and> sig \<in> {SIGHUP, SIGUSR1})"
  "srv_iclistener (handle_signal S now sig st) = (srv_iclistener st \<and> sig \<in> {SIGHUP, SIGUSR1})"
  by (cases sig; simp add: handle_signal_def Let_def split: prod.splits option.splits)+

text \<open>The steps of the client connections, as facts about one connection\<close>

lemma server_event_BeginD:
  assumes "server_event S (Begin k p) st = Some st'"
  shows "\<exists>ycl i. i = YClient_ID p \<and> k < length (srv_conns st) \<and> srv_conns st ! k = Spawned ycl \<and>
    i \<notin> set (live_ids (srv_conns st)) \<and>
    st' = set_conn k (Serving i ycl) (st\<lparr>srv_active := srv_active st + 1, srv_pool := snd (pool_Put i ycl (srv_pool st))\<rparr>)"
  using assms by (auto simp: Let_def split: if_splits phase.splits)

lemma server_event_ProcessD:
  assumes "server_event S (Process k) st = Some st'"
  shows "\<exists>i ycl err ycl' w'. k < length (srv_conns st) \<and> srv_conns st ! k = Serving i ycl \<and>
    serve_request S i ycl (srv_world st) = Some (err, ycl', w') \<and>
    st' = set_conn k (Served i ycl') (st\<lparr>srv_world := w',
      srv_pool := (srv_pool st)\<lparr>pool_clients := AList.update i ycl' (pool_clients (srv_pool st))\<rparr>\<rparr>)"
  using assms by (auto split: if_splits phase.splits option.splits)

lemma server_event_CrashD:
  "server_event S (Crash k) st = Some st' \<Longrightarrow> st' = st\<lparr>srv_dead := True\<rparr>"
  by (auto split: if_splits phase.splits option.splits)

lemma server_event_FinishD:
  assumes "server_event S (Finish k now) st = Some st'" "server_inv st"
  shows "\<exists>i ycl p'. k < length (srv_conns st) \<and> srv_conns st ! k = Served i ycl \<and>
    clients_inv p' ((srv_conns st)[k := Gone (snd (YClient_Close ycl))]) \<and>
    st' = set_conn k (Gone (snd (YClient_Close ycl))) (st\<lparr>srv_active := srv_active st - 1, srv_pool := p'\<rparr>)"
proof -
  from assms(1) obtain i ycl where k: "k < length (srv_conns st)" "srv_conns st ! k = Served i ycl"
    by (auto split: if_splits phase.splits)
  moreover have "clients_inv (srv_pool st) (srv_conns st)" using assms(2) by (simp add: server_inv_def)
  from clients_inv_finish [OF this k, of "svc_td S" now] obtain ok err cl p' where
    "pool_Pop (svc_td S) now i (srv_pool st) = Some (ok, err, cl, p')"
    "clients_inv p' ((srv_conns st)[k := Gone (snd (YClient_Close ycl))])" by blast
  ultimately show ?thesis using assms(1) by auto
qed

lemma server_inv_console:
  "server_event S (ConsoleSession c) st = Some st' \<Longrightarrow> \<exists>w. st' = st\<lparr>srv_world := w\<rparr> \<or> st' = st\<lparr>srv_world := w, srv_dead := True\<rparr>"
  by (auto split: option.splits prod.splits console_end.splits)

lemma server_inv_step:
  assumes "server_inv st" "server_step S ev st = Some st'"
  shows "server_inv st'"
proof -
  have ev: "server_event S ev st = Some st'" and nr: "\<not> srv_returned st"
    using assms(2) by (auto simp: server_step_def split: if_splits)
  have pi: "clients_inv (srv_pool st) (srv_conns st)" using assms(1) by (simp add: server_inv_def)
  show ?thesis
  proof (cases ev)
    case (Begin k p)
    with server_event_BeginD [of S k p st st'] ev obtain ycl i where
      k: "k < length (srv_conns st)" "srv_conns st ! k = Spawned ycl" "i \<notin> set (live_ids (srv_conns st))" and
      st': "st' = set_conn k (Serving i ycl) (st\<lparr>srv_active := srv_active st + 1, srv_pool := snd (pool_Put i ycl (srv_pool st))\<rparr>)"
      by auto
    show ?thesis unfolding st'
      using k clients_inv_begin [OF pi k] nr by (intro server_inv_set assms(1)) (simp_all add: begun_def)
  next
    case (Process k)
    with server_event_ProcessD [of S k st st'] ev obtain i ycl err ycl' w' where
      k: "k < length (srv_conns st)" "srv_conns st ! k = Serving i ycl" and
      r: "serve_request S i ycl (srv_world st) = Some (err, ycl', w')" and
      st': "st' = set_conn k (Served i ycl') (st\<lparr>srv_world := w',
        srv_pool := (srv_pool st)\<lparr>pool_clients := AList.update i ycl' (pool_clients (srv_pool st))\<rparr>\<rparr>)"
      by auto
    have "server_inv (set_conn k (Served i ycl') ((st\<lparr>srv_world := w'\<rparr>)\<lparr>srv_active := srv_active (st\<lparr>srv_world := w'\<rparr>) + 0,
        srv_pool := (srv_pool st)\<lparr>pool_clients := AList.update i ycl' (pool_clients (srv_pool st))\<rparr>\<rparr>))"
      using k clients_inv_process [OF pi k serve_request_closed [OF r]] nr assms(1)
      by (intro server_inv_set) (simp_all add: begun_def server_inv_def)
    then show ?thesis by (simp add: st')
  next
    case (Finish k now)
    with server_event_FinishD [of S k now st st'] ev assms(1) obtain i ycl p' where
      k: "k < length (srv_conns st)" "srv_conns st ! k = Served i ycl"
        "clients_inv p' ((srv_conns st)[k := Gone (snd (YClient_Close ycl))])" and
      st': "st' = set_conn k (Gone (snd (YClient_Close ycl))) (st\<lparr>srv_active := srv_active st - 1, srv_pool := p'\<rparr>)"
      by auto
    have "server_inv (set_conn k (Gone (snd (YClient_Close ycl))) (st\<lparr>srv_active := srv_active st + - 1, srv_pool := p'\<rparr>))"
      using k nr by (intro server_inv_set assms(1)) (simp_all add: begun_def)
    then show ?thesis by (simp add: st')
  next
    case (Crash k)
    with ev have "st' = st\<lparr>srv_dead := True\<rparr>" by (auto dest: server_event_CrashD simp del: server_event.simps)
    with assms(1) show ?thesis by (auto simp: server_inv_def)
  next
    case (ConsoleSession c)
    with server_inv_console [of S c st st'] ev obtain w where
      "st' = st\<lparr>srv_world := w\<rparr> \<or> st' = st\<lparr>srv_world := w, srv_dead := True\<rparr>" by blast
    with assms(1) show ?thesis by (auto simp: server_inv_def)
  next
    case (Signalled now sig)
    with ev have "st' = handle_signal S now sig st" "srv_signals st" by (auto split: if_splits)
    with assms(1) show ?thesis by (auto simp: server_inv_def handle_signal_frame handle_signal_stop)
  next
    case (IcBegin k)
    with ev assms(1) nr show ?thesis
      by (auto simp: server_inv_def filter_update split: if_splits ic_phase.splits)
  next
    case (IcFinish k)
    with ev assms(1) nr show ?thesis
      by (auto simp: server_inv_def filter_update split: if_splits ic_phase.splits)
  qed (use ev assms(1) in \<open>auto simp: server_inv_def clients_inv_accept begun_def split: if_splits\<close>)
qed

section \<open>After the signal to stop\<close>

text \<open>What is still to be done; sessions of the console and of the statistics are not waited for.\<close>

fun phase_left :: "phase \<Rightarrow> nat" where
  "phase_left (Spawned ycl) = 3"
| "phase_left (Serving i ycl) = 2"
| "phase_left (Served i ycl) = 1"
| "phase_left (Gone ycl) = 0"

fun ic_left :: "ic_phase \<Rightarrow> nat" where
  "ic_left (IcSpawned ycl) = 2"
| "ic_left (IcServing ycl) = 1"
| "ic_left (IcGone ycl) = 0"

definition work_left :: "('r, 'd, 't) server \<Rightarrow> nat" where
  "work_left st = sum_list (map phase_left (srv_conns st)) + sum_list (map ic_left (srv_ics st)) +
     (if srv_returned st then 0 else 1)"

fun own_event :: "event \<Rightarrow> bool" where
  "own_event (ConsoleSession c) = False"
| "own_event (StatSession c) = False"
| "own_event (Crash k) = False"
| "own_event Watchdog = False"
| "own_event _ = True"

lemma sum_list_update_less:
  assumes "k < length xs" "(f :: 'a \<Rightarrow> nat) x < f (xs ! k)"
  shows "sum_list (map f (xs[k := x])) < sum_list (map f xs)"
proof -
  have "sum_list (map f xs) = sum_list (map f (take k xs)) + f (xs ! k) + sum_list (map f (drop (Suc k) xs))"
    using arg_cong [OF id_take_nth_drop [OF assms(1)], of "\<lambda>xs. sum_list (map f xs)"] by simp
  moreover have "sum_list (map f (xs[k := x])) = sum_list (map f (take k xs)) + f x + sum_list (map f (drop (Suc k) xs))"
    using assms(1) by (simp add: upd_conv_take_nth_drop)
  ultimately show ?thesis using assms(2) by simp
qed

lemma work_left_step:
  assumes "server_inv st" "srv_stopped st" "server_step S ev st = Some st'"
  shows "srv_stopped st' \<and> (if own_event ev then work_left st' < work_left st else work_left st' = work_left st)"
proof -
  have ev: "server_event S ev st = Some st'" and nr: "\<not> srv_returned st"
    using assms(3) by (auto simp: server_step_def split: if_splits)
  have off: "\<not> srv_listener st" "\<not> srv_iclistener st" "\<not> srv_signals st" using assms(1,2) by (auto simp: server_inv_def)
  note conn = sum_list_update_less [of _ "srv_conns st" phase_left]
  note ic = sum_list_update_less [of _ "srv_ics st" ic_left]
  show ?thesis
  proof (cases ev)
    case (Begin k p)
    with server_event_BeginD [of S k p st st'] ev conn [of k] assms(2) show ?thesis by (auto simp: work_left_def set_conn_def)
  next
    case (Process k)
    with server_event_ProcessD [of S k st st'] ev conn [of k] assms(2) show ?thesis by (auto simp: work_left_def set_conn_def)
  next
    case (Finish k now)
    with server_event_FinishD [of S k now st st'] ev assms(1,2) conn [of k] show ?thesis by (auto simp: work_left_def set_conn_def)
  next
    case (Crash k)
    with ev have "st' = st\<lparr>srv_dead := True\<rparr>" by (auto dest: server_event_CrashD simp del: server_event.simps)
    with assms(2) Crash show ?thesis by (simp add: work_left_def)
  next
    case (ConsoleSession c)
    with server_inv_console [of S c st st'] ev assms(2) show ?thesis by (auto simp: work_left_def)
  next
    case (IcBegin k)
    with ev ic [of k] assms(2) show ?thesis by (auto simp: work_left_def split: if_splits ic_phase.splits)
  next
    case (IcFinish k)
    with ev ic [of k] assms(2) show ?thesis by (auto simp: work_left_def split: if_splits ic_phase.splits)
  qed (use ev off nr assms(2) in \<open>auto simp: work_left_def split: if_splits\<close>)
qed

interpretation srv: stoppable "server_step S" server_inv srv_stopped work_left own_event for S
  by unfold_locales (rule server_inv_step, assumption+, rule work_left_step, assumption+)

text \<open>While \<open>Run\<close> has not returned it can go on, unless a request does not return.\<close>

lemma filter_nonempty: "filter P xs \<noteq> [] \<Longrightarrow> \<exists>k < length xs. P (xs ! k)"
  by (metis filter_False in_set_conv_nth)

lemma server_idle:
  assumes "server_inv st" "srv_active st = 0"
  shows "filter begun (srv_conns st) = []" "filter ic_begun (srv_ics st) = []"
proof -
  have "int (length (filter begun (srv_conns st))) + int (length (filter ic_begun (srv_ics st))) = 0"
    using assms by (simp add: server_inv_def)
  then have "length (filter begun (srv_conns st)) = 0 \<and> length (filter ic_begun (srv_ics st)) = 0" by linarith
  then show "filter begun (srv_conns st) = []" "filter ic_begun (srv_ics st) = []" by auto
qed

lemma server_busy:
  assumes "server_inv st" "srv_active st \<noteq> 0"
  shows "(\<exists>k < length (srv_conns st). begun (srv_conns st ! k)) \<or> (\<exists>k < length (srv_ics st). ic_begun (srv_ics st ! k))"
proof (rule ccontr)
  assume "\<not> ?thesis"
  then have "filter begun (srv_conns st) = []" "filter ic_begun (srv_ics st) = []" using filter_nonempty by blast+
  with assms show False by (simp add: server_inv_def)
qed

lemma server_progress:
  assumes "server_inv st" "srv_stopped st" "\<not> srv_returned st" "\<not> srv_dead st"
  shows "(\<exists>ev st'. own_event ev \<and> server_step S ev st = Some st') \<or>
    (\<exists>i ycl. Serving i ycl \<in> set (srv_conns st) \<and> serve_request S i ycl (srv_world st) = None)"
proof -
  consider "srv_active st = 0" | k where "k < length (srv_conns st)" "begun (srv_conns st ! k)"
    | k where "k < length (srv_ics st)" "ic_begun (srv_ics st ! k)"
    using server_busy [OF assms(1)] by blast
  then show ?thesis
  proof cases
    case 1
    with assms show ?thesis by (intro disjI1 exI [of _ Return]) (simp add: server_step_def)
  next
    case (2 k)
    then consider i ycl where "srv_conns st ! k = Serving i ycl" | i ycl where "srv_conns st ! k = Served i ycl"
      by (cases "srv_conns st ! k") (auto simp: begun_def)
    then show ?thesis
    proof cases
      case (1 i ycl)
      with 2(1) nth_mem [OF 2(1)] assms show ?thesis
        by (cases "serve_request S i ycl (srv_world st)")
          (auto simp: server_step_def intro!: exI [of _ "Process k"])
    next
      case (2 i ycl)
      have "clients_inv (srv_pool st) (srv_conns st)" using assms(1) by (simp add: server_inv_def)
      from clients_inv_finish [OF this \<open>k < _\<close> 2, of "svc_td S" 0] 2 \<open>k < _\<close> assms show ?thesis
        by (intro disjI1 exI [of _ "Finish k 0"]) (auto simp: server_step_def)
    qed
  next
    case (3 k)
    with assms show ?thesis
      by (intro disjI1 exI [of _ "IcFinish k"]) (auto simp: server_step_def elim!: ic_begun.elims)
  qed
qed

text \<open>When \<open>Run\<close> has returned, every connection that had begun was served to its end.\<close>

lemma server_returned:
  assumes "server_inv st" "srv_returned st"
  shows "pool_clients (srv_pool st) = []"
    and "ph \<in> set (srv_conns st) \<Longrightarrow> (\<exists>ycl. ph = Spawned ycl) \<or> (\<exists>ycl. ph = Gone ycl \<and> conn_closed ycl)"
proof -
  have "srv_active st = 0" and pi: "clients_inv (srv_pool st) (srv_conns st)" using assms by (auto simp: server_inv_def)
  then have nb: "filter begun (srv_conns st) = []" using server_idle(1) [OF assms(1)] by simp
  then have "live_ids (srv_conns st) = []" by (auto simp: live_ids_def List.map_filter_def begun_def [abs_def] comp_def)
  with pi have "dom (map_of (pool_clients (srv_pool st))) = {}" by (simp add: clients_inv_def)
  then show "pool_clients (srv_pool st) = []" by (metis dom_map_of_conv_image_fst image_is_empty set_empty)
  show "ph \<in> set (srv_conns st) \<Longrightarrow> (\<exists>ycl. ph = Spawned ycl) \<or> (\<exists>ycl. ph = Gone ycl \<and> conn_closed ycl)"
    using nb pi by (cases ph) (auto simp: filter_empty_conv begun_def clients_inv_def list_all_iff)
qed

text \<open>A request that is served goes through the pool and leaves everything else as it was.\<close>

lemma server_serves:
  assumes "server_inv st" "\<not> srv_returned st" "\<not> srv_dead st" "k < length (srv_conns st)" "srv_conns st ! k = Serving i ycl"
    "serve_request S i ycl (srv_world st) = Some (e, ycl', w')"
  shows "\<exists>st1 st2. server_step S (Process k) st = Some st1 \<and> server_step S (Finish k now) st1 = Some st2 \<and>
    srv_world st2 = w' \<and> srv_conns st2 = (srv_conns st)[k := Gone (snd (YClient_Close ycl'))] \<and>
    map_of (pool_clients (srv_pool st2)) = (map_of (pool_clients (srv_pool st)))(i := None) \<and>
    srv_active st2 = srv_active st - 1"
proof -
  let ?p = "(srv_pool st)\<lparr>pool_clients := AList.update i ycl' (pool_clients (srv_pool st))\<rparr>"
  define st1 where "st1 = set_conn k (Served i ycl') (st\<lparr>srv_world := w', srv_pool := ?p\<rparr>)"
  have s1: "server_step S (Process k) st = Some st1" using assms by (simp add: server_step_def st1_def)
  have "cats_inv ?p" using assms(1) by (simp add: server_inv_def clients_inv_def cats_inv_def)
  moreover have "map_of (pool_clients ?p) i = Some ycl'" by (simp add: update_conv')
  ultimately obtain p where
    "pool_Pop (svc_td S) now i ?p = Some (True, None, Some (snd (YClient_Close ycl')), p)"
    "map_of (pool_clients p) = (map_of (pool_clients ?p))(i := None)" using pool_Pop_found by blast
  moreover have "\<not> srv_returned st1" "\<not> srv_dead st1" "k < length (srv_conns st1)" "srv_conns st1 ! k = Served i ycl'"
    "srv_pool st1 = ?p" "srv_active st1 = srv_active st" "srv_world st1 = w'"
    using assms(2-4) by (simp_all add: st1_def set_conn_def)
  ultimately have s2: "server_step S (Finish k now) st1 =
      Some (set_conn k (Gone (snd (YClient_Close ycl'))) (st1\<lparr>srv_active := srv_active st - 1, srv_pool := p\<rparr>))"
    "map_of (pool_clients p) = (map_of (pool_clients (srv_pool st)))(i := None)"
    by (simp_all add: server_step_def update_conv')
  show ?thesis
    by (intro exI conjI, rule s1, rule s2(1)) (simp_all add: s2(2) set_conn_def st1_def)
qed

end
