(* ===== verification/Fuzzer.thy ===== *)
theory Fuzzer
  imports Serving
begin

text \<open>
  The fuzzer of listings (\<open>cmd/yfuzzer/main.go\<close>): a server that answers every listing with random
  objects, sent in pieces of random length. The drawn random numbers are a list; \<open>Intn\<close> draws one
  below its bound, and panics (\<open>None\<close>) on a bound that is not positive.
\<close>

section \<open>Drawing\<close>

type_synonym rng = "nat list"

definition Draw :: "rng \<Rightarrow> nat \<times> rng" where
  "Draw g = (case g of [] \<Rightarrow> (0, []) | x # g \<Rightarrow> (x, g))"

definition Intn :: "int \<Rightarrow> rng \<Rightarrow> (nat \<times> rng) option" where
  "Intn n g = (if n \<le> 0 then None else case Draw g of (x, g) \<Rightarrow> Some (x mod nat n, g))"

definition Int63 :: "rng \<Rightarrow> u64 \<times> rng" where
  "Int63 g = (case Draw g of (x, g) \<Rightarrow> (of_nat (x mod 2 ^ 63), g))"

text \<open>The command line options\<close>

record knobs =
  maxIterations :: int
  maxBatchSize :: int
  maxPathLen :: int

definition default_knobs :: knobs where
  "default_knobs = \<lparr>maxIterations = 100, maxBatchSize = 500, maxPathLen = 256\<rparr>"

section \<open>A batch\<close>

fun fuzz_path :: "nat \<Rightarrow> rng \<Rightarrow> (byte list \<times> rng) option" where
  "fuzz_path 0 g = Some ([], g)"
| "fuzz_path (Suc n) g =
     (case Intn 95 g of
        None \<Rightarrow> None
      | Some (x, g) \<Rightarrow>
          (case fuzz_path n g of None \<Rightarrow> None | Some (bs, g) \<Rightarrow> Some (of_nat (x + 32) # bs, g)))"

fun fuzz_metas :: "knobs \<Rightarrow> nat \<Rightarrow> rng \<Rightarrow> (ObjectInfo list \<times> rng) option" where
  "fuzz_metas kn 0 g = Some ([], g)"
| "fuzz_metas kn (Suc n) g =
     (case Intn (maxPathLen kn) g of
        None \<Rightarrow> None
      | Some (l, g) \<Rightarrow>
      case fuzz_path (l + 1) g of
        None \<Rightarrow> None
      | Some (bs, g) \<Rightarrow>
      case Int63 g of
        (sz, g) \<Rightarrow>
          (case fuzz_metas kn n g of
             None \<Rightarrow> None
           | Some (ms, g) \<Rightarrow> Some (\<lparr>obj_Path = string_of bs, obj_Size = sz, obj_LastMod = zeroTime\<rparr> # ms, g)))"

text \<open>The pieces in which a message is written: at least one byte each\<close>

function fuzz_write :: "byte list \<Rightarrow> rng \<Rightarrow> YClient \<Rightarrow> (error option \<times> rng \<times> YClient) option" where
  "fuzz_write msgBytes g ycl =
     (if msgBytes = [] then Some (None, g, ycl)
      else
        case (if length msgBytes < 2 then Some (0, g) else Intn (int (length msgBytes)) g) of
          None \<Rightarrow> None
        | Some (piece, g) \<Rightarrow>
            (case conn_Write (take (piece + 1) msgBytes) ycl of
               ((n, Some err), ycl) \<Rightarrow>
                 Some (Some err, g, snd (ReplyError err ''yfuzzer: failed to write listing batch'' ycl))
             | ((n, None), ycl) \<Rightarrow> fuzz_write (drop (piece + 1) msgBytes) g ycl))"
  by pat_completeness auto
termination by (relation "measure (\<lambda>(ms, _, _). length ms)") auto

declare fuzz_write.simps [simp del]

section \<open>The listing\<close>

fun fuzz_batches :: "knobs \<Rightarrow> nat \<Rightarrow> rng \<Rightarrow> YClient \<Rightarrow> (error option \<times> rng \<times> YClient) option" where
  "fuzz_batches kn 0 g ycl = Some (None, g, ycl)"
| "fuzz_batches kn (Suc n) g ycl =
     (case Intn (maxBatchSize kn) g of
        None \<Rightarrow> None
      | Some (b, g) \<Rightarrow>
      case fuzz_metas kn (b + 1) g of
        None \<Rightarrow> None
      | Some (metas, g) \<Rightarrow>
      case fuzz_write (ObjectInfoMessage_Encode metas) g ycl of
        None \<Rightarrow> None
      | Some (Some err, g, ycl) \<Rightarrow> Some (Some err, g, ycl)
      | Some (None, g, ycl) \<Rightarrow> fuzz_batches kn n g ycl)"

definition Fuzzer_ProcessListExtended ::
    "knobs \<Rightarrow> string \<Rightarrow> rng \<Rightarrow> YClient \<Rightarrow> (error option \<times> rng \<times> YClient) option" where
  "Fuzzer_ProcessListExtended kn pfx g ycl =
     (let ycl = SetExternalFilePath pfx ycl in
      case Intn (maxIterations kn) g of
        None \<Rightarrow> None
      | Some (n, g) \<Rightarrow>
      case fuzz_batches kn (n + 1) g ycl of
        None \<Rightarrow> None
      | Some (Some err, g, ycl) \<Rightarrow> Some (Some err, g, ycl)
      | Some (None, g, ycl) \<Rightarrow>
          (case conn_Write (ReadyForQueryMessage_Encode ()) ycl of
             ((n, Some err), ycl) \<Rightarrow>
               Some (Some err, g, snd (ReplyError err ''yfuzzer: failed to write ready for query'' ycl))
           | ((n, None), ycl) \<Rightarrow> Some (None, g, ycl)))"

text \<open>
  The handlers of the fuzzer are those of the server, except for the listing. The random numbers of
  a request are part of what its environment decides.
\<close>

definition FuzzerProtoMgr ::
    "knobs \<Rightarrow> (scheduling \<Rightarrow> rng) \<Rightarrow> ('r, 'd, 'k, 's, 'p) externals \<Rightarrow> scheduling \<Rightarrow> ('r, 'd, 'k) ProtoMgr" where
  "FuzzerProtoMgr kn draws E sch =
     (ProtoMgrImpl E sch)\<lparr>pm_ProcessListExtended := (\<lambda>pfx ss s cr ycl cnf w.
        map_option (\<lambda>(err, g, ycl). (err, ycl, w)) (Fuzzer_ProcessListExtended kn pfx (draws sch) ycl))\<rparr>"

text \<open>Every request but a listing is served as the server serves it.\<close>

lemma fuzzer_dispatch:
  assumes "tp \<noteq> MessageTypeList" "tp \<noteq> MessageTypeListV2"
  shows "dispatch (FuzzerProtoMgr kn draws E sch) now s bs cr cnf tp body ycl w =
    dispatch (ProtoMgrImpl E sch) now s bs cr cnf tp body ycl w"
  using assms by (simp add: dispatch_def FuzzerProtoMgr_def cong: option.case_cong)

lemma fuzzer_ProcConn_other:
  assumes "\<And>body c. ReadPacket (conn_in ycl) \<noteq> (Inr (MessageTypeList, body), c)"
    "\<And>body c. ReadPacket (conn_in ycl) \<noteq> (Inr (MessageTypeListV2, body), c)"
  shows "ProcConn_with (FuzzerProtoMgr kn draws E sch) (sch_opstart sch) s bs cr cnf ycl w = ProcConn E sch s bs cr cnf ycl w"
proof (cases "ReadPacket (conn_in ycl)")
  case (Pair r c)
  then show ?thesis
  proof (cases r)
    case (Inr p)
    with Pair assms [of "snd p" c] have "fst p \<noteq> MessageTypeList" "fst p \<noteq> MessageTypeListV2"
      by (metis prod.collapse)+
    with Pair Inr show ?thesis by (cases p) (simp add: ProcConn_unfold fuzzer_dispatch)
  qed (use Pair in \<open>simp add: ProcConn_unfold\<close>)
qed

section \<open>What a client makes of it\<close>

lemma Intn_ok: "0 < n \<Longrightarrow> \<exists>x g'. Intn n g = Some (x, g') \<and> int x < n"
proof -
  assume "0 < n"
  then have "int (x mod nat n) < n" for x by (metis mod_less_divisor zless_nat_eq_int_zless zero_less_nat_eq)
  with \<open>0 < n\<close> show ?thesis by (auto simp: Intn_def split: prod.splits)
qed

lemma fuzz_path_ok: "\<exists>bs g'. fuzz_path n g = Some (bs, g') \<and> length bs = n \<and> 0 \<notin> set bs"
proof (induction n arbitrary: g)
  case (Suc n)
  obtain x g1 where x: "Intn 95 g = Some (x, g1)" "int x < 95" using Intn_ok [of 95 g] by auto
  from Suc [of g1] obtain bs g2 where "fuzz_path n g1 = Some (bs, g2)" "length bs = n" "0 \<notin> set bs" by blast
  moreover have "(of_nat (x + 32) :: byte) \<noteq> 0"
    using x(2) by (simp add: word_unat_eq_iff unat_of_nat del: of_nat_add)
  ultimately show ?case using x(1) by auto
qed simp

lemma char_of_byte_nul: "char_of_byte b = CHR 0x00 \<Longrightarrow> b = 0"
  using byte_of_char_of_byte [of b] by (simp add: byte_of_char_def)

definition fuzz_object :: "knobs \<Rightarrow> ObjectInfo \<Rightarrow> bool" where
  "fuzz_object kn x \<longleftrightarrow> obj_Path x \<noteq> [] \<and> int (length (obj_Path x)) \<le> maxPathLen kn \<and> nul_free (obj_Path x)"

lemma fuzz_metas_ok:
  assumes "0 < maxPathLen kn"
  shows "\<exists>ms g'. fuzz_metas kn n g = Some (ms, g') \<and> length ms = n \<and> list_all (fuzz_object kn) ms"
proof (induction n arbitrary: g)
  case (Suc n)
  obtain l g1 where l: "Intn (maxPathLen kn) g = Some (l, g1)" "int l < maxPathLen kn" using Intn_ok [OF assms] by blast
  obtain bs g2 where bs: "fuzz_path (l + 1) g1 = Some (bs, g2)" "length bs = l + 1" "0 \<notin> set bs"
    using fuzz_path_ok by blast
  obtain sz g3 where sz: "Int63 g2 = (sz, g3)" by (cases "Int63 g2")
  from Suc [of g3] obtain ms g4 where "fuzz_metas kn n g3 = Some (ms, g4)" "length ms = n" "list_all (fuzz_object kn) ms" by blast
  moreover have "fuzz_object kn \<lparr>obj_Path = string_of bs, obj_Size = sz, obj_LastMod = zeroTime\<rparr>"
    using l(2) bs(2,3) char_of_byte_nul by (auto simp: fuzz_object_def string_of_def nul_free_def)
  ultimately show ?case using l(1) bs(1) sz by simp
qed simp

lemma fuzz_write_ok:
  "\<not> conn_closed ycl \<Longrightarrow> conn_fails ycl = None \<Longrightarrow>
   \<exists>g'. fuzz_write ms g ycl = Some (None, g', ycl\<lparr>conn_out := conn_out ycl @ ms\<rparr>)"
proof (induction ms g ycl rule: fuzz_write.induct)
  case (1 ms g ycl)
  show ?case
  proof (cases "ms = []")
    case False
    obtain piece g1 where c: "(if length ms < 2 then Some (0, g) else Intn (int (length ms)) g) = Some (piece, g1)"
      using Intn_ok [of "int (length ms)" g] False by (cases "length ms < 2") auto
    let ?y = "ycl\<lparr>conn_out := conn_out ycl @ take (piece + 1) ms\<rparr>"
    have w: "conn_Write (take (piece + 1) ms) ycl = ((length (take (piece + 1) ms), None), ?y)"
      using "1.prems" by (rule conn_Write_healthy)
    from "1.IH" [OF False c refl w [symmetric] refl refl] "1.prems" obtain g2 where
      "fuzz_write (drop (piece + 1) ms) g1 ?y = Some (None, g2, ?y\<lparr>conn_out := conn_out ?y @ drop (piece + 1) ms\<rparr>)" by auto
    with False c w show ?thesis by (subst fuzz_write.simps) simp
  qed (simp add: fuzz_write.simps)
qed

lemma fuzz_batches_ok:
  assumes "\<not> conn_closed ycl" "conn_fails ycl = None" "0 < maxBatchSize kn" "0 < maxPathLen kn"
  shows "\<exists>css g'. fuzz_batches kn n g ycl =
      Some (None, g', ycl\<lparr>conn_out := conn_out ycl @ concat (map ObjectInfoMessage_Encode css)\<rparr>) \<and>
    length css = n \<and> (\<forall>cs \<in> set css. cs \<noteq> [] \<and> int (length cs) \<le> maxBatchSize kn \<and> list_all (fuzz_object kn) cs)"
  using assms(1,2)
proof (induction n arbitrary: g ycl)
  case 0
  show ?case by (intro exI [of _ "[]"] exI [of _ g]) simp
next
  case (Suc n)
  obtain b g1 where b: "Intn (maxBatchSize kn) g = Some (b, g1)" "int b < maxBatchSize kn" using Intn_ok [OF assms(3)] by blast
  obtain ms g2 where ms: "fuzz_metas kn (b + 1) g1 = Some (ms, g2)" "length ms = b + 1" "list_all (fuzz_object kn) ms"
    using fuzz_metas_ok [OF assms(4)] by blast
  let ?y = "ycl\<lparr>conn_out := conn_out ycl @ ObjectInfoMessage_Encode ms\<rparr>"
  obtain g3 where w: "fuzz_write (ObjectInfoMessage_Encode ms) g2 ycl = Some (None, g3, ?y)"
    using fuzz_write_ok Suc.prems by blast
  from Suc.IH [of ?y g3] Suc.prems obtain css g4 where
    "fuzz_batches kn n g3 ?y = Some (None, g4, ?y\<lparr>conn_out := conn_out ?y @ concat (map ObjectInfoMessage_Encode css)\<rparr>)"
    "length css = n" "\<forall>cs \<in> set css. cs \<noteq> [] \<and> int (length cs) \<le> maxBatchSize kn \<and> list_all (fuzz_object kn) cs" by auto
  with b ms w show ?case by (intro exI [of _ "ms # css"] exI [of _ g4]) auto
qed

lemma fuzz_batch_fits:
  assumes "list_all (fuzz_object kn) cs" "int (length cs) \<le> maxBatchSize kn" "maxBatchSize kn * (maxPathLen kn + 9) \<le> 1048000"
    "0 < maxPathLen kn"
  shows "length (ObjectInfoMessage_Encode cs) \<le> unat maxMsgLen"
proof -
  have "(\<Sum>x\<leftarrow>cs. length (obj_Path x) + 9) \<le> length cs * nat (maxPathLen kn + 9)"
    using assms(1) by (intro sum_list_le) (auto simp: list_all_iff fuzz_object_def)
  moreover have "length cs * nat (maxPathLen kn + 9) \<le> 1048000"
    unfolding nat_int_comparison
    using order_trans [OF mult_right_mono [OF assms(2), of "maxPathLen kn + 9"] assms(3)] assms(4) by simp
  ultimately show ?thesis by (simp add: length_ObjectInfoMessage_Encode maxMsgLen_eq)
qed

text \<open>A listing that the fuzzer answers, and what the command line client prints\<close>

lemma Fuzzer_list_ok:
  assumes "0 < maxIterations kn" "0 < maxBatchSize kn" "0 < maxPathLen kn" "maxBatchSize kn * (maxPathLen kn + 9) \<le> 1048000"
    and "\<not> conn_closed ycl" "conn_fails ycl = None" "conn_out ycl = []"
  shows "\<exists>ms g' sent. ms \<noteq> [] \<and>
    Fuzzer_ProcessListExtended kn pfx g ycl = Some (None, g', ycl\<lparr>cl_path := pfx, conn_out := sent\<rparr>) \<and>
    (\<forall>c. concat c = sent \<longrightarrow> (\<exists>c'. list_answers c [] = Some (Inr (map wire_object ms), c')))"
proof -
  let ?y = "SetExternalFilePath pfx ycl"
  obtain n g1 where n: "Intn (maxIterations kn) g = Some (n, g1)" using Intn_ok [OF assms(1)] by blast
  have y: "\<not> conn_closed ?y" "conn_fails ?y = None" "conn_out ?y = []" using assms(5-7) by (simp_all add: client_simps)
  from fuzz_batches_ok [OF y(1,2) assms(2,3), of "n + 1" g1] obtain css g2 where
    css: "fuzz_batches kn (n + 1) g1 ?y = Some (None, g2, ?y\<lparr>conn_out := concat (map ObjectInfoMessage_Encode css)\<rparr>)"
    "length css = n + 1" "\<forall>cs \<in> set css. cs \<noteq> [] \<and> int (length cs) \<le> maxBatchSize kn \<and> list_all (fuzz_object kn) cs"
    unfolding y(3) by auto
  let ?sent = "concat (map ObjectInfoMessage_Encode css) @ ReadyForQueryMessage_Encode ()"
  have "Fuzzer_ProcessListExtended kn pfx g ycl = Some (None, g2, ycl\<lparr>cl_path := pfx, conn_out := ?sent\<rparr>)"
    using n css(1) y by (simp add: Fuzzer_ProcessListExtended_def conn_Write_healthy client_simps)
  moreover have "concat css \<noteq> []" using css(2,3) by (cases css) auto
  moreover have "\<exists>c'. list_answers c [] = Some (Inr (map wire_object (concat css)), c')" if "concat c = ?sent" for c
    using list_answers_chunks [OF that, of "[]"] css(3) fuzz_batch_fits [OF _ _ assms(4,3)]
    by (fastforce simp: list_all_iff fuzz_object_def)
  ultimately show ?thesis by blast
qed

lemma fuzzer_ProcConn_list:
  assumes "0 < maxIterations kn" "0 < maxBatchSize kn" "0 < maxPathLen kn" "maxBatchSize kn * (maxPathLen kn + 9) \<le> 1048000"
    and "nul_free pfx" "length (ListMessage_Encode (NewListMessage pfx)) \<le> unat maxMsgLen"
    and "concat (conn_in ycl) = ListMessage_Encode (NewListMessage pfx)" "\<not> conn_closed ycl" "conn_fails ycl = None"
      "conn_out ycl = []"
  shows "\<exists>ms ycl'. ms \<noteq> [] \<and>
    ProcConn_with (FuzzerProtoMgr kn draws E sch) now s bs cr cnf ycl w = Some (None, ycl', w) \<and>
    (\<forall>con. concat (conn_in con) = conn_out ycl' \<and> \<not> conn_closed con \<and> conn_fails con = None \<longrightarrow>
      (\<exists>con'. listFunc [pfx] con = Some (None, concat (map (print_object \<circ> wire_object) ms), con')))"
proof -
  have "concat (conn_in ycl) = ListMessage_Encode (NewListMessage pfx) @ []" using assms(7) by simp
  from list.read_decoded [OF this _ assms(6)] assms(5) obtain body c where
    r: "ReadPacket (conn_in ycl) = (Inr (MessageTypeList, body), c)"
      "ListMessage_Decode ListMessage_zero body = Some (NewListMessage pfx)" by (auto simp: NewListMessage_def)
  let ?y = "SetOPType now MessageTypeList (ycl\<lparr>conn_in := c\<rparr>)"
  have "\<not> conn_closed ?y" "conn_fails ?y = None" "conn_out ?y = []" using assms(8-10) by (simp_all add: client_simps)
  from Fuzzer_list_ok [OF assms(1-4) this, of pfx "draws sch"] obtain ms g' sent where
    ms: "ms \<noteq> []" "Fuzzer_ProcessListExtended kn pfx (draws sch) ?y = Some (None, g', ?y\<lparr>cl_path := pfx, conn_out := sent\<rparr>)"
      "\<And>c. concat c = sent \<Longrightarrow> \<exists>c'. list_answers c [] = Some (Inr (map wire_object ms), c')" by blast
  let ?y' = "snd (YClient_Close (?y\<lparr>cl_path := pfx, conn_out := sent\<rparr>))"
  have "ProcConn_with (FuzzerProtoMgr kn draws E sch) now s bs cr cnf ycl w = Some (None, ?y', w)"
    using r ms(2) by (simp add: ProcConn_with_def dispatch_def FuzzerProtoMgr_def NewListMessage_def)
  moreover have "conn_out ?y' = sent" by simp
  moreover have "\<exists>con'. listFunc [pfx] con = Some (None, concat (map (print_object \<circ> wire_object) ms), con')"
    if "concat (conn_in con) = sent" "\<not> conn_closed con" "conn_fails con = None" for con
    using ms(3) [OF that(1)] that(2,3)
    by (auto simp: listFunc_def send_request_def go_index_def conn_Write_healthy)
  ultimately show ?thesis using ms(1) by metis
qed

end
