(* ===== verification/EntryPoints.thy ===== *)
theory EntryPoints
  imports Server Fuzzer
begin

text \<open>
  The programs \<open>cmd/yproxy\<close> and \<open>cmd/yfuzzer\<close>: their flags, their root commands and \<open>main\<close>. The
  parser of command lines (cobra) is a parameter, as in \<open>CommandLine\<close>.
\<close>

section \<open>The root commands\<close>

text \<open>
  Load the configuration, make an instance, set up the log, run. The two programs differ in the
  handlers of the instance. \<open>None\<close> stands for a process that ended in opening its log, or that still
  waits for its socket.
\<close>

definition initial_log :: logger where
  "initial_log = fst (the (NewZeroLogger 0 [] []))"

type_synonym ('r, 'd, 'k, 's, 'p) handlers = "('r, 'd, 'k, 's, 'p) externals \<Rightarrow> scheduling \<Rightarrow> ('r, 'd, 'k) ProtoMgr"

definition root_RunE ::
    "('r, 'd, 'k, 's, 'p) handlers \<Rightarrow> ('r, 'd, 'k, 's, 'p) externals \<Rightarrow> startup_env \<Rightarrow> string \<Rightarrow> string \<Rightarrow> string \<Rightarrow>
     config_vars \<Rightarrow> ('r, 'd) world \<Rightarrow> (error + 'k started \<times> ('r, 'd, 'k, 's, 'p) handlers \<times> ('r, 'd, 't) server) option" where
  "root_RunE mgr E env notifySocket cfgPath logLevel g w =
     (case LoadInstanceConfig (ext_decoders E) (config_files (host w)) notifySocket cfgPath g of
        (Some err, g) \<Rightarrow> Some (Inl err)
      | (None, g) \<Rightarrow>
          (let inst = cfgInstance g;
               lvl = (if logLevel = [] then LogLevel inst else logLevel) in
           case (if LogPath inst \<noteq> [] then ReloadLogger (clock w) (LogPath inst) lvl (host w)
                 else Some (initial_log, host w)) of
             None \<Rightarrow> None
           | Some (lg, fs) \<Rightarrow>
               map_option (map_sum id (\<lambda>boot. (boot, mgr, NewServer boot g lg (w\<lparr>host := fs\<rparr>))))
                 (Run_start E env inst (w\<lparr>host := fs\<rparr>))))"

section \<open>yproxy\<close>

record yproxy_flags =
  yp_cfgPath :: string
  yp_logLevel :: string
  yp_TestMode :: bool

definition yproxy_init :: yproxy_flags where
  "yproxy_init = \<lparr>yp_cfgPath = ''/etc/yproxy/yproxy.yaml'', yp_logLevel = [], yp_TestMode = False\<rparr>"

definition yproxy_RunE ::
    "('r, 'd, 'k, 's, 'p) externals \<Rightarrow> startup_env \<Rightarrow> string \<Rightarrow> yproxy_flags \<Rightarrow> config_vars \<Rightarrow> ('r, 'd) world \<Rightarrow>
     (error + 'k started \<times> ('r, 'd, 'k, 's, 'p) handlers \<times> ('r, 'd, 't) server) option" where
  "yproxy_RunE E env notifySocket fl g w =
     root_RunE ProtoMgrImpl (E\<lparr>ext_pgx := (ext_pgx E)\<lparr>TestMode := yp_TestMode fl\<rparr>\<rparr>) env notifySocket (yp_cfgPath fl) (yp_logLevel fl) g w"

section \<open>yfuzzer\<close>

record yfuzzer_flags =
  yf_cfgPath :: string
  yf_logLevel :: string
  yf_knobs :: knobs

definition yfuzzer_init :: yfuzzer_flags where
  "yfuzzer_init = \<lparr>yf_cfgPath = ''/etc/yproxy/yproxy.yaml'', yf_logLevel = [], yf_knobs = default_knobs\<rparr>"

definition yfuzzer_RunE ::
    "(scheduling \<Rightarrow> rng) \<Rightarrow> ('r, 'd, 'k, 's, 'p) externals \<Rightarrow> startup_env \<Rightarrow> string \<Rightarrow> yfuzzer_flags \<Rightarrow> config_vars \<Rightarrow> ('r, 'd) world \<Rightarrow>
     (error + 'k started \<times> ('r, 'd, 'k, 's, 'p) handlers \<times> ('r, 'd, 't) server) option" where
  "yfuzzer_RunE draws E env notifySocket fl g w =
     root_RunE (FuzzerProtoMgr (yf_knobs fl) draws) E env notifySocket (yf_cfgPath fl) (yf_logLevel fl) g w"

section \<open>main\<close>

text \<open>
  What cobra makes of the command line of a root command: an error, the help or version text, or the
  flags with the changes that were asked for. \<open>main\<close> exits with 1 on an error; a server that has
  started goes on (\<open>Running\<close>).
\<close>

datatype ('f) root_parsed = RootError error | RootText | RootRun "'f \<Rightarrow> 'f"

datatype 'b program = Ended nat | Running 'b

definition root_main :: "'f \<Rightarrow> ('f \<Rightarrow> (error + 'b) option) \<Rightarrow> (string list \<Rightarrow> 'f root_parsed) \<Rightarrow> string list \<Rightarrow> 'b program option" where
  "root_main init runE cobra argv =
     (case cobra argv of
        RootError err \<Rightarrow> Some (Ended 1)
      | RootText \<Rightarrow> Some (Ended 0)
      | RootRun change \<Rightarrow> map_option (case_sum (\<lambda>err. Ended 1) Running) (runE (change init)))"

definition yproxy_main where
  "yproxy_main E env notifySocket g w = root_main yproxy_init (\<lambda>fl. yproxy_RunE E env notifySocket fl g w)"

definition yfuzzer_main where
  "yfuzzer_main draws E env notifySocket g w =
     root_main yfuzzer_init (\<lambda>fl. yfuzzer_RunE draws E env notifySocket fl g w)"

text \<open>A started server is in its initial state, with the storages and the log of its configuration.\<close>

lemma root_RunE_started:
  assumes "root_RunE mgr E env notifySocket cfgPath logLevel g w = Some (Inr (boot, mgr', st))"
  shows "\<exists>cfg lg fs. LoadInstanceConfig (ext_decoders E) (config_files (host w)) notifySocket cfgPath g = (None, cfg) \<and>
    mgr' = mgr \<and> Run_start E env (cfgInstance cfg) (w\<lparr>host := fs\<rparr>) = Some (Inr boot) \<and> st = NewServer boot cfg lg (w\<lparr>host := fs\<rparr>)"
proof -
  from assms obtain cfg where l: "LoadInstanceConfig (ext_decoders E) (config_files (host w)) notifySocket cfgPath g = (None, cfg)"
    by (auto simp: root_RunE_def split: prod.splits option.splits)
  with assms obtain lg fs r where
    "Run_start E env (cfgInstance cfg) (w\<lparr>host := fs\<rparr>) = Some r"
    "map_sum id (\<lambda>boot. (boot, mgr, NewServer boot cfg lg (w\<lparr>host := fs\<rparr>))) r = Inr (boot, mgr', st)"
    by (auto simp: root_RunE_def Let_def split: option.splits prod.splits)
  with l show ?thesis by (cases r) auto
qed

lemma yproxy_main_running:
  assumes "yproxy_main E env notifySocket g w cobra argv = Some (Running (boot, mgr, st))"
  shows "mgr = ProtoMgrImpl \<and> (\<exists>cfg lg fs. st = NewServer boot cfg lg (w\<lparr>host := fs\<rparr>))"
proof -
  from assms obtain fl r where "yproxy_RunE E env notifySocket fl g w = Some r" "case_sum (\<lambda>err. Ended 1) Running r = Running (boot, mgr, st)"
    by (auto simp: yproxy_main_def root_main_def simp del: One_nat_def split: root_parsed.splits)
  then have "yproxy_RunE E env notifySocket fl g w = Some (Inr (boot, mgr, st))" by (cases r) simp_all
  from root_RunE_started [OF this [unfolded yproxy_RunE_def]] show ?thesis by blast
qed

end
