(* ===== verification/ConsoleSessions.thy ===== *)
theory ConsoleSessions
  imports Console
begin

text \<open>
  What a console session does: each query is answered by one group of messages that ends with
  \<open>ReadyForQuery\<close>, and which queries end the process.
\<close>

section \<open>Sending\<close>

lemma Sends_eq: "Sends ms c = c\<lparr>cc_buf := cc_buf c @ ms\<rparr>"
  by (induction ms arbitrary: c) (simp_all add: Send_def)

declare Sends.simps [simp del]

lemma Flush_healthy: "cc_fails c = None \<Longrightarrow> Flush c = (None, c\<lparr>cc_out := cc_out c @ cc_buf c, cc_buf := []\<rparr>)"
  by (simp add: Flush_def cc_Write_def)

lemma reportQuants_eq:
  "reportQuants env qs ct c =
     c\<lparr>cc_buf := cc_buf c @ map (\<lambda>info. DataRow (qi_Op info # quantToString ct # map (ce_float env) (qi_Q info))) qs\<rparr>"
  by (induction qs arbitrary: c) (simp_all add: Send_def)

text \<open>The callback that collects the clients\<close>

lemma foreach_collect:
  "\<exists>c'. foreach_loop (\<lambda>i cl infos. (None, cl, infos @ [(i, cl)])) cls None c infos = (None, c', infos @ cls)"
proof (induction cls arbitrary: c infos)
  case (Cons a cls)
  from Cons.IH [of _ "infos @ [a]"] show ?case by (cases a) simp
qed simp

section \<open>Answers\<close>

definition is_ready :: "backend_msg \<Rightarrow> bool" where
  "is_ready m \<longleftrightarrow> (case m of ReadyForQuery _ \<Rightarrow> True | _ \<Rightarrow> False)"

text \<open>An answer: messages of which the last one and no other is \<open>ReadyForQuery\<close>\<close>

definition answer :: "backend_msg list \<Rightarrow> bool" where
  "answer ms \<longleftrightarrow> ms \<noteq> [] \<and> is_ready (last ms) \<and> \<not> list_ex is_ready (butlast ms)"

text \<open>A connection that takes every write, with nothing left in its buffer\<close>

definition idle_conn :: "console_conn \<Rightarrow> bool" where
  "idle_conn c \<longleftrightarrow> cc_fails c = None \<and> cc_buf c = []"

definition answered :: "console_conn \<Rightarrow> backend_msg list \<Rightarrow> console_conn" where
  "answered c ms = c\<lparr>cc_out := cc_out c @ ms\<rparr>"

lemma idle_answered [simp]: "idle_conn (answered c ms) = idle_conn c"
  by (simp add: idle_conn_def answered_def)

definition answers :: "console_conn \<Rightarrow> console_conn \<Rightarrow> bool" where
  "answers c c' \<longleftrightarrow> (\<exists>ms. c' = answered c ms \<and> answer ms)"

lemma answersI [intro]: "answer ms \<Longrightarrow> answers c (answered c ms)"
  unfolding answers_def by blast

lemma flush_sends: "idle_conn c \<Longrightarrow> Flush (Sends ms c) = (None, answered c ms)"
  by (simp add: Sends_eq Flush_healthy idle_conn_def answered_def)

lemma ShowClients_answer:
  assumes "idle_conn c"
  shows "ShowClients env p c = (None, answered c
    (RowDescription [(''opType'', textoid), (''client_id'', textoid), (''byte offset'', textoid),
       (''opstart'', textoid), (''xpath'', textoid)] #
     map (client_row env) (ce_order env (pool_clients p)) @ [CommandComplete ''CLIENTS'', ReadyForQuery TxIdle]))"
  using foreach_collect [of "ce_order env (pool_clients p)" p "[]"]
  by (auto simp: ShowClients_def ClientPoolForeach_def flush_sends [OF assms])

definition stats_rows :: "('f, 't) tdigest \<Rightarrow> ('f, 't) console_env \<Rightarrow> 't PoolImpl \<Rightarrow> int \<Rightarrow> backend_msg list" where
  "stats_rows td env p ct =
     map (\<lambda>info. DataRow (qi_Op info # quantToString ct # map (ce_float env) (qi_Q info)))
       (pool_Quantile td ct (quants td) p)"

lemma ShowStats_answer:
  assumes "idle_conn c"
  shows "ShowStats td env p c = (None, answered c
    (RowDescription ([(''opType'', textoid), (''size category'', textoid)] @
       map (\<lambda>q. (''quantiles_'' @ ce_float env q, textoid)) (quants td)) #
     stats_rows td env p 0 @ stats_rows td env p 1 @ stats_rows td env p 2 @
     [CommandComplete ''STATS'', ReadyForQuery TxIdle]))"
  using assms
  by (simp add: ShowStats_def Let_def reportQuants_eq Sends_eq Send_def Flush_healthy idle_conn_def answered_def stats_rows_def)

lemmas answer_simps = answer_def is_ready_def butlast_append list_ex_append

lemma rows_not_ready:
  "\<not> list_ex is_ready (map (client_row env) cls)" "\<not> list_ex is_ready (stats_rows td env p ct)"
  "\<not> list_ex is_ready (map (object_row sk) objs)"
  by (simp_all add: list_ex_iff client_row_def stats_rows_def object_row_def is_ready_def)

lemma answer_rows:
  "\<not> list_ex is_ready ms \<Longrightarrow> answer (RowDescription fs # ms @ [CommandComplete t, ReadyForQuery st])"
  by (simp add: answer_simps)

lemma ProcessShow_answers:
  assumes "idle_conn c"
  shows "answers c (snd (ProcessShow td env t p inst c))"
proof -
  consider "t = ''clients''" | "t = ''stats''" | "t = ''stat_system''" | "t \<notin> {''clients'', ''stats'', ''stat_system''}" by auto
  then show ?thesis
  proof cases
    case 1
    then show ?thesis
      by (simp add: ProcessShow_def ShowClients_answer [OF assms] answersI [OF answer_rows [OF rows_not_ready(1)]])
  next
    case 2
    have "\<not> list_ex is_ready (stats_rows td env p 0 @ stats_rows td env p 1 @ stats_rows td env p 2)"
      by (simp add: rows_not_ready)
    from answersI [OF answer_rows [OF this]] 2 show ?thesis by (simp add: ProcessShow_def ShowStats_answer [OF assms])
  qed (auto simp: ProcessShow_def ShowSystem_def flush_sends [OF assms] answer_simps intro!: answersI)
qed

section \<open>A query\<close>

text \<open>What COPY lists, as the session sends it: nothing if the listing failed.\<close>

lemma ProcessCopy_buffered:
  assumes "ProcessCopy E pfx port cfgp s c w = Some (e, c', w')"
  shows "\<exists>fs rows. c' = c\<lparr>cc_buf := cc_buf c @ RowDescription fs # rows\<rparr> \<and> \<not> list_ex is_ready rows"
proof -
  let ?fs = "[(''path'', textoid), (''size'', textoid), (''skipped'', booloid)]"
  from assms have "(\<exists>objs skipped. c' = c\<lparr>cc_buf := cc_buf c @ RowDescription ?fs #
      map (object_row ''f'') objs @ map (object_row ''t'') skipped\<rparr>) \<or> c' = c\<lparr>cc_buf := cc_buf c @ [RowDescription ?fs]\<rparr>"
    by (auto simp: ProcessCopy_def Let_def Sends_eq Send_def split: prod.splits option.splits sum.splits)
  then show ?thesis
  proof (elim disjE exE)
    fix objs skipped
    assume "c' = c\<lparr>cc_buf := cc_buf c @ RowDescription ?fs # map (object_row ''f'') objs @ map (object_row ''t'') skipped\<rparr>"
    then show ?thesis
      by (intro exI [of _ ?fs] exI [of _ "map (object_row ''f'') objs @ map (object_row ''t'') skipped"])
        (simp add: rows_not_ready)
  next
    assume "c' = c\<lparr>cc_buf := cc_buf c @ [RowDescription ?fs]\<rparr>"
    then show ?thesis by (intro exI [of _ ?fs] exI [of _ "[]"]) simp
  qed
qed

definition ends_process :: "string \<Rightarrow> bool" where
  "ends_process sql \<longleftrightarrow>
     (case Parse sql of
        Some (Inr (Some KKBCommand)) \<Rightarrow> True
      | Some (Inr (Some (CopyCommand path opts))) \<Rightarrow> copy_options opts 6000 ''/etc/yproxy/yproxy.yaml'' = None
      | _ \<Rightarrow> False)"

lemma console_query_ends:
  "console_query E td env s p sql c w = Some (Some e, c', w') \<Longrightarrow> ends_process sql \<and> (e = Exited 2 \<or> e = Panicked)"
  by (auto simp: console_query_def ends_process_def split: option.splits sum.splits Node.splits)

lemma console_query_goes_on:
  "console_query E td env s p sql c w = Some (None, c', w') \<Longrightarrow> \<not> ends_process sql"
  by (auto simp: console_query_def ends_process_def split: option.splits sum.splits Node.splits)

lemma console_query_answers:
  assumes "console_query E td env s p sql c w = Some (None, c', w')" "idle_conn c"
  shows "answers c c'"
proof -
  from Parse_spec [of sql] obtain r where r: "Parse sql = Some r" by blast
  show ?thesis
  proof (cases "\<exists>path opts. r = Inr (Some (CopyCommand path opts))")
    case True
    then obtain path opts where "r = Inr (Some (CopyCommand path opts))" by blast
    with assms(1) r obtain port cfgp e d where
      d: "ProcessCopy E path (of_int port) cfgp s c w = Some (e, d, w')"
        "c' = snd (Flush (Sends [CommandComplete ''COPY'', ReadyForQuery TxIdle] d))"
      by (auto simp: console_query_def split: option.splits)
    from ProcessCopy_buffered [OF d(1)] obtain fs rows where
      "d = c\<lparr>cc_buf := cc_buf c @ RowDescription fs # rows\<rparr>" and rows: "\<not> list_ex is_ready rows" by blast
    with d(2) assms(2) have "c' = answered c (RowDescription fs # rows @ [CommandComplete ''COPY'', ReadyForQuery TxIdle])"
      by (simp add: Sends_eq Flush_healthy idle_conn_def answered_def)
    with answer_rows [OF rows] show ?thesis by blast
  next
    case False
    note q = assms(1) [unfolded console_query_def r option.case]
    show ?thesis
    proof (cases r)
      case (Inl e)
      with q show ?thesis by (auto simp: flush_sends [OF assms(2)] answer_simps intro!: answersI)
    next
      case (Inr nd)
      with q False show ?thesis
      proof (cases nd)
        case (Some n)
        with q Inr False show ?thesis
          by (cases n) (auto simp: flush_sends [OF assms(2)] answer_simps ProcessShow_answers [OF assms(2)] intro!: answersI)
      qed (auto simp: flush_sends [OF assms(2)] answer_simps intro!: answersI)
    qed
  qed
qed

section \<open>A session\<close>

text \<open>The queries of a session: those that arrive before the connection fails\<close>

fun queries :: "(error + frontend_msg) list \<Rightarrow> string list" where
  "queries [] = []"
| "queries (Inl err # ms) = []"
| "queries (Inr OtherFrontend # ms) = queries ms"
| "queries (Inr (Query sql) # ms) = sql # queries ms"

definition monitoring :: "string \<Rightarrow> bool" where
  "monitoring sql \<longleftrightarrow>
     (case Parse sql of
        Some (Inr (Some KKBCommand)) \<Rightarrow> False
      | Some (Inr (Some (CopyCommand path opts))) \<Rightarrow> False
      | _ \<Rightarrow> True)"

lemma console_query_monitoring:
  assumes "monitoring sql"
  shows "\<exists>c'. console_query E td env s p sql c w = Some (None, c', w)"
proof -
  from Parse_spec [of sql] obtain r where r: "Parse sql = Some r" by blast
  with assms show ?thesis
    by (auto simp: console_query_def monitoring_def split: sum.splits option.splits Node.splits)
qed

lemma console_loop_answers:
  assumes "console_loop E td env s n ms c w = Some (Returned, c', w')" "idle_conn c"
  shows "\<exists>groups. cc_out c' = cc_out c @ concat groups \<and> length groups = length (queries ms) \<and> list_all answer groups"
  using assms
proof (induction E td env s n ms c w rule: console_loop.induct)
  case (4 E td env s n sql ms c w)
  from "4.prems" console_query_ends obtain d v where
    q: "console_query E td env s (ce_pool env n) sql c w = Some (None, d, v)"
      "console_loop E td env s (n + 1) ms d v = Some (Returned, c', w')"
    by (auto split: option.splits) fastforce
  from console_query_answers [OF q(1) "4.prems"(2)] obtain us where us: "d = answered c us" "answer us"
    by (auto simp: answers_def)
  with "4.IH" [OF q(1) refl refl refl q(2)] "4.prems"(2) obtain groups where
    "cc_out c' = cc_out d @ concat groups" "length groups = length (queries ms)" "list_all answer groups" by auto
  with us show ?case by (intro exI [of _ "us # groups"]) (simp add: answered_def)
qed (auto intro: exI [of _ "[]"])

lemma console_loop_monitoring:
  "\<forall>sql \<in> set (queries ms). monitoring sql \<Longrightarrow> \<exists>c'. console_loop E td env s n ms c w = Some (Returned, c', w)"
proof (induction E td env s n ms c w rule: console_loop.induct)
  case (4 E td env s n sql ms c w)
  from console_query_monitoring obtain d where
    "console_query E td env s (ce_pool env n) sql c w = Some (None, d, w)" using "4.prems" by force
  with 4 show ?case by simp
qed auto

lemma console_loop_ends:
  "console_loop E td env s n ms c w = Some (e, c', w') \<Longrightarrow> e \<noteq> Returned \<longleftrightarrow> (\<exists>sql \<in> set (queries ms). ends_process sql)"
proof (induction E td env s n ms c w rule: console_loop.induct)
  case (4 E td env s n sql ms c w)
  from "4.prems" obtain r d v where q: "console_query E td env s (ce_pool env n) sql c w = Some (r, d, v)"
    by (auto split: option.splits)
  show ?case
  proof (cases r)
    case None
    with 4 q console_query_goes_on [of E td env s "ce_pool env n" sql c w d v] show ?thesis by simp
  next
    case (Some x)
    with "4.prems" q console_query_ends [of E td env s "ce_pool env n" sql c w x d v] show ?thesis by auto
  qed
qed auto

lemma console_startup_ssl:
  assumes "cc_startup cl = replicate k (Inr SSLRequest) @ Inr (StartupMessage v) # rest" "cc_fails cl = None"
  shows "\<exists>c. console_startup (cc_startup cl) cl = (True, c) \<and> cc_out c = cc_out cl @ replicate k NegotiateNoSSL \<and>
    cc_in c = cc_in cl \<and> cc_buf c = cc_buf cl \<and> cc_fails c = None"
proof -
  have "\<exists>c'. console_startup (replicate k (Inr SSLRequest) @ Inr (StartupMessage v) # rest) c = (True, c') \<and>
      cc_out c' = cc_out c @ replicate k NegotiateNoSSL \<and> cc_in c' = cc_in c \<and> cc_buf c' = cc_buf c \<and> cc_fails c' = None"
    if "cc_fails c = None" for c
    using that
  proof (induction k arbitrary: c)
    case (Suc k)
    from Suc.IH [of "snd (cc_Write [NegotiateNoSSL] c)"] Suc.prems show ?case by (simp add: cc_Write_def)
  qed simp
  from this [of cl] assms show ?thesis by simp
qed

lemma console_auth_ok:
  assumes "cc_in c = Inr m # ms" "idle_conn c"
  shows "\<exists>c'. console_auth c = (True, c') \<and> cc_in c' = ms \<and> idle_conn c' \<and>
    cc_out c' = cc_out c @ [AuthenticationCleartextPassword, AuthenticationOk, ReadyForQuery TxIdle]"
  using assms by (simp add: console_auth_def Let_def Receive_def Flush_healthy Send_def idle_conn_def)

text \<open>A session up to its main cycle\<close>

lemma PostgresIface_main:
  assumes "cc_startup cl = replicate k (Inr SSLRequest) @ Inr (StartupMessage v) # rest"
    "cc_in cl = Inr m # ms" "idle_conn cl"
  shows "\<exists>c. PostgresIface E td env s cl w =
      map_option (\<lambda>(e, c, w). (e, (case e of Exited _ \<Rightarrow> c | _ \<Rightarrow> cc_Close c), w)) (console_loop E td env s 0 ms c w) \<and>
    idle_conn c \<and> cc_out c = cc_out cl @ replicate k NegotiateNoSSL @
      [AuthenticationCleartextPassword, AuthenticationOk, ReadyForQuery TxIdle]"
proof -
  from console_startup_ssl [OF assms(1)] assms(3) obtain c0 where
    c0: "console_startup (cc_startup cl) cl = (True, c0)" "cc_out c0 = cc_out cl @ replicate k NegotiateNoSSL"
      "cc_in c0 = Inr m # ms" "idle_conn c0" using assms(2) by (auto simp: idle_conn_def)
  from console_auth_ok [OF c0(3,4)] obtain c where
    "console_auth c0 = (True, c)" "cc_in c = ms" "idle_conn c"
    "cc_out c = cc_out c0 @ [AuthenticationCleartextPassword, AuthenticationOk, ReadyForQuery TxIdle]" by blast
  with c0 show ?thesis by (intro exI [of _ c]) (simp add: PostgresIface_def)
qed

section \<open>Options of the wrong type\<close>

definition mistyped :: "Node option \<Rightarrow> bool" where
  "mistyped opt \<longleftrightarrow> (\<exists>name arg. opt = Some (OptionNode name arg) \<and>
     (ToLower name = ''config'' \<and> (\<nexists>v. arg = Some (AExprSConst v)) \<or>
      ToLower name = ''port'' \<and> (\<nexists>v. arg = Some (AExprIConst v))))"

lemma copy_options_panic:
  "list_all option_shape opts \<Longrightarrow> copy_options opts port cfgp = None \<longleftrightarrow> list_ex mistyped opts"
proof (induction opts arbitrary: port cfgp)
  case (Cons opt opts)
  then obtain name arg where opt: "opt = Some (OptionNode name arg)" by (cases opt rule: option_shape.cases) auto
  with Cons show ?case
    by (auto simp: mistyped_def split: option.splits Node.splits)
qed simp

lemma option_ok_shape: "option_ok opt \<Longrightarrow> option_shape opt"
  by (cases opt rule: option_ok.cases; simp) (metis arg_shape.simps(2,3) const_ok.elims(2))

lemma console_query_printed_copy:
  assumes "printable (CopyCommand path opts)"
  shows "console_query E td env s p (print_command (CopyCommand path opts)) c w = Some (Some Panicked, c, w) \<longleftrightarrow>
    list_ex mistyped opts"
proof -
  have "list_all option_shape opts" using assms option_ok_shape by (auto simp: list_all_iff)
  from copy_options_panic [OF this] Parse_print_command [OF assms] show ?thesis
    by (auto simp: console_query_def split: option.splits)
qed

end
