(* ===== verification/ConsoleProperties.thy ===== *)
theory ConsoleProperties
  imports ConsoleSessions Samples
begin

text \<open>
  The properties of the console's parser and sessions, each with a witness where it has hypotheses.
\<close>

section \<open>The parser\<close>

text \<open>
  C15. The parser is its grammar: on every query \<open>Parse\<close> returns (the automaton and the tables never
  index out of range, and no query makes the driver loop), it accepts exactly the queries whose
  tokens form a command of the reference grammar \<open>tree_of\<close>, with that command as its tree, and it
  refuses every other query with a syntax error.
\<close>

theorem parser_grammar:
  "\<exists>r. Parse sql = Some r \<and>
    (\<forall>nd. r = Inr nd \<longleftrightarrow> (\<exists>ts. lexes zero_sym (NewLexer (bytes_of sql)) ts \<and> tree_of ts = Some nd)) \<and>
    (\<forall>e. r = Inl e \<longrightarrow> (\<exists>pos. e = Errorf (''syntax error on pos '' @ dec_of_nat pos)))"
  by (rule Parse_spec)

theorem parser_grammar_witness:
  "(\<exists>pos. Parse ''show'' = Some (Inl (Errorf (''syntax error on pos '' @ dec_of_nat pos)))) \<and>
   (\<exists>ts. lexes zero_sym (NewLexer (bytes_of ''SAY hello'')) ts \<and> tree_of ts = Some (Some SayHelloCommand))"
proof -
  have "Parse ''show'' = Some (Inl (Errorf ''syntax error on pos 0''))" by code_simp
  moreover have "Parse ''SAY hello'' = Some (Inr (Some SayHelloCommand))" by code_simp
  ultimately show ?thesis using parser_grammar [of "''show''"] parser_grammar [of "''SAY hello''"] by auto
qed

text \<open>
  C16. A command that is written out parses to itself: the words one blank apart, strings in quotes,
  integers in decimal, for every command with identifiers that are no keywords, strings without
  quotes, integers of 64 bits, and options that have an argument.
\<close>

theorem parse_print:
  assumes "printable nd"
  shows "Parse (print_command nd) = Some (Inr (Some nd))"
  using assms by (rule Parse_print_command)

definition sample_copy :: Node where
  "sample_copy = CopyCommand ''segments/'' [Some (OptionNode ''port'' (Some (AExprIConst (- 7)))),
     Some (OptionNode ''config'' (Some (AExprSConst ''/etc/old.yaml'')))]"

lemma sample_copy_printable: "printable sample_copy"
  by (simp add: sample_copy_def quotable_def ident_def bytes_of_def byte_of_char_def ident_letter_def ident_cont_def
      lower_def kw_table_def)

theorem parse_print_witness: "Parse (print_command sample_copy) = Some (Inr (Some sample_copy))"
  using parse_print [OF sample_copy_printable] .

text \<open>
  C17. The type of parsed queries: a query parses to nothing or to a command; the options of COPY are
  a list of at least one option node, whose argument, if any, is a string or an integer constant.
  In particular no boolean constant is ever parsed.
\<close>

theorem parsed_type:
  assumes "Parse sql = Some (Inr nd)"
  shows "query_shape nd"
  using assms by (rule Parse_shape)

theorem parsed_type_witness: "query_shape (Some sample_copy)"
  using parsed_type [OF Parse_print_command [OF sample_copy_printable]] .

section \<open>Sessions\<close>

text \<open>
  C18. A monitoring session lives until its client goes: after any number of refused SSL requests and
  the password exchange, every query that is not a COPY and does not stop the system is answered,
  in order, by exactly one group of messages that ends with \<open>ReadyForQuery\<close>; unsupported messages
  in between are skipped; when no more messages can be received the session returns and closes the
  connection, with the world as it was.
\<close>

theorem console_monitoring:
  assumes "idle_conn cl" "cc_startup cl = replicate k (Inr SSLRequest) @ Inr (StartupMessage v) # rest"
    "cc_in cl = Inr password # ms" "\<forall>sql \<in> set (queries ms). monitoring sql"
  shows "\<exists>c groups. PostgresIface E td env s cl w = Some (Returned, c, w) \<and> cc_closed c \<and>
    cc_out c = cc_out cl @ replicate k NegotiateNoSSL @
      [AuthenticationCleartextPassword, AuthenticationOk, ReadyForQuery TxIdle] @ concat groups \<and>
    length groups = length (queries ms) \<and> list_all answer groups"
proof -
  from PostgresIface_main [OF assms(2,3,1), of E td env s w] obtain c where
    c: "PostgresIface E td env s cl w =
      map_option (\<lambda>(e, c, w). (e, (case e of Exited _ \<Rightarrow> c | _ \<Rightarrow> cc_Close c), w)) (console_loop E td env s 0 ms c w)"
    "idle_conn c" "cc_out c = cc_out cl @ replicate k NegotiateNoSSL @
      [AuthenticationCleartextPassword, AuthenticationOk, ReadyForQuery TxIdle]" by blast
  from console_loop_monitoring [OF assms(4)] obtain c' where
    c': "console_loop E td env s 0 ms c w = Some (Returned, c', w)" by blast
  from console_loop_answers [OF c' c(2)] obtain groups where
    "cc_out c' = cc_out c @ concat groups" "length groups = length (queries ms)" "list_all answer groups" by blast
  with c c' show ?thesis
    by (intro exI [of _ "cc_Close c'"] exI [of _ groups]) (simp add: cc_Close_def)
qed

definition sample_console :: "(error + frontend_msg) list \<Rightarrow> console_conn" where
  "sample_console ms = \<lparr>cc_startup = [Inr SSLRequest, Inr (StartupMessage 196608)], cc_in = Inr OtherFrontend # ms,
     cc_buf = [], cc_out = [], cc_fails = None, cc_closed = False\<rparr>"

definition sample_td :: "(int, int list) tdigest" where
  "sample_td = \<lparr>float_div = (\<lambda>a b. a div b), td_New = [], td_Add = (#), td_Quantile = (\<lambda>d q. q)\<rparr>"

definition sample_env :: "(int, int list) console_env" where
  "sample_env = \<lparr>ce_start = 0, ce_pool = (\<lambda>n. NewClientPool), ce_order = (\<lambda>cls. cls), ce_time = dec_of_int,
     ce_float = dec_of_int\<rparr>"

lemma sample_console_startup:
  "cc_startup (sample_console ms) = replicate 1 (Inr SSLRequest) @ Inr (StartupMessage 196608) # []"
  "cc_in (sample_console ms) = Inr OtherFrontend # ms" "idle_conn (sample_console ms)"
  by (simp_all add: sample_console_def idle_conn_def)

lemma sample_show_monitoring: "monitoring (print_command (ShowCommand ''clients''))"
proof -
  have "printable (ShowCommand ''clients'')"
    by (simp add: ident_def bytes_of_def byte_of_char_def ident_letter_def ident_cont_def lower_def kw_table_def)
  from Parse_print_command [OF this] show ?thesis by (simp add: monitoring_def)
qed

theorem console_monitoring_witness:
  "\<exists>c groups. PostgresIface sample_ext sample_td sample_env sample_storage
      (sample_console [Inr (Query (print_command (ShowCommand ''clients''))), Inr OtherFrontend]) sample_world =
      Some (Returned, c, sample_world) \<and> cc_closed c \<and>
    cc_out c = [] @ replicate 1 NegotiateNoSSL @
      [AuthenticationCleartextPassword, AuthenticationOk, ReadyForQuery TxIdle] @ concat groups \<and>
    length groups = 1 \<and> list_all answer groups"
  using console_monitoring [OF sample_console_startup(3) sample_console_startup(1,2),
      of "[Inr (Query (print_command (ShowCommand ''clients''))), Inr OtherFrontend]" sample_ext sample_td sample_env sample_storage sample_world]
    sample_show_monitoring
  by (simp add: sample_console_def)



text \<open>
  COPY reads its options without looking at their types: a well-formed COPY query panics, and
  with it the whole server, exactly if \<open>config\<close> has an argument that is no string or \<open>port\<close> one that is
  no integer, in any case of the letters.
\<close>

lemma copy_option_panics:
  assumes "printable (CopyCommand path opts)"
  shows "console_query E td env s p (print_command (CopyCommand path opts)) c w = Some (Some Panicked, c, w) \<longleftrightarrow>
    list_ex mistyped opts"
  using assms by (rule console_query_printed_copy)

end
