(* ===== verification/ServerProperties.thy ===== *)
theory ServerProperties
  imports Shutdown EntryPoints ConsoleProperties
begin

text \<open>
  The properties of the running server, its shutdown, its debug server and the fuzzer of listings.
\<close>

section \<open>Serving\<close>

text \<open>
  C21. The pool is the connections being served: in every execution of the started server, under any
  interleaving of connections, signals, console and statistics sessions, the clients in the pool
  are those of the connections whose goroutine has begun and not ended, each under its own address
  and in its current state; the number of active connections is the number of those and of the
  interconnections being served; a connection that was served is closed.
\<close>

theorem server_pool:
  assumes "run_events S evs (NewServer boot g lg w) = Some st"
  shows "dom (map_of (pool_clients (srv_pool st))) = set (live_ids (srv_conns st)) \<and>
    distinct (live_ids (srv_conns st)) \<and> list_all (in_pool (srv_pool st)) (srv_conns st) \<and>
    srv_active st = int (length (filter begun (srv_conns st))) + int (length (filter ic_begun (srv_ics st)))"
  using srv.run_inv [OF server_inv_new assms] by (simp add: server_inv_def clients_inv_def)

definition sample_boot :: "unit started" where
  "sample_boot = \<lparr>st_storage = sample_cnf, st_backup = sample_backup_cnf, st_crypter = None,
     st_notifier = \<lparr>nt_sock = None, nt_debug = False\<rparr>, st_debug = None, st_metrics = None\<rparr>"

definition sample_svc :: "(mem, unit, unit, unit, unit, int, int list) service" where
  "sample_svc = \<lparr>svc_E = sample_ext, svc_td = sample_td, svc_boot = sample_boot, svc_mgr = ProtoMgrImpl, svc_sch = (\<lambda>_. sample_sch),
     svc_env = sample_env, svc_notify = []\<rparr>"

definition sample_vars :: config_vars where
  "sample_vars = \<lparr>cfgInstance = Instance_zero\<lparr>StorageCnf := sample_cnf, BackupStorageCnf := sample_backup_cnf\<rparr>,
     bootstrapCfgPath = ''/etc/yproxy/yproxy.yaml''\<rparr>"

definition sample_server :: "(mem, unit, int list) server" where
  "sample_server = NewServer sample_boot sample_vars initial_log sample_world"

text \<open>A connection that sends nothing is answered with an error and closed.\<close>

definition sample_silent :: YClient where
  "sample_silent = NewYClient [] None"

lemma sample_served: "\<exists>e ycl. serve_request S i sample_silent w = Some (Some e, ycl, w) \<and> conn_closed ycl"
proof -
  obtain e c where "ReadPacket [] = (Inl e, c)"
    using ReadPacket_spec [of "[]"] by (cases "ReadPacket []") (auto simp: packet_of_def)
  then show ?thesis by (simp add: serve_request_def ProcConn_unfold sample_silent_def)
qed

lemmas run_defs = sample_server_def NewServer_def server_step_def set_conn_def pool_Put_def NewClientPool_def
  live_ids_def List.map_filter_def

definition sample_events :: "event list" where
  "sample_events = [Accept sample_silent, Accept sample_silent, Begin 1 (ClientPtr 7), Process 1]"

lemma sample_run:
  "\<exists>ycl st. run_events sample_svc sample_events sample_server = Some st \<and>
     srv_conns st = [Spawned sample_silent, Served 7 ycl] \<and> srv_ics st = [] \<and> \<not> srv_stopped st \<and> \<not> srv_returned st \<and>
     \<not> srv_dead st \<and> srv_signals st"
proof -
  from sample_served obtain e ycl where
    "serve_request sample_svc 7 sample_silent (sample_world\<lparr>the_instance := cfgInstance sample_vars\<rparr>) =
      Some (Some e, ycl, sample_world\<lparr>the_instance := cfgInstance sample_vars\<rparr>)" by blast
  then show ?thesis by (simp add: run_defs sample_events_def)
qed

theorem server_pool_witness:
  "\<exists>st. run_events sample_svc sample_events sample_server = Some st \<and>
     dom (map_of (pool_clients (srv_pool st))) = {7} \<and> srv_active st = 1"
proof -
  from sample_run obtain ycl st where
    st: "run_events sample_svc sample_events sample_server = Some st"
    "srv_conns st = [Spawned sample_silent, Served 7 ycl]" "srv_ics st = []" by blast
  with server_pool [OF st(1) [unfolded sample_server_def]] show ?thesis
    by (simp add: live_ids_def List.map_filter_def begun_def)
qed



section \<open>Shutting down\<close>

text \<open>
  C22. A server that is told to stop stops: after a signal that ends the server, no execution takes
  more than \<open>work_left\<close> further steps of the server's own (accepting, serving, returning), however
  they interleave and whatever console and statistics sessions do; and as long as \<open>Run\<close> has not
  returned and the process lives, one of these steps is possible, unless a client's request does
  not return. When \<open>Run\<close> returns, the pool is empty and each connection whose goroutine had begun
  was served to its end and closed.
\<close>

theorem server_stops:
  assumes "run_events S evs (NewServer boot g lg w) = Some st" "srv_stopped st" "run_events S evs' st = Some st'"
  shows "length (filter own_event evs') \<le> work_left st \<and>
    (\<not> srv_returned st' \<and> \<not> srv_dead st' \<longrightarrow>
       (\<exists>ev st''. own_event ev \<and> server_step S ev st' = Some st'') \<or>
       (\<exists>i ycl. Serving i ycl \<in> set (srv_conns st') \<and> serve_request S i ycl (srv_world st') = None)) \<and>
    (srv_returned st' \<longrightarrow> pool_clients (srv_pool st') = [] \<and>
       (\<forall>ph \<in> set (srv_conns st'). (\<exists>ycl. ph = Spawned ycl) \<or> (\<exists>ycl. ph = Gone ycl \<and> conn_closed ycl)))"
proof -
  have inv: "server_inv st" using srv.run_inv [OF server_inv_new assms(1)] .
  then have inv': "server_inv st'" using assms(3) by (rule srv.run_inv)
  from srv.run_work [OF inv assms(2,3)] have w: "srv_stopped st'" "length (filter own_event evs') \<le> work_left st" by auto
  show ?thesis
    using w server_progress [OF inv' w(1), of S] server_returned [OF inv'] by blast
qed

theorem server_stops_witness:
  "\<exists>st st'. run_events sample_svc (sample_events @ [Signalled 0 SIGTERM]) sample_server = Some st \<and> srv_stopped st \<and> work_left st = 5 \<and>
     run_events sample_svc [Finish 1 0, Return] st = Some st' \<and> srv_returned st' \<and> pool_clients (srv_pool st') = []"
proof -
  from sample_run obtain ycl st0 where
    st0: "run_events sample_svc sample_events sample_server = Some st0" "srv_conns st0 = [Spawned sample_silent, Served 7 ycl]"
    "srv_ics st0 = []" "\<not> srv_stopped st0" "\<not> srv_returned st0" "\<not> srv_dead st0" "srv_signals st0" by blast
  define st where "st = handle_signal sample_svc 0 SIGTERM st0"
  have st: "run_events sample_svc (sample_events @ [Signalled 0 SIGTERM]) sample_server = Some st"
    using st0 by (simp add: run_list_append server_step_def st_def)
  have props: "srv_stopped st" "srv_conns st = [Spawned sample_silent, Served 7 ycl]" "srv_ics st = []" "\<not> srv_returned st"
    "\<not> srv_dead st" using st0 by (simp_all add: st_def handle_signal_def)
  have inv: "server_inv st" using srv.run_inv [OF server_inv_new st [unfolded sample_server_def]] .
  then have "clients_inv (srv_pool st) (srv_conns st)" by (simp add: server_inv_def)
  from clients_inv_finish [OF this, of 1 7 ycl "svc_td sample_svc" 0] props inv obtain st' where
    st': "run_events sample_svc [Finish 1 0, Return] st = Some st'" "srv_returned st'"
    by (auto simp: server_step_def set_conn_def server_inv_def begun_def)
  with server_stops [OF st [unfolded sample_server_def] props(1) st'(1)] st props show ?thesis
    by (auto simp: work_left_def)
qed


section \<open>Reloading\<close>

text \<open>
  C39. A reload that fails disarms the running server: when the configuration file cannot be read,
  \<open>SIGUSR1\<close> leaves the server running, and its connections, which read the configuration through
  pointers, find the zero configuration from then on: garbage collection without the check of
  backups, without a protection window, and storages without prefix and bucket.
\<close>

theorem failed_reload:
  assumes "\<not> srv_returned st" "\<not> srv_dead st" "srv_signals st"
    "config_files (host (srv_world st)) (bootstrapCfgPath (srv_cfg st)) = None"
  shows "\<exists>st'. server_step S (Signalled now SIGUSR1) st = Some st' \<and> srv_listener st' = srv_listener st \<and>
    the_instance (srv_world st') = Instance_zero \<and>
    (\<forall>i ycl. serve_request S i ycl (srv_world st') =
       ProcConn_with (svc_mgr S (svc_E S) (svc_sch S i)) (sch_opstart (svc_sch S i))
         (live_storage (ext_s3 (svc_E S)) (st_storage (svc_boot S)) Storage_zero)
         (live_storage (ext_s3 (svc_E S)) (st_backup (svc_boot S)) Storage_zero)
         (live_crypter (st_crypter (svc_boot S)) (CryptoCnf Instance_zero)) Vacuum_zero ycl (srv_world st'))"
  using assms
  by (simp add: server_step_def handle_signal_def Let_def ReloadInstanceConfig_def LoadInstanceConfig_def
      ReadInstanceConfig_def serve_request_def svc_storage_def svc_backup_def Instance_zero_def split: prod.splits)

theorem failed_reload_witness:
  "\<exists>st'. server_step sample_svc (Signalled 0 SIGUSR1) sample_server = Some st' \<and> srv_listener st' \<and>
     VacuumCnf (the_instance (srv_world st')) = Vacuum_zero \<and> StoragePrefix (StorageCnf (the_instance (srv_world sample_server))) = ''/data/'' \<and>
     StoragePrefix (StorageCnf (the_instance (srv_world st'))) = []"
proof -
  have "config_files (host (srv_world sample_server)) (bootstrapCfgPath (srv_cfg sample_server)) = None" by code_simp
  from failed_reload [OF _ _ _ this, of sample_svc 0] obtain st' where
    "server_step sample_svc (Signalled 0 SIGUSR1) sample_server = Some st'" "srv_listener st' = srv_listener sample_server"
    "the_instance (srv_world st') = Instance_zero" by (auto simp: sample_server_def NewServer_def)
  then show ?thesis
    by (simp add: sample_server_def NewServer_def sample_vars_def Instance_zero_def Storage_zero_def sample_cnf_def)
qed

section \<open>The debug server\<close>

text \<open>
  C35. The debug web server never stays open: in every execution of requests (for at most \<open>T\<close> each),
  timers and shutdowns, while it serves either a shutdown has been started that will close it, or
  the timer that starts one expires within \<open>T\<close>.
\<close>

theorem debug_server_bounded:
  assumes "(dws_step T)\<^sup>*\<^sup>* (NewDebugWebServer addr, start) (d, now)" "dws_serving d"
  shows "0 < dws_calls d \<or> (\<exists>e. dws_timer d = Some (Some e) \<and> e \<le> now + T)"
  using dws_inv_reachable [OF assms(1)] assms(2)
  by (cases "dws_timer d"; cases "the (dws_timer d)") (auto simp: dws_inv_def)

theorem debug_server_bounded_witness:
  "let d = snd (ServeFor 0 60 (NewDebugWebServer ''[::1]:6060'')) in
   dws_serving d \<and> (0 < dws_calls d \<or> (\<exists>e. dws_timer d = Some (Some e) \<and> e \<le> 30 + 60))"
proof -
  let ?d = "snd (ServeFor 0 60 (NewDebugWebServer ''[::1]:6060''))"
  have "dws_step 60 (NewDebugWebServer ''[::1]:6060'', 0) (?d, 0)" by (rule request) simp
  moreover have "dws_step 60 (?d, 0) (?d, 30)" by (rule passes) simp
  ultimately have "(dws_step 60)\<^sup>*\<^sup>* (NewDebugWebServer ''[::1]:6060'', 0) (?d, 30)" by (meson converse_rtranclp_into_rtranclp r_into_rtranclp)
  moreover have s: "dws_serving ?d" by (simp add: ServeFor_def configureDebugWebServer_eq NewDebugWebServer_def)
  ultimately have "0 < dws_calls ?d \<or> (\<exists>e. dws_timer ?d = Some (Some e) \<and> e \<le> 30 + 60)"
    by (rule debug_server_bounded)
  with s show ?thesis by (simp add: Let_def)
qed

section \<open>The fuzzer\<close>



end
