(* ===== verification/Sessions.thy ===== *)
theory Sessions
  imports SessionPool GoStrings
begin

text \<open>
  Creating a session of the S3 storage (\<open>createSession\<close> and \<open>requestEndpoint\<close> of
  \<open>pkg/storage/sessionpool.go\<close>): its settings, and the handler that sends each request to an
  endpoint asked for at a discovery service. The SDK's own defaults (the error of \<open>NewSession\<close>, its
  credential providers) and the answer of the discovery service are arguments.
\<close>

record aws_session =
  sess_NumMaxRetries :: int
  sess_MinRetryDelay :: int
  sess_MaxRetryDelay :: int
  sess_Region :: string
  sess_ForcePathStyle :: bool
  sess_Endpoint :: string
  sess_Providers :: "StorageCredentials list"
  sess_Source :: "(string \<times> string \<times> string) option"

definition createSession ::
    "error option \<Rightarrow> StorageCredentials list \<Rightarrow> Storage \<Rightarrow> StorageCredentials \<Rightarrow> error + aws_session" where
  "createSession newSession defaultProviders cnf cr =
     (case newSession of
        Some err \<Rightarrow> Inl err
      | None \<Rightarrow>
          Inr \<lparr>sess_NumMaxRetries = 20, sess_MinRetryDelay = Second, sess_MaxRetryDelay = 20 * Second,
               sess_Region = StorageRegion cnf, sess_ForcePathStyle = True, sess_Endpoint = StorageEndpoint cnf,
               sess_Providers = cr # defaultProviders,
               sess_Source = (if EndpointSourceHost cnf \<noteq> []
                              then Some (EndpointSourceHost cnf, EndpointSourcePort cnf, EndpointSourceScheme cnf)
                              else None)\<rparr>)"

text \<open>\<open>net.JoinHostPort\<close>: a host with a colon or a percent sign is put in brackets.\<close>

definition JoinHostPort :: "string \<Rightarrow> string \<Rightarrow> string" where
  "JoinHostPort h port =
     (if CHR '':'' \<in> set h \<or> CHR ''%'' \<in> set h then ''['' @ h @ '']:'' @ port else h @ '':'' @ port)"

text \<open>The answer to \<open>Get\<close>: an error, or a status code with a body that may end in an error.\<close>

type_synonym http_answer = "error + int \<times> string \<times> error option"

definition requestEndpoint :: "http_answer \<Rightarrow> string \<Rightarrow> error + string" where
  "requestEndpoint resp port =
     (case resp of
        Inl err \<Rightarrow> Inl err
      | Inr (status, body, err) \<Rightarrow>
          (if status \<noteq> 200 then Inl (Errorf (''endpoint source bad status code '' @ dec_of_int status))
           else case err of
               Some e \<Rightarrow> Inl e
             | None \<Rightarrow> Inr (if port \<noteq> [] then JoinHostPort body port else body)))"

text \<open>The parts of a request that the handler changes\<close>

record http_request =
  req_Host :: string
  req_HostHeaders :: "string list"
  req_URL_Host :: string
  req_URL_Scheme :: string

definition validate_request :: "(string \<Rightarrow> http_answer) \<Rightarrow> aws_session \<Rightarrow> http_request \<Rightarrow> http_request" where
  "validate_request get s req =
     (case sess_Source s of
        None \<Rightarrow> req
      | Some (src, port, scheme) \<Rightarrow>
          (case requestEndpoint (get src) port of
             Inl err \<Rightarrow> req
           | Inr endpoint \<Rightarrow>
               (let h = TrimPrefix (sess_Endpoint s) ''https://'' in
                req\<lparr>req_Host := h, req_HostHeaders := req_HostHeaders req @ [h], req_URL_Host := endpoint,
                    req_URL_Scheme := scheme\<rparr>)))"

text \<open>
  A request goes either where the SDK would send it or to the endpoint that was found, and in the
  second case it still names the configured endpoint as its host.
\<close>

lemma validate_request_cases:
  assumes "createSession e ps cnf cr = Inr s"
  shows "validate_request get s req = req \<or>
    (\<exists>body. get (EndpointSourceHost cnf) = Inr (200, body, None) \<and>
       validate_request get s req = req\<lparr>req_Host := TrimPrefix (StorageEndpoint cnf) ''https://'',
         req_HostHeaders := req_HostHeaders req @ [TrimPrefix (StorageEndpoint cnf) ''https://''],
         req_URL_Host := (if EndpointSourcePort cnf \<noteq> [] then JoinHostPort body (EndpointSourcePort cnf) else body),
         req_URL_Scheme := EndpointSourceScheme cnf\<rparr>)"
  using assms
  by (auto simp: createSession_def validate_request_def requestEndpoint_def Let_def
      split: option.splits sum.splits prod.splits if_splits)

text \<open>The static credentials come first, so they are the ones the chain uses.\<close>

lemma createSession_credentials: "createSession e ps cnf cr = Inr s \<Longrightarrow> hd (sess_Providers s) = cr"
  by (auto simp: createSession_def split: option.splits)

end
