(* ===== verification/CommandLine.thy ===== *)
theory CommandLine
  imports Serving Runtime
begin

text \<open>
  The command line client as a program (\<open>cmd/client/main.go\<close>): its commands and flags, what
  \<open>init\<close> registers, and \<open>main\<close>. The parser of command lines, cobra, is a parameter: a function from
  the arguments of the process to the command it selects, the flags it sets, and the arguments left.
\<close>

section \<open>Flags\<close>

text \<open>The variables that flags are bound to, by type, and setting one of them\<close>

datatype str_var = V_cfgPath | V_oldCfgPath | V_logLevel | V_storageClass | V_tableSpace
datatype bool_var = V_decrypt | V_useKEK | V_ssCopy | V_encrypt | V_multipartUpload | V_confirm | V_garbage | V_crazyDrop
datatype u64_var = V_offset | V_segmentPort | V_segmentNum
datatype i64_var = V_multipartChunkSize

datatype setting = SetString str_var string | SetBool bool_var bool | SetUint64 u64_var u64 | SetInt64 i64_var int
datatype flag_var = StringVar str_var | BoolVar bool_var | Uint64Var u64_var | Int64Var i64_var

fun var_of :: "setting \<Rightarrow> flag_var" where
  "var_of (SetString v x) = StringVar v"
| "var_of (SetBool v x) = BoolVar v"
| "var_of (SetUint64 v x) = Uint64Var v"
| "var_of (SetInt64 v x) = Int64Var v"

fun assign :: "setting \<Rightarrow> flags \<Rightarrow> flags" where
  "assign (SetString V_cfgPath x) fl = fl\<lparr>fl_cfgPath := x\<rparr>"
| "assign (SetString V_oldCfgPath x) fl = fl\<lparr>fl_oldCfgPath := x\<rparr>"
| "assign (SetString V_logLevel x) fl = fl\<lparr>fl_logLevel := x\<rparr>"
| "assign (SetString V_storageClass x) fl = fl\<lparr>fl_storageClass := x\<rparr>"
| "assign (SetString V_tableSpace x) fl = fl\<lparr>fl_tableSpace := x\<rparr>"
| "assign (SetBool V_decrypt x) fl = fl\<lparr>fl_decrypt := x\<rparr>"
| "assign (SetBool V_useKEK x) fl = fl\<lparr>fl_useKEK := x\<rparr>"
| "assign (SetBool V_ssCopy x) fl = fl\<lparr>fl_ssCopy := x\<rparr>"
| "assign (SetBool V_encrypt x) fl = fl\<lparr>fl_encrypt := x\<rparr>"
| "assign (SetBool V_multipartUpload x) fl = fl\<lparr>fl_multipartUpload := x\<rparr>"
| "assign (SetBool V_confirm x) fl = fl\<lparr>fl_confirm := x\<rparr>"
| "assign (SetBool V_garbage x) fl = fl\<lparr>fl_garbage := x\<rparr>"
| "assign (SetBool V_crazyDrop x) fl = fl\<lparr>fl_crazyDrop := x\<rparr>"
| "assign (SetUint64 V_offset y) fl = fl\<lparr>fl_offset := y\<rparr>"
| "assign (SetUint64 V_segmentPort y) fl = fl\<lparr>fl_segmentPort := y\<rparr>"
| "assign (SetUint64 V_segmentNum y) fl = fl\<lparr>fl_segmentNum := y\<rparr>"
| "assign (SetInt64 V_multipartChunkSize z) fl = fl\<lparr>fl_multipartChunkSize := z\<rparr>"

text \<open>The variables before \<open>init\<close> runs\<close>

definition flags_zero :: flags where
  "flags_zero = \<lparr>fl_cfgPath = [], fl_oldCfgPath = [], fl_logLevel = [], fl_decrypt = False, fl_useKEK = False, fl_ssCopy = False,
     fl_encrypt = False, fl_storageClass = [], fl_tableSpace = [], fl_multipartChunkSize = 0, fl_multipartUpload = False,
     fl_offset = 0, fl_segmentPort = 0, fl_segmentNum = 0, fl_confirm = False, fl_garbage = False, fl_crazyDrop = False\<rparr>"

text \<open>A flag: its name, its shorthand, and the setting of its variable to the default\<close>

record flag =
  f_name :: string
  f_short :: string
  f_default :: setting

section \<open>Commands\<close>

datatype command = catCmd | copyCmd | deleteCmd | untrashifyCmd | putCmd | listCmd | goolCmd | delete2Cmd

text \<open>The name of a command, and how many arguments it must have (\<open>cobra.ExactArgs\<close>), if it says so\<close>

record command_spec =
  cmd_Use :: string
  cmd_Args :: "nat option"

fun spec_of :: "command \<Rightarrow> command_spec" where
  "spec_of catCmd = \<lparr>cmd_Use = ''cat'', cmd_Args = Some 1\<rparr>"
| "spec_of copyCmd = \<lparr>cmd_Use = ''copy'', cmd_Args = Some 1\<rparr>"
| "spec_of deleteCmd = \<lparr>cmd_Use = ''delete'', cmd_Args = Some 1\<rparr>"
| "spec_of untrashifyCmd = \<lparr>cmd_Use = ''untrash'', cmd_Args = None\<rparr>"
| "spec_of putCmd = \<lparr>cmd_Use = ''put'', cmd_Args = Some 1\<rparr>"
| "spec_of listCmd = \<lparr>cmd_Use = ''list'', cmd_Args = Some 1\<rparr>"
| "spec_of goolCmd = \<lparr>cmd_Use = ''gool'', cmd_Args = None\<rparr>"
| "spec_of delete2Cmd = \<lparr>cmd_Use = ''deleteTrash'', cmd_Args = Some 1\<rparr>"

text \<open>The function of a command; \<open>put\<close> reads standard input.\<close>

fun command_run :: "command \<Rightarrow> body \<Rightarrow> flags \<Rightarrow> string list \<Rightarrow> YClient \<Rightarrow> outcome" where
  "command_run catCmd stdin fl args con = catFunc fl args con"
| "command_run copyCmd stdin fl args con = copyFunc fl args con"
| "command_run deleteCmd stdin fl args con = sendDeleteChunkRequest fl args con"
| "command_run untrashifyCmd stdin fl args con = untrashifyFunc fl args con"
| "command_run putCmd stdin fl args con = putFunc fl args stdin con"
| "command_run listCmd stdin fl args con = listFunc args con"
| "command_run goolCmd stdin fl args con = goolFunc args con"
| "command_run delete2Cmd stdin fl args con = sendDeleteTrashRequest fl args con"

section \<open>init\<close>

text \<open>
  The statements of \<open>init\<close>: a flag of a command (of the root command, for all of them: \<open>None\<close>), which
  also sets its variable to the default, and adding a command to the root.
\<close>

datatype init_stmt = Flag "command option" flag | AddCommand command

definition StringVarP :: "str_var \<Rightarrow> string \<Rightarrow> string \<Rightarrow> string \<Rightarrow> flag" where
  "StringVarP v name short x = \<lparr>f_name = name, f_short = short, f_default = SetString v x\<rparr>"
definition BoolVarP :: "bool_var \<Rightarrow> string \<Rightarrow> string \<Rightarrow> bool \<Rightarrow> flag" where
  "BoolVarP v name short x = \<lparr>f_name = name, f_short = short, f_default = SetBool v x\<rparr>"
definition Uint64VarP :: "u64_var \<Rightarrow> string \<Rightarrow> string \<Rightarrow> u64 \<Rightarrow> flag" where
  "Uint64VarP v name short x = \<lparr>f_name = name, f_short = short, f_default = SetUint64 v x\<rparr>"
definition Int64VarP :: "i64_var \<Rightarrow> string \<Rightarrow> string \<Rightarrow> int \<Rightarrow> flag" where
  "Int64VarP v name short x = \<lparr>f_name = name, f_short = short, f_default = SetInt64 v x\<rparr>"

lemmas flag_defs = StringVarP_def BoolVarP_def Uint64VarP_def Int64VarP_def

definition client_init :: "init_stmt list" where
  "client_init =
     [Flag None (StringVarP V_cfgPath ''config'' ''c'' ''/etc/yproxy/yproxy.yaml''),
      Flag None (StringVarP V_logLevel ''log-level'' ''l'' []),
      Flag (Some catCmd) (BoolVarP V_decrypt ''decrypt'' ''d'' False),
      Flag (Some catCmd) (Uint64VarP V_offset ''offset'' ''o'' 0),
      Flag (Some catCmd) (BoolVarP V_useKEK ''use-kek'' [] False),
      AddCommand catCmd,
      Flag (Some copyCmd) (BoolVarP V_decrypt ''decrypt'' ''d'' False),
      Flag (Some copyCmd) (BoolVarP V_encrypt ''encrypt'' ''e'' False),
      Flag (Some copyCmd) (StringVarP V_oldCfgPath ''old-config'' [] ''/etc/yproxy/yproxy.yaml''),
      Flag (Some copyCmd) (Uint64VarP V_segmentPort ''port'' ''p'' 6000),
      Flag (Some copyCmd) (BoolVarP V_confirm ''confirm'' [] False),
      Flag (Some copyCmd) (BoolVarP V_useKEK ''use-kek'' [] False),
      Flag (Some copyCmd) (BoolVarP V_ssCopy ''server-side'' [] False),
      AddCommand copyCmd,
      Flag (Some putCmd) (BoolVarP V_encrypt ''encrypt'' ''e'' False),
      Flag (Some putCmd) (StringVarP V_storageClass ''storage-class'' ''s'' ''STANDARD''),
      Flag (Some putCmd) (StringVarP V_tableSpace ''tablespace'' ''t'' DefaultTableSpace),
      Flag (Some putCmd) (Int64VarP V_multipartChunkSize ''multipart-chunk-size'' [] (64 * 1024 * 1024)),
      Flag (Some putCmd) (BoolVarP V_multipartUpload ''multipart-upload'' [] True),
      AddCommand putCmd,
      AddCommand listCmd,
      AddCommand goolCmd,
      Flag (Some deleteCmd) (Uint64VarP V_segmentPort ''port'' ''p'' 6000),
      Flag (Some deleteCmd) (Uint64VarP V_segmentNum ''segnum'' ''s'' 0),
      Flag (Some deleteCmd) (BoolVarP V_confirm ''confirm'' [] False),
      Flag (Some deleteCmd) (BoolVarP V_garbage ''garbage'' ''g'' False),
      Flag (Some deleteCmd) (BoolVarP V_crazyDrop ''crazy-drop'' [] False),
      AddCommand deleteCmd,
      Flag (Some untrashifyCmd) (Uint64VarP V_segmentNum ''segnum'' ''s'' 0),
      Flag (Some untrashifyCmd) (BoolVarP V_confirm ''confirm'' [] False),
      AddCommand untrashifyCmd,
      Flag (Some delete2Cmd) (BoolVarP V_confirm ''confirm'' [] False),
      Flag (Some delete2Cmd) (BoolVarP V_garbage ''garbage'' ''g'' False),
      AddCommand delete2Cmd]"

text \<open>The variables after \<open>init\<close>, the commands it adds, and the flags a command understands\<close>

fun init_flags :: "init_stmt list \<Rightarrow> flags \<Rightarrow> flags" where
  "init_flags [] fl = fl"
| "init_flags (Flag c f # ss) fl = init_flags ss (assign (f_default f) fl)"
| "init_flags (AddCommand c # ss) fl = init_flags ss fl"

fun added :: "init_stmt list \<Rightarrow> command list" where
  "added [] = []"
| "added (AddCommand c # ss) = c # added ss"
| "added (Flag c f # ss) = added ss"

fun flags_of :: "command \<Rightarrow> init_stmt list \<Rightarrow> flag list" where
  "flags_of c [] = []"
| "flags_of c (Flag d f # ss) = (if d = None \<or> d = Some c then f # flags_of c ss else flags_of c ss)"
| "flags_of c (AddCommand d # ss) = flags_of c ss"

section \<open>Running a command\<close>

text \<open>
  \<open>Runner\<close>: load the configuration, connect to the server's socket (\<open>dial\<close>), open the log (which ends
  the process when it fails), run the command and close the connection. \<open>Panicked\<close> is a command that
  indexes or decodes out of range.
\<close>

datatype client_end = Finished "error option" "byte list" | LogFatal | Panicked

definition Runner ::
    "decoders \<Rightarrow> string \<Rightarrow> (string \<Rightarrow> error + YClient) \<Rightarrow> int \<Rightarrow> (flags \<Rightarrow> string list \<Rightarrow> YClient \<Rightarrow> outcome) \<Rightarrow> flags \<Rightarrow>
     string list \<Rightarrow> config_vars \<Rightarrow> fs \<Rightarrow> client_end \<times> YClient option" where
  "Runner d notifySocket dial now f fl args g fs =
     (case LoadInstanceConfig d (config_files fs) notifySocket (fl_cfgPath fl) g of
        (Some err, g) \<Rightarrow> (Finished (Some err) [], None)
      | (None, g) \<Rightarrow>
          (let instanceCnf = cfgInstance g in
           case dial (SocketPath instanceCnf) of
             Inl err \<Rightarrow> (Finished (Some err) [], None)
           | Inr con \<Rightarrow>
               (let fl = (if fl_logLevel fl = [] then fl\<lparr>fl_logLevel := LogLevel instanceCnf\<rparr> else fl) in
                case ReloadLogger now (LogPath instanceCnf) (fl_logLevel fl) fs of
                  None \<Rightarrow> (LogFatal, Some con)
                | Some (lg, fs) \<Rightarrow>
                    (case f fl args con of
                       None \<Rightarrow> (Panicked, None)
                     | Some (err, out, con) \<Rightarrow> (Finished err out, Some (snd (YClient_Close con)))))))"

text \<open>
  What cobra makes of a command line: an error, the help text (the root command has nothing to run),
  or a command with the flags that were set and the remaining arguments. As documented, it selects
  commands that were added, sets flags they understand, and enforces \<open>ExactArgs\<close>.
\<close>

datatype parsed = ParseError error | ShowHelp | RunCommand command "setting list" "string list"

definition cobra_ok :: "(string list \<Rightarrow> parsed) \<Rightarrow> bool" where
  "cobra_ok cobra \<longleftrightarrow> (\<forall>argv c sets args. cobra argv = RunCommand c sets args \<longrightarrow>
     c \<in> set (added client_init) \<and>
     (\<forall>s \<in> set sets. var_of s \<in> (var_of \<circ> f_default) ` set (flags_of c client_init)) \<and>
     (\<forall>n. cmd_Args (spec_of c) = Some n \<longrightarrow> length args = n))"

definition client_Execute ::
    "(string list \<Rightarrow> parsed) \<Rightarrow> decoders \<Rightarrow> string \<Rightarrow> (string \<Rightarrow> error + YClient) \<Rightarrow> int \<Rightarrow> body \<Rightarrow> string list \<Rightarrow> config_vars \<Rightarrow>
     fs \<Rightarrow> client_end \<times> YClient option" where
  "client_Execute cobra d notifySocket dial now stdin argv g fs =
     (case cobra argv of
        ParseError err \<Rightarrow> (Finished (Some err) [], None)
      | ShowHelp \<Rightarrow> (Finished None [], None)
      | RunCommand c sets args \<Rightarrow>
          Runner d notifySocket dial now (command_run c stdin) (fold assign sets (init_flags client_init flags_zero)) args g fs)"

text \<open>\<open>main\<close>: the exit status of the process (Go exits with 2 after a panic)\<close>

definition client_main ::
    "(string list \<Rightarrow> parsed) \<Rightarrow> decoders \<Rightarrow> string \<Rightarrow> (string \<Rightarrow> error + YClient) \<Rightarrow> int \<Rightarrow> body \<Rightarrow> string list \<Rightarrow> config_vars \<Rightarrow>
     fs \<Rightarrow> nat" where
  "client_main cobra d notifySocket dial now stdin argv g fs =
     (case fst (client_Execute cobra d notifySocket dial now stdin argv g fs) of
        Finished None out \<Rightarrow> 0
      | Finished (Some err) out \<Rightarrow> 1
      | LogFatal \<Rightarrow> 1
      | Panicked \<Rightarrow> 2)"

section \<open>The defaults\<close>

text \<open>The variables of different commands are shared; what each of them holds, as a setting\<close>

fun held :: "flags \<Rightarrow> flag_var \<Rightarrow> setting" where
  "held fl (StringVar v) = SetString v (case v of V_cfgPath \<Rightarrow> fl_cfgPath fl | V_oldCfgPath \<Rightarrow> fl_oldCfgPath fl
     | V_logLevel \<Rightarrow> fl_logLevel fl | V_storageClass \<Rightarrow> fl_storageClass fl | V_tableSpace \<Rightarrow> fl_tableSpace fl)"
| "held fl (BoolVar v) = SetBool v (case v of V_decrypt \<Rightarrow> fl_decrypt fl | V_useKEK \<Rightarrow> fl_useKEK fl | V_ssCopy \<Rightarrow> fl_ssCopy fl
     | V_encrypt \<Rightarrow> fl_encrypt fl | V_multipartUpload \<Rightarrow> fl_multipartUpload fl | V_confirm \<Rightarrow> fl_confirm fl
     | V_garbage \<Rightarrow> fl_garbage fl | V_crazyDrop \<Rightarrow> fl_crazyDrop fl)"
| "held fl (Uint64Var v) = SetUint64 v (case v of V_offset \<Rightarrow> fl_offset fl | V_segmentPort \<Rightarrow> fl_segmentPort fl
     | V_segmentNum \<Rightarrow> fl_segmentNum fl)"
| "held fl (Int64Var v) = SetInt64 v (fl_multipartChunkSize fl)"

lemma held_assign: "held (assign s fl) v = (if var_of s = v then s else held fl v)"
  by (cases "(s, fl)" rule: assign.cases; cases v; simp split: str_var.split bool_var.split u64_var.split i64_var.split)
    (metis (full_types) i64_var.exhaust)+

lemma flags_eqI:
  assumes "held fl = held fl'"
  shows "fl = fl'"
proof -
  have "\<And>v. held fl (StringVar v) = held fl' (StringVar v)" "\<And>v. held fl (BoolVar v) = held fl' (BoolVar v)"
    "\<And>v. held fl (Uint64Var v) = held fl' (Uint64Var v)" "\<And>v. held fl (Int64Var v) = held fl' (Int64Var v)"
    using assms by simp_all
  from this(1) [of V_cfgPath] this(1) [of V_oldCfgPath] this(1) [of V_logLevel] this(1) [of V_storageClass] this(1) [of V_tableSpace]
    this(2) [of V_decrypt] this(2) [of V_useKEK] this(2) [of V_ssCopy] this(2) [of V_encrypt] this(2) [of V_multipartUpload]
    this(2) [of V_confirm] this(2) [of V_garbage] this(2) [of V_crazyDrop] this(3) [of V_offset] this(3) [of V_segmentPort]
    this(3) [of V_segmentNum] this(4) [of V_multipartChunkSize]
  show ?thesis by simp
qed

text \<open>The defaults that the statements of \<open>init\<close> give a variable\<close>

fun defaults_of :: "init_stmt list \<Rightarrow> setting list" where
  "defaults_of [] = []"
| "defaults_of (Flag c f # ss) = f_default f # defaults_of ss"
| "defaults_of (AddCommand c # ss) = defaults_of ss"

lemma init_flags_fold: "init_flags ss fl = fold assign (defaults_of ss) fl"
  by (induction ss fl rule: init_flags.induct) simp_all

lemma fold_untouched: "v \<notin> var_of ` set sets \<Longrightarrow> held (fold assign sets fl) v = held fl v"
  by (induction sets arbitrary: fl) (auto simp: held_assign)

definition consistent :: "setting list \<Rightarrow> bool" where
  "consistent sets \<longleftrightarrow> (\<forall>s \<in> set sets. \<forall>t \<in> set sets. var_of s = var_of t \<longrightarrow> s = t)"

lemma fold_holds:
  assumes "consistent sets" "s \<in> set sets"
  shows "held (fold assign sets fl) (var_of s) = s"
  using assms
proof (induction sets arbitrary: fl)
  case (Cons t sets)
  show ?case
  proof (cases "var_of s \<in> var_of ` set sets")
    case True
    then have "s \<in> set sets" using Cons.prems by (force simp: consistent_def)
    with Cons.IH Cons.prems(1) show ?thesis by (simp add: consistent_def)
  next
    case False
    with Cons.prems show ?thesis by (auto simp: fold_untouched held_assign)
  qed
qed simp

text \<open>Flags of several commands that share a variable agree on its default: \<open>init\<close> may run in any order.\<close>

lemma fold_order:
  assumes "consistent sets" "set sets' = set sets"
  shows "fold assign sets' fl = fold assign sets fl"
proof (rule flags_eqI, rule ext)
  fix v
  have c: "consistent sets'" using assms by (simp add: consistent_def)
  show "held (fold assign sets' fl) v = held (fold assign sets fl) v"
  proof (cases "v \<in> var_of ` set sets")
    case True
    with assms(2) c show ?thesis using fold_holds [OF assms(1)] fold_holds [OF c] by auto
  qed (use assms(2) in \<open>simp add: fold_untouched\<close>)
qed

lemma set_defaults_of: "set (defaults_of ss) = f_default ` {f. \<exists>c. Flag c f \<in> set ss}"
  by (induction ss rule: defaults_of.induct) auto

lemma client_init_consistent: "consistent (defaults_of client_init)"
  unfolding consistent_def by code_simp

lemma init_any_order:
  assumes "set ss = set client_init"
  shows "init_flags ss fl = init_flags client_init fl"
  unfolding init_flags_fold
  by (rule fold_order [OF client_init_consistent]) (simp add: set_defaults_of assms)

lemma init_covers: "var_of ` set (defaults_of client_init) = UNIV"
proof -
  have "v \<in> var_of ` set (defaults_of client_init)" for v
  proof (cases v)
    case (StringVar x) then show ?thesis by (cases x) (simp_all add: client_init_def flag_defs)
  next
    case (BoolVar x) then show ?thesis by (cases x) (simp_all add: client_init_def flag_defs)
  next
    case (Uint64Var x) then show ?thesis by (cases x) (simp_all add: client_init_def flag_defs)
  next
    case (Int64Var x) then show ?thesis by (cases x) (simp_all add: client_init_def flag_defs)
  qed
  then show ?thesis by auto
qed

lemma commands_added: "set (added client_init) = UNIV" "distinct (map (cmd_Use \<circ> spec_of) (added client_init))"
proof -
  have "c \<in> set (added client_init)" for c by (cases c) (simp_all add: client_init_def)
  then show "set (added client_init) = UNIV" by auto
qed (simp add: client_init_def)

lemma flags_distinct:
  "distinct (map f_name (flags_of c client_init))" "distinct (filter (\<lambda>x. x \<noteq> []) (map f_short (flags_of c client_init)))"
  by (cases c; simp add: client_init_def flag_defs)+

section \<open>What a command sends\<close>

fun request :: "command \<Rightarrow> flags \<Rightarrow> string \<Rightarrow> byte list" where
  "request catCmd fl name = CatMessageV2_Encode (NewCatMessageV2 name (fl_decrypt fl) (fl_useKEK fl) (fl_offset fl) [])"
| "request copyCmd fl name = CopyMessageV2_Encode (NewCopyMessageV2 name (fl_oldCfgPath fl) (fl_encrypt fl) (fl_decrypt fl)
     (fl_confirm fl) (fl_useKEK fl) (fl_ssCopy fl) (fl_segmentPort fl))"
| "request deleteCmd fl name = DeleteMessage_Encode (NewDeleteMessage name (fl_segmentPort fl) (fl_segmentNum fl)
     (fl_confirm fl) (fl_garbage fl)\<lparr>del_CrazyDrop := fl_crazyDrop fl\<rparr>)"
| "request untrashifyCmd fl name = UntrashifyMessage_Encode (NewUntrashifyMessage name (fl_segmentNum fl) (fl_confirm fl))"
| "request putCmd fl name = PutMessageV3_Encode (NewPutMessageV3 name (fl_encrypt fl) (put_settings fl))"
| "request listCmd fl name = ListMessage_Encode (NewListMessage name)"
| "request goolCmd fl name = GoolMessage_Encode (NewGoolMessage name)"
| "request delete2Cmd fl name = Delete2Message_Encode (NewDelete2Message name (fl_confirm fl) (fl_garbage fl))"

lemma conn_Write_grows: "conn_Write p y = (r, y') \<Longrightarrow> prefix (conn_out y) (conn_out y')"
  by (cases r) (auto dest: conn_Write_prefix(2))

lemma send_request_grows:
  assumes "send_request msg k con = Some (e, out, con')"
    and "\<And>con e out con'. k con = Some (e, out, con') \<Longrightarrow> prefix (conn_out con) (conn_out con')"
  shows "prefix (conn_out con) (conn_out con')"
  using assms(1)
  by (auto simp: send_request_def dest!: conn_Write_grows assms(2) split: prod.splits option.splits)

lemma send_request_sends:
  assumes "send_request msg k con = Some (e, out, con')" "\<not> conn_closed con" "conn_fails con = None"
    and "\<And>con e out con'. k con = Some (e, out, con') \<Longrightarrow> prefix (conn_out con) (conn_out con')"
  shows "prefix (conn_out con @ msg) (conn_out con')"
  using assms(1-3) by (auto simp: send_request_def conn_Write_healthy dest: assms(4))

lemma read_answer_grows:
  assumes "read_answer k con = Some (e, out, con')"
    and "\<And>tp body con e out con'. k tp body con = Some (e, out, con') \<Longrightarrow> prefix (conn_out con) (conn_out con')"
  shows "prefix (conn_out con) (conn_out con')"
  using assms(1) by (auto simp: read_answer_def dest!: assms(2) split: prod.splits sum.splits)

definition put_piece :: "byte list \<Rightarrow> YClient \<Rightarrow> (error option \<times> YClient) option" where
  "put_piece bs con =
     (if bs \<noteq> [] then
        (case CopyDataMessage_Encode \<lparr>cd_Sz = of_nat (length bs), cd_Data = bs\<rparr> of
           None \<Rightarrow> None
         | Some msg \<Rightarrow> (case conn_Write msg con of ((n, e), con) \<Rightarrow> Some (e, con)))
      else Some (None, con))"

lemma put_piece_grows: "put_piece bs con = Some (e, con') \<Longrightarrow> prefix (conn_out con) (conn_out con')"
  by (auto simp: put_piece_def dest!: conn_Write_grows split: if_splits option.splits prod.splits)

lemma put_stdin_grows: "put_stdin stdin con = Some (e, con') \<Longrightarrow> prefix (conn_out con) (conn_out con')"
proof (induction stdin con rule: put_stdin.induct)
  case (1 stdin con)
  obtain bs err stdin' where b: "body_Read SZ stdin = ((bs, err), stdin')" by (metis surj_pair)
  note IH = "1.IH" [OF b [symmetric] refl, folded put_piece_def]
  from "1.prems" b obtain r con1 where p: "put_piece bs con = Some (r, con1)"
    by (subst (asm) put_stdin.simps, fold put_piece_def) (auto split: option.splits)
  show ?case
  proof (cases "r = None \<and> err = None")
    case True
    with "1.prems" b p have "put_stdin stdin' con1 = Some (e, con')"
      by (subst (asm) put_stdin.simps, fold put_piece_def) simp
    with IH [OF p refl] True put_piece_grows [OF p] show ?thesis by (auto intro: prefix_order.trans)
  next
    case False
    with "1.prems" b p have "con' = con1"
      by (subst (asm) put_stdin.simps, fold put_piece_def) (auto split: option.splits if_splits)
    with put_piece_grows [OF p] show ?thesis by simp
  qed
qed

lemma await_ready_grows: "await_ready what con = Some (e, out, con') \<Longrightarrow> prefix (conn_out con) (conn_out con')"
  unfolding await_ready_def by (erule read_answer_grows) (auto split: if_splits)

text \<open>A command on a healthy connection sends its request before anything else.\<close>

lemma command_sends:
  assumes "command_run c stdin fl (name # args) con = Some (e, out, con')" "\<not> conn_closed con" "conn_fails con = None"
  shows "prefix (conn_out con @ request c fl name) (conn_out con')"
proof (cases c)
  case catCmd
  with assms show ?thesis
    by (auto simp: catFunc_def go_index_def intro!: send_request_sends [OF _ assms(2,3)])
next
  case copyCmd
  with assms show ?thesis
    by (auto simp: copyFunc_def go_index_def split: if_splits option.splits bind_splits
        intro!: send_request_sends [OF _ assms(2,3)] elim!: read_answer_grows)
next
  case putCmd
  with assms show ?thesis
    by (auto simp: putFunc_def go_index_def split: if_splits option.splits bind_splits
        intro!: send_request_sends [OF _ assms(2,3)] dest!: put_stdin_grows)
      (erule prefix_order.trans, erule send_request_grows, erule read_answer_grows,
       auto split: if_splits bind_splits elim!: read_answer_grows)
next
  case listCmd
  with assms show ?thesis
    by (auto simp: listFunc_def go_index_def split: sum.splits intro!: send_request_sends [OF _ assms(2,3)])
next
  case goolCmd
  with assms show ?thesis
    by (auto simp: goolFunc_def go_index_def split: if_splits
        intro!: send_request_sends [OF _ assms(2,3)] elim!: read_answer_grows)
qed (use assms in \<open>auto simp: sendDeleteChunkRequest_def sendDeleteTrashRequest_def untrashifyFunc_def go_index_def
    intro!: send_request_sends [OF _ assms(2,3)] elim!: await_ready_grows\<close>)

text \<open>Without an argument a command panics before it sends anything.\<close>

lemma command_no_args: "command_run c stdin fl [] con = None"
  by (cases c) (simp_all add: catFunc_def copyFunc_def sendDeleteChunkRequest_def untrashifyFunc_def putFunc_def listFunc_def
      goolFunc_def sendDeleteTrashRequest_def go_index_def)

lemma exact_args: "cmd_Args (spec_of c) = (if c \<in> {untrashifyCmd, goolCmd} then None else Some 1)"
  by (cases c) simp_all

text \<open>A run that has finished with a connection has run the command on it.\<close>

lemma Execute_finished:
  assumes "cobra argv = RunCommand c sets args"
    "client_Execute cobra d notifySocket dial now stdin argv g fs = (Finished err out, Some y)"
  shows "\<exists>p con con' lvl. dial p = Inr con \<and>
    command_run c stdin ((fold assign sets (init_flags client_init flags_zero))\<lparr>fl_logLevel := lvl\<rparr>) args con = Some (err, out, con') \<and>
    y = snd (YClient_Close con')"
proof -
  let ?fl = "fold assign sets (init_flags client_init flags_zero)"
  have l: "?fl = ?fl\<lparr>fl_logLevel := fl_logLevel ?fl\<rparr>" by simp
  from assms show ?thesis
    by (auto simp: client_Execute_def Runner_def Let_def split: prod.splits option.splits sum.splits if_splits)
      (metis l)+
qed

lemma request_log_level: "request c (fl\<lparr>fl_logLevel := x\<rparr>) name = request c fl name"
  by (cases c) (simp_all add: put_settings_def)

lemma Execute_no_args:
  assumes "cobra argv = RunCommand c sets []"
  shows "fst (client_Execute cobra d notifySocket dial now stdin argv g fs) \<noteq> Finished None out"
  using assms by (simp add: client_Execute_def Runner_def Let_def command_no_args split: prod.splits option.splits sum.splits)

text \<open>So \<open>untrash\<close> and \<open>gool\<close>, which do not ask for an argument, panic without one once they are connected.\<close>

lemma no_argument_panics:
  assumes "cobra argv = RunCommand c sets []"
    "LoadInstanceConfig d (config_files fs) notifySocket (fl_cfgPath (fold assign sets (init_flags client_init flags_zero))) g = (None, g')"
    "dial (SocketPath (cfgInstance g')) = Inr con" "LogPath (cfgInstance g') = []"
  shows "client_main cobra d notifySocket dial now stdin argv g fs = 2"
  using assms by (simp add: client_main_def client_Execute_def Runner_def Let_def command_no_args ReloadLogger_def NewZeroLogger_def newWriter_def)

end
