(* ===== verification/Spec2Isabelle.thy ===== *)
theory Spec2Isabelle
  imports StorageProperties GarbageProperties ReaderProperties ServerProperties Sessions CommandLine
begin

text \<open>
  Verification library of yproxy, the proxy through which Greenplum's yezzey extension reads and
  writes its chunks in an object storage.

  \<^bold>\<open>The program.\<close> The server (\<open>pkg/core/core.go\<close>) listens on a Unix socket. A connection carries
  one request, a packet of \<open>pkg/message\<close> read by \<open>pkg/io\<close>; \<open>ProcConn\<close> (\<open>pkg/proc/interaction.go\<close>)
  decodes it and calls the handler for its type, which works on two storages (\<open>pkg/storage\<close>: the
  chunks and the backups), on the databases of the cluster (\<open>pkg/database\<close>: the index of live
  chunks), on a key (\<open>pkg/crypt\<close>), and answers over the connection (\<open>pkg/client\<close>). The clients being
  served are in a pool (\<open>pkg/clientpool\<close>). A console (\<open>pkg/core/pg\<close>, with a parser in
  \<open>pkg/core/parser\<close>) speaks the PostgreSQL protocol. \<open>cmd/client\<close> is the command line client,
  \<open>cmd/yfuzzer\<close> a server that fuzzes listings.

  \<^bold>\<open>Theories and sources.\<close>
  \<^item> \<open>YPrelude\<close>, \<open>GoStrings\<close>, \<open>GoIO\<close>, \<open>HostFS\<close>: what the code uses of Go (bytes, errors, decimal
    printing, paths and prefixes, readers, writers and \<open>io.Copy\<close>, the file system) and shared lemmas.
  \<^item> \<open>MessageTypes\<close>, \<open>ProtoIO\<close>, \<open>Requests\<close>, \<open>AdminRequests\<close>, \<open>CopyMessages\<close>, \<open>Replies\<close>: \<open>pkg/message\<close>
    (a record, \<open>Encode\<close> and \<open>Decode\<close> per message) and \<open>pkg/io\<close>; a locale of messages gives each
    message its round trip through \<open>ReadPacket\<close>.
  \<^item> \<open>Config\<close>: \<open>config\<close>. \<open>StorageIface\<close>, \<open>FileStorage\<close>, \<open>S3Storage\<close>, \<open>S3Listing\<close>, \<open>Storages\<close>,
    \<open>SessionPool\<close>, \<open>Sessions\<close>: \<open>pkg/storage\<close>; the locale \<open>storage\<close> is the contract the handlers
    rely on, interpreted for both storages.
  \<^item> \<open>Client\<close>: \<open>pkg/client\<close> and \<open>pkg/clientpool\<close>. \<open>YReader\<close>: \<open>pkg/proc/yio\<close>. \<open>Crypt\<close>: \<open>pkg/crypt\<close>.
    \<open>Database\<close>, \<open>Backups\<close>: \<open>pkg/database\<close>, \<open>pkg/backups\<close>.
  \<^item> \<open>CatPut\<close>, \<open>Transfers\<close>, \<open>ListCopy\<close>, \<open>DeleteHandler\<close>, \<open>WorkerPool\<close>, \<open>GarbageSafety\<close>, \<open>TrashSafety\<close>,
    \<open>Interaction\<close>: \<open>pkg/proc\<close>, the handlers and the dispatch; the workers that delete are an
    inductive transition system and an executable pool, proved equivalent. The dispatch calls the
    handlers through the record \<open>ProtoMgr\<close>, the interface of \<open>pkg/proto\<close>.
  \<^item> \<open>ClientCmd\<close>, \<open>CommandLine\<close>, \<open>Serving\<close>: \<open>cmd/client\<close> (the commands; the flags, \<open>init\<close> and \<open>main\<close>),
    and the client together with the server.
  \<^item> \<open>ConsoleAst\<close>, \<open>ConsoleLexer\<close>, \<open>ConsoleParser\<close>: the generated lexer, one definition per state
    (\<open>st_case_1\<close> to \<open>st_case_51\<close>), and the generated parser, its tables and its driver, label by
    label. \<open>LexerSafety\<close>: the lexer never leaves its input. \<open>ParserTables\<close>, \<open>ConsoleGrammar\<close>: the
    reference grammar \<open>tree_of\<close> on token lists, and the driver's equivalence with it. \<open>LexerWords\<close>,
    \<open>LexerTokens\<close>, \<open>ConsolePrinter\<close>: which texts are which tokens, and printing.
  \<^item> \<open>Console\<close>, \<open>ConsoleSessions\<close>: \<open>pkg/core/pg/pg.go\<close>, a session as a function of the messages it
    receives, and what it answers.
  \<^item> \<open>Metrics\<close>: \<open>pkg/metrics\<close>. \<open>Runtime\<close>: \<open>pkg/ylogger\<close>, \<open>pkg/sdnotifier\<close>, \<open>pkg/core/pprof.go\<close>. \<open>Server\<close>:
    \<open>pkg/core/core.go\<close>; the running server is the step function \<open>server_step\<close> over events (accepting,
    the three stages of a connection's goroutine, a request that panics, signals, the watchdog,
    console sessions, returning). \<open>Shutdown\<close>: its invariant and the locale \<open>stoppable\<close>, interpreted for
    the server. \<open>Fuzzer\<close>: the handlers of \<open>cmd/yfuzzer\<close>. \<open>EntryPoints\<close>: \<open>cmd/yproxy\<close> and \<open>cmd/yfuzzer\<close>
    as programs.
  \<^item> \<open>Samples\<close>: an installation on which witnesses are evaluated. The theorems C1 to C40 are here and in
    \<open>StorageProperties\<close>, \<open>GarbageProperties\<close>, \<open>ReaderProperties\<close>, \<open>ConsoleProperties\<close> and
    \<open>ServerProperties\<close>.

  \<^bold>\<open>Conventions.\<close> State is passed explicitly: a connection is what arrives, what was written and when
  writing fails; the world of a handler is the host's files, the clock, the configuration, the
  remote service and the databases. Go errors are values; \<open>None\<close> is a panic or a call that never
  returns. Libraries outside the repository (the AWS SDK, pgx, openpgp, t-digest, the configuration
  decoders, pgproto3's messages, cobra) are records of functions or data, and what a theorem needs of them
  is a hypothesis on these records. A request is one step on the world; its own goroutines meet only
  in a pipe and are run one after the other, except the delete workers and the session pool, which
  interleave freely, as do the connections of the server.

  \<^bold>\<open>What is shown.\<close> Packets do not depend on how the network splits them (C1, C2). Files are served
  and stored byte for byte, also encrypted, and listings arrive whole (C3 to C7, C30). Both
  storages keep their contract (C8, C9, C34, C26). Deletion touches only garbage, expired trash and
  obsolete chunks, whatever the interleaving of its workers (C10 to C14, C23 to C25, C27, C28, C31,
  C32). The console's parser is its grammar, and sessions answer every query (C15 to C19). The running
  server stores what is uploaded to it, serves exactly the clients of its pool, and stops (C20 to C22,
  C35). The command line client sends what it was asked to (C29), a copy takes the files it should
  (C33), and the fuzzer is the server with another listing (C36). The remaining theorems pin down
  where the code does not do what it means to (C37 to C40).

  \<^bold>\<open>Bounds and termination.\<close> Loops are total recursive functions with a measure, except those that
  may not end by themselves: reading a connection or a listing is a recursion over what arrives, the
  driver of the parser is a \<open>partial_function\<close> whose termination on every query is part of C15, and
  the shutdown of the server is bounded by \<open>work_left\<close> (C22). No fuel is used. Integers keep their
  width where the code computes with them (\<open>u16\<close>, \<open>u32\<close>, \<open>u64\<close> are words); sizes and times that are only
  compared or printed are \<open>int\<close>.

  \<^bold>\<open>Not modelled.\<close> Log lines, which nothing reads; what a limiter's waiting costs in time, and the
  points at which requests raise metrics (\<open>Metrics\<close> has the operations themselves); closing the body
  of a response, which has no effect the code observes; the debug output of the generated parser
  (switched off); the interpretation of command lines and of HTTP, which are libraries; the version
  text, the empty package \<open>pkg/vacuum\<close>, and the generated mocks. Data races between goroutines are
  outside the model: SHOW CLIENTS appends to one slice from several goroutines, and the accept loop's
  variables are read by the signal handler.
\<close>

section \<open>The protocol\<close>

text \<open>
  C1. \<open>ReadPacket\<close> returns what the packet format prescribes for the bytes that arrive (the
  type byte and the body, or the error for a short, oversized or empty packet), however the
  network splits those bytes into chunks.
\<close>

theorem ReadPacket_chunking: "fst (ReadPacket cs) = packet_of (concat cs)"
  by (rule ReadPacket_spec)

text \<open>
  C2. A \<open>CatMessageV2\<close> request (name, decryption, KEK, offset and settings) written to a connection
  is read back by \<open>ReadPacket\<close> as one packet of its type, leaving what follows it, and decodes to
  the same request.
\<close>

theorem catV2_roundtrip:
  assumes "concat cs = CatMessageV2_Encode m @ rest" and "nul_free (cat2_Name m)"
    and "settings_ok (cat2_Settings m)" and "length (CatMessageV2_Encode m) \<le> unat maxMsgLen"
  shows "\<exists>body cs'. ReadPacket cs = (Inr (MessageTypeCatV2, body), cs') \<and> concat cs' = rest \<and>
    CatMessageV2_Decode CatMessageV2_zero body = Some m"
  using assms by (intro catV2.read_decoded) simp_all

theorem catV2_roundtrip_witness:
  "\<exists>body cs'. ReadPacket [take 5 (CatMessageV2_Encode sample_cat), drop 5 (CatMessageV2_Encode sample_cat)] =
     (Inr (MessageTypeCatV2, body), cs') \<and> concat cs' = [] \<and> CatMessageV2_Decode CatMessageV2_zero body = Some sample_cat"
proof -
  have a: "nul_free (cat2_Name sample_cat)" by code_simp
  have b: "settings_ok (cat2_Settings sample_cat)" by code_simp
  have "length (CatMessageV2_Encode sample_cat) < 100" by code_simp
  then have c: "length (CatMessageV2_Encode sample_cat) \<le> unat maxMsgLen" by (simp add: maxMsgLen_eq)
  show ?thesis by (rule catV2_roundtrip [OF _ a b c]) simp
qed

text \<open>
  A \<open>DeleteMessage\<close> request is read back and decodes to itself, with its three flags, its port
  and its segment number.
\<close>

lemma delete_roundtrip:
  assumes "concat cs = DeleteMessage_Encode m @ rest" and "nul_free (del_Name m)"
    and "length (DeleteMessage_Encode m) \<le> unat maxMsgLen"
  shows "\<exists>body cs'. ReadPacket cs = (Inr (MessageTypeDelete, body), cs') \<and> concat cs' = rest \<and>
    DeleteMessage_Decode DeleteMessage_zero body = Some m"
  using assms by (intro delete.read_decoded) simp_all

text \<open>
  A \<open>CopyMessageV2\<close> request is read back and decodes to itself: the two names, the port, the
  confirmation and the four flags of its flag byte.
\<close>

lemma copyV2_roundtrip:
  assumes "concat cs = CopyMessageV2_Encode m @ rest" and "nul_free (copy2_Name m)" "nul_free (copy2_OldCfgPath m)"
    and "length (CopyMessageV2_Encode m) \<le> unat maxMsgLen"
  shows "\<exists>body cs'. ReadPacket cs = (Inr (MessageTypeCopyV2, body), cs') \<and> concat cs' = rest \<and>
    CopyMessageV2_Decode CopyMessageV2_zero body = Some m"
  using assms by (intro copyV2.read_decoded) simp_all

text \<open>
  A request packet whose body is the type byte of \<open>CAT\<close> alone crashes the server: decoding
  slices beyond its end, and nothing recovers from the panic.
\<close>

lemma short_cat_panics:
  assumes "concat (conn_in ycl) = with_length [MessageTypeCat]"
  shows "ProcConn E sch s bs cr cnf ycl w = None"
proof -
  from ReadPacket_with_length [of "conn_in ycl" "[MessageTypeCat]" "[]"] assms obtain c where
    "ReadPacket (conn_in ycl) = (Inr (MessageTypeCat, [MessageTypeCat]), c)" by (auto simp: maxMsgLen_eq)
  then show ?thesis
    by (simp add: ProcConn_unfold dispatch_def CatMessage_Decode_def slice_from_def)
qed

section \<open>Serving objects\<close>

text \<open>
  C3. Serving an object of a file storage: for a client whose connection takes what is written, the
  handler returns without an error, has sent exactly the bytes of the file from the requested offset
  on, and has changed nothing.
\<close>

theorem cat_file:
  assumes "fs_get (host w) (fs_path cnf name) = Some (FileNode c t)"
    and "\<not> EnableRateLimiter (StorageCnf (the_instance w))"
    and "unat off \<le> length c" "unat off < 2 ^ 63" and "\<not> conn_closed ycl" "conn_fails ycl = None"
  shows "\<exists>ycl'. ProcessCatExtended E (FileStorageInteractor cnf) name False kek off ss cr ycl w =
      Some (None, ycl', w) \<and> conn_out ycl' = conn_out ycl @ drop (unat off) c"
  by (rule ProcessCat_file [OF assms])

theorem cat_file_witness:
  "\<exists>ycl'. ProcessCatExtended sample_ext sample_storage ''old'' False False 1 [] None (sample_client []) sample_world =
      Some (None, ycl', sample_world) \<and> conn_out ycl' = [3]"
proof -
  from cat_file [OF sample_old sample_unlimited, of 1 "sample_client []" sample_ext False "[]" None] show ?thesis
    by (simp add: sample_client_def)
qed

text \<open>
  C4. Whatever the client's connection does, serving a file ends, and the client has been sent a
  prefix of the bytes from the offset on; when the handler reports no error it has been sent all of
  them, and the offset was not beyond the end.
\<close>

theorem cat_file_prefix:
  assumes "fs_get (host w) (fs_path cnf name) = Some (FileNode c t)"
    and "\<not> EnableRateLimiter (StorageCnf (the_instance w))" and "unat off < 2 ^ 63"
  shows "\<exists>e ycl' w' out. ProcessCatExtended E (FileStorageInteractor cnf) name False kek off ss cr ycl w =
      Some (e, ycl', w') \<and> conn_out ycl' = conn_out ycl @ out \<and> prefix out (drop (unat off) c) \<and>
    (e = None \<longrightarrow> unat off \<le> length c \<and> out = drop (unat off) c)"
  by (rule ProcessCat_file_any [OF assms])

theorem cat_file_prefix_witness:
  "\<exists>e ycl' w' out. ProcessCatExtended sample_ext sample_storage ''old'' False False 0 [] None
      (NewYClient [] (Some (1, EPIPE))) sample_world =
      Some (e, ycl', w') \<and> conn_out ycl' = out \<and> prefix out [2, 3] \<and> (e = None \<longrightarrow> out = [2, 3])"
proof -
  from cat_file_prefix [OF sample_old sample_unlimited, of 0 sample_ext False "[]" None "NewYClient [] (Some (1, EPIPE))"] show ?thesis
    by auto
qed

text \<open>
  C5. An upload with the command line client, end to end: the client reports success and prints the
  key version when it is answered by \<open>put_reply\<close>, and the bytes it has sent, split into any chunks by
  the network, make \<open>ProcConn\<close> store exactly its standard input under the requested
  name (when the file system takes it) and send that answer.
\<close>

theorem upload:
  assumes "\<not> conn_closed con" "conn_fails con = None" "conn_out con = []" "snd stdin = None"
    and "concat (conn_in con) = put_reply True"
    and "\<not> fl_encrypt fl" "nul_free name" "settings_ok (put_settings fl)"
    and "length (PutMessageV3_Encode (NewPutMessageV3 name False (put_settings fl))) \<le> unat maxMsgLen"
    and "\<not> EnableRateLimiter (StorageCnf (the_instance w))"
    and "file_PutFileToDest cnf name (body_bytes stdin, BodyEOF) (put_settings fl) w = Some (None, w')"
  shows "\<exists>con'. putFunc fl [name] stdin con = Some (None, [49, 10], con') \<and>
    (\<forall>ycl. concat (conn_in ycl) = conn_out con' \<and> \<not> conn_closed ycl \<and> conn_fails ycl = None \<longrightarrow>
      (\<exists>ycl'. ProcConn E sch (FileStorageInteractor cnf) bs cr vac ycl w = Some (None, ycl', w') \<and>
        conn_out ycl' = conn_out ycl @ put_reply True \<and>
        (\<exists>t. fs_get (host w') (fs_path cnf name) = Some (FileNode (body_bytes stdin) t))))"
proof -
  let ?m = "NewPutMessageV3 name False (put_settings fl)"
  from putFunc_answered [OF assms(1,2,4,5)] obtain con' where
    p: "putFunc fl [name] stdin con = Some (None, [49, 10], con')" by blast
  from putFunc_sends [OF p assms(1,2,4)] assms(3,6) obtain ds where
    ds: "conn_out con' = PutMessageV3_Encode ?m @ concat (map copy_data_packet ds) @ CopyDoneMessage_Encode ()"
    "concat ds = body_bytes stdin" "list_all (\<lambda>d. length d \<le> SZ) ds" by auto
  have len: "list_all (\<lambda>d. length d + 20 \<le> unat maxMsgLen) ds"
    using ds(3) by (auto simp: list_all_iff SZ_def maxMsgLen_eq)
  have "\<exists>ycl'. ProcConn E sch (FileStorageInteractor cnf) bs cr vac ycl w = Some (None, ycl', w') \<and>
      conn_out ycl' = conn_out ycl @ put_reply True"
    if "concat (conn_in ycl) = conn_out con'" "\<not> conn_closed ycl" "conn_fails ycl = None" for ycl
    using ProcConn_put [OF that(1) [unfolded ds(1)] ends_data_done len _ _ _ _ assms(10) that(2,3),
        of E sch "FileStorageInteractor cnf" bs cr vac] assms(7-9,11) ds(2)
    by (auto simp: NewPutMessageV3_def FileStorageInteractor_def)
  with p file_put_get(1) [OF assms(11)] show ?thesis by auto
qed

theorem upload_witness:
  "\<exists>con' ycl' w'. putFunc sample_flags [''new''] ([[2], [3, 4]], None) (NewYClient [put_reply True] None) =
      Some (None, [49, 10], con') \<and>
    ProcConn sample_ext sample_sch sample_storage sample_backups None sample_vacuum
      (sample_client [conn_out con']) sample_world = Some (None, ycl', w') \<and>
    (\<exists>t. fs_get (host w') ''/data/new'' = Some (FileNode [2, 3, 4] t))"
proof -
  note p = sample_new
  have b: "body_bytes ([[2], [3, 4]], None) = [2, 3, 4]" by (simp add: body_bytes_def)
  from sample_put obtain w' where s: "file_PutFileToDest sample_cnf ''new'' ([2, 3, 4], BodyEOF) (put_settings sample_flags) sample_world =
    Some (None, w')" by blast
  have st: "settings_ok (put_settings sample_flags)" by code_simp
  have "length (PutMessageV3_Encode (NewPutMessageV3 ''new'' False (put_settings sample_flags))) < 300" by code_simp
  then have len: "length (PutMessageV3_Encode (NewPutMessageV3 ''new'' False (put_settings sample_flags))) \<le> unat maxMsgLen"
    by (simp add: maxMsgLen_eq)
  note lim = sample_unlimited
  have nf: "nul_free ''new''" by code_simp
  have enc: "\<not> fl_encrypt sample_flags" by (simp add: sample_flags_def)
  from upload [OF _ _ _ _ _ enc nf st len lim s [folded b], of "NewYClient [put_reply True] None" sample_ext sample_sch
      sample_backups None sample_vacuum, simplified]
  obtain con' where c: "putFunc sample_flags [''new''] ([[2], [3, 4]], None) (NewYClient [put_reply True] None) =
      Some (None, [49, 10], con')"
    and srv: "\<And>ycl. concat (conn_in ycl) = conn_out con' \<Longrightarrow> \<not> conn_closed ycl \<Longrightarrow> conn_fails ycl = None \<Longrightarrow>
      \<exists>ycl'. ProcConn sample_ext sample_sch sample_storage sample_backups None sample_vacuum ycl sample_world =
          Some (None, ycl', w') \<and>
        (\<exists>t. fs_get (host w') (fs_path sample_cnf ''new'') = Some (FileNode (body_bytes ([[2], [3, 4]], None)) t))"
    by blast
  from srv [of "sample_client [conn_out con']"] c show ?thesis
    unfolding p b by (auto simp: sample_client_def)
qed





text \<open>
  C37. An upload that breaks off is stored as if it were complete: when the connection ends after
  the chunks \<open>ds\<close>, without the message that completes the copy, they are the object and the server
  answers that all is done.
\<close>

theorem broken_upload_stored:
  assumes "concat (conn_in ycl) = PutMessageV3_Encode m @ concat (map copy_data_packet ds)"
    and "list_all (\<lambda>d. length d + 20 \<le> unat maxMsgLen) ds"
    and "nul_free (put3_Name m)" "settings_ok (put3_Settings m)" "length (PutMessageV3_Encode m) \<le> unat maxMsgLen"
      "\<not> put3_Encrypt m"
    and "\<not> EnableRateLimiter (StorageCnf (the_instance w))" and "\<not> conn_closed ycl" "conn_fails ycl = None"
    and "file_PutFileToDest cnf (put3_Name m) (concat ds, BodyEOF) (put3_Settings m) w = Some (None, w')"
  shows "\<exists>ycl' t. ProcConn E sch (FileStorageInteractor cnf) bs cr vac ycl w = Some (None, ycl', w') \<and>
    conn_out ycl' = conn_out ycl @ put_reply True \<and>
    fs_get (host w') (fs_path cnf (put3_Name m)) = Some (FileNode (concat ds) t)"
proof -
  have "ends_data []" by (simp add: ends_data_def packet_of_def)
  from ProcConn_put [OF _ this assms(2-9), of E sch "FileStorageInteractor cnf" bs cr vac] assms(1,10)
    file_put_get(1) [OF assms(10)]
  show ?thesis by (auto simp: FileStorageInteractor_def)
qed

theorem broken_upload_stored_witness:
  "\<exists>ycl' w' t. ProcConn sample_ext sample_sch sample_storage sample_backups None sample_vacuum
      (sample_client [PutMessageV3_Encode (NewPutMessageV3 ''new'' False []), copy_data_packet [7]]) sample_world =
      Some (None, ycl', w') \<and> conn_out ycl' = put_reply True \<and> fs_get (host w') ''/data/new'' = Some (FileNode [7] t)"
proof -
  let ?m = "NewPutMessageV3 ''new'' False []"
  note p = sample_new
  from sample_put obtain w' where
    s: "file_PutFileToDest sample_cnf ''new'' ([7], BodyEOF) [] sample_world = Some (None, w')" by blast
  note lim = sample_unlimited
  have nf: "nul_free ''new''" by code_simp
  have "length (PutMessageV3_Encode ?m) < 100" by code_simp
  then have len: "length (PutMessageV3_Encode ?m) \<le> unat maxMsgLen" by (simp add: maxMsgLen_eq)
  have m: "put3_Name ?m = ''new''" "put3_Settings ?m = []" "\<not> put3_Encrypt ?m" by (simp_all add: NewPutMessageV3_def)
  from broken_upload_stored [of "sample_client [PutMessageV3_Encode ?m, copy_data_packet [7]]" ?m "[[7]]" sample_world sample_cnf w'
      sample_ext sample_sch sample_backups None sample_vacuum] s lim nf len
  show ?thesis unfolding m p by (fastforce simp: sample_client_def maxMsgLen_eq m settings_ok_def)
qed

text \<open>
  C7. Listing with the command line client: \<open>ProcConn\<close> answers the client's request with the
  storage's listing, and the client, however the answer is split on its way, prints exactly that
  listing, in order, each object with its path and size.
\<close>

theorem listing:
  assumes "ListPath s pfx True [] w = Some (Inr ms, w')"
    and "\<forall>x \<in> set ms. length (obj_Path x) \<le> 1040 \<and> nul_free (obj_Path x)"
    and "nul_free pfx" "length (ListMessage_Encode (NewListMessage pfx)) \<le> unat maxMsgLen"
    and "concat (conn_in ycl) = ListMessage_Encode (NewListMessage pfx)"
    and "\<not> conn_closed ycl" "conn_fails ycl = None" "conn_out ycl = []"
    and "\<not> conn_closed con" "conn_fails con = None" "conn_out con = []"
  shows "\<exists>ycl'. ProcConn E sch s bs cr vac ycl w = Some (None, ycl', w') \<and>
    (concat (conn_in con) = conn_out ycl' \<longrightarrow>
      (\<exists>con'. listFunc [pfx] con = Some (None, concat (map (print_object \<circ> wire_object) ms), con') \<and>
        conn_out con' = concat (conn_in ycl)))"
proof -
  let ?m = "NewListMessage pfx"
  have "concat (conn_in ycl) = ListMessage_Encode ?m @ []" using assms(5) by simp
  from list.read_decoded [OF this _ assms(4)] assms(3) obtain body c where
    r: "ReadPacket (conn_in ycl) = (Inr (MessageTypeList, body), c)" "ListMessage_Decode ListMessage_zero body = Some ?m"
    by (auto simp: NewListMessage_def)
  define y1 where "y1 = SetOPType (sch_opstart sch) MessageTypeList (ycl\<lparr>conn_in := c\<rparr>)"
  have y1: "\<not> conn_closed y1" "conn_fails y1 = None" "conn_out y1 = []" using assms(6-8) by (simp_all add: y1_def client_simps)
  let ?out = "concat (map ObjectInfoMessage_Encode (list_chunks ms)) @ ReadyForQueryMessage_Encode ()"
  have "ProcConn E sch s bs cr vac ycl w =
      Some (None, snd (YClient_Close (y1\<lparr>cl_path := pfx, conn_out := ?out\<rparr>)), w')"
    using ProcessList_answer [OF assms(1) y1(1,2)] y1(3) r
    by (simp add: ProcConn_request [OF r(1)] dispatch_def y1_def [simplified, symmetric] NewListMessage_def)
  moreover have "\<exists>c'. list_answers (conn_in con) [] = Some (Inr (map wire_object ms), c')"
    if "concat (conn_in con) = ?out" using listed_back [OF that] assms(2) by auto
  ultimately show ?thesis using assms(5,9-11)
    by (auto simp: listFunc_def send_request_def go_index_def conn_Write_healthy)
qed

theorem listing_witness:
  "let ms = map (\<lambda>(p, n, t). \<lparr>obj_Path = p, obj_Size = n, obj_LastMod = t\<rparr>)
      [(''/fresh'', 1, 990), (''/kept'', 1, 0), (''/live'', 1, 0), (''/old'', 2, 0)] in
   \<exists>ycl' con'. ProcConn sample_ext sample_sch sample_storage sample_backups None sample_vacuum
      (sample_client [ListMessage_Encode (NewListMessage [])]) sample_world = Some (None, ycl', sample_world) \<and>
    listFunc [[]] (sample_client [conn_out ycl']) = Some (None, concat (map (print_object \<circ> wire_object) ms), con')"
proof -
  let ?ms = "map (\<lambda>(p, n, t). \<lparr>obj_Path = p, obj_Size = n, obj_LastMod = t\<rparr>)
      [(''/fresh'', 1, 990), (''/kept'', 1, 0), (''/live'', 1, 0), (''/old'', 2, 0)]"
  let ?m = "NewListMessage []"
  let ?y = "sample_client [ListMessage_Encode ?m]"
  have l: "ListPath sample_storage [] True [] sample_world = Some (Inr ?ms, sample_world)" by code_simp
  have p: "\<forall>x \<in> set ?ms. length (obj_Path x) \<le> 1040 \<and> nul_free (obj_Path x)" by (simp add: nul_free_def)
  have "length (ListMessage_Encode ?m) < 100" by code_simp
  then have len: "length (ListMessage_Encode ?m) \<le> unat maxMsgLen" by (simp add: maxMsgLen_eq)
  have y: "concat (conn_in ?y) = ListMessage_Encode ?m" by (simp add: sample_client_def)
  note run = listing [OF l p nul_free_Nil len y, of _ sample_ext sample_sch sample_backups None sample_vacuum]
  from run [of "sample_client []"] obtain ycl' where srv:
    "ProcConn sample_ext sample_sch sample_storage sample_backups None sample_vacuum ?y sample_world =
       Some (None, ycl', sample_world)" by (auto simp: sample_client_def)
  from run [of "sample_client [conn_out ycl']"] srv show ?thesis by (auto simp: sample_client_def Let_def)
qed

text \<open>
  C29. The command line client: with a parser of command lines that behaves as documented, a command
  without an argument is \<open>untrash\<close> or \<open>gool\<close> and never succeeds; a run that ends with a connection has
  an argument, has sent the request of its command, with that argument and the flags as they were
  given, before anything else, and has closed the connection; a flag that was not given has its
  default; and the defaults do not depend on the order in which the commands register their flags,
  though they share variables.
\<close>

theorem command_line:
  assumes "cobra_ok cobra" "cobra argv = RunCommand c sets args"
    and "client_Execute cobra d notifySocket dial now stdin argv g fs = (r, con)"
    and "\<And>p y. dial p = Inr y \<Longrightarrow> \<not> conn_closed y \<and> conn_fails y = None \<and> conn_out y = []"
    and "fl = fold assign sets (init_flags client_init flags_zero)"
  shows "(args = [] \<longrightarrow> c \<in> {untrashifyCmd, goolCmd} \<and> (\<forall>out. r \<noteq> Finished None out)) \<and>
    (\<forall>err out y. r = Finished err out \<and> con = Some y \<longrightarrow>
       (\<exists>name rest. args = name # rest \<and> conn_closed y \<and> prefix (request c fl name) (conn_out y))) \<and>
    (\<forall>v. v \<notin> var_of ` set sets \<longrightarrow> held fl v \<in> set (defaults_of client_init)) \<and>
    (\<forall>ss. set ss = set client_init \<longrightarrow> init_flags ss flags_zero = init_flags client_init flags_zero)"
proof (intro conjI allI impI)
  show "c \<in> {untrashifyCmd, goolCmd}" if "args = []"
    using assms(1,2) that exact_args [of c] unfolding cobra_ok_def by (metis list.size(3) zero_neq_one)
  show "r \<noteq> Finished None out" if "args = []" for out
    using Execute_no_args [of cobra argv c sets d notifySocket dial now stdin g fs out] assms(2,3) that by simp
  show "\<exists>name rest. args = name # rest \<and> conn_closed y \<and> prefix (request c fl name) (conn_out y)"
    if r: "r = Finished err out \<and> con = Some y" for err out y
  proof -
    from Execute_finished [of cobra argv c sets args d notifySocket dial now stdin g fs err out y] assms(2,3) r obtain p con0 con1 lvl where
      run: "dial p = Inr con0" "command_run c stdin (fl\<lparr>fl_logLevel := lvl\<rparr>) args con0 = Some (err, out, con1)"
      "y = snd (YClient_Close con1)" unfolding assms(5) by blast
    then obtain name rest where "args = name # rest" by (cases args) (simp_all add: command_no_args)
    with command_sends [of c stdin _ name rest con0] run assms(4) show ?thesis by (fastforce simp: request_log_level)
  qed
  show "held fl v \<in> set (defaults_of client_init)" if "v \<notin> var_of ` set sets" for v
  proof -
    obtain s where "s \<in> set (defaults_of client_init)" "v = var_of s" using init_covers by (metis UNIV_I imageE)
    with fold_holds [OF client_init_consistent] fold_untouched [OF that] show ?thesis
      unfolding assms(5) init_flags_fold by auto
  qed
qed (rule init_any_order)

theorem command_line_witness:
  "\<exists>y out. client_Execute (\<lambda>_. RunCommand deleteCmd [SetBool V_confirm True] [''x'']) (ext_decoders sample_ext) []
      (\<lambda>_. Inr (sample_client [ReadyForQueryMessage_Encode ()])) 0 ([], None) []
      \<lparr>cfgInstance = Instance_zero, bootstrapCfgPath = []\<rparr>
      [(''/etc/yproxy/yproxy.yaml'', FileNode [] 0)] = (Finished None out, Some y) \<and>
     prefix (DeleteMessage_Encode (NewDeleteMessage ''x'' 6000 0 True False)) (conn_out y)"
proof -
  let ?cobra = "\<lambda>_. RunCommand deleteCmd [SetBool V_confirm True] [''x'']"
  let ?g = "\<lparr>cfgInstance = Instance_zero, bootstrapCfgPath = []\<rparr>"
  let ?fs = "[(''/etc/yproxy/yproxy.yaml'', FileNode [] 0)]"
  let ?run = "client_Execute ?cobra (ext_decoders sample_ext) [] (\<lambda>_. Inr (sample_client [ReadyForQueryMessage_Encode ()])) 0
    ([], None) [] ?g ?fs"
  let ?fl = "fold assign [SetBool V_confirm True] (init_flags client_init flags_zero)"
  have ok: "cobra_ok ?cobra" by (auto simp: cobra_ok_def commands_added client_init_def flag_defs)
  have "case ?run of (Finished None out, Some y) \<Rightarrow> True | _ \<Rightarrow> False" by code_simp
  then obtain out y where r: "?run = (Finished None out, Some y)"
    by (auto split: prod.splits client_end.splits option.splits)
  have q: "request deleteCmd ?fl ''x'' = DeleteMessage_Encode (NewDeleteMessage ''x'' 6000 0 True False)" by code_simp
  have "\<And>p y. (Inr (sample_client [ReadyForQueryMessage_Encode ()]) :: error + YClient) = Inr y \<Longrightarrow>
    \<not> conn_closed y \<and> conn_fails y = None \<and> conn_out y = []" by (auto simp: sample_client_def)
  from command_line [OF ok refl r this refl, THEN conjunct2, THEN conjunct1, rule_format, of None out y]
  have "prefix (request deleteCmd ?fl ''x'') (conn_out y)" by blast
  with r q show ?thesis by metis
qed

text \<open>
  Every packet of a listing fits the protocol's limit when the paths have at most 1040 bytes,
  and the packets together hold the listing, at most a thousand objects in each.
\<close>

lemma listing_packets:
  assumes "\<forall>x \<in> set ms. length (obj_Path x) \<le> 1040" and "\<not> conn_closed y" "conn_fails y = None"
  shows "\<exists>css. send_chunks ms y = (None, y\<lparr>conn_out := conn_out y @ concat (map ObjectInfoMessage_Encode css)\<rparr>) \<and>
    concat css = ms \<and> (\<forall>cs \<in> set css. length cs \<le> 1000 \<and> length (ObjectInfoMessage_Encode cs) \<le> unat maxMsgLen)"
  using send_chunks_healthy [OF assms(2,3), of ms] concat_list_chunks [of ms] list_chunks_bound [of _ ms]
    list_chunk_fits [of ms] assms(1) by (intro exI [of _ "list_chunks ms"]) auto

text \<open>
  A request of any other type is refused with an error message, changes nothing, and the
  connection is closed.
\<close>

lemma unknown_request_refused:
  assumes "concat (conn_in ycl) = with_length (tp # body) @ rest" and "\<not> known_request tp"
    and "length (with_length (tp # body)) \<le> unat maxMsgLen" and "\<not> conn_closed ycl" "conn_fails ycl = None"
  shows "\<exists>ycl'. ProcConn E sch s bs cr vac ycl w = Some (None, ycl', w) \<and> conn_closed ycl' \<and>
    conn_out ycl' = conn_out ycl @ ErrorMessage_Encode (NewErrorMessage
        (Errorf (''wrong request type: '' @ MessageType_String tp)) ''message is unsupported in ProcConn'')"
proof -
  from ReadPacket_with_length [OF assms(1)] assms(3) obtain c where
    r: "ReadPacket (conn_in ycl) = (Inr (tp, tp # body), c)" by auto
  define y1 where "y1 = SetOPType (sch_opstart sch) tp (ycl\<lparr>conn_in := c\<rparr>)"
  have y1: "\<not> conn_closed y1" "conn_fails y1 = None" "conn_out y1 = conn_out ycl"
    using assms(4,5) by (simp_all add: y1_def client_simps)
  show ?thesis
    unfolding ProcConn_request [OF r] y1_def [symmetric] dispatch_unknown [OF assms(2) y1(1,2)] by (simp add: y1(3))
qed

section \<open>Obsolete chunks\<close>

text \<open>
  C14. Deleting obsolete chunks touches only obsolete ones: whatever object of a file storage it
  changed belongs to a file of the expire index whose LSN precedes the first backup, which no table's
  virtual index marks as live and whose name contains the requested text, or to its place in the
  trash; and without a backup nothing is touched.
\<close>

theorem obsolete_only:
  assumes "ProcessDeleteObsolete E sch msg (FileStorageInteractor cnf) (FileStorageInteractor bcnf) ycl w =
      Some (res, ycl', w')"
    and "\<forall>ei. set (sch_expire sch ei) \<subseteq> set ei" and "fs_objects b w' k \<noteq> fs_objects b w k"
  shows "\<exists>vi ei w1 first w2 str v. GetVirtualExpireIndexes (ext_pgx E) (do_Port msg) w = (Inr (vi, ei), w1) \<and>
    GetFirstLSN (FileStorageInteractor bcnf) (ext_unmarshal E) (do_Segnum msg) w1 = Some (Inr first, w2) \<and>
    first \<noteq> - 1 \<and> (str, v) \<in> set ei \<and> v < first \<and> map_of vi str \<noteq> Some True \<and> Contains str (do_Message msg) \<and>
    (in_tree (fs_key cnf str) k \<or> in_tree (fs_key cnf (''/trash'' @ str)) k)"
proof -
  from fileObsolete.obsolete_frame [OF assms(1) refl _ assms(3)] assms(2) show ?thesis
    unfolding fileObsolete.chosen_def by (metis prod.collapse)
qed

theorem obsolete_only_witness:
  "\<exists>res ycl' w' str v. ProcessDeleteObsolete sample_ext sample_sch
      \<lparr>do_Segnum = 0, do_Port = 6000, do_DBName = ''app'', do_Message = ''old''\<rparr> sample_storage sample_backups
      (sample_client []) sample_world = Some (res, ycl', w') \<and> fs_objects ''b'' w' ''/data/old'' = None \<and>
    (v :: u64) < 10 \<and> (in_tree (fs_key sample_cnf str) ''/data/old'' \<or> in_tree (fs_key sample_cnf (''/trash'' @ str)) ''/data/old'')"
proof -
  let ?msg = "\<lparr>do_Segnum = 0, do_Port = 6000, do_DBName = ''app'', do_Message = ''old''\<rparr>"
  have "map_option (\<lambda>(r, y, w'). fs_objects ''b'' w' ''/data/old'')
      (ProcessDeleteObsolete sample_ext sample_sch ?msg sample_storage sample_backups (sample_client []) sample_world) =
    Some None" by code_simp
  then obtain res ycl' w' where run: "ProcessDeleteObsolete sample_ext sample_sch ?msg sample_storage sample_backups
      (sample_client []) sample_world = Some (res, ycl', w')" and n: "fs_objects ''b'' w' ''/data/old'' = None" by auto
  have "fs_objects ''b'' sample_world ''/data/old'' = Some [2, 3]" by code_simp
  with n have ch: "fs_objects ''b'' w' ''/data/old'' \<noteq> fs_objects ''b'' sample_world ''/data/old''" by simp
  have o: "\<forall>ei. set (sch_expire sample_sch ei) \<subseteq> set ei" by (simp add: sample_sch_def)
  have px: "ext_pgx sample_ext = sample_pgx" "ext_unmarshal sample_ext = sample_unmarshal" "do_Port ?msg = 6000" "do_Segnum ?msg = 0"
    by (simp_all add: sample_ext_def)
  from obsolete_only [OF run o ch, unfolded px] obtain vi ei w1 first w2 str v where
    g: "GetVirtualExpireIndexes sample_pgx 6000 sample_world = (Inr (vi, ei), w1)"
    "GetFirstLSN sample_backups sample_unmarshal 0 w1 = Some (Inr first, w2)" "v < first"
    "in_tree (fs_key sample_cnf str) ''/data/old'' \<or> in_tree (fs_key sample_cnf (''/trash'' @ str)) ''/data/old''" by blast
  from GetVirtualExpireIndexes_world [OF g(1)] have "w1 = sample_world" by (simp add: sample_world_def)
  moreover have "map_option fst (GetFirstLSN sample_backups sample_unmarshal 0 sample_world) = Some (Inr 10)" by code_simp
  ultimately have "first = 10" using g(2) by simp
  with g(3,4) run n show ?thesis by blast
qed

section \<open>Copying between storages\<close>

text \<open>
  C33. The files to copy: those of the source's listing, in its order, that the destination does not
  list under the same path and, when \<open>StorageOptimizeCopy\<close> is set, that the virtual index has. The
  skipped files are those missing from the index or present at the destination; so without that
  setting a file missing from the index is both copied and reported as skipped.
\<close>

theorem files_to_copy:
  assumes "ListFilesToCopy px pfx port cfg src dst w = Some (Inr (toCopy, skipped), w')"
  shows "\<exists>objs w1 vi ei w2 copied. ListPath src pfx True [] w = Some (Inr objs, w1) \<and>
    GetVirtualExpireIndexes px port w1 = (Inr (vi, ei), w2) \<and> ListPath dst pfx False [] w2 = Some (Inr copied, w') \<and>
    toCopy = filter (\<lambda>obj. obj_Path obj \<notin> obj_Path ` set copied \<and>
      (StorageOptimizeCopy (StorageCnf (the_instance w')) \<longrightarrow>
        map_of vi (TrimPrefix (obj_Path obj) (StoragePrefix cfg)) \<noteq> None)) objs \<and>
    set skipped = {obj \<in> set objs. map_of vi (TrimPrefix (obj_Path obj) (StoragePrefix cfg)) = None \<or>
      obj_Path obj \<in> obj_Path ` set copied}"
proof -
  have sizes: "map_of (foldl (\<lambda>m c. AList.update (obj_Path c) (sint (obj_Size c)) m) m copied) p = None \<longleftrightarrow>
      map_of m p = None \<and> p \<notin> obj_Path ` set copied" for m p and copied :: "ObjectInfo list"
    by (induction copied arbitrary: m) (auto simp: update_conv')
  have spec: "to_copy cfg opt vi (foldl (\<lambda>m c. AList.update (obj_Path c) (sint (obj_Size c)) m) [] copied) =
      (\<lambda>obj. obj_Path obj \<notin> obj_Path ` set copied \<and>
        (opt \<longrightarrow> map_of vi (TrimPrefix (obj_Path obj) (StoragePrefix cfg)) \<noteq> None))" for opt vi and copied :: "ObjectInfo list"
    by (intro ext) (auto simp: to_copy_def sizes)
  from assms obtain objs w1 vi ei w2 copied where
    l: "ListPath src pfx True [] w = Some (Inr objs, w1)" "GetVirtualExpireIndexes px port w1 = (Inr (vi, ei), w2)"
      "ListPath dst pfx False [] w2 = Some (Inr copied, w')"
    and f: "copy_filter cfg (StorageOptimizeCopy (StorageCnf (the_instance w'))) vi
        (foldl (\<lambda>m c. AList.update (obj_Path c) (sint (obj_Size c)) m) [] copied) objs [] [] = (toCopy, skipped)"
    by (auto simp: ListFilesToCopy_def Let_def split: option.splits sum.splits prod.splits)
  from copy_filter_spec [of cfg "StorageOptimizeCopy (StorageCnf (the_instance w'))" vi
      "foldl (\<lambda>m c. AList.update (obj_Path c) (sint (obj_Size c)) m) [] copied" objs "[]" "[]"] f
  have c: "toCopy = filter (\<lambda>obj. obj_Path obj \<notin> obj_Path ` set copied \<and>
      (StorageOptimizeCopy (StorageCnf (the_instance w')) \<longrightarrow>
        map_of vi (TrimPrefix (obj_Path obj) (StoragePrefix cfg)) \<noteq> None)) objs"
    by (simp add: spec)
  from copy_filter_skipped [of cfg "StorageOptimizeCopy (StorageCnf (the_instance w'))" vi
      "foldl (\<lambda>m c. AList.update (obj_Path c) (sint (obj_Size c)) m) [] copied" objs "[]" "[]"] f
  have s: "set skipped = {obj \<in> set objs. map_of vi (TrimPrefix (obj_Path obj) (StoragePrefix cfg)) = None \<or>
      obj_Path obj \<in> obj_Path ` set copied}"
    by (simp add: sizes)
  from l c s show ?thesis by blast
qed

theorem files_to_copy_witness:
  "\<exists>toCopy skipped w' objs w1. ListFilesToCopy sample_pgx [] 6000 (sample_cnf\<lparr>StoragePrefix := []\<rparr>) sample_storage
      sample_backups sample_world = Some (Inr (toCopy, skipped), w') \<and>
    map obj_Path toCopy = [''/fresh'', ''/kept'', ''/live'', ''/old''] \<and> map obj_Path skipped = [''/fresh'', ''/kept'', ''/old''] \<and>
    ListPath sample_storage [] True [] sample_world = Some (Inr objs, w1) \<and> set toCopy \<subseteq> set objs"
proof -
  let ?run = "ListFilesToCopy sample_pgx [] 6000 (sample_cnf\<lparr>StoragePrefix := []\<rparr>) sample_storage sample_backups sample_world"
  have "map_option (\<lambda>(r, w). case r of Inr (t, s) \<Rightarrow> Some (map obj_Path t, map obj_Path s) | Inl _ \<Rightarrow> None) ?run =
    Some (Some ([''/fresh'', ''/kept'', ''/live'', ''/old''], [''/fresh'', ''/kept'', ''/old'']))" by code_simp
  then obtain toCopy skipped w' where run: "?run = Some (Inr (toCopy, skipped), w')"
    and p: "map obj_Path toCopy = [''/fresh'', ''/kept'', ''/live'', ''/old'']"
      "map obj_Path skipped = [''/fresh'', ''/kept'', ''/old'']"
    by (cases ?run; cases "fst (the ?run)") auto
  from files_to_copy [OF run] obtain objs w1 where
    "ListPath sample_storage [] True [] sample_world = Some (Inr objs, w1)" "set toCopy \<subseteq> set objs" by auto
  with run p show ?thesis by (intro exI conjI)
qed

section \<open>Clients\<close>

text \<open>
  The client pool: a client that was put into the pool is found again by its id and closed when
  it leaves, the other clients stay, and accounting its speed never panics, since the three size
  categories are always there.
\<close>

lemma client_pool:
  assumes "cats_inv c"
  shows "\<exists>c'. pool_Pop td now i (snd (pool_Put i cl c)) = Some (True, None, Some (snd (YClient_Close cl)), c') \<and>
    cats_inv c' \<and> map_of (pool_clients c') = (map_of (pool_clients c))(i := None)"
proof -
  obtain e c1 where p: "pool_Put i cl c = (e, c1)" by fastforce
  note put = pool_Put_lookup [OF p]
  have "cats_inv c1" "map_of (pool_clients c1) i = Some cl" using assms put by (simp_all add: cats_inv_def)
  from pool_Pop_found [OF this, of td now] p put show ?thesis by auto
qed

section \<open>Configuration\<close>

text \<open>
  Reloading the configuration: the path of the first load is used for ever; a reload that
  succeeds decodes the file over the defaults of \<open>BuildInstance\<close>; a reload whose file cannot be opened
  reports the error but has replaced the running configuration by an empty one.
\<close>

lemma reload_config:
  assumes "bootstrapCfgPath g = p" "p \<noteq> []" "HasSuffix p ''.yaml''"
  shows "bootstrapCfgPath (snd (ReloadInstanceConfig d files ns g)) = p \<and>
    (\<forall>content cfg. files p = Some content \<longrightarrow> yaml_Decode d content (BuildInstance []) = (None, cfg) \<longrightarrow>
      ReloadInstanceConfig d files ns g = (None, g\<lparr>cfgInstance := ReadSystemdSocketPath ns cfg\<rparr>)) \<and>
    (files p = None \<longrightarrow> (\<exists>e. ReloadInstanceConfig d files ns g = (Some e, g\<lparr>cfgInstance := Instance_zero\<rparr>)))"
proof (intro conjI allI impI)
  show "bootstrapCfgPath (snd (ReloadInstanceConfig d files ns g)) = p"
    using LoadInstanceConfig_bootstrap [of g d files ns p] assms(1,2) by (simp add: ReloadInstanceConfig_def)
next
  fix content cfg assume "files p = Some content" "yaml_Decode d content (BuildInstance []) = (None, cfg)"
  from ReadInstanceConfig_yaml [of files p content d cfg] this assms
  show "ReloadInstanceConfig d files ns g = (None, g\<lparr>cfgInstance := ReadSystemdSocketPath ns cfg\<rparr>)"
    by (simp add: ReloadInstanceConfig_def LoadInstanceConfig_def)
next
  assume "files p = None"
  then show "\<exists>e. ReloadInstanceConfig d files ns g = (Some e, g\<lparr>cfgInstance := Instance_zero\<rparr>)"
    using assms by (simp add: ReloadInstanceConfig_def LoadInstanceConfig_def ReadInstanceConfig_def)
qed

end
